(* ===== verification/Prelude.thy ===== *)
theory Prelude
  imports Main "HOL-Library.Word" "HOL-Library.Monad_Syntax"
begin

text \<open>
  Shared vocabulary of the development: the machine types of the C++ sources, the
  partial C++ shifts, \<open>std::find_if\<close>, and the generic lemmas on options, lists and
  words that the component theories use.

  Undefined behaviour of C++ (a shift by 64 or more, a read or write outside a buffer,
  a call through a null function pointer, a read of an uninitialised member) is the value
  \<open>None\<close>; the operations that may run into it return an option and are composed with the
  \<open>do\<close> notation of \<open>Monad_Syntax\<close>.
\<close>

unbundle bit_operations_syntax

section \<open>Machine types\<close>

type_synonym u8 = "8 word"
type_synonym u32 = "32 word"
type_synonym u64 = "64 word"

text \<open>\<open>int64_t\<close> is the same 64 bits, read by \<open>sint\<close>.\<close>

type_synonym i64 = "64 word"

text \<open>\<open>double\<close> is an IEEE 754 binary64 bit pattern; see theory \<open>Doubles\<close>.\<close>

type_synonym double = "64 word"

section \<open>Collections of rewrite rules\<close>

named_theorems wbits \<comment> \<open>bit of a word expression, as a condition on bits of its parts\<close>
named_theorems cpp_simps \<comment> \<open>evaluation of the partial C++ operations\<close>

section \<open>C++ shifts on \<open>uint64_t\<close>\<close>

definition shl64 :: "u64 \<Rightarrow> u64 \<Rightarrow> u64 option" where
  "shl64 x n = (if n < 64 then Some (push_bit (unat n) x) else None)"

definition shr64 :: "u64 \<Rightarrow> u64 \<Rightarrow> u64 option" where
  "shr64 x n = (if n < 64 then Some (drop_bit (unat n) x) else None)"

lemma shl64_ok [cpp_simps]: "unat n < 64 \<Longrightarrow> shl64 x n = Some (push_bit (unat n) x)"
  by (simp add: shl64_def word_less_nat_alt)

lemma shr64_ok [cpp_simps]: "unat n < 64 \<Longrightarrow> shr64 x n = Some (drop_bit (unat n) x)"
  by (simp add: shr64_def word_less_nat_alt)

lemma shl64_None: "shl64 x n = None \<longleftrightarrow> 64 \<le> unat n"
  by (auto simp: shl64_def word_less_nat_alt)

section \<open>Bits of words\<close>

lemma bit_push64 [wbits]: "bit (push_bit n (x::u64)) j \<longleftrightarrow> n \<le> j \<and> j < 64 \<and> bit x (j - n)"
  by (auto simp: bit_push_bit_iff)

lemma bit_drop64 [wbits]: "bit (drop_bit n (x::u64)) j \<longleftrightarrow> bit x (n + j)"
  by (simp add: bit_drop_bit_eq)

lemma bit_u64_lt: "bit (x::u64) j \<Longrightarrow> j < 64"
  using bit_imp_le_length by fastforce

lemma bit_u8_lt: "bit (x::u8) j \<Longrightarrow> j < 8"
  using bit_imp_le_length by fastforce

lemma bit_ucast_u8 [wbits]: "bit (ucast (x::u8) :: u64) j \<longleftrightarrow> bit x j"
  by (auto simp: bit_ucast_iff dest: bit_u8_lt)

lemma bit_mask64 [wbits]: "bit (push_bit n 1 - 1 :: u64) j \<longleftrightarrow> j < n \<and> j < 64"
proof -
  have "push_bit n 1 - 1 = (mask n :: u64)"
    by (simp add: push_bit_eq_mult mask_eq_exp_minus_1)
  then show ?thesis by (auto simp: bit_mask_iff)
qed

lemma bit_not64 [wbits]: "bit (NOT (x::u64)) j \<longleftrightarrow> j < 64 \<and> \<not> bit x j"
  by (simp add: bit_not_iff)

lemma u64_eqI: "(\<And>j. j < 64 \<Longrightarrow> bit x j = bit y j) \<Longrightarrow> x = (y::u64)"
  by (rule bit_word_eqI) simp

lemma u8_eqI: "(\<And>j. j < 8 \<Longrightarrow> bit x j = bit y j) \<Longrightarrow> x = (y::u8)"
  by (rule bit_word_eqI) simp

lemma and_zero_iff_bits: "(x::u64) AND y = 0 \<longleftrightarrow> (\<forall>j<64. \<not> (bit x j \<and> bit y j))"
proof
  assume "x AND y = 0"
  then show "\<forall>j<64. \<not> (bit x j \<and> bit y j)"
    by (metis bit_0_eq bit_and_iff bot_apply bot_bool_def)
next
  assume "\<forall>j<64. \<not> (bit x j \<and> bit y j)"
  then show "x AND y = 0"
    by (intro u64_eqI) (simp add: bit_and_iff)
qed

lemmas [wbits] = bit_and_iff bit_or_iff

section \<open>Arithmetic on \<open>uint64_t\<close> read as naturals\<close>

lemma unat_add64: "unat (a::u64) + unat b < 2 ^ 64 \<Longrightarrow> unat (a + b) = unat a + unat b"
  by (simp add: unat_word_ariths)

lemma unat_sub64: "unat (b::u64) \<le> unat a \<Longrightarrow> unat (a - b) = unat a - unat b"
  by (simp add: unat_sub word_le_nat_alt)

lemma unat_mul64: "unat (a::u64) * unat b < 2 ^ 64 \<Longrightarrow> unat (a * b) = unat a * unat b"
  by (simp add: unat_word_ariths)

lemma unat_div64: "unat ((a::u64) div b) = unat a div unat b"
  by (rule unat_div)

lemma unat_mod64: "unat ((a::u64) mod b) = unat a mod unat b"
  by (rule unat_mod)

lemma unat_lt64: "unat (a::u64) < 2 ^ 64"
  using unsigned_less [of a] by simp

lemma unat_div8: "unat ((a::u64) div 8) = unat a div 8"
  by (simp add: unat_div64)

lemma unat_mod8: "unat ((a::u64) mod 8) = unat a mod 8"
  by (simp add: unat_mod64)

section \<open>\<open>std::find_if\<close> and containment of vectors\<close>

text \<open>
  \<open>find\<close> of the list library is \<open>std::find_if\<close>: the first element that satisfies the
  predicate, or \<open>None\<close> for \<open>end()\<close>. The comparison operators of the object model all
  use the loop \<open>for (r : rhs.Xs()) equal &= std::find(beg, end, r) != end\<close>: every
  element of the right-hand side is equal to some element of the left-hand side.
\<close>

definition contains_all :: "('a \<Rightarrow> 'b \<Rightarrow> bool) \<Rightarrow> 'a list \<Rightarrow> 'b list \<Rightarrow> bool" where
  "contains_all eq lhs rhs = list_all (\<lambda>r. list_ex (\<lambda>l. eq l r) lhs) rhs"

lemma contains_all_iff: "contains_all eq xs ys \<longleftrightarrow> (\<forall>y\<in>set ys. \<exists>x\<in>set xs. eq x y)"
  by (simp add: contains_all_def list_all_iff list_ex_iff)

lemma contains_all_refl: "(\<And>x. x \<in> set xs \<Longrightarrow> eq x x) \<Longrightarrow> contains_all eq xs xs"
  by (auto simp: contains_all_iff)

lemma contains_all_trans:
  assumes "contains_all eq xs ys" and "contains_all eq ys zs"
    and "\<And>x y z. eq x y \<Longrightarrow> eq y z \<Longrightarrow> eq x z"
  shows "contains_all eq xs zs"
proof -
  have "\<exists>x\<in>set xs. eq x z" if "z \<in> set zs" for z
  proof -
    from that assms(2) obtain y where y: "y \<in> set ys" "eq y z"
      unfolding contains_all_iff by blast
    with assms(1) obtain x where "x \<in> set xs" "eq x y"
      unfolding contains_all_iff by blast
    with y(2) show ?thesis using assms(3) by blast
  qed
  then show ?thesis unfolding contains_all_iff by blast
qed

lemma contains_all_Nil [simp]: "contains_all eq xs []"
  by (simp add: contains_all_def)

lemma contains_all_eq: "contains_all (=) xs ys \<longleftrightarrow> set ys \<subseteq> set xs"
  by (auto simp: contains_all_iff)

end
