(* ===== verification/Doubles.thy ===== *)
theory Doubles
  imports Prelude
begin

text \<open>
  The C++ types \<open>double\<close> and \<open>float\<close> as IEEE 754 bit patterns (binary64 in a \<open>64 word\<close>,
  binary32 in a \<open>32 word\<close>) with the operations the sources use: comparison with \<open>==\<close>,
  \<open>*\<close>, \<open>+\<close>, \<open>-\<close>, \<open>/\<close> in round-to-nearest-even, and the conversions from and to the
  64-bit integers and between the two formats. Everything computes on naturals and
  integers, so it evaluates in the kernel. A NaN result is the default quiet NaN.
\<close>

section \<open>Reading a bit pattern\<close>

text \<open>\<open>Fin s m e\<close> is the number \<open>(-1)^s * m * 2^e\<close>.\<close>

datatype fp = NaN | Inf bool | Fin bool nat int

definition fp_of_double :: "double \<Rightarrow> fp" where
  "fp_of_double w =
     (let s = bit w 63; ex = unat (take_bit 11 (drop_bit 52 w)); f = unat (take_bit 52 w)
      in if ex = 2047 then (if f = 0 then Inf s else NaN)
         else if ex = 0 then Fin s f (- 1074)
         else Fin s (f + 2 ^ 52) (int ex - 1075))"

definition fp_of_float :: "u32 \<Rightarrow> fp" where
  "fp_of_float w =
     (let s = bit w 31; ex = unat (take_bit 8 (drop_bit 23 w)); f = unat (take_bit 23 w)
      in if ex = 255 then (if f = 0 then Inf s else NaN)
         else if ex = 0 then Fin s f (- 149)
         else Fin s (f + 2 ^ 23) (int ex - 150))"

definition is_nan :: "double \<Rightarrow> bool" where
  "is_nan w \<longleftrightarrow> fp_of_double w = NaN"

definition is_zero :: "double \<Rightarrow> bool" where
  "is_zero w \<longleftrightarrow> take_bit 63 w = 0"

text \<open>The built-in \<open>==\<close>: false on NaN, and the two zeros are equal.\<close>

definition double_eq :: "double \<Rightarrow> double \<Rightarrow> bool" where
  "double_eq a b \<longleftrightarrow> \<not> is_nan a \<and> \<not> is_nan b \<and> (a = b \<or> is_zero a \<and> is_zero b)"

lemma double_eq_refl: "\<not> is_nan a \<Longrightarrow> double_eq a a"
  by (simp add: double_eq_def)

lemma double_eq_refl_iff: "double_eq a a \<longleftrightarrow> \<not> is_nan a"
  by (auto simp: double_eq_def)

lemma double_eq_sym: "double_eq a b \<Longrightarrow> double_eq b a"
  by (auto simp: double_eq_def)

lemma double_eq_trans: "double_eq a b \<Longrightarrow> double_eq b c \<Longrightarrow> double_eq a c"
  by (auto simp: double_eq_def)

section \<open>Rounding\<close>

fun ilog2 :: "nat \<Rightarrow> nat" where
  "ilog2 n = (if n < 2 then 0 else Suc (ilog2 (n div 2)))"

declare ilog2.simps [simp del]

text \<open>The largest \<open>k\<close> with \<open>2^k \<le> p / q\<close>.\<close>

definition flog2 :: "nat \<Rightarrow> nat \<Rightarrow> int" where
  "flog2 p q =
     (let k = int (ilog2 p) - int (ilog2 q)
      in if q * 2 ^ nat k \<le> p * 2 ^ nat (- k) then k else k - 1)"

text \<open>\<open>a / b\<close> rounded to the nearest natural, ties to even.\<close>

definition round_div :: "nat \<Rightarrow> nat \<Rightarrow> nat" where
  "round_div a b =
     (let q = a div b; r = a mod b in if b < 2 * r \<or> 2 * r = b \<and> odd q then Suc q else q)"

text \<open>
  The bits below the sign of \<open>p / q * 2^e\<close> in a format with \<open>fb\<close> fraction bits, smallest
  exponent \<open>emin\<close> and \<open>emax\<close> as its all-ones exponent field: the significand is rounded at
  the exponent \<open>eu\<close> of its last place, and adding it to the exponent field lets a carry
  out of the significand raise the exponent.
\<close>

definition fp_bits :: "nat \<Rightarrow> int \<Rightarrow> nat \<Rightarrow> nat \<Rightarrow> nat \<Rightarrow> int \<Rightarrow> nat" where
  "fp_bits fb emin emax p q e =
     (let eu = max emin (flog2 p q + e - int fb);
          m = round_div (p * 2 ^ nat (e - eu)) (q * 2 ^ nat (eu - e));
          bits = m + nat (eu - emin) * 2 ^ fb
      in min bits (emax * 2 ^ fb))"

definition sign64 :: "bool \<Rightarrow> u64" where
  "sign64 s = (if s then push_bit 63 1 else 0)"

definition double_nan :: double where
  "double_nan = push_bit 51 4095"

definition double_inf :: "bool \<Rightarrow> double" where
  "double_inf s = sign64 s OR push_bit 52 2047"

definition double_zero :: "bool \<Rightarrow> double" where
  "double_zero s = sign64 s"

definition double_round :: "bool \<Rightarrow> nat \<Rightarrow> nat \<Rightarrow> int \<Rightarrow> double" where
  "double_round s p q e =
     (if p = 0 then double_zero s
      else sign64 s OR of_nat (fp_bits 52 (- 1074) 2047 p q e))"

definition float_round :: "bool \<Rightarrow> nat \<Rightarrow> nat \<Rightarrow> int \<Rightarrow> u32" where
  "float_round s p q e =
     (if s then push_bit 31 1 else 0) OR
     (if p = 0 then 0 else of_nat (fp_bits 23 (- 149) 255 p q e))"

section \<open>Arithmetic\<close>

definition double_mul :: "double \<Rightarrow> double \<Rightarrow> double" where
  "double_mul a b = (case (fp_of_double a, fp_of_double b) of
       (NaN, _) \<Rightarrow> double_nan
     | (_, NaN) \<Rightarrow> double_nan
     | (Inf s, Inf t) \<Rightarrow> double_inf (s \<noteq> t)
     | (Inf s, Fin t m _) \<Rightarrow> if m = 0 then double_nan else double_inf (s \<noteq> t)
     | (Fin s m _, Inf t) \<Rightarrow> if m = 0 then double_nan else double_inf (s \<noteq> t)
     | (Fin s m e, Fin t n f) \<Rightarrow> double_round (s \<noteq> t) (m * n) 1 (e + f))"

definition double_div :: "double \<Rightarrow> double \<Rightarrow> double" where
  "double_div a b = (case (fp_of_double a, fp_of_double b) of
       (NaN, _) \<Rightarrow> double_nan
     | (_, NaN) \<Rightarrow> double_nan
     | (Inf s, Inf t) \<Rightarrow> double_nan
     | (Inf s, Fin t m _) \<Rightarrow> double_inf (s \<noteq> t)
     | (Fin s m _, Inf t) \<Rightarrow> double_zero (s \<noteq> t)
     | (Fin s m e, Fin t n f) \<Rightarrow>
         if n = 0 then (if m = 0 then double_nan else double_inf (s \<noteq> t))
         else double_round (s \<noteq> t) m n (e - f))"

definition signed_of :: "bool \<Rightarrow> nat \<Rightarrow> int" where
  "signed_of s m = (if s then - int m else int m)"

definition double_add :: "double \<Rightarrow> double \<Rightarrow> double" where
  "double_add a b = (case (fp_of_double a, fp_of_double b) of
       (NaN, _) \<Rightarrow> double_nan
     | (_, NaN) \<Rightarrow> double_nan
     | (Inf s, Inf t) \<Rightarrow> if s = t then double_inf s else double_nan
     | (Inf s, Fin _ _ _) \<Rightarrow> double_inf s
     | (Fin _ _ _, Inf t) \<Rightarrow> double_inf t
     | (Fin s m e, Fin t n f) \<Rightarrow>
         let g = min e f;
             x = signed_of s (m * 2 ^ nat (e - g)) + signed_of t (n * 2 ^ nat (f - g))
         in if x = 0 then double_zero (s \<and> t)
            else double_round (x < 0) (nat \<bar>x\<bar>) 1 g)"

definition double_sub :: "double \<Rightarrow> double \<Rightarrow> double" where
  "double_sub a b = double_add a (b XOR push_bit 63 1)"

section \<open>Conversions\<close>

definition double_of_int :: "int \<Rightarrow> double" where
  "double_of_int i = double_round (i < 0) (nat \<bar>i\<bar>) 1 0"

definition double_of_float :: "u32 \<Rightarrow> double" where
  "double_of_float w = (case fp_of_float w of
       NaN \<Rightarrow> double_nan | Inf s \<Rightarrow> double_inf s | Fin s m e \<Rightarrow> double_round s m 1 e)"

definition float_of_double :: "double \<Rightarrow> u32" where
  "float_of_double w = (case fp_of_double w of
       NaN \<Rightarrow> push_bit 22 511
     | Inf s \<Rightarrow> (if s then push_bit 31 1 else 0) OR push_bit 23 255
     | Fin s m e \<Rightarrow> float_round s m 1 e)"

text \<open>
  Conversion to an integer truncates towards zero; a value outside the range of the
  target type (or NaN) is undefined behaviour.
\<close>

definition trunc_double :: "double \<Rightarrow> int option" where
  "trunc_double w = (case fp_of_double w of
       Fin s m e \<Rightarrow> Some (signed_of s (if 0 \<le> e then m * 2 ^ nat e else m div 2 ^ nat (- e)))
     | _ \<Rightarrow> None)"

definition i64_of_double :: "double \<Rightarrow> i64 option" where
  "i64_of_double w = do {
     i \<leftarrow> trunc_double w;
     if - (2 ^ 63) \<le> i \<and> i < 2 ^ 63 then Some (word_of_int i) else None }"

definition u64_of_double :: "double \<Rightarrow> u64 option" where
  "u64_of_double w = do {
     i \<leftarrow> trunc_double w;
     if 0 \<le> i \<and> i < 2 ^ 64 then Some (word_of_int i) else None }"

definition double_one :: double where
  "double_one = push_bit 52 1023"

end
