(* ===== verification/Attributes.thy ===== *)
theory Attributes
  imports Doubles
begin

text \<open>
  Attribute definitions and attributes (\<open>AttributeDefinitionImpl\<close>, \<open>AttributeImpl\<close> and their
  interfaces), and the contract every comparison operator of the object model keeps: it is
  reflexive on objects without NaN and transitive. It is not symmetric, because containers
  are compared by containment in one direction.
\<close>

section \<open>The contract of the comparison operators\<close>

locale object_eq =
  fixes eq :: "'a \<Rightarrow> 'a \<Rightarrow> bool" and nan_free :: "'a \<Rightarrow> bool"
  assumes eq_refl: "nan_free x \<Longrightarrow> eq x x"
    and eq_trans: "eq x y \<Longrightarrow> eq y z \<Longrightarrow> eq x z"
begin

text \<open>What a client that holds a vector of such objects gets for its own operator.\<close>

lemma vec_refl: "list_all nan_free xs \<Longrightarrow> contains_all eq xs xs"
  by (rule contains_all_refl) (simp add: eq_refl list_all_iff)

lemma vec_trans: "contains_all eq xs ys \<Longrightarrow> contains_all eq ys zs \<Longrightarrow> contains_all eq xs zs"
  by (erule (1) contains_all_trans) (rule eq_trans)

lemma vec_extend: "contains_all eq xs ys \<Longrightarrow> contains_all eq (xs @ ws) ys"
  by (auto simp: contains_all_iff)

lemma vec_unordered: "list_all nan_free xs \<Longrightarrow> set ys \<subseteq> set xs \<Longrightarrow> contains_all eq xs ys"
  by (auto simp: contains_all_iff list_all_iff intro: eq_refl)

end

section \<open>\<open>IAttributeDefinition\<close>\<close>

datatype EObjectType = OT_Network | OT_Node | OT_Message | OT_Signal | OT_EnvironmentVariable

datatype value_type_t =
    ValueTypeInt (vti_minimum: i64) (vti_maximum: i64)
  | ValueTypeHex (vth_minimum: i64) (vth_maximum: i64)
  | ValueTypeFloat (vtf_minimum: double) (vtf_maximum: double)
  | ValueTypeString
  | ValueTypeEnum (vte_values: "string list")

record AttributeDefinitionImpl =
  ad_name :: string
  ad_object_type :: EObjectType
  ad_value_type :: value_type_t

definition IAttributeDefinition_Create ::
    "string \<Rightarrow> EObjectType \<Rightarrow> value_type_t \<Rightarrow> AttributeDefinitionImpl" where
  "IAttributeDefinition_Create name object_type value_type =
     \<lparr>ad_name = name, ad_object_type = object_type, ad_value_type = value_type\<rparr>"

text \<open>\<open>std::variant::index\<close>.\<close>

fun value_type_index :: "value_type_t \<Rightarrow> nat" where
  "value_type_index (ValueTypeInt _ _) = 0"
| "value_type_index (ValueTypeHex _ _) = 1"
| "value_type_index (ValueTypeFloat _ _) = 2"
| "value_type_index ValueTypeString = 3"
| "value_type_index (ValueTypeEnum _) = 4"

text \<open>
  The comparison of two value types of the same alternative. An enumeration on the left
  is equal to every enumeration that holds all its values.
\<close>

fun value_type_eq :: "value_type_t \<Rightarrow> value_type_t \<Rightarrow> bool" where
  "value_type_eq (ValueTypeInt a b) (ValueTypeInt c d) = (a = c \<and> b = d)"
| "value_type_eq (ValueTypeHex a b) (ValueTypeHex c d) = (a = c \<and> b = d)"
| "value_type_eq (ValueTypeFloat a b) (ValueTypeFloat c d) = (double_eq a c \<and> double_eq b d)"
| "value_type_eq ValueTypeString ValueTypeString = True"
| "value_type_eq (ValueTypeEnum vs) (ValueTypeEnum ws) =
     list_all (\<lambda>v. list_ex (\<lambda>w. w = v) ws) vs"
| "value_type_eq _ _ = False"

definition AttributeDefinition_eq ::
    "AttributeDefinitionImpl \<Rightarrow> AttributeDefinitionImpl \<Rightarrow> bool" where
  "AttributeDefinition_eq self rhs =
     (let equal = (ad_name self = ad_name rhs \<and> ad_object_type self = ad_object_type rhs \<and>
                   value_type_index (ad_value_type self) = value_type_index (ad_value_type rhs))
      in if equal then value_type_eq (ad_value_type self) (ad_value_type rhs) else equal)"

fun value_type_nan_free :: "value_type_t \<Rightarrow> bool" where
  "value_type_nan_free (ValueTypeFloat a b) = (\<not> is_nan a \<and> \<not> is_nan b)"
| "value_type_nan_free _ = True"

lemma value_type_eq_refl: "value_type_nan_free v \<Longrightarrow> value_type_eq v v"
  by (cases v) (auto simp: double_eq_refl list_all_iff list_ex_iff)

lemma value_type_eq_trans: "value_type_eq u v \<Longrightarrow> value_type_eq v w \<Longrightarrow> value_type_eq u w"
  by (cases u; cases v; cases w) (auto simp: list_all_iff list_ex_iff intro: double_eq_trans)

interpretation attribute_definition: object_eq AttributeDefinition_eq
    "\<lambda>ad. value_type_nan_free (ad_value_type ad)"
proof unfold_locales
  fix x :: AttributeDefinitionImpl
  assume "value_type_nan_free (ad_value_type x)"
  then show "AttributeDefinition_eq x x"
    by (simp add: AttributeDefinition_eq_def value_type_eq_refl)
next
  fix x y z :: AttributeDefinitionImpl
  assume "AttributeDefinition_eq x y" "AttributeDefinition_eq y z"
  then show "AttributeDefinition_eq x z"
    unfolding AttributeDefinition_eq_def Let_def by (metis value_type_eq_trans)
qed

section \<open>\<open>IAttribute\<close>\<close>

text \<open>\<open>std::variant<int64_t, double, std::string>\<close>.\<close>

datatype value_t = V_int64 i64 | V_double double | V_string string

record AttributeImpl =
  attr_name :: string
  attr_object_type :: EObjectType
  attr_value :: value_t

definition IAttribute_Create :: "string \<Rightarrow> EObjectType \<Rightarrow> value_t \<Rightarrow> AttributeImpl" where
  "IAttribute_Create name object_type value =
     \<lparr>attr_name = name, attr_object_type = object_type, attr_value = value\<rparr>"

fun value_eq :: "value_t \<Rightarrow> value_t \<Rightarrow> bool" where
  "value_eq (V_int64 a) (V_int64 b) = (a = b)"
| "value_eq (V_double a) (V_double b) = double_eq a b"
| "value_eq (V_string a) (V_string b) = (a = b)"
| "value_eq _ _ = False"

definition Attribute_eq :: "AttributeImpl \<Rightarrow> AttributeImpl \<Rightarrow> bool" where
  "Attribute_eq self rhs \<longleftrightarrow>
     attr_name self = attr_name rhs \<and> attr_object_type self = attr_object_type rhs \<and>
     value_eq (attr_value self) (attr_value rhs)"

fun value_nan_free :: "value_t \<Rightarrow> bool" where
  "value_nan_free (V_double d) = (\<not> is_nan d)"
| "value_nan_free _ = True"

definition Attribute_nan_free :: "AttributeImpl \<Rightarrow> bool" where
  "Attribute_nan_free a = value_nan_free (attr_value a)"

lemma value_eq_refl: "value_nan_free v \<Longrightarrow> value_eq v v"
  by (cases v) (auto simp: double_eq_refl)

lemma value_eq_trans: "value_eq u v \<Longrightarrow> value_eq v w \<Longrightarrow> value_eq u w"
  by (cases u; cases v; cases w) (auto intro: double_eq_trans)

interpretation attribute: object_eq Attribute_eq Attribute_nan_free
  unfolding Attribute_eq_def Attribute_nan_free_def
  by unfold_locales (simp add: value_eq_refl, metis value_eq_trans)

end
