(* ===== verification/Components.thy ===== *)
theory Components
  imports Attributes
begin

text \<open>
  The passive parts of a network: bit timing, nodes, signal groups, multiplexer values,
  value encoding descriptions, signal types, value tables and environment variables. Each
  has its record (the private members of the \<open>...Impl\<close> class), its factory \<open>Create\<close> and its
  \<open>operator==\<close>; \<open>Clone\<close> copies every member of these classes, so a clone is the object
  itself here.
\<close>

section \<open>Enumerations of \<open>ISignal\<close> the types below use\<close>

datatype EByteOrder = BigEndian | LittleEndian
datatype EValueType = Signed | Unsigned

section \<open>\<open>IBitTiming\<close>\<close>

record BitTimingImpl =
  bt_baudrate :: u64
  bt_BTR1 :: u64
  bt_BTR2 :: u64

definition IBitTiming_Create :: "u64 \<Rightarrow> u64 \<Rightarrow> u64 \<Rightarrow> BitTimingImpl" where
  "IBitTiming_Create baudrate btr1 btr2 =
     \<lparr>bt_baudrate = baudrate, bt_BTR1 = btr1, bt_BTR2 = btr2\<rparr>"

definition BitTiming_eq :: "BitTimingImpl \<Rightarrow> BitTimingImpl \<Rightarrow> bool" where
  "BitTiming_eq self rhs \<longleftrightarrow>
     bt_baudrate self = bt_baudrate rhs \<and> bt_BTR1 self = bt_BTR1 rhs \<and>
     bt_BTR2 self = bt_BTR2 rhs"

interpretation bit_timing: object_eq BitTiming_eq "\<lambda>_. True"
  by unfold_locales (auto simp: BitTiming_eq_def)

section \<open>\<open>INode\<close>\<close>

record NodeImpl =
  node_name :: string
  node_comment :: string
  node_attribute_values :: "AttributeImpl list"

definition INode_Create :: "string \<Rightarrow> string \<Rightarrow> AttributeImpl list \<Rightarrow> NodeImpl" where
  "INode_Create name comment attribute_values =
     \<lparr>node_name = name, node_comment = comment, node_attribute_values = attribute_values\<rparr>"

definition Node_eq :: "NodeImpl \<Rightarrow> NodeImpl \<Rightarrow> bool" where
  "Node_eq self rhs \<longleftrightarrow>
     node_name self = node_name rhs \<and> node_comment self = node_comment rhs \<and>
     contains_all Attribute_eq (node_attribute_values self) (node_attribute_values rhs)"

interpretation node: object_eq Node_eq
    "\<lambda>n. list_all Attribute_nan_free (node_attribute_values n)"
  unfolding Node_eq_def by unfold_locales (simp add: attribute.vec_refl, metis attribute.vec_trans)

section \<open>\<open>ISignalGroup\<close>\<close>

record SignalGroupImpl =
  sg_message_id :: u64
  sg_name :: string
  sg_repetitions :: u64
  sg_signal_names :: "string list"

definition ISignalGroup_Create :: "u64 \<Rightarrow> string \<Rightarrow> u64 \<Rightarrow> string list \<Rightarrow> SignalGroupImpl" where
  "ISignalGroup_Create message_id name repetitions signal_names =
     \<lparr>sg_message_id = message_id, sg_name = name, sg_repetitions = repetitions,
      sg_signal_names = signal_names\<rparr>"

definition SignalGroup_eq :: "SignalGroupImpl \<Rightarrow> SignalGroupImpl \<Rightarrow> bool" where
  "SignalGroup_eq self rhs \<longleftrightarrow>
     sg_message_id self = sg_message_id rhs \<and> sg_name self = sg_name rhs \<and>
     sg_repetitions self = sg_repetitions rhs \<and>
     contains_all (=) (sg_signal_names self) (sg_signal_names rhs)"

interpretation signal_group: object_eq SignalGroup_eq "\<lambda>_. True"
  by unfold_locales (auto simp: SignalGroup_eq_def contains_all_eq)

section \<open>\<open>ISignalMultiplexerValue\<close>\<close>

record Range =
  range_from :: u64
  range_to :: u64

record SignalMultiplexerValueImpl =
  smv_switch_name :: string
  smv_value_ranges :: "Range list"

definition ISignalMultiplexerValue_Create ::
    "string \<Rightarrow> Range list \<Rightarrow> SignalMultiplexerValueImpl" where
  "ISignalMultiplexerValue_Create switch_name value_ranges =
     \<lparr>smv_switch_name = switch_name, smv_value_ranges = value_ranges\<rparr>"

definition SignalMultiplexerValue_eq ::
    "SignalMultiplexerValueImpl \<Rightarrow> SignalMultiplexerValueImpl \<Rightarrow> bool" where
  "SignalMultiplexerValue_eq self rhs \<longleftrightarrow>
     smv_switch_name self = smv_switch_name rhs \<and>
     contains_all (\<lambda>other range. range_from range = range_from other \<and>
                                 range_to range = range_to other)
       (smv_value_ranges self) (smv_value_ranges rhs)"

interpretation signal_multiplexer_value: object_eq SignalMultiplexerValue_eq "\<lambda>_. True"
  unfolding SignalMultiplexerValue_eq_def contains_all_iff
  by unfold_locales (simp, blast, metis)

section \<open>\<open>IValueEncodingDescription\<close>\<close>

record ValueEncodingDescriptionImpl =
  ved_value :: i64
  ved_description :: string

definition IValueEncodingDescription_Create ::
    "i64 \<Rightarrow> string \<Rightarrow> ValueEncodingDescriptionImpl" where
  "IValueEncodingDescription_Create value description =
     \<lparr>ved_value = value, ved_description = description\<rparr>"

definition ValueEncodingDescription_eq ::
    "ValueEncodingDescriptionImpl \<Rightarrow> ValueEncodingDescriptionImpl \<Rightarrow> bool" where
  "ValueEncodingDescription_eq self rhs \<longleftrightarrow>
     ved_value self = ved_value rhs \<and> ved_description self = ved_description rhs"

interpretation value_encoding_description: object_eq ValueEncodingDescription_eq "\<lambda>_. True"
  by unfold_locales (auto simp: ValueEncodingDescription_eq_def)

section \<open>\<open>ISignalType\<close>\<close>

record SignalTypeImpl =
  st_name :: string
  st_signal_size :: u64
  st_byte_order :: EByteOrder
  st_value_type :: EValueType
  st_factor :: double
  st_offset :: double
  st_minimum :: double
  st_maximum :: double
  st_unit :: string
  st_default_value :: double
  st_value_table :: string

definition ISignalType_Create ::
    "string \<Rightarrow> u64 \<Rightarrow> EByteOrder \<Rightarrow> EValueType \<Rightarrow> double \<Rightarrow> double \<Rightarrow> double \<Rightarrow> double \<Rightarrow>
     string \<Rightarrow> double \<Rightarrow> string \<Rightarrow> SignalTypeImpl" where
  "ISignalType_Create name signal_size byte_order value_type factor offset minimum maximum
     unit default_value value_table =
     \<lparr>st_name = name, st_signal_size = signal_size, st_byte_order = byte_order,
      st_value_type = value_type, st_factor = factor, st_offset = offset,
      st_minimum = minimum, st_maximum = maximum, st_unit = unit,
      st_default_value = default_value, st_value_table = value_table\<rparr>"

text \<open>The operator does not compare the byte orders.\<close>

definition SignalType_eq :: "SignalTypeImpl \<Rightarrow> SignalTypeImpl \<Rightarrow> bool" where
  "SignalType_eq self rhs \<longleftrightarrow>
     st_name self = st_name rhs \<and> st_signal_size self = st_signal_size rhs \<and>
     st_value_type self = st_value_type rhs \<and> double_eq (st_factor self) (st_factor rhs) \<and>
     double_eq (st_offset self) (st_offset rhs) \<and>
     double_eq (st_minimum self) (st_minimum rhs) \<and>
     double_eq (st_maximum self) (st_maximum rhs) \<and> st_unit self = st_unit rhs \<and>
     double_eq (st_default_value self) (st_default_value rhs) \<and>
     st_value_table self = st_value_table rhs"

definition SignalType_nan_free :: "SignalTypeImpl \<Rightarrow> bool" where
  "SignalType_nan_free st \<longleftrightarrow> list_all (\<lambda>d. \<not> is_nan d)
     [st_factor st, st_offset st, st_minimum st, st_maximum st, st_default_value st]"

interpretation signal_type: object_eq SignalType_eq SignalType_nan_free
proof unfold_locales
  fix x :: SignalTypeImpl
  assume "SignalType_nan_free x"
  then show "SignalType_eq x x"
    by (simp add: SignalType_eq_def SignalType_nan_free_def double_eq_refl)
next
  fix x y z :: SignalTypeImpl
  assume "SignalType_eq x y" "SignalType_eq y z"
  then show "SignalType_eq x z"
    using double_eq_trans [of "st_factor x" "st_factor y" "st_factor z"]
      double_eq_trans [of "st_offset x" "st_offset y" "st_offset z"]
      double_eq_trans [of "st_minimum x" "st_minimum y" "st_minimum z"]
      double_eq_trans [of "st_maximum x" "st_maximum y" "st_maximum z"]
      double_eq_trans [of "st_default_value x" "st_default_value y" "st_default_value z"]
    by (simp add: SignalType_eq_def)
qed

section \<open>\<open>IValueTable\<close>\<close>

record ValueTableImpl =
  vt_name :: string
  vt_signal_type :: "SignalTypeImpl option"
  vt_value_encoding_descriptions :: "ValueEncodingDescriptionImpl list"

definition IValueTable_Create ::
    "string \<Rightarrow> SignalTypeImpl option \<Rightarrow> ValueEncodingDescriptionImpl list \<Rightarrow> ValueTableImpl" where
  "IValueTable_Create name signal_type value_encoding_descriptions =
     \<lparr>vt_name = name, vt_signal_type = signal_type,
      vt_value_encoding_descriptions = value_encoding_descriptions\<rparr>"

text \<open>\<open>std::optional\<close>'s \<open>==\<close>: both empty, or both present and equal.\<close>

fun optional_eq :: "('a \<Rightarrow> 'a \<Rightarrow> bool) \<Rightarrow> 'a option \<Rightarrow> 'a option \<Rightarrow> bool" where
  "optional_eq eq None None = True"
| "optional_eq eq (Some a) (Some b) = eq a b"
| "optional_eq eq _ _ = False"

definition ValueTable_eq :: "ValueTableImpl \<Rightarrow> ValueTableImpl \<Rightarrow> bool" where
  "ValueTable_eq self rhs \<longleftrightarrow>
     vt_name self = vt_name rhs \<and>
     optional_eq SignalType_eq (vt_signal_type self) (vt_signal_type rhs) \<and>
     contains_all ValueEncodingDescription_eq
       (vt_value_encoding_descriptions self) (vt_value_encoding_descriptions rhs)"

lemma optional_eq_refl: "pred_option P a \<Longrightarrow> (\<And>x. P x \<Longrightarrow> eq x x) \<Longrightarrow> optional_eq eq a a"
  by (cases a) auto

lemma optional_eq_trans:
  "optional_eq eq a b \<Longrightarrow> optional_eq eq b c \<Longrightarrow> (\<And>x y z. eq x y \<Longrightarrow> eq y z \<Longrightarrow> eq x z) \<Longrightarrow>
   optional_eq eq a c"
  by (cases a; cases b; cases c) auto

interpretation value_table: object_eq ValueTable_eq
    "\<lambda>vt. pred_option SignalType_nan_free (vt_signal_type vt)"
proof unfold_locales
  fix x :: ValueTableImpl assume "pred_option SignalType_nan_free (vt_signal_type x)"
  then show "ValueTable_eq x x"
    by (simp add: ValueTable_eq_def value_encoding_description.vec_refl list_all_iff
        optional_eq_refl [OF _ signal_type.eq_refl])
next
  fix x y z :: ValueTableImpl
  assume "ValueTable_eq x y" "ValueTable_eq y z"
  then show "ValueTable_eq x z"
    using optional_eq_trans [of SignalType_eq "vt_signal_type x" "vt_signal_type y"
        "vt_signal_type z", OF _ _ signal_type.eq_trans]
      value_encoding_description.vec_trans [of "vt_value_encoding_descriptions x"
        "vt_value_encoding_descriptions y" "vt_value_encoding_descriptions z"]
    by (simp add: ValueTable_eq_def)
qed

section \<open>\<open>IEnvironmentVariable\<close>\<close>

datatype EVarType = VT_Integer | VT_Float | VT_String | VT_Data

datatype EAccessType =
  Unrestricted | Read | Write | ReadWrite | Unrestricted' | Read' | Write' | ReadWrite'

record EnvironmentVariableImpl =
  ev_name :: string
  ev_var_type :: EVarType
  ev_minimum :: double
  ev_maximum :: double
  ev_unit :: string
  ev_initial_value :: double
  ev_ev_id :: u64
  ev_access_type :: EAccessType
  ev_access_nodes :: "string list"
  ev_value_encoding_descriptions :: "ValueEncodingDescriptionImpl list"
  ev_data_size :: u64
  ev_attribute_values :: "AttributeImpl list"
  ev_comment :: string

definition IEnvironmentVariable_Create ::
    "string \<Rightarrow> EVarType \<Rightarrow> double \<Rightarrow> double \<Rightarrow> string \<Rightarrow> double \<Rightarrow> u64 \<Rightarrow> EAccessType \<Rightarrow>
     string list \<Rightarrow> ValueEncodingDescriptionImpl list \<Rightarrow> u64 \<Rightarrow> AttributeImpl list \<Rightarrow> string \<Rightarrow>
     EnvironmentVariableImpl" where
  "IEnvironmentVariable_Create name var_type minimum maximum unit initial_value ev_id access_type
     access_nodes value_encoding_descriptions data_size attribute_values comment =
     \<lparr>ev_name = name, ev_var_type = var_type, ev_minimum = minimum, ev_maximum = maximum,
      ev_unit = unit, ev_initial_value = initial_value, ev_ev_id = ev_id,
      ev_access_type = access_type, ev_access_nodes = access_nodes,
      ev_value_encoding_descriptions = value_encoding_descriptions, ev_data_size = data_size,
      ev_attribute_values = attribute_values, ev_comment = comment\<rparr>"

text \<open>The operator does not compare the maxima.\<close>

definition EnvironmentVariable_eq ::
    "EnvironmentVariableImpl \<Rightarrow> EnvironmentVariableImpl \<Rightarrow> bool" where
  "EnvironmentVariable_eq self rhs \<longleftrightarrow>
     ev_name self = ev_name rhs \<and> ev_var_type self = ev_var_type rhs \<and>
     double_eq (ev_minimum self) (ev_minimum rhs) \<and> ev_unit self = ev_unit rhs \<and>
     double_eq (ev_initial_value self) (ev_initial_value rhs) \<and>
     ev_ev_id self = ev_ev_id rhs \<and> ev_access_type self = ev_access_type rhs \<and>
     contains_all (=) (ev_access_nodes self) (ev_access_nodes rhs) \<and>
     contains_all ValueEncodingDescription_eq
       (ev_value_encoding_descriptions self) (ev_value_encoding_descriptions rhs) \<and>
     ev_data_size self = ev_data_size rhs \<and>
     contains_all Attribute_eq (ev_attribute_values self) (ev_attribute_values rhs) \<and>
     ev_comment self = ev_comment rhs"

definition EnvironmentVariable_nan_free :: "EnvironmentVariableImpl \<Rightarrow> bool" where
  "EnvironmentVariable_nan_free ev \<longleftrightarrow>
     \<not> is_nan (ev_minimum ev) \<and> \<not> is_nan (ev_initial_value ev) \<and>
     list_all Attribute_nan_free (ev_attribute_values ev)"

interpretation environment_variable:
  object_eq EnvironmentVariable_eq EnvironmentVariable_nan_free
proof unfold_locales
  fix x :: EnvironmentVariableImpl assume "EnvironmentVariable_nan_free x"
  then show "EnvironmentVariable_eq x x"
    by (simp add: EnvironmentVariable_nan_free_def EnvironmentVariable_eq_def double_eq_refl
        contains_all_eq attribute.vec_refl value_encoding_description.vec_refl list_all_iff)
next
  fix x y z :: EnvironmentVariableImpl
  assume "EnvironmentVariable_eq x y" "EnvironmentVariable_eq y z"
  then show "EnvironmentVariable_eq x z"
    using double_eq_trans [of "ev_minimum x" "ev_minimum y" "ev_minimum z"]
      double_eq_trans [of "ev_initial_value x" "ev_initial_value y" "ev_initial_value z"]
      attribute.vec_trans [of "ev_attribute_values x" "ev_attribute_values y"
        "ev_attribute_values z"]
      value_encoding_description.vec_trans [of "ev_value_encoding_descriptions x"
        "ev_value_encoding_descriptions y" "ev_value_encoding_descriptions z"]
      subset_trans [of "set (ev_access_nodes z)" "set (ev_access_nodes y)"
        "set (ev_access_nodes x)"]
    by (simp add: EnvironmentVariable_eq_def contains_all_eq)
qed

end
