(* ===== verification/Bytes.thy ===== *)
theory Bytes
  imports Prelude
begin

text \<open>
  Byte order (\<open>src/src/Helper.h\<close>, \<open>src/src/EndianConfig.h\<close>) and the memory accesses the
  decode functions make: loads of one and of eight bytes from a byte buffer. The buffer a
  caller passes as \<open>const void*\<close> is a list of bytes, and an access outside it is \<open>None\<close>.
  The byte order of the machine is a value of \<open>Endian\<close>, so the lemmas hold for both
  configurations of \<open>EndianConfig.h.in\<close>.
\<close>

datatype Endian = Little | Big

section \<open>Words and their bytes\<close>

fun le_word :: "u8 list \<Rightarrow> u64" where
  "le_word [] = 0"
| "le_word (b # bs) = ucast b OR push_bit 8 (le_word bs)"

definition be_word :: "u8 list \<Rightarrow> u64" where
  "be_word bs = le_word (rev bs)"

definition byte_of :: "u64 \<Rightarrow> nat \<Rightarrow> u8" where
  "byte_of w k = ucast (drop_bit (8 * k) w)"

definition bytes_of :: "u64 \<Rightarrow> u8 list" where
  "bytes_of w = map (byte_of w) [0..<8]"

text \<open>\<open>bswap_64\<close> of \<open>byteswap.h\<close>: the eight bytes in reverse order.\<close>

definition bswap_64 :: "u64 \<Rightarrow> u64" where
  "bswap_64 w = be_word (bytes_of w)"

definition native_to_big_inplace :: "Endian \<Rightarrow> u64 \<Rightarrow> u64" where
  "native_to_big_inplace native value = (if native = Little then bswap_64 value else value)"

definition native_to_little_inplace :: "Endian \<Rightarrow> u64 \<Rightarrow> u64" where
  "native_to_little_inplace native value = (if native = Big then bswap_64 value else value)"

section \<open>Memory accesses\<close>

text \<open>\<open>*reinterpret_cast<const uint64_t*>(&bytes[p])\<close> and \<open>bytes[p]\<close>.\<close>

definition load_u64 :: "Endian \<Rightarrow> u8 list \<Rightarrow> nat \<Rightarrow> u64 option" where
  "load_u64 native bytes p =
     (if p + 8 \<le> length bytes
      then Some ((case native of Little \<Rightarrow> le_word | Big \<Rightarrow> be_word) (take 8 (drop p bytes)))
      else None)"

definition load_u8 :: "u8 list \<Rightarrow> nat \<Rightarrow> u64 option" where
  "load_u8 bytes p = (if p < length bytes then Some (ucast (bytes ! p)) else None)"

text \<open>Bit \<open>p\<close> of a frame: bit \<open>p mod 8\<close> of byte \<open>p div 8\<close>.\<close>

definition frame_bit :: "u8 list \<Rightarrow> nat \<Rightarrow> bool" where
  "frame_bit bytes p = bit (bytes ! (p div 8)) (p mod 8)"

section \<open>Lemmas\<close>

lemma bit_le_word [wbits]:
  "bit (le_word bs) j \<longleftrightarrow> j < 64 \<and> j div 8 < length bs \<and> bit (bs ! (j div 8)) (j mod 8)"
proof (induction bs arbitrary: j)
  case Nil
  then show ?case by simp
next
  case (Cons b bs)
  show ?case
  proof (cases "j < 8")
    case True
    then show ?thesis by (simp add: wbits)
  next
    case False
    then have "j div 8 = Suc ((j - 8) div 8)" and "j mod 8 = (j - 8) mod 8"
      by (simp_all add: le_div_geq le_mod_geq)
    with False Cons.IH [of "j - 8"] show ?thesis
      by (auto simp: wbits dest: bit_u8_lt)
  qed
qed

lemma bit_be_word [wbits]:
  assumes "length bs = 8"
  shows "bit (be_word bs) j \<longleftrightarrow> j < 64 \<and> bit (bs ! (7 - j div 8)) (j mod 8)"
proof -
  have "j < 64 \<Longrightarrow> rev bs ! (j div 8) = bs ! (7 - j div 8)"
    using assms by (subst rev_nth) auto
  then show ?thesis using assms by (auto simp: be_word_def bit_le_word)
qed

lemma bit_byte_of [wbits]: "bit (byte_of w k) i \<longleftrightarrow> i < 8 \<and> bit w (8 * k + i)"
  by (auto simp: byte_of_def bit_ucast_iff bit_drop_bit_eq)

lemma length_bytes_of [simp]: "length (bytes_of w) = 8"
  by (simp add: bytes_of_def)

lemma nth_bytes_of: "k < 8 \<Longrightarrow> bytes_of w ! k = byte_of w k"
  by (simp add: bytes_of_def)

lemma le_word_bytes_of [simp]: "le_word (bytes_of w) = w"
  by (rule u64_eqI) (auto simp: bit_le_word nth_bytes_of bit_byte_of)

lemma bytes_of_le_word:
  assumes "length bs = 8"
  shows "bytes_of (le_word bs) = bs"
proof (rule nth_equalityI)
  show "length (bytes_of (le_word bs)) = length bs" using assms by simp
next
  fix k assume "k < length (bytes_of (le_word bs))"
  then have k: "k < 8" by simp
  show "bytes_of (le_word bs) ! k = bs ! k"
    using k assms by (intro u8_eqI) (simp add: nth_bytes_of bit_byte_of bit_le_word)
qed

lemma bswap_64_le_word: "length bs = 8 \<Longrightarrow> bswap_64 (le_word bs) = be_word bs"
  by (simp add: bswap_64_def bytes_of_le_word)

lemma bswap_64_be_word: "length bs = 8 \<Longrightarrow> bswap_64 (be_word bs) = le_word bs"
  by (simp add: bswap_64_def be_word_def bytes_of_le_word)

lemma bswap_64_bswap_64: "bswap_64 (bswap_64 w) = w"
  using bswap_64_be_word [of "bytes_of w"] by (simp add: bswap_64_def)

text \<open>Loading natively and converting gives the value of the bytes on either machine.\<close>

lemma load_little:
  "map_option (native_to_little_inplace native) (load_u64 native bytes p) =
     (if p + 8 \<le> length bytes then Some (le_word (take 8 (drop p bytes))) else None)"
  by (cases native) (auto simp: native_to_little_inplace_def load_u64_def bswap_64_be_word)

lemma load_big:
  "map_option (native_to_big_inplace native) (load_u64 native bytes p) =
     (if p + 8 \<le> length bytes then Some (be_word (take 8 (drop p bytes))) else None)"
  by (cases native) (auto simp: native_to_big_inplace_def load_u64_def bswap_64_le_word)

lemma load_u64_None: "load_u64 native bytes p = None \<longleftrightarrow> length bytes < p + 8"
  by (auto simp: load_u64_def)

lemma bit_load_little:
  assumes "p + 8 \<le> length bytes" and "j < 64"
  shows "bit (le_word (take 8 (drop p bytes))) j = frame_bit bytes (8 * p + j)"
proof -
  have "(8 * p + j) div 8 = p + j div 8" and "(8 * p + j) mod 8 = j mod 8" by simp_all
  then show ?thesis using assms by (auto simp: bit_le_word frame_bit_def)
qed

lemma bit_load_big:
  assumes "p + 8 \<le> length bytes" and "j < 64"
  shows "bit (be_word (take 8 (drop p bytes))) j = frame_bit bytes (8 * (p + 7 - j div 8) + j mod 8)"
proof -
  have "take 8 (drop p bytes) ! (7 - j div 8) = bytes ! (p + 7 - j div 8)"
    using assms by simp
  moreover have "(8 * (p + 7 - j div 8) + j mod 8) div 8 = p + 7 - j div 8" by simp
  moreover have "(8 * (p + 7 - j div 8) + j mod 8) mod 8 = j mod 8" by simp
  ultimately show ?thesis using assms by (simp add: bit_be_word frame_bit_def)
qed

lemma frame_eqI:
  assumes "length a = length b" and "\<And>p. p < 8 * length a \<Longrightarrow> frame_bit a p = frame_bit b p"
  shows "a = b"
proof (rule nth_equalityI [OF assms(1)])
  fix k assume k: "k < length a"
  show "a ! k = b ! k"
  proof (rule u8_eqI)
    fix j :: nat assume j: "j < 8"
    with k have "8 * k + j < 8 * length a" by simp
    from assms(2) [OF this] j show "bit (a ! k) j = bit (b ! k) j"
      by (simp add: frame_bit_def)
  qed
qed

end
