(* ===== verification/Signal.thy ===== *)
theory Signal
  imports Components Bytes
begin

text \<open>
  \<open>SignalImpl\<close> (\<open>src/src/SignalImpl.cpp\<close>, \<open>SignalImpl.h\<close>, \<open>include/dbcppp/Signal.h\<close>): the
  data of a signal, the constructor with its error flags and the values it precomputes for
  decoding, the selection of the decode function, and \<open>operator==\<close>. The functions that
  move bits between a frame and a raw value are in theory \<open>Codec\<close>.
\<close>

section \<open>Data\<close>

datatype EMultiplexer = NoMux | MuxSwitch | MuxValue
datatype EExtendedValueType = EVT_Integer | EVT_Float | EVT_Double

text \<open>\<open>EErrorCode\<close> is a set of flags: its values are the words the constructor combines.\<close>

abbreviation (input) NoError :: u64 where "NoError \<equiv> 0"
abbreviation (input) MaschinesFloatEncodingNotSupported :: u64 where
  "MaschinesFloatEncodingNotSupported \<equiv> 1"
abbreviation (input) MaschinesDoubleEncodingNotSupported :: u64 where
  "MaschinesDoubleEncodingNotSupported \<equiv> 2"
abbreviation (input) SignalExceedsMessageSize :: u64 where "SignalExceedsMessageSize \<equiv> 4"
abbreviation (input) WrongBitSizeForExtendedDataType :: u64 where
  "WrongBitSizeForExtendedDataType \<equiv> 8"

text \<open>The members a caller passes to \<open>ISignal::Create\<close>.\<close>

record signal_data =
  sig_name :: string
  sig_multiplexer_indicator :: EMultiplexer
  sig_multiplexer_switch_value :: u64
  sig_start_bit :: u64
  sig_bit_size :: u64
  sig_byte_order :: EByteOrder
  sig_value_type :: EValueType
  sig_factor :: double
  sig_offset :: double
  sig_minimum :: double
  sig_maximum :: double
  sig_unit :: string
  sig_receivers :: "string list"
  sig_attribute_values :: "AttributeImpl list"
  sig_value_encoding_descriptions :: "ValueEncodingDescriptionImpl list"
  sig_comment :: string
  sig_extended_value_type :: EExtendedValueType
  sig_signal_multiplexer_values :: "SignalMultiplexerValueImpl list"

datatype Alignment =
    size_inbetween_first_64_bit
  | signal_exceeds_64_bit_size_but_signal_fits_into_64_bit
  | signal_exceeds_64_bit_size_and_signal_does_not_fit_into_64_bit

text \<open>
  Function pointers are named by the function they point to: \<open>Template_decode a bo vt evt\<close>
  is the address of \<open>template_decode<a, bo, vt, evt>\<close>, and the conversions are the
  instances of \<open>raw_to_phys\<close> and \<open>phys_to_raw\<close>.
\<close>

datatype decode_func_t = Template_decode Alignment EByteOrder EValueType EExtendedValueType
datatype phys_func_t = Phys_int64 | Phys_uint64 | Phys_float | Phys_double

text \<open>
  The members added for performance. \<open>_fixed_start_bit_1\<close> is left uninitialised by three
  of the four branches of the constructor; that is \<open>None\<close>.
\<close>

record SignalImpl = signal_data +
  sig_mask :: u64
  sig_mask_signed :: u64
  sig_fixed_start_bit_0 :: u64
  sig_fixed_start_bit_1 :: "u64 option"
  sig_byte_pos :: u64
  sig_error :: u64
  sig_decode :: "decode_func_t option"
  sig_raw_to_phys :: phys_func_t
  sig_phys_to_raw :: phys_func_t

section \<open>Selecting the decode function\<close>

definition enum_mask ::
    "Alignment \<Rightarrow> EByteOrder \<Rightarrow> EValueType \<Rightarrow> EExtendedValueType \<Rightarrow> u64" where
  "enum_mask a bo vt evt =
     (case a of
        size_inbetween_first_64_bit \<Rightarrow> 0b1
      | signal_exceeds_64_bit_size_but_signal_fits_into_64_bit \<Rightarrow> 0b10
      | signal_exceeds_64_bit_size_and_signal_does_not_fit_into_64_bit \<Rightarrow> 0b100) OR
     (case bo of LittleEndian \<Rightarrow> 0b1000 | BigEndian \<Rightarrow> 0b10000) OR
     (case vt of Signed \<Rightarrow> 0b100000 | Unsigned \<Rightarrow> 0b1000000) OR
     (case evt of
        EVT_Integer \<Rightarrow> 0b10000000
      | EVT_Float \<Rightarrow> 0b100000000
      | EVT_Double \<Rightarrow> 0b1000000000)"

text \<open>A \<open>switch\<close> over \<open>enum_mask\<close> values: the first label that matches, or \<open>nullptr\<close>.\<close>

definition switch_enum_mask ::
    "(Alignment \<times> EByteOrder \<times> EValueType \<times> EExtendedValueType) list \<Rightarrow> u64 \<Rightarrow>
     decode_func_t option" where
  "switch_enum_mask labels m =
     map_option (\<lambda>(a, bo, vt, evt). Template_decode a bo vt evt)
       (find (\<lambda>(a, bo, vt, evt). enum_mask a bo vt evt = m) labels)"

definition make_decode_labels ::
    "(Alignment \<times> EByteOrder \<times> EValueType \<times> EExtendedValueType) list" where
  "make_decode_labels =
     [(a, bo, vt, evt).
        a \<leftarrow> [size_inbetween_first_64_bit,
             signal_exceeds_64_bit_size_but_signal_fits_into_64_bit,
             signal_exceeds_64_bit_size_and_signal_does_not_fit_into_64_bit],
        bo \<leftarrow> [LittleEndian, BigEndian], vt \<leftarrow> [Signed, Unsigned],
        evt \<leftarrow> [EVT_Integer, EVT_Float, EVT_Double]]"

definition make_decode ::
    "Alignment \<Rightarrow> EByteOrder \<Rightarrow> EValueType \<Rightarrow> EExtendedValueType \<Rightarrow> decode_func_t option" where
  "make_decode a bo vt evt = switch_enum_mask make_decode_labels (enum_mask a bo vt evt)"

definition make_decodeMuxSignal_labels ::
    "(Alignment \<times> EByteOrder \<times> EValueType \<times> EExtendedValueType) list" where
  "make_decodeMuxSignal_labels =
     [(size_inbetween_first_64_bit, LittleEndian, Signed, EVT_Integer),
      (size_inbetween_first_64_bit, LittleEndian, Signed, EVT_Float),
      (size_inbetween_first_64_bit, LittleEndian, Signed, EVT_Double),
      (size_inbetween_first_64_bit, LittleEndian, Unsigned, EVT_Integer),
      (size_inbetween_first_64_bit, BigEndian, Signed, EVT_Integer),
      (size_inbetween_first_64_bit, BigEndian, Unsigned, EVT_Integer)] @
     [(a, bo, vt, EVT_Integer).
        a \<leftarrow> [signal_exceeds_64_bit_size_but_signal_fits_into_64_bit,
             signal_exceeds_64_bit_size_and_signal_does_not_fit_into_64_bit],
        bo \<leftarrow> [LittleEndian, BigEndian], vt \<leftarrow> [Signed, Unsigned]]"

definition make_decodeMuxSignal ::
    "Alignment \<Rightarrow> EByteOrder \<Rightarrow> EValueType \<Rightarrow> EExtendedValueType \<Rightarrow> decode_func_t option" where
  "make_decodeMuxSignal a bo vt evt =
     switch_enum_mask make_decodeMuxSignal_labels (enum_mask a bo vt evt)"

text \<open>Every combination has its own label, so the dispatch is the identity.\<close>

lemma enum_mask_inj:
  "enum_mask a bo vt evt = enum_mask a' bo' vt' evt' \<longleftrightarrow>
     a = a' \<and> bo = bo' \<and> vt = vt' \<and> evt = evt'"
  by (cases a; cases bo; cases vt; cases evt; cases a'; cases bo'; cases vt'; cases evt')
     (simp_all add: enum_mask_def)

lemma make_decode_eq: "make_decode a bo vt evt = Some (Template_decode a bo vt evt)"
  by (cases a; cases bo; cases vt; cases evt)
     (simp_all add: make_decode_def switch_enum_mask_def make_decode_labels_def enum_mask_inj)

section \<open>The constructor\<close>

text \<open>
  \<open>is_iec559\<close> of the two floating-point types, as the library of the machine reports it.
\<close>

record platform =
  float_is_iec559 :: bool
  double_is_iec559 :: bool

definition SetError :: "u64 \<Rightarrow> u64 \<Rightarrow> u64" where
  "SetError code error = error OR code"

definition Error :: "'a SignalImpl_scheme \<Rightarrow> u64 \<Rightarrow> bool" where
  "Error sigi code \<longleftrightarrow> code = sig_error sigi \<or> sig_error sigi AND code \<noteq> 0"

text \<open>
  The check that the signal lies within the frame. Frames shorter than 8 bytes count as 8
  bytes, because decoding reads 8 bytes anyway. All arithmetic is that of \<open>uint64_t\<close>.
\<close>

definition exceeds_message_size :: "u64 \<Rightarrow> 'a signal_data_scheme \<Rightarrow> bool" where
  "exceeds_message_size message_size d =
     (let message_size = (if message_size < 8 then 8 else message_size);
          start_bit = sig_start_bit d; bit_size = sig_bit_size d
      in case sig_byte_order d of
           LittleEndian \<Rightarrow> start_bit + bit_size > message_size * 8
         | BigEndian \<Rightarrow>
             (let fsize = bit_size + (7 - start_bit mod 8);
                  fstart = start_bit - start_bit mod 8
              in fstart + ((fsize - 1) div 8) * 8 \<ge> message_size * 8))"

definition constructor_error :: "platform \<Rightarrow> u64 \<Rightarrow> 'a signal_data_scheme \<Rightarrow> u64" where
  "constructor_error pf message_size d =
     (let e = NoError;
          e = (if exceeds_message_size message_size d
               then SetError SignalExceedsMessageSize e else e);
          e = (case sig_extended_value_type d of
                 EVT_Float \<Rightarrow> if sig_bit_size d \<noteq> 32
                              then SetError WrongBitSizeForExtendedDataType e else e
               | EVT_Double \<Rightarrow> if sig_bit_size d \<noteq> 64
                              then SetError WrongBitSizeForExtendedDataType e else e
               | EVT_Integer \<Rightarrow> e);
          e = (if sig_extended_value_type d = EVT_Float \<and> \<not> float_is_iec559 pf
               then SetError MaschinesFloatEncodingNotSupported e else e);
          e = (if sig_extended_value_type d = EVT_Double \<and> \<not> double_is_iec559 pf
               then SetError MaschinesDoubleEncodingNotSupported e else e)
      in e)"

text \<open>\<open>_mask\<close> and \<open>_mask_signed\<close> before the alignment is known.\<close>

definition initial_mask :: "u64 \<Rightarrow> u64 option" where
  "initial_mask bit_size = do {
     x \<leftarrow> shl64 1 (bit_size - 1);
     y \<leftarrow> shl64 x 1;
     Some (y - 1) }"

definition initial_mask_signed :: "u64 \<Rightarrow> u64 option" where
  "initial_mask_signed bit_size = do {
     x \<leftarrow> shl64 1 (bit_size - 1);
     Some (NOT (x - 1)) }"

text \<open>The number of bytes the signal touches.\<close>

definition signal_nbytes :: "'a signal_data_scheme \<Rightarrow> u64" where
  "signal_nbytes d =
     (if sig_byte_order d = LittleEndian
      then (sig_start_bit d mod 8 + sig_bit_size d + 7) div 8
      else (sig_bit_size d + (7 - sig_start_bit d mod 8) + 7) div 8)"

record layout =
  lay_alignment :: Alignment
  lay_byte_pos :: u64
  lay_fixed_start_bit_0 :: u64
  lay_fixed_start_bit_1 :: "u64 option"
  lay_mask :: u64

definition be_shift :: "u64 \<Rightarrow> u64 \<Rightarrow> u64" where
  "be_shift start_bit bit_size =
     (8 * (7 - start_bit div 8)) + start_bit mod 8 - (bit_size - 1)"

text \<open>The four-way choice of the alignment, in the order of the constructor.\<close>

definition signal_layout :: "'a signal_data_scheme \<Rightarrow> u64 \<Rightarrow> layout option" where
  "signal_layout d mask0 =
     (let start_bit = sig_start_bit d; bit_size = sig_bit_size d;
          byte_pos = start_bit div 8; nbytes = signal_nbytes d
      in if byte_pos + nbytes \<le> 8 then
           Some \<lparr>lay_alignment = size_inbetween_first_64_bit, lay_byte_pos = byte_pos,
                 lay_fixed_start_bit_0 =
                   (if sig_byte_order d = LittleEndian then start_bit
                    else be_shift start_bit bit_size),
                 lay_fixed_start_bit_1 = None, lay_mask = mask0\<rparr>
         else if byte_pos mod 8 + nbytes \<le> 8 then
           (let byte_pos = byte_pos - byte_pos mod 8; fsb = start_bit - byte_pos * 8
            in Some \<lparr>lay_alignment = signal_exceeds_64_bit_size_but_signal_fits_into_64_bit,
                     lay_byte_pos = byte_pos,
                     lay_fixed_start_bit_0 =
                       (if sig_byte_order d = BigEndian then be_shift fsb bit_size else fsb),
                     lay_fixed_start_bit_1 = None, lay_mask = mask0\<rparr>)
         else if nbytes \<le> 8 then
           (let fsb = start_bit - byte_pos * 8
            in Some \<lparr>lay_alignment = signal_exceeds_64_bit_size_but_signal_fits_into_64_bit,
                     lay_byte_pos = byte_pos,
                     lay_fixed_start_bit_0 =
                       (if sig_byte_order d = BigEndian then be_shift fsb bit_size else fsb),
                     lay_fixed_start_bit_1 = None, lay_mask = mask0\<rparr>)
         else if sig_byte_order d = BigEndian then
           (let nbits_last_byte = (7 - start_bit mod 8) + bit_size - 64
            in do {
                 m \<leftarrow> shl64 1 (start_bit mod 8 + 57);
                 Some \<lparr>lay_alignment =
                         signal_exceeds_64_bit_size_and_signal_does_not_fit_into_64_bit,
                       lay_byte_pos = byte_pos, lay_fixed_start_bit_0 = nbits_last_byte,
                       lay_fixed_start_bit_1 = Some (8 - nbits_last_byte),
                       lay_mask = m - 1\<rparr> })
         else
           (let nbits_last_byte = bit_size + start_bit mod 8 - 64
            in do {
                 m \<leftarrow> shl64 1 nbits_last_byte;
                 Some \<lparr>lay_alignment =
                         signal_exceeds_64_bit_size_and_signal_does_not_fit_into_64_bit,
                       lay_byte_pos = byte_pos,
                       lay_fixed_start_bit_0 = start_bit - byte_pos * 8,
                       lay_fixed_start_bit_1 = Some (64 - start_bit mod 8),
                       lay_mask = m - 1\<rparr> }))"

definition phys_func :: "EExtendedValueType \<Rightarrow> EValueType \<Rightarrow> phys_func_t" where
  "phys_func evt vt =
     (case evt of
        EVT_Integer \<Rightarrow> (case vt of Signed \<Rightarrow> Phys_int64 | Unsigned \<Rightarrow> Phys_uint64)
      | EVT_Float \<Rightarrow> Phys_float
      | EVT_Double \<Rightarrow> Phys_double)"

definition SignalImpl_new :: "platform \<Rightarrow> u64 \<Rightarrow> signal_data \<Rightarrow> SignalImpl option" where
  "SignalImpl_new pf message_size d = do {
     mask \<leftarrow> initial_mask (sig_bit_size d);
     mask_signed \<leftarrow> initial_mask_signed (sig_bit_size d);
     l \<leftarrow> signal_layout d mask;
     let f = phys_func (sig_extended_value_type d) (sig_value_type d);
     Some (signal_data.extend d (SignalImpl.fields
       (lay_mask l) mask_signed (lay_fixed_start_bit_0 l) (lay_fixed_start_bit_1 l)
       (lay_byte_pos l) (constructor_error pf message_size d)
       (make_decode (lay_alignment l) (sig_byte_order d) (sig_value_type d)
          (sig_extended_value_type d))
       f f)) }"

section \<open>\<open>operator==\<close>\<close>

definition Signal_eq :: "SignalImpl \<Rightarrow> SignalImpl \<Rightarrow> bool" where
  "Signal_eq self rhs \<longleftrightarrow>
     sig_name self = sig_name rhs \<and>
     sig_multiplexer_indicator self = sig_multiplexer_indicator rhs \<and>
     sig_multiplexer_switch_value self = sig_multiplexer_switch_value rhs \<and>
     sig_start_bit self = sig_start_bit rhs \<and> sig_bit_size self = sig_bit_size rhs \<and>
     sig_byte_order self = sig_byte_order rhs \<and> sig_value_type self = sig_value_type rhs \<and>
     double_eq (sig_factor self) (sig_factor rhs) \<and>
     double_eq (sig_offset self) (sig_offset rhs) \<and>
     double_eq (sig_minimum self) (sig_minimum rhs) \<and>
     double_eq (sig_maximum self) (sig_maximum rhs) \<and> sig_unit self = sig_unit rhs \<and>
     contains_all (=) (sig_receivers self) (sig_receivers rhs) \<and>
     contains_all Attribute_eq (sig_attribute_values self) (sig_attribute_values rhs) \<and>
     contains_all ValueEncodingDescription_eq
       (sig_value_encoding_descriptions self) (sig_value_encoding_descriptions rhs) \<and>
     sig_comment self = sig_comment rhs \<and>
     sig_extended_value_type self = sig_extended_value_type rhs \<and>
     contains_all SignalMultiplexerValue_eq
       (sig_signal_multiplexer_values self) (sig_signal_multiplexer_values rhs)"

definition Signal_nan_free :: "SignalImpl \<Rightarrow> bool" where
  "Signal_nan_free s \<longleftrightarrow>
     list_all (\<lambda>d. \<not> is_nan d) [sig_factor s, sig_offset s, sig_minimum s, sig_maximum s] \<and>
     list_all Attribute_nan_free (sig_attribute_values s)"

interpretation signal: object_eq Signal_eq Signal_nan_free
proof unfold_locales
  fix x :: SignalImpl
  assume "Signal_nan_free x"
  then show "Signal_eq x x"
    by (simp add: Signal_eq_def Signal_nan_free_def double_eq_refl contains_all_eq
        attribute.vec_refl value_encoding_description.vec_refl
        signal_multiplexer_value.vec_refl list_all_iff)
next
  fix x y z :: SignalImpl
  assume "Signal_eq x y" "Signal_eq y z"
  then show "Signal_eq x z"
    using double_eq_trans [of "sig_factor x" "sig_factor y" "sig_factor z"]
      double_eq_trans [of "sig_offset x" "sig_offset y" "sig_offset z"]
      double_eq_trans [of "sig_minimum x" "sig_minimum y" "sig_minimum z"]
      double_eq_trans [of "sig_maximum x" "sig_maximum y" "sig_maximum z"]
      attribute.vec_trans [of "sig_attribute_values x" "sig_attribute_values y"
        "sig_attribute_values z"]
      value_encoding_description.vec_trans [of "sig_value_encoding_descriptions x"
        "sig_value_encoding_descriptions y" "sig_value_encoding_descriptions z"]
      signal_multiplexer_value.vec_trans [of "sig_signal_multiplexer_values x"
        "sig_signal_multiplexer_values y" "sig_signal_multiplexer_values z"]
      subset_trans [of "set (sig_receivers z)" "set (sig_receivers y)" "set (sig_receivers x)"]
    by (simp add: Signal_eq_def contains_all_eq)
qed

end
