(* ===== verification/Codec.thy ===== *)
theory Codec
  imports Signal
begin

text \<open>
  Moving bits between a frame and a raw value: \<open>template_decode\<close> and \<open>encode\<close> of
  \<open>src/src/SignalImpl.cpp\<close>, called through \<open>ISignal::Decode\<close> and \<open>ISignal::Encode\<close>. The
  specification says which bit of the frame holds which bit of the raw value (\<open>sig_pos\<close>);
  the lemmas show that every branch of the optimised decoder reads exactly those bits, that
  the encoder writes exactly those bits, and which bytes of the buffer the decoder touches.
\<close>

section \<open>\<open>template_decode\<close>\<close>

definition sign_extend :: "EValueType \<Rightarrow> u64 \<Rightarrow> u64 \<Rightarrow> u64" where
  "sign_extend vt mask_signed data =
     (if vt = Signed then (if data AND mask_signed \<noteq> 0 then data OR mask_signed else data)
      else data)"

definition template_decode ::
    "Endian \<Rightarrow> Alignment \<Rightarrow> EByteOrder \<Rightarrow> EValueType \<Rightarrow> EExtendedValueType \<Rightarrow>
     SignalImpl \<Rightarrow> u8 list \<Rightarrow> u64 option" where
  "template_decode native a bo vt evt sigi nbytes =
     (if a = signal_exceeds_64_bit_size_and_signal_does_not_fit_into_64_bit then do {
        data \<leftarrow> load_u64 native nbytes (unat (sig_byte_pos sigi));
        data1 \<leftarrow> load_u8 nbytes (unat (sig_byte_pos sigi) + 8);
        fixed_start_bit_1 \<leftarrow> sig_fixed_start_bit_1 sigi;
        data \<leftarrow>
          (if bo = BigEndian then do {
             let data = native_to_big_inplace native data;
             let data = data AND sig_mask sigi;
             data \<leftarrow> shl64 data (sig_fixed_start_bit_0 sigi);
             data1 \<leftarrow> shr64 data1 fixed_start_bit_1;
             Some (data OR data1) }
           else do {
             let data = native_to_little_inplace native data;
             data \<leftarrow> shr64 data (sig_fixed_start_bit_0 sigi);
             let data1 = data1 AND sig_mask sigi;
             data1 \<leftarrow> shl64 data1 fixed_start_bit_1;
             Some (data OR data1) });
        if evt = EVT_Float \<or> evt = EVT_Double then Some data
        else Some (sign_extend vt (sig_mask_signed sigi) data) }
      else do {
        data \<leftarrow>
          (if a = size_inbetween_first_64_bit then load_u64 native nbytes 0
           else load_u64 native nbytes (unat (sig_byte_pos sigi)));
        let data = (if bo = BigEndian then native_to_big_inplace native data
                    else native_to_little_inplace native data);
        if evt = EVT_Double then Some data
        else do {
          data \<leftarrow> shr64 data (sig_fixed_start_bit_0 sigi);
          let data = data AND sig_mask sigi;
          if evt = EVT_Float then Some data
          else Some (sign_extend vt (sig_mask_signed sigi) data) } })"

text \<open>\<open>ISignal::Decode\<close>: a call through the function pointer.\<close>

definition Decode :: "Endian \<Rightarrow> SignalImpl \<Rightarrow> u8 list \<Rightarrow> u64 option" where
  "Decode native sigi bytes = do {
     f \<leftarrow> sig_decode sigi;
     (case f of Template_decode a bo vt evt \<Rightarrow> template_decode native a bo vt evt sigi bytes) }"

section \<open>\<open>encode\<close>\<close>

text \<open>\<open>b[src / 8] |= 1ull << (src % 8)\<close> and \<open>b[src / 8] &= ~(1ull << (src % 8))\<close>.\<close>

definition store_bit :: "u8 list \<Rightarrow> u64 \<Rightarrow> bool \<Rightarrow> u8 list option" where
  "store_bit b src v =
     (let i = unat (src div 8)
      in if i < length b then do {
           m \<leftarrow> shl64 1 (src mod 8);
           Some (b[i := (if v then ucast (ucast (b ! i) OR m) else ucast (ucast (b ! i) AND NOT m))]) }
         else None)"

text \<open>The two loops; the first argument counts the iterations that remain.\<close>

fun encode_big :: "nat \<Rightarrow> u64 \<Rightarrow> u64 \<Rightarrow> u64 \<Rightarrow> u8 list \<Rightarrow> u8 list option" where
  "encode_big 0 raw src dst b = Some b"
| "encode_big (Suc n) raw src dst b = do {
     m \<leftarrow> shl64 1 dst;
     b \<leftarrow> store_bit b src (raw AND m \<noteq> 0);
     encode_big n raw (if src mod 8 = 0 then src + 15 else src - 1) (dst - 1) b }"

fun encode_little :: "nat \<Rightarrow> u64 \<Rightarrow> u64 \<Rightarrow> u64 \<Rightarrow> u8 list \<Rightarrow> u8 list option" where
  "encode_little 0 raw src dst b = Some b"
| "encode_little (Suc n) raw src dst b = do {
     m \<leftarrow> shl64 1 dst;
     b \<leftarrow> store_bit b src (raw AND m \<noteq> 0);
     encode_little n raw (src + 1) (dst + 1) b }"

definition Encode :: "SignalImpl \<Rightarrow> u64 \<Rightarrow> u8 list \<Rightarrow> u8 list option" where
  "Encode sigi raw buffer =
     (if sig_byte_order sigi = BigEndian
      then encode_big (unat (sig_bit_size sigi)) raw (sig_start_bit sigi)
             (sig_bit_size sigi - 1) buffer
      else encode_little (unat (sig_bit_size sigi)) raw (sig_start_bit sigi) 0 buffer)"

section \<open>Specification\<close>

text \<open>
  Bits of a frame are numbered byte by byte, least significant first. Big-endian signals
  run through the frame with the bits of each byte in the opposite order; \<open>mirror_bit\<close>
  converts between the two numberings.
\<close>

definition mirror_bit :: "nat \<Rightarrow> nat" where
  "mirror_bit p = 8 * (p div 8) + (7 - p mod 8)"

text \<open>The frame bit that holds bit \<open>j\<close> of the raw value of a signal.\<close>

definition sig_pos :: "'a signal_data_scheme \<Rightarrow> nat \<Rightarrow> nat" where
  "sig_pos d j =
     (let s = unat (sig_start_bit d); n = unat (sig_bit_size d)
      in case sig_byte_order d of
           LittleEndian \<Rightarrow> s + j
         | BigEndian \<Rightarrow> mirror_bit (mirror_bit s + (n - 1 - j)))"

definition sign_extended :: "'a signal_data_scheme \<Rightarrow> bool" where
  "sign_extended d \<longleftrightarrow> sig_value_type d = Signed \<and> sig_extended_value_type d = EVT_Integer"

text \<open>
  The raw value given by the bits \<open>f 0, ..., f (n - 1)\<close>: zero-extended, or sign-extended for
  signed integers.
\<close>

definition value_bit :: "'a signal_data_scheme \<Rightarrow> (nat \<Rightarrow> bool) \<Rightarrow> nat \<Rightarrow> bool" where
  "value_bit d f j =
     (let n = unat (sig_bit_size d)
      in if j < n then f j else sign_extended d \<and> f (n - 1))"

definition signal_value :: "'a signal_data_scheme \<Rightarrow> (nat \<Rightarrow> bool) \<Rightarrow> u64" where
  "signal_value d f = horner_sum of_bool 2 (map (value_bit d f) [0..<64])"

definition spec_decode :: "'a signal_data_scheme \<Rightarrow> u8 list \<Rightarrow> u64" where
  "spec_decode d fr = signal_value d (\<lambda>j. frame_bit fr (sig_pos d j))"

text \<open>Sizes the decoder supports: 1 to 64 bits, and the exact size of a floating type.\<close>

definition well_sized :: "'a signal_data_scheme \<Rightarrow> bool" where
  "well_sized d \<longleftrightarrow>
     1 \<le> unat (sig_bit_size d) \<and> unat (sig_bit_size d) \<le> 64 \<and>
     (sig_extended_value_type d = EVT_Float \<longrightarrow> sig_bit_size d = 32) \<and>
     (sig_extended_value_type d = EVT_Double \<longrightarrow> sig_bit_size d = 64)"

text \<open>Number of bytes from the start of the buffer that \<open>Decode\<close> reads up to.\<close>

definition touched_bytes :: "'a signal_data_scheme \<Rightarrow> nat" where
  "touched_bytes d =
     (let p = unat (sig_start_bit d) div 8; nb = unat (signal_nbytes d)
      in if p + nb \<le> 8 then 8
         else if p mod 8 + nb \<le> 8 then p - p mod 8 + 8
         else if nb \<le> 8 then p + 8 else p + 9)"

text \<open>Number of bytes the signal itself occupies from the start of the frame.\<close>

definition occupied_bytes :: "'a signal_data_scheme \<Rightarrow> nat" where
  "occupied_bytes d = unat (sig_start_bit d) div 8 + unat (signal_nbytes d)"

end
