(* ===== verification/Layout.thy ===== *)
theory Layout
  imports Codec
begin

text \<open>
  The alignment the constructor of \<open>SignalImpl\<close> chooses (\<open>signal_layout\<close>): which window of the
  frame it selects, and that the shift amounts and masks it computes in \<open>uint64_t\<close> arithmetic
  are the ones the window needs. \<open>narrow_layout\<close> describes the two alignments that read one
  64-bit window, \<open>wide_layout\<close> the one that reads a ninth byte.
\<close>

section \<open>Mirrored bit numbers\<close>

lemma byte_split: "k < 8 \<Longrightarrow> (8 * p + k) div 8 = (p::nat)" "k < 8 \<Longrightarrow> (8 * p + k) mod 8 = k"
  by simp_all

lemma mirror_bit_split: "k < 8 \<Longrightarrow> mirror_bit (8 * p + k) = 8 * p + (7 - k)"
  by (simp add: mirror_bit_def)

lemma mirror_bit_div8 [simp]: "mirror_bit p div 8 = p div 8"
  unfolding mirror_bit_def by (rule byte_split) simp

lemma mirror_bit_mod8 [simp]: "mirror_bit p mod 8 = 7 - p mod 8"
  unfolding mirror_bit_def by (rule byte_split) simp

lemma mirror_bit_mirror_bit [simp]: "mirror_bit (mirror_bit p) = p"
proof -
  have "7 - (7 - p mod 8) = p mod 8" by simp
  then show ?thesis by (simp add: mirror_bit_def [of "mirror_bit p"])
qed

lemma mirror_bit_inj: "mirror_bit p = mirror_bit q \<longleftrightarrow> p = q"
  by (metis mirror_bit_mirror_bit)

lemma mirror_bit_63:
  assumes "j < 64"
  shows "mirror_bit (8 * p + (63 - j)) = 8 * (p + 7 - j div 8) + j mod 8"
proof -
  define a where "a = j div 8"
  define b where "b = j mod 8"
  have ab: "j = 8 * a + b" "b < 8" "a < 8" using assms by (simp_all add: a_def b_def)
  then have "8 * p + (63 - j) = 8 * (p + 7 - a) + (7 - b)" by linarith
  then have "mirror_bit (8 * p + (63 - j)) = 8 * (p + 7 - a) + (7 - (7 - b))"
    by (simp only: mirror_bit_split)
  with ab show ?thesis by (simp add: a_def b_def)
qed

lemma bit_load_big_mirror:
  assumes "p + 8 \<le> length bytes" and "j < 64"
  shows "bit (be_word (take 8 (drop p bytes))) j = frame_bit bytes (mirror_bit (8 * p + (63 - j)))"
  using bit_load_big [OF assms] mirror_bit_63 [OF assms(2), of p] by (simp only:)

section \<open>Masks and sizes\<close>

lemma initial_mask_eq:
  assumes "1 \<le> unat n" and "unat n \<le> 64"
  shows "initial_mask n = Some (mask (unat n))"
proof -
  have m: "unat (n - 1) = unat n - 1"
    using assms by (simp add: unat_sub64)
  have "push_bit 1 (push_bit (unat n - 1) 1) - 1 = (mask (unat n) :: u64)"
  proof -
    have "push_bit 1 (push_bit (unat n - 1) 1) = (push_bit (unat n) 1 :: u64)"
      using assms push_bit_push_bit [of 1 "unat n - 1" "1::u64"] by (simp only: le_add_diff_inverse)
    then show ?thesis by (simp only: push_bit_eq_mult mask_eq_exp_minus_1 mult_1)
  qed
  then show ?thesis using assms m by (simp add: initial_mask_def shl64_ok)
qed

lemma initial_mask_signed_eq:
  assumes "1 \<le> unat n" and "unat n \<le> 64"
  shows "initial_mask_signed n = Some (NOT (mask (unat n - 1)))"
proof -
  have m: "unat (n - 1) = unat n - 1"
    using assms by (simp add: unat_sub64)
  have "push_bit (unat n - 1) 1 - 1 = (mask (unat n - 1) :: u64)"
    by (simp add: push_bit_eq_mult mask_eq_exp_minus_1)
  then show ?thesis using assms m by (simp add: initial_mask_signed_def shl64_ok)
qed

lemma initial_mask_None: "initial_mask n = None \<longleftrightarrow> unat n = 0 \<or> 64 < unat n"
proof (cases "unat n = 0")
  case True
  then have "n = 0" by (simp add: unat_eq_zero)
  then show ?thesis by (simp add: initial_mask_def shl64_def)
next
  case False
  then have "unat (n - 1) = unat n - 1" by (simp add: unat_sub64)
  with False show ?thesis by (auto simp: initial_mask_def shl64_def word_less_nat_alt)
qed

lemma unat_8_minus: "unat (7 - (s::u64) mod 8) = 7 - unat s mod 8"
proof -
  have "unat (s mod 8) \<le> unat (7::u64)" by (simp add: unat_mod8)
  then show ?thesis by (simp add: unat_sub64 unat_mod8)
qed

lemma unat_signal_nbytes:
  assumes "unat (sig_bit_size d) \<le> 64"
  shows "unat (signal_nbytes d) =
     (case sig_byte_order d of
        LittleEndian \<Rightarrow> (unat (sig_start_bit d) mod 8 + unat (sig_bit_size d) + 7) div 8
      | BigEndian \<Rightarrow> (unat (sig_bit_size d) + (7 - unat (sig_start_bit d) mod 8) + 7) div 8)"
proof -
  let ?s = "sig_start_bit d" and ?n = "sig_bit_size d"
  have "unat (?s mod 8 + ?n + 7) = unat ?s mod 8 + unat ?n + 7"
    using assms by (simp add: unat_add64 unat_mod8)
  moreover have "unat (?n + (7 - ?s mod 8) + 7) = unat ?n + (7 - unat ?s mod 8) + 7"
    using assms unat_add64 [of "?n + (7 - ?s mod 8)" 7] unat_add64 [of ?n "7 - ?s mod 8"]
    by (simp only: unat_8_minus) simp
  ultimately show ?thesis
    by (cases "sig_byte_order d") (simp_all add: signal_nbytes_def unat_div8)
qed

lemma unat_be_shift:
  assumes "unat s div 8 \<le> 7" and "1 \<le> unat n"
    and "8 * (unat s div 8) + (7 - unat s mod 8) + unat n \<le> 64"
  shows "unat (be_shift s n) + unat n + 8 * (unat s div 8) + (7 - unat s mod 8) = 64"
proof -
  have d: "unat (7 - s div 8) = 7 - unat s div 8"
    using assms by (simp add: unat_sub64 unat_div8)
  have e: "unat (8 * (7 - s div 8)) = 8 * (7 - unat s div 8)"
    using d unat_mul64 [of 8 "7 - s div 8"] by (simp del: right_diff_distrib_numeral)
  have f: "unat (8 * (7 - s div 8) + s mod 8) = 8 * (7 - unat s div 8) + unat s mod 8"
    using unat_add64 [of "8 * (7 - s div 8)" "s mod 8"] e by (simp add: unat_mod8)
  have g: "unat (n - 1) = unat n - 1"
    using assms by (simp add: unat_sub64)
  have m: "unat s mod 8 < 8" by simp
  have "unat (n - 1) \<le> unat (8 * (7 - s div 8) + s mod 8)"
    unfolding f g using assms m by linarith
  then have "unat (be_shift s n) = 8 * (7 - unat s div 8) + unat s mod 8 - (unat n - 1)"
    unfolding be_shift_def by (simp only: unat_sub64 f g)
  then show ?thesis using assms m by linarith
qed

lemma signal_layout_total:
  assumes "1 \<le> unat (sig_bit_size d)" and "unat (sig_bit_size d) \<le> 64"
  shows "\<exists>l. signal_layout d m = Some l"
proof -
  let ?s = "sig_start_bit d" and ?n = "sig_bit_size d"
  have nb: "unat ?s mod 8 < 7"
    if "\<not> unat (signal_nbytes d) \<le> 8" "sig_byte_order d = BigEndian"
    using assms that by (simp add: unat_signal_nbytes)
  have m57: "unat (?s mod 8 + 57) = unat ?s mod 8 + 57"
    by (simp add: unat_add64 unat_mod8)
  have le: "unat (?n + ?s mod 8 - 64) < 64"
    if "\<not> unat (signal_nbytes d) \<le> 8" "sig_byte_order d \<noteq> BigEndian"
  proof -
    have e: "unat (?n + ?s mod 8) = unat ?n + unat ?s mod 8"
      using assms by (simp add: unat_add64 unat_mod8)
    have "64 < unat ?n + unat ?s mod 8"
      using assms that by (cases "sig_byte_order d") (simp_all add: unat_signal_nbytes)
    then show ?thesis using e assms by (simp add: unat_sub64)
  qed
  show ?thesis
  proof (cases "unat (signal_nbytes d) \<le> 8")
    case True
    then show ?thesis by (simp add: signal_layout_def Let_def word_le_nat_alt)
  next
    case False
    have wrap: "shl64 1 (?s mod 8 + 57) \<noteq> None" if "sig_byte_order d = BigEndian"
      using nb [OF False that] m57 by (simp add: shl64_ok)
    have wrap': "shl64 1 (?n + ?s mod 8 - 64) \<noteq> None" if "sig_byte_order d \<noteq> BigEndian"
      using le [OF False that] by (simp add: shl64_ok)
    show ?thesis
      using wrap wrap' by (auto simp: signal_layout_def Let_def)
  qed
qed

section \<open>The two kinds of layout\<close>

text \<open>A window of 8 bytes from byte \<open>p0\<close> that holds the whole signal.\<close>

lemma window_shift:
  assumes n: "1 \<le> unat (sig_bit_size d)" "unat (sig_bit_size d) \<le> 64"
    and p: "p0 \<le> unat (sig_start_bit d) div 8"
    and w: "unat (sig_start_bit d) div 8 - p0 + unat (signal_nbytes d) \<le> 8"
    and f: "unat fsb = unat (sig_start_bit d) - 8 * p0"
  shows "sig_byte_order d = LittleEndian \<Longrightarrow>
           unat fsb + unat (sig_bit_size d) \<le> 64 \<and> 8 * p0 + unat fsb = unat (sig_start_bit d)"
    and "sig_byte_order d = BigEndian \<Longrightarrow>
           unat (be_shift fsb (sig_bit_size d)) + unat (sig_bit_size d) \<le> 64 \<and>
           8 * p0 + 64 = mirror_bit (unat (sig_start_bit d)) + unat (sig_bit_size d) +
             unat (be_shift fsb (sig_bit_size d))"
proof -
  let ?S = "unat (sig_start_bit d)" and ?N = "unat (sig_bit_size d)"
  define q where "q = ?S div 8 - p0"
  define r where "r = ?S mod 8"
  have S: "?S = 8 * (p0 + q) + r" and r: "r < 8"
    using p by (simp_all add: q_def r_def)
  have F: "unat fsb = 8 * q + r" using f S by simp
  then have Fd: "unat fsb div 8 = q" "unat fsb mod 8 = r" using r by (simp_all add: byte_split)
  {
    assume le: "sig_byte_order d = LittleEndian"
    have "q + (r + ?N + 7) div 8 \<le> 8"
      using w n le by (simp add: unat_signal_nbytes q_def r_def)
    then have "8 * q + r + ?N \<le> 64" by linarith
    then show "unat fsb + ?N \<le> 64 \<and> 8 * p0 + unat fsb = ?S" using F S by simp
  next
    assume be: "sig_byte_order d = BigEndian"
    have "q + (?N + (7 - r) + 7) div 8 \<le> 8"
      using w n be by (simp add: unat_signal_nbytes q_def r_def)
    then have b: "8 * q + (7 - r) + ?N \<le> 64" by linarith
    then have "q \<le> 7" using n by linarith
    then have e: "unat (be_shift fsb (sig_bit_size d)) + ?N + 8 * q + (7 - r) = 64"
      using unat_be_shift [of fsb "sig_bit_size d"] n b Fd by simp
    have m: "mirror_bit ?S = 8 * (p0 + q) + (7 - r)"
      using mirror_bit_split [OF r, of "p0 + q"] by (simp only: S)
    show "unat (be_shift fsb (sig_bit_size d)) + ?N \<le> 64 \<and>
        8 * p0 + 64 = mirror_bit ?S + ?N + unat (be_shift fsb (sig_bit_size d))"
      using e m by auto
  }
qed

definition narrow_layout :: "'a signal_data_scheme \<Rightarrow> layout \<Rightarrow> nat \<Rightarrow> bool" where
  "narrow_layout d l p0 \<longleftrightarrow>
     lay_alignment l \<noteq> signal_exceeds_64_bit_size_and_signal_does_not_fit_into_64_bit \<and>
     p0 = (if lay_alignment l = size_inbetween_first_64_bit then 0 else unat (lay_byte_pos l)) \<and>
     touched_bytes d = p0 + 8 \<and> lay_mask l = mask (unat (sig_bit_size d)) \<and>
     unat (lay_fixed_start_bit_0 l) + unat (sig_bit_size d) \<le> 64 \<and>
     (case sig_byte_order d of
        LittleEndian \<Rightarrow> 8 * p0 + unat (lay_fixed_start_bit_0 l) = unat (sig_start_bit d)
      | BigEndian \<Rightarrow> 8 * p0 + 64 = mirror_bit (unat (sig_start_bit d)) +
          unat (sig_bit_size d) + unat (lay_fixed_start_bit_0 l))"

definition wide_layout :: "'a signal_data_scheme \<Rightarrow> layout \<Rightarrow> bool" where
  "wide_layout d l \<longleftrightarrow>
     (let p = unat (sig_start_bit d) div 8; r = unat (sig_start_bit d) mod 8;
          n = unat (sig_bit_size d)
      in lay_alignment l = signal_exceeds_64_bit_size_and_signal_does_not_fit_into_64_bit \<and>
         unat (lay_byte_pos l) = p \<and> touched_bytes d = p + 9 \<and>
         (case sig_byte_order d of
            LittleEndian \<Rightarrow>
              64 < r + n \<and> unat (lay_fixed_start_bit_0 l) = r \<and>
              (\<exists>f. lay_fixed_start_bit_1 l = Some f \<and> unat f = 64 - r) \<and>
              lay_mask l = mask (r + n - 64)
          | BigEndian \<Rightarrow>
              64 < (7 - r) + n \<and> unat (lay_fixed_start_bit_0 l) = (7 - r) + n - 64 \<and>
              (\<exists>f. lay_fixed_start_bit_1 l = Some f \<and> unat f = 8 - ((7 - r) + n - 64)) \<and>
              lay_mask l = mask (r + 57)))"

lemma layout_conditions:
  assumes "unat (sig_bit_size d) \<le> 64"
  shows "sig_start_bit d div 8 + signal_nbytes d \<le> 8 \<longleftrightarrow>
           unat (sig_start_bit d) div 8 + unat (signal_nbytes d) \<le> 8"
    and "sig_start_bit d div 8 mod 8 + signal_nbytes d \<le> 8 \<longleftrightarrow>
           unat (sig_start_bit d) div 8 mod 8 + unat (signal_nbytes d) \<le> 8"
    and "signal_nbytes d \<le> 8 \<longleftrightarrow> unat (signal_nbytes d) \<le> 8"
proof -
  have nb: "unat (signal_nbytes d) \<le> 10"
    using assms by (auto simp: unat_signal_nbytes split: EByteOrder.split)
  have s: "unat (sig_start_bit d) div 8 < 2 ^ 61"
    using unat_lt64 [of "sig_start_bit d"] by simp
  show "sig_start_bit d div 8 + signal_nbytes d \<le> 8 \<longleftrightarrow>
      unat (sig_start_bit d) div 8 + unat (signal_nbytes d) \<le> 8"
    using nb s by (simp add: word_le_nat_alt unat_add64 unat_div8)
  show "sig_start_bit d div 8 mod 8 + signal_nbytes d \<le> 8 \<longleftrightarrow>
      unat (sig_start_bit d) div 8 mod 8 + unat (signal_nbytes d) \<le> 8"
    using nb by (simp add: word_le_nat_alt unat_add64 unat_div8 unat_mod8)
  show "signal_nbytes d \<le> 8 \<longleftrightarrow> unat (signal_nbytes d) \<le> 8"
    by (simp add: word_le_nat_alt)
qed

lemma unat_minus_bytes:
  assumes "unat p \<le> unat (s::u64) div 8"
  shows "unat (s - p * 8) = unat s - 8 * unat p"
proof -
  have b: "unat p * 8 \<le> unat s" using assms by linarith
  then have m: "unat (p * 8) = unat p * 8"
    using unat_lt64 [of s] unat_mul64 [of p 8] by simp
  then show ?thesis using b unat_sub64 [of "p * 8" s] by simp
qed

lemma layout_narrow:
  assumes n: "1 \<le> unat (sig_bit_size d)" "unat (sig_bit_size d) \<le> 64"
    and l: "signal_layout d (mask (unat (sig_bit_size d))) = Some l"
    and c: "unat (signal_nbytes d) \<le> 8"
  shows "\<exists>p0. narrow_layout d l p0"
proof -
  let ?s = "sig_start_bit d" and ?n = "sig_bit_size d"
  let ?p = "unat ?s div 8" and ?nb = "unat (signal_nbytes d)"
  let ?m = "mask (unat ?n) :: u64"
  note conds = layout_conditions [OF n(2)]
  note shift = window_shift [OF n]
  consider (first) "?p + ?nb \<le> 8" | (aligned) "\<not> ?p + ?nb \<le> 8" "?p mod 8 + ?nb \<le> 8"
    | (unaligned) "\<not> ?p + ?nb \<le> 8" "\<not> ?p mod 8 + ?nb \<le> 8" by blast
  then show ?thesis
  proof cases
    case first
    have "narrow_layout d l 0"
      using l first shift [of 0 ?s]
      by (cases "sig_byte_order d")
         (auto simp: signal_layout_def conds narrow_layout_def touched_bytes_def Let_def)
    then show ?thesis ..
  next
    case aligned
    let ?b = "?s div 8 - ?s div 8 mod 8"
    have b: "unat ?b = ?p - ?p mod 8"
      by (simp add: unat_sub64 unat_div8 unat_mod8)
    have f: "unat (?s - ?b * 8) = unat ?s - 8 * (?p - ?p mod 8)"
      using unat_minus_bytes [of ?b ?s] b by simp
    have "narrow_layout d l (?p - ?p mod 8)"
      using l aligned shift [of "?p - ?p mod 8" "?s - ?b * 8", OF _ _ f] n b
      by (cases "sig_byte_order d")
         (auto simp: signal_layout_def conds narrow_layout_def touched_bytes_def Let_def)
    then show ?thesis ..
  next
    case unaligned
    have b: "unat (?s div 8) = ?p" by (simp add: unat_div8)
    have f: "unat (?s - ?s div 8 * 8) = unat ?s - 8 * ?p"
      using unat_minus_bytes [of "?s div 8" ?s] b by simp
    have "narrow_layout d l ?p"
      using l unaligned c shift [of ?p "?s - ?s div 8 * 8", OF _ _ f] n b
      by (cases "sig_byte_order d")
         (auto simp: signal_layout_def conds narrow_layout_def touched_bytes_def Let_def)
    then show ?thesis ..
  qed
qed

lemma layout_wide:
  assumes n: "1 \<le> unat (sig_bit_size d)" "unat (sig_bit_size d) \<le> 64"
    and l: "signal_layout d m = Some l" and c: "\<not> unat (signal_nbytes d) \<le> 8"
  shows "wide_layout d l"
proof -
  let ?s = "sig_start_bit d" and ?n = "sig_bit_size d"
  define r where "r = unat ?s mod 8"
  note conds = layout_conditions [OF n(2)]
  have m8: "unat (?s mod 8) = r" by (simp add: r_def unat_mod8)
  have c1: "\<not> unat ?s div 8 + unat (signal_nbytes d) \<le> 8"
    "\<not> unat ?s div 8 mod 8 + unat (signal_nbytes d) \<le> 8" using c by auto
  have p: "unat (?s div 8) = unat ?s div 8" by (simp add: unat_div8)
  show ?thesis
  proof (cases "sig_byte_order d")
    case LittleEndian
    have w: "64 < r + unat ?n"
      using c n by (simp add: LittleEndian unat_signal_nbytes r_def)
    have k: "unat (?n + ?s mod 8 - 64) = r + unat ?n - 64"
      using w n m8 unat_sub64 [of 64 "?n + ?s mod 8"] unat_add64 [of ?n "?s mod 8"]
      by (simp add: r_def)
    have f0: "unat (?s - ?s div 8 * 8) = r"
      using unat_minus_bytes [of "?s div 8" ?s] p by (simp add: r_def minus_mult_div_eq_mod)
    have f1: "unat (64 - ?s mod 8) = 64 - r"
      using m8 by (simp add: unat_sub64 r_def)
    have "r + unat ?n - 64 < 64" using n by (simp add: r_def)
    then show ?thesis
      using l c c1 w k f0 f1 p
      by (auto simp: LittleEndian signal_layout_def conds wide_layout_def touched_bytes_def
          Let_def shl64_ok r_def push_bit_eq_mult mask_eq_exp_minus_1)
  next
    case BigEndian
    define k where "k = (7 - ?s mod 8) + ?n - 64"
    have w: "64 < (7 - r) + unat ?n"
      using c n by (simp add: BigEndian unat_signal_nbytes r_def)
    have k: "unat k = (7 - r) + unat ?n - 64"
      using w n unat_sub64 [of 64 "(7 - ?s mod 8) + ?n"] unat_add64 [of "7 - ?s mod 8" ?n]
        unat_8_minus [of ?s] by (simp only: r_def k_def) simp
    have f1: "unat (8 - k) = 8 - unat k"
      using k n unat_sub64 [of k 8] by simp
    have "unat (?s mod 8 + 57) = r + 57"
      using m8 by (simp add: unat_add64 r_def)
    moreover have "r + 57 < 64" using w n by (simp add: r_def)
    ultimately have sh: "shl64 1 (?s mod 8 + 57) = Some (push_bit (r + 57) 1)"
      by (simp add: shl64_ok)
    have "signal_layout d m = Some
        \<lparr>lay_alignment = signal_exceeds_64_bit_size_and_signal_does_not_fit_into_64_bit,
         lay_byte_pos = ?s div 8, lay_fixed_start_bit_0 = k, lay_fixed_start_bit_1 = Some (8 - k),
         lay_mask = push_bit (r + 57) 1 - 1\<rparr>"
      unfolding signal_layout_def Let_def k_def
      by (simp only: BigEndian conds c c1 if_False if_True refl sh bind.bind_lunit)
    then show ?thesis
      using l w k f1 p
      by (simp add: BigEndian wide_layout_def touched_bytes_def Let_def c c1 push_bit_eq_mult
          mask_eq_exp_minus_1 flip: r_def)
  qed
qed

end
