(* ===== verification/Decoding.thy ===== *)
theory Decoding
  imports Layout
begin

text \<open>
  Every path of \<open>template_decode\<close> computes \<open>spec_decode\<close>, and reads the buffer up to
  \<open>touched_bytes\<close> exactly.
\<close>

section \<open>Sign extension\<close>

lemma sign_extend_bits:
  assumes n: "1 \<le> n" "n \<le> 64" and top: "\<And>j. n \<le> j \<Longrightarrow> \<not> bit data j"
  shows "bit (sign_extend vt (NOT (mask (n - 1))) data) j \<longleftrightarrow>
     j < 64 \<and> (if j < n then bit data j else vt = Signed \<and> bit data (n - 1))"
proof -
  have "data AND NOT (mask (n - 1)) = 0 \<longleftrightarrow> \<not> bit data (n - 1)"
  proof
    assume z: "data AND NOT (mask (n - 1)) = 0"
    have "bit (NOT (mask (n - 1)) :: u64) (n - 1)"
      using n by (simp add: bit_not64 bit_mask_iff)
    moreover have "n - 1 < 64" using n by simp
    ultimately show "\<not> bit data (n - 1)"
      using z unfolding and_zero_iff_bits by blast
  next
    assume b: "\<not> bit data (n - 1)"
    have "j < n - 1" if "bit data j" for j
    proof (rule ccontr)
      assume "\<not> j < n - 1"
      then have "j = n - 1 \<or> n \<le> j" by linarith
      with b top that show False by blast
    qed
    then show "data AND NOT (mask (n - 1)) = 0"
      by (auto simp: and_zero_iff_bits bit_not64 bit_mask_iff)
  qed
  note z = this
  show ?thesis
  proof (cases "vt = Signed \<and> bit data (n - 1)")
    case True
    then have s: "sign_extend vt (NOT (mask (n - 1))) data = data OR NOT (mask (n - 1))"
      using z by (simp add: sign_extend_def)
    show ?thesis
    proof (cases "j < n - 1")
      case True
      then show ?thesis unfolding s using n by (auto simp: bit_or_iff bit_not64 bit_mask_iff)
    next
      case False
      then have "j < n \<longrightarrow> j = n - 1" using n by linarith
      then show ?thesis unfolding s using n False \<open>vt = Signed \<and> bit data (n - 1)\<close>
        by (auto simp: bit_or_iff bit_not64 bit_mask_iff dest: bit_u64_lt)
    qed
  next
    case False
    then have "sign_extend vt (NOT (mask (n - 1))) data = data"
      using z by (auto simp: sign_extend_def)
    then show ?thesis using False top [of j] by (auto dest: bit_u64_lt)
  qed
qed

section \<open>The window of a signal\<close>

text \<open>The raw bits of a signal as a word, before the sign is extended.\<close>

definition raw_bits :: "'a signal_data_scheme \<Rightarrow> u8 list \<Rightarrow> u64 \<Rightarrow> bool" where
  "raw_bits d fr w \<longleftrightarrow>
     (\<forall>j. bit w j \<longleftrightarrow> j < unat (sig_bit_size d) \<and> frame_bit fr (sig_pos d j))"

lemma sum_of_bool_bit:
  "bit (horner_sum of_bool 2 (map P [0..<64]) :: u64) j \<longleftrightarrow> j < 64 \<and> P j"
  using nth_map_upt [of j 64 0 P]
  by (auto simp: bit_horner_sum_bit_iff simp del: upt_rec_numeral upt_conv_Cons)

lemma bit_signal_value: "bit (signal_value d f) j \<longleftrightarrow> j < 64 \<and> value_bit d f j"
  by (simp add: signal_value_def sum_of_bool_bit)

lemma bit_spec_decode:
  "bit (spec_decode d fr) j \<longleftrightarrow> j < 64 \<and> value_bit d (\<lambda>j. frame_bit fr (sig_pos d j)) j"
  by (simp add: spec_decode_def bit_signal_value)

lemma raw_bits_unsigned:
  assumes "raw_bits d fr w" "\<not> sign_extended d" "unat (sig_bit_size d) \<le> 64"
  shows "spec_decode d fr = w"
proof (rule u64_eqI)
  fix j :: nat assume "j < 64"
  then show "bit (spec_decode d fr) j = bit w j"
    using assms(1,2) by (simp add: bit_spec_decode raw_bits_def value_bit_def Let_def)
qed

lemma raw_bits_integer:
  assumes "raw_bits d fr w" "sig_extended_value_type d = EVT_Integer"
    and n: "1 \<le> unat (sig_bit_size d)" "unat (sig_bit_size d) \<le> 64"
  shows "sign_extend (sig_value_type d) (NOT (mask (unat (sig_bit_size d) - 1))) w = spec_decode d fr"
proof (rule u64_eqI)
  fix j :: nat assume j: "j < 64"
  have top: "\<not> bit w j" if "unat (sig_bit_size d) \<le> j" for j
    using assms(1) that by (simp add: raw_bits_def)
  show "bit (sign_extend (sig_value_type d) (NOT (mask (unat (sig_bit_size d) - 1))) w) j =
      bit (spec_decode d fr) j"
    using sign_extend_bits [OF n top] assms j
    by (auto simp: bit_spec_decode raw_bits_def value_bit_def sign_extended_def)
qed

lemma narrow_window_little:
  assumes l: "narrow_layout d l p" "sig_byte_order d = LittleEndian" and len: "p + 8 \<le> length fr"
  shows "raw_bits d fr (drop_bit (unat (lay_fixed_start_bit_0 l)) (le_word (take 8 (drop p fr))) AND
           lay_mask l)"
  unfolding raw_bits_def
proof (intro allI)
  fix j
  let ?f = "unat (lay_fixed_start_bit_0 l)" and ?n = "unat (sig_bit_size d)"
  have b: "?f + ?n \<le> 64" "8 * p + ?f = unat (sig_start_bit d)" "lay_mask l = mask ?n"
    using l by (simp_all add: narrow_layout_def)
  show "bit (drop_bit ?f (le_word (take 8 (drop p fr))) AND lay_mask l) j \<longleftrightarrow>
      j < ?n \<and> frame_bit fr (sig_pos d j)"
  proof (cases "j < ?n")
    case True
    have e: "8 * p + (?f + j) = sig_pos d j"
      using b by (simp add: sig_pos_def l(2))
    show ?thesis
      using True b bit_load_little [OF len, of "?f + j"] unfolding e
      by (simp add: bit_drop64 bit_and_iff bit_mask_iff)
  qed (simp add: b bit_and_iff bit_mask_iff)
qed

lemma narrow_window_big:
  assumes l: "narrow_layout d l p" "sig_byte_order d = BigEndian" and len: "p + 8 \<le> length fr"
  shows "raw_bits d fr (drop_bit (unat (lay_fixed_start_bit_0 l)) (be_word (take 8 (drop p fr))) AND
           lay_mask l)"
  unfolding raw_bits_def
proof (intro allI)
  fix j
  let ?f = "unat (lay_fixed_start_bit_0 l)" and ?n = "unat (sig_bit_size d)"
  have b: "?f + ?n \<le> 64" "8 * p + 64 = mirror_bit (unat (sig_start_bit d)) + ?n + ?f"
    "lay_mask l = mask ?n"
    using l by (simp_all add: narrow_layout_def)
  show "bit (drop_bit ?f (be_word (take 8 (drop p fr))) AND lay_mask l) j \<longleftrightarrow>
      j < ?n \<and> frame_bit fr (sig_pos d j)"
  proof (cases "j < ?n")
    case True
    have "8 * p + (63 - (?f + j)) = mirror_bit (unat (sig_start_bit d)) + (?n - 1 - j)"
      using b True by linarith
    then have e: "mirror_bit (8 * p + (63 - (?f + j))) = sig_pos d j"
      by (simp add: sig_pos_def l(2))
    show ?thesis
      using True b bit_load_big_mirror [OF len, of "?f + j"] unfolding e
      by (simp add: bit_drop64 bit_and_iff bit_mask_iff)
  qed (simp add: b bit_and_iff bit_mask_iff)
qed

lemma wide_window_little:
  assumes l: "wide_layout d l" "sig_byte_order d = LittleEndian" "unat (sig_bit_size d) \<le> 64"
    and p: "p = unat (sig_start_bit d) div 8" and len: "p + 9 \<le> length fr"
    and f1: "lay_fixed_start_bit_1 l = Some f1"
  shows "raw_bits d fr
     (drop_bit (unat (lay_fixed_start_bit_0 l)) (le_word (take 8 (drop p fr))) OR
      push_bit (unat f1) (ucast (fr ! (p + 8)) AND lay_mask l))"
  unfolding raw_bits_def
proof (intro allI)
  fix j
  define r where "r = unat (sig_start_bit d) mod 8"
  let ?n = "unat (sig_bit_size d)"
  have b: "64 < r + ?n" "unat (lay_fixed_start_bit_0 l) = r" "unat f1 = 64 - r"
    "lay_mask l = mask (r + ?n - 64)" and r: "r < 8" "r + 8 * p = unat (sig_start_bit d)"
    using l f1 by (simp_all add: wide_layout_def Let_def r_def p)
  let ?lo = "bit (drop_bit r (le_word (take 8 (drop p fr)))) j"
  let ?hi = "bit (push_bit (64 - r) (ucast (fr ! (p + 8)) AND mask (r + ?n - 64) :: u64)) j"
  have s: "sig_pos d j = 8 * p + (r + j)" using r by (simp add: sig_pos_def l(2))
  have lo: "?lo \<longleftrightarrow> r + j < 64 \<and> frame_bit fr (sig_pos d j)"
    using bit_load_little [of p fr "r + j"] len unfolding s
    by (auto simp: bit_drop64 dest: bit_u64_lt)
  have hi: "?hi \<longleftrightarrow> 64 - r \<le> j \<and> j < ?n \<and> frame_bit fr (sig_pos d j)"
  proof (cases "64 - r \<le> j \<and> j < ?n")
    case True
    then have k: "j - (64 - r) < 8" using r(1) l(3) by linarith
    have "8 * p + (r + j) = 8 * (p + 8) + (j - (64 - r))" using True r(1) by arith
    then have "frame_bit fr (sig_pos d j) \<longleftrightarrow> bit (fr ! (p + 8)) (j - (64 - r))"
      using k unfolding s by (simp only: frame_bit_def byte_split)
    moreover have "j - (64 - r) < r + ?n - 64" "j < 64" "j - (64 - r) < 64"
      using True l(3) b(1) r(1) by linarith+
    ultimately show ?thesis
      using True by (simp add: bit_push64 bit_and_iff bit_mask_iff bit_ucast_u8)
  next
    case False
    have "j - (64 - r) < r + ?n - 64 \<Longrightarrow> 64 - r \<le> j \<Longrightarrow> j < ?n" using r(1) by linarith
    with False show ?thesis
      by (auto simp: bit_push64 bit_and_iff bit_mask_iff)
  qed
  show "bit (drop_bit (unat (lay_fixed_start_bit_0 l)) (le_word (take 8 (drop p fr))) OR
      push_bit (unat f1) (ucast (fr ! (p + 8)) AND lay_mask l)) j \<longleftrightarrow>
      j < ?n \<and> frame_bit fr (sig_pos d j)"
    unfolding b bit_or_iff lo hi using b(1) r(1) by (auto simp: less_diff_conv)
qed

lemma wide_window_big:
  assumes l: "wide_layout d l" "sig_byte_order d = BigEndian" "unat (sig_bit_size d) \<le> 64"
    and p: "p = unat (sig_start_bit d) div 8" and len: "p + 9 \<le> length fr"
    and f1: "lay_fixed_start_bit_1 l = Some f1"
  shows "raw_bits d fr
     (push_bit (unat (lay_fixed_start_bit_0 l)) (be_word (take 8 (drop p fr)) AND lay_mask l) OR
      drop_bit (unat f1) (ucast (fr ! (p + 8))))"
  unfolding raw_bits_def
proof (intro allI)
  fix j
  define r where "r = unat (sig_start_bit d) mod 8"
  let ?n = "unat (sig_bit_size d)"
  define k where "k = (7 - r) + ?n - 64"
  have b: "unat (lay_fixed_start_bit_0 l) = k" "unat f1 = 8 - k" "lay_mask l = mask (r + 57)"
    and r: "r < 8" "64 < (7 - r) + ?n" and rp: "unat (sig_start_bit d) = 8 * p + r"
    using l f1 by (simp_all add: wide_layout_def Let_def r_def k_def p)
  have kn: "k + (r + 57) = ?n" "1 \<le> k" "k < 8" using r l(3) by (simp_all add: k_def)
  have m: "mirror_bit (unat (sig_start_bit d)) = 8 * p + (7 - r)"
    using mirror_bit_split [OF r(1), of p] by (simp only: rp)
  have s: "sig_pos d j = mirror_bit (8 * p + (7 - r) + (?n - 1 - j))"
    by (simp add: sig_pos_def l(2) m)
  let ?lo = "bit (push_bit k (be_word (take 8 (drop p fr)) AND mask (r + 57))) j"
  let ?hi = "bit (drop_bit (8 - k) (ucast (fr ! (p + 8)) :: u64)) j"
  have lo: "?lo \<longleftrightarrow> k \<le> j \<and> j < ?n \<and> frame_bit fr (sig_pos d j)"
  proof (cases "k \<le> j \<and> j < ?n")
    case True
    then have "8 * p + (63 - (j - k)) = 8 * p + (7 - r) + (?n - 1 - j)" "j - k < 64"
      using kn r l(3) by linarith+
    then have "bit (be_word (take 8 (drop p fr))) (j - k) \<longleftrightarrow> frame_bit fr (sig_pos d j)"
      using bit_load_big_mirror [of p fr "j - k"] len unfolding s by simp
    moreover have "j - k < r + 57" "j < 64" "j - k < 64" using True kn l(3) by linarith+
    ultimately show ?thesis
      using True by (simp add: bit_push64 bit_and_iff bit_mask_iff)
  next
    case False
    have "j - k < r + 57 \<Longrightarrow> k \<le> j \<Longrightarrow> j < ?n" using kn by linarith
    with False show ?thesis by (auto simp: bit_push64 bit_and_iff bit_mask_iff)
  qed
  have hi: "?hi \<longleftrightarrow> j < k \<and> frame_bit fr (sig_pos d j)"
  proof (cases "j < k")
    case True
    then have i: "k - 1 - j < 8" and e': "7 - (k - 1 - j) = 8 - k + j" "8 - k + j < 8"
      using kn by linarith+
    have e: "8 * p + (7 - r) + (?n - 1 - j) = 8 * (p + 8) + (k - 1 - j)"
    proof -
      obtain q i where q: "7 = r + q" and i: "k = Suc (j + i)"
      proof
        show "7 = r + (7 - r)" using r(1) by simp
        show "k = Suc (j + (k - Suc j))" using True by simp
      qed
      have "?n = Suc (j + i) + (r + 57)" using kn(1) i by simp
      then show ?thesis using q i by simp
    qed
    have "sig_pos d j = 8 * (p + 8) + (8 - k + j)"
      unfolding s e mirror_bit_split [OF i] e'(1) ..
    then have "frame_bit fr (sig_pos d j) \<longleftrightarrow> bit (fr ! (p + 8)) (8 - k + j)"
      using e'(2) by (simp only: frame_bit_def byte_split)
    then show ?thesis using True by (simp add: bit_drop64 bit_ucast_u8)
  next
    case False
    then have "\<not> 8 - k + j < 8" using kn by linarith
    with False show ?thesis by (auto simp: bit_drop64 bit_ucast_u8 dest: bit_u8_lt)
  qed
  show "bit (push_bit (unat (lay_fixed_start_bit_0 l))
        (be_word (take 8 (drop p fr)) AND lay_mask l) OR
      drop_bit (unat f1) (ucast (fr ! (p + 8)))) j \<longleftrightarrow> j < ?n \<and> frame_bit fr (sig_pos d j)"
    unfolding b bit_or_iff lo hi using kn by auto
qed

section \<open>Decoding\<close>

text \<open>What the constructor leaves in a signal.\<close>

lemma SignalImpl_new_defined:
  "SignalImpl_new pf ms d \<noteq> None \<longleftrightarrow> 1 \<le> unat (sig_bit_size d) \<and> unat (sig_bit_size d) \<le> 64"
proof (cases "1 \<le> unat (sig_bit_size d) \<and> unat (sig_bit_size d) \<le> 64")
  case True
  then have n: "1 \<le> unat (sig_bit_size d)" "unat (sig_bit_size d) \<le> 64" by simp_all
  obtain l where "signal_layout d (mask (unat (sig_bit_size d))) = Some l"
    using signal_layout_total [OF n] by blast
  then show ?thesis
    using n by (simp add: SignalImpl_new_def initial_mask_eq initial_mask_signed_eq Let_def)
next
  case False
  then have "initial_mask (sig_bit_size d) = None" by (auto simp: initial_mask_None)
  then show ?thesis using False by (simp add: SignalImpl_new_def)
qed

lemma SignalImpl_new_SomeD:
  assumes "SignalImpl_new pf ms d = Some sigi"
  obtains l where "signal_layout d (mask (unat (sig_bit_size d))) = Some l"
    and "1 \<le> unat (sig_bit_size d)" and "unat (sig_bit_size d) \<le> 64"
    and "signal_data.truncate sigi = d" and "sig_mask sigi = lay_mask l"
    and "sig_mask_signed sigi = NOT (mask (unat (sig_bit_size d) - 1))"
    and "sig_fixed_start_bit_0 sigi = lay_fixed_start_bit_0 l"
    and "sig_fixed_start_bit_1 sigi = lay_fixed_start_bit_1 l"
    and "sig_byte_pos sigi = lay_byte_pos l"
    and "sig_error sigi = constructor_error pf ms d"
    and "sig_decode sigi = Some (Template_decode (lay_alignment l) (sig_byte_order d)
           (sig_value_type d) (sig_extended_value_type d))"
    and "sig_raw_to_phys sigi = phys_func (sig_extended_value_type d) (sig_value_type d)"
    and "sig_phys_to_raw sigi = phys_func (sig_extended_value_type d) (sig_value_type d)"
proof -
  have n: "1 \<le> unat (sig_bit_size d)" "unat (sig_bit_size d) \<le> 64"
    using SignalImpl_new_defined [of pf ms d] assms by simp_all
  obtain l where l: "signal_layout d (mask (unat (sig_bit_size d))) = Some l"
    using signal_layout_total [OF n] by blast
  have s: "sigi = signal_data.extend d (SignalImpl.fields
       (lay_mask l) (NOT (mask (unat (sig_bit_size d) - 1))) (lay_fixed_start_bit_0 l)
       (lay_fixed_start_bit_1 l) (lay_byte_pos l) (constructor_error pf ms d)
       (Some (Template_decode (lay_alignment l) (sig_byte_order d) (sig_value_type d)
          (sig_extended_value_type d)))
       (phys_func (sig_extended_value_type d) (sig_value_type d))
       (phys_func (sig_extended_value_type d) (sig_value_type d)))"
    using assms n l
    by (simp add: SignalImpl_new_def initial_mask_eq initial_mask_signed_eq Let_def make_decode_eq)
  show ?thesis
    using l n by (rule that) (simp_all add: s signal_data.defs SignalImpl.defs)
qed

lemma truncate_sel:
  assumes "signal_data.truncate sigi = d"
  shows "sig_name sigi = sig_name d" "sig_start_bit sigi = sig_start_bit d"
    "sig_bit_size sigi = sig_bit_size d" "sig_byte_order sigi = sig_byte_order d"
    "sig_value_type sigi = sig_value_type d" "sig_factor sigi = sig_factor d"
    "sig_offset sigi = sig_offset d"
    "sig_extended_value_type sigi = sig_extended_value_type d"
    "sig_multiplexer_indicator sigi = sig_multiplexer_indicator d"
    "sig_multiplexer_switch_value sigi = sig_multiplexer_switch_value d"
    "sig_signal_multiplexer_values sigi = sig_signal_multiplexer_values d"
    "sig_attribute_values sigi = sig_attribute_values d"
    "sig_minimum sigi = sig_minimum d" "sig_maximum sigi = sig_maximum d"
    "sig_unit sigi = sig_unit d" "sig_receivers sigi = sig_receivers d"
    "sig_comment sigi = sig_comment d"
    "sig_value_encoding_descriptions sigi = sig_value_encoding_descriptions d"
  unfolding assms [symmetric] by (simp_all add: signal_data.defs)

lemma sig_pos_truncate:
  assumes "signal_data.truncate sigi = d"
  shows "sig_pos sigi = sig_pos d"
  by (intro ext) (simp add: sig_pos_def truncate_sel [OF assms])

lemma load_converted:
  assumes "p + 8 \<le> length fr"
  shows "\<exists>w. load_u64 native fr p = Some w \<and>
     (if bo = BigEndian then native_to_big_inplace native w else native_to_little_inplace native w) =
     (if bo = BigEndian then be_word else le_word) (take 8 (drop p fr))"
proof -
  obtain w where w: "load_u64 native fr p = Some w"
    using assms load_u64_None [of native fr p] by (cases "load_u64 native fr p") auto
  then show ?thesis
    using load_big [of native fr p] load_little [of native fr p] assms by simp
qed

lemma template_decode_narrow:
  assumes "p = (if a = size_inbetween_first_64_bit then 0 else unat (sig_byte_pos sigi))"
    and "a \<noteq> signal_exceeds_64_bit_size_and_signal_does_not_fit_into_64_bit"
  shows "template_decode native a bo vt evt sigi fr = do {
     data \<leftarrow> load_u64 native fr p;
     let data = (if bo = BigEndian then native_to_big_inplace native data
                 else native_to_little_inplace native data);
     if evt = EVT_Double then Some data
     else do {
       data \<leftarrow> shr64 data (sig_fixed_start_bit_0 sigi);
       let data = data AND sig_mask sigi;
       if evt = EVT_Float then Some data
       else Some (sign_extend vt (sig_mask_signed sigi) data) } }"
  using assms by (cases a) (simp_all add: template_decode_def)

lemma decode_narrow:
  assumes new: "SignalImpl_new pf ms d = Some sigi" and ws: "well_sized d"
    and c: "unat (signal_nbytes d) \<le> 8"
  shows "Decode native sigi fr =
     (if touched_bytes d \<le> length fr then Some (spec_decode d fr) else None)"
proof -
  let ?n = "unat (sig_bit_size d)"
  obtain l where l: "signal_layout d (mask ?n) = Some l"
    and n: "1 \<le> ?n" "?n \<le> 64" and tr: "signal_data.truncate sigi = d"
    and f: "sig_mask sigi = lay_mask l" "sig_mask_signed sigi = NOT (mask (?n - 1))"
      "sig_fixed_start_bit_0 sigi = lay_fixed_start_bit_0 l" "sig_byte_pos sigi = lay_byte_pos l"
      "sig_decode sigi = Some (Template_decode (lay_alignment l) (sig_byte_order d)
           (sig_value_type d) (sig_extended_value_type d))"
    using new by (rule SignalImpl_new_SomeD)
  obtain p where nl: "narrow_layout d l p" using layout_narrow [OF n l c] by blast
  have a: "lay_alignment l \<noteq> signal_exceeds_64_bit_size_and_signal_does_not_fit_into_64_bit"
    and p: "p = (if lay_alignment l = size_inbetween_first_64_bit then 0
      else unat (sig_byte_pos sigi))"
    and t: "touched_bytes d = p + 8" and m: "lay_mask l = mask ?n"
    and fit: "unat (lay_fixed_start_bit_0 l) + ?n \<le> 64"
    using nl by (simp_all add: narrow_layout_def f)
  show ?thesis
  proof (cases "p + 8 \<le> length fr")
    case False
    then have "load_u64 native fr p = None" by (simp add: load_u64_None)
    then show ?thesis using False by (simp add: Decode_def f template_decode_narrow [OF p a] t)
  next
    case True
    let ?W = "(if sig_byte_order d = BigEndian then be_word else le_word) (take 8 (drop p fr))"
    let ?w = "drop_bit (unat (lay_fixed_start_bit_0 l)) ?W AND lay_mask l"
    obtain w0 where w0: "load_u64 native fr p = Some w0"
      and W: "(if sig_byte_order d = BigEndian then native_to_big_inplace native w0
        else native_to_little_inplace native w0) = ?W"
      using load_converted [OF True, of native "sig_byte_order d"] by blast
    have raw: "raw_bits d fr ?w"
      using narrow_window_big [OF nl _ True] narrow_window_little [OF nl _ True]
      by (cases "sig_byte_order d") auto
    have sh: "shr64 x (lay_fixed_start_bit_0 l) = Some (drop_bit (unat (lay_fixed_start_bit_0 l)) x)"
      for x using fit n by (intro shr64_ok) simp
    have dbl: "?w = ?W" if "sig_extended_value_type d = EVT_Double"
    proof -
      have n64: "?n = 64" using ws that by (simp add: well_sized_def)
      then have "unat (lay_fixed_start_bit_0 l) = 0" using fit by simp
      then show ?thesis using n64 by (intro u64_eqI) (simp add: m bit_and_iff bit_mask_iff)
    qed
    have "Decode native sigi fr =
      (if sig_extended_value_type d = EVT_Double then Some ?W
       else if sig_extended_value_type d = EVT_Float then Some ?w
       else Some (sign_extend (sig_value_type d) (NOT (mask (?n - 1))) ?w))"
      using W by (simp add: Decode_def f template_decode_narrow [OF p a] w0 sh Let_def)
    also have "\<dots> = Some (spec_decode d fr)"
      using raw_bits_integer [OF raw _ n] raw_bits_unsigned [OF raw _ n(2)] dbl
      by (cases "sig_extended_value_type d") (simp_all add: sign_extended_def)
    finally show ?thesis using True by (simp add: t)
  qed
qed

lemma decode_wide:
  assumes new: "SignalImpl_new pf ms d = Some sigi"
    and c: "\<not> unat (signal_nbytes d) \<le> 8"
  shows "Decode native sigi fr =
     (if touched_bytes d \<le> length fr then Some (spec_decode d fr) else None)"
proof -
  let ?n = "unat (sig_bit_size d)"
  obtain l where l: "signal_layout d (mask ?n) = Some l"
    and n: "1 \<le> ?n" "?n \<le> 64" and tr: "signal_data.truncate sigi = d"
    and f: "sig_mask sigi = lay_mask l" "sig_mask_signed sigi = NOT (mask (?n - 1))"
      "sig_fixed_start_bit_0 sigi = lay_fixed_start_bit_0 l"
      "sig_fixed_start_bit_1 sigi = lay_fixed_start_bit_1 l" "sig_byte_pos sigi = lay_byte_pos l"
      "sig_decode sigi = Some (Template_decode (lay_alignment l) (sig_byte_order d)
           (sig_value_type d) (sig_extended_value_type d))"
    using new by (rule SignalImpl_new_SomeD)
  have wl: "wide_layout d l" by (rule layout_wide [OF n l c])
  define p where "p = unat (sig_start_bit d) div 8"
  have a: "lay_alignment l = signal_exceeds_64_bit_size_and_signal_does_not_fit_into_64_bit"
    and p: "unat (lay_byte_pos l) = p" and t: "touched_bytes d = p + 9"
    using wl by (simp_all add: wide_layout_def Let_def p_def)
  obtain f1 where f1: "lay_fixed_start_bit_1 l = Some f1"
    using wl by (cases "sig_byte_order d") (auto simp: wide_layout_def Let_def)
  have b0: "unat (lay_fixed_start_bit_0 l) < 64" and b1: "unat f1 < 64"
    using wl f1 n by (cases "sig_byte_order d"; auto simp: wide_layout_def Let_def)+
  consider "length fr < p + 8" | "length fr = p + 8" | "p + 9 \<le> length fr" by linarith
  then show ?thesis
  proof cases
    case 1
    then have "load_u64 native fr p = None" by (simp add: load_u64_None)
    then show ?thesis using 1 by (simp add: Decode_def f template_decode_def a p t)
  next
    case 2
    then have "load_u8 fr (p + 8) = None" by (simp add: load_u8_def)
    then show ?thesis using 2 by (simp add: Decode_def f template_decode_def a p t)
  next
    case 3
    then have len: "p + 8 \<le> length fr" by simp
    have l8: "load_u8 fr (p + 8) = Some (ucast (fr ! (p + 8)))" using 3 by (simp add: load_u8_def)
    obtain w0 where w0: "load_u64 native fr p = Some w0"
      and W: "(if sig_byte_order d = BigEndian then native_to_big_inplace native w0
        else native_to_little_inplace native w0) =
        (if sig_byte_order d = BigEndian then be_word else le_word) (take 8 (drop p fr))"
      using load_converted [OF len, of native "sig_byte_order d"] by blast
    obtain w where raw: "raw_bits d fr w"
      and dec: "Decode native sigi fr =
        (if sig_extended_value_type d = EVT_Float \<or> sig_extended_value_type d = EVT_Double
         then Some w else Some (sign_extend (sig_value_type d) (NOT (mask (?n - 1))) w))"
    proof (cases "sig_byte_order d")
      case LittleEndian
      show ?thesis
        using W b0 b1
        by (intro that [OF wide_window_little [OF wl LittleEndian n(2) p_def 3 f1]])
           (simp add: LittleEndian Decode_def f template_decode_def a p w0 l8 f1
            shr64_ok shl64_ok Let_def)
    next
      case BigEndian
      show ?thesis
        using W b0 b1
        by (intro that [OF wide_window_big [OF wl BigEndian n(2) p_def 3 f1]])
           (simp add: BigEndian Decode_def f template_decode_def a p w0 l8 f1
            shr64_ok shl64_ok Let_def)
    qed
    have "Decode native sigi fr = Some (spec_decode d fr)"
      using raw_bits_integer [OF raw _ n] raw_bits_unsigned [OF raw _ n(2)]
      by (cases "sig_extended_value_type d") (simp_all add: dec sign_extended_def)
    then show ?thesis using 3 by (simp add: t)
  qed
qed

lemma decode_spec:
  assumes "SignalImpl_new pf ms d = Some sigi" and "well_sized d"
  shows "Decode native sigi fr =
     (if touched_bytes d \<le> length fr then Some (spec_decode d fr) else None)"
  using decode_narrow [OF assms] decode_wide [OF assms(1)] by blast

end
