(* ===== verification/Encoding.thy ===== *)
theory Encoding
  imports Decoding
begin

text \<open>
  \<open>encode\<close> writes the bits of the raw value to \<open>sig_pos\<close> and leaves every other bit of the
  buffer as it was.
\<close>

section \<open>One store\<close>

lemma store_bit_None: "length b \<le> unat src div 8 \<Longrightarrow> store_bit b src v = None"
  by (simp add: store_bit_def unat_div8)

lemma store_bit_Some:
  assumes "unat src div 8 < length b"
  shows "\<exists>b'. store_bit b src v = Some b' \<and> length b' = length b \<and>
     (\<forall>p < 8 * length b. frame_bit b' p = (if p = unat src then v else frame_bit b p))"
proof -
  let ?i = "unat src div 8" and ?k = "unat src mod 8"
  let ?x = "if v then ucast (ucast (b ! ?i) OR push_bit ?k 1 :: u64)
            else ucast (ucast (b ! ?i) AND NOT (push_bit ?k 1 :: u64)) :: u8"
  have k: "unat (src mod 8) = ?k" "?k < 64" by (simp_all add: unat_mod8 less_trans [of _ 8])
  have m: "shl64 1 (src mod 8) = Some (push_bit ?k 1)"
    using k by (simp add: shl64_ok)
  have x: "bit ?x j = (if j = ?k then v else bit (b ! ?i) j)" if "j < 8" for j
    using that by (auto simp: bit_ucast_iff bit_or_iff bit_and_iff bit_not64 bit_exp_iff)
  have "frame_bit (b[?i := ?x]) p = (if p = unat src then v else frame_bit b p)"
    if p: "p < 8 * length b" for p
  proof (cases "p div 8 = ?i")
    case True
    then have "p = unat src \<longleftrightarrow> p mod 8 = ?k"
      by (metis div_mult_mod_eq)
    then show ?thesis using True assms x [of "p mod 8"] by (simp add: frame_bit_def)
  next
    case False
    then show ?thesis by (auto simp: frame_bit_def)
  qed
  moreover have "store_bit b src v = Some (b[?i := ?x])"
    using assms m by (cases v) (simp_all add: store_bit_def unat_div8 Let_def)
  ultimately show ?thesis by auto
qed

section \<open>The loops\<close>

lemma and_single_bit: "k < 64 \<Longrightarrow> (raw :: u64) AND push_bit k 1 \<noteq> 0 \<longleftrightarrow> bit raw k"
  by (auto simp: and_zero_iff_bits bit_exp_iff)

text \<open>
  Both loops write consecutive bits of a numbering \<open>g\<close> of the frame's bits; \<open>V\<close> is the value
  written to each.
\<close>

definition write_range ::
    "(nat \<Rightarrow> nat) \<Rightarrow> nat \<Rightarrow> nat \<Rightarrow> (nat \<Rightarrow> bool) \<Rightarrow> u8 list \<Rightarrow> u8 list \<Rightarrow> bool" where
  "write_range g lo n V b b' \<longleftrightarrow>
     length b' = length b \<and>
     (\<forall>p < 8 * length b.
        frame_bit b' p = (if lo \<le> g p \<and> g p < lo + n then V (g p) else frame_bit b p))"

lemma write_range_0: "write_range g lo 0 V b b"
  by (auto simp: write_range_def)

lemma write_range_Suc:
  assumes b1: "length b1 = length b"
      "\<forall>p < 8 * length b. frame_bit b1 p = (if p = src then V (g src) else frame_bit b p)"
    and g: "\<And>p. g p = g src \<longleftrightarrow> p = src"
    and V: "\<And>q. Suc (g src) \<le> q \<Longrightarrow> V' q = V q"
    and r: "write_range g (Suc (g src)) n V' b1 b'"
  shows "write_range g (g src) (Suc n) V b b'"
proof -
  have "frame_bit b' p = (if g src \<le> g p \<and> g p < g src + Suc n then V (g p) else frame_bit b p)"
    if p: "p < 8 * length b" for p
  proof -
    have "frame_bit b' p =
        (if Suc (g src) \<le> g p \<and> g p < Suc (g src) + n then V' (g p) else frame_bit b1 p)"
      using r b1(1) p by (simp add: write_range_def)
    moreover have "frame_bit b1 p = (if p = src then V (g src) else frame_bit b p)"
      using b1(2) p by blast
    moreover have "p = src \<or> g p < g src \<or> Suc (g src) \<le> g p" using g [of p] by linarith
    ultimately show ?thesis using g [of p] V [of "g p"] by auto
  qed
  then show ?thesis using r b1(1) by (simp add: write_range_def)
qed

lemma encode_little_spec:
  assumes "unat dst + n \<le> 64" and "unat src + n \<le> 2 ^ 64" and "n \<noteq> 0"
  shows "if unat src + n \<le> 8 * length b
     then \<exists>b'. encode_little n raw src dst b = Some b' \<and>
       write_range id (unat src) n (\<lambda>q. bit raw (unat dst + (q - unat src))) b b'
     else encode_little n raw src dst b = None"
  using assms
proof (induction n arbitrary: src dst b)
  case 0
  then show ?case by simp
next
  case (Suc n)
  let ?V = "\<lambda>dst src q. bit raw (unat dst + (q - unat src))"
  have sh: "shl64 1 dst = Some (push_bit (unat dst) 1)" using Suc.prems by (simp add: shl64_ok)
  have bt: "raw AND push_bit (unat dst) 1 \<noteq> 0 \<longleftrightarrow> bit raw (unat dst)"
    using Suc.prems by (intro and_single_bit) simp
  show ?case
  proof (cases "unat src div 8 < length b")
    case False
    then have "store_bit b src v = None" for v by (simp add: store_bit_None)
    moreover have "\<not> unat src + Suc n \<le> 8 * length b" using False by linarith
    ultimately show ?thesis by (simp add: sh)
  next
    case True
    then have in0: "unat src < 8 * length b" by linarith
    obtain b1 where b1: "store_bit b src (bit raw (unat dst)) = Some b1" "length b1 = length b"
      "\<forall>p < 8 * length b. frame_bit b1 p = (if p = unat src then bit raw (unat dst) else frame_bit b p)"
      using store_bit_Some [OF True] by blast
    have e: "encode_little (Suc n) raw src dst b = encode_little n raw (src + 1) (dst + 1) b1"
      using b1(1) sh bt by simp
    have wr: "write_range id (unat src) (Suc n) (?V dst src) b b'"
      if "write_range id (Suc (unat src)) n V' b1 b'" "\<And>q. Suc (unat src) \<le> q \<Longrightarrow> V' q = ?V dst src q"
      for V' b'
      using write_range_Suc [of b1 b "unat src" "?V dst src" id V' n b'] b1(2,3) that by simp
    show ?thesis
    proof (cases "n = 0")
      case True
      have "encode_little (Suc n) raw src dst b = Some b1" unfolding e by (simp add: True)
      then show ?thesis using wr [of "?V dst src" b1] in0 True by (simp add: write_range_0)
    next
      case False
      have s1: "unat (src + 1) = Suc (unat src)" and d1: "unat (dst + 1) = Suc (unat dst)"
        using Suc.prems False by (simp_all add: unat_add64)
      have le: "unat (dst + 1) + n \<le> 64" "unat (src + 1) + n \<le> 2 ^ 64"
        using Suc.prems s1 d1 by simp_all
      have V: "?V (dst + 1) (src + 1) q = ?V dst src q" if "Suc (unat src) \<le> q" for q
        using that by (simp add: s1 d1 Suc_diff_le flip: Suc_diff_Suc)
      show ?thesis
      proof (cases "unat src + Suc n \<le> 8 * length b")
        case True
        then obtain b' where b': "encode_little n raw (src + 1) (dst + 1) b1 = Some b'"
          "write_range id (Suc (unat src)) n (?V (dst + 1) (src + 1)) b1 b'"
          using Suc.IH [OF le False, of b1] s1 b1(2) by auto
        show ?thesis using wr [OF b'(2) V] b'(1) True unfolding e by simp
      next
        case False
        then show ?thesis using Suc.IH [OF le \<open>n \<noteq> 0\<close>, of b1] s1 b1(2) unfolding e by simp
      qed
    qed
  qed
qed

text \<open>Big-endian signals, in the mirrored numbering of the bits.\<close>

lemma mirror_bit_less: "mirror_bit p < 8 * n \<longleftrightarrow> p < 8 * n"
proof -
  have "q < 8 * n \<longleftrightarrow> q div 8 < n" for q :: nat by auto
  then show ?thesis by (metis mirror_bit_div8)
qed

lemma mirror_bit_step:
  assumes "unat (src::u64) + 15 < 2 ^ 64"
  shows "mirror_bit (unat (if src mod 8 = 0 then src + 15 else src - 1)) = mirror_bit (unat src) + 1"
proof -
  define q r where qr: "q = unat src div 8" "r = unat src mod 8"
  have s: "unat src = 8 * q + r" "r < 8" by (simp_all add: qr)
  have z: "src mod 8 = 0 \<longleftrightarrow> r = 0"
    using unat_mod8 [of src] by (metis qr(2) unat_eq_zero)
  show ?thesis
  proof (cases "r = 0")
    case True
    have "unat (src + 15) = 8 * (q + 1) + 7" using assms s True by (simp add: unat_add64)
    then show ?thesis
      using z True s mirror_bit_split [of 7 "q + 1"] mirror_bit_split [of 0 q] by simp
  next
    case False
    then have "unat (src - 1) = 8 * q + (r - 1)" using s by (simp add: unat_sub64)
    then show ?thesis
      using z False s mirror_bit_split [of "r - 1" q] mirror_bit_split [of r q] by simp
  qed
qed

lemma encode_big_spec:
  assumes "n \<le> unat dst + 1" and "unat dst < 64" and "8 * length b + 16 < 2 ^ 64" and "n \<noteq> 0"
  shows "if mirror_bit (unat src) + n \<le> 8 * length b
     then \<exists>b'. encode_big n raw src dst b = Some b' \<and>
       write_range mirror_bit (mirror_bit (unat src)) n
         (\<lambda>q. bit raw (unat dst - (q - mirror_bit (unat src)))) b b'
     else encode_big n raw src dst b = None"
  using assms
proof (induction n arbitrary: src dst b)
  case 0
  then show ?case by simp
next
  case (Suc n)
  let ?V = "\<lambda>dst src q. bit raw (unat dst - (q - mirror_bit (unat src)))"
  let ?src' = "if src mod 8 = 0 then src + 15 else src - 1"
  have sh: "shl64 1 dst = Some (push_bit (unat dst) 1)" using Suc.prems by (simp add: shl64_ok)
  have bt: "raw AND push_bit (unat dst) 1 \<noteq> 0 \<longleftrightarrow> bit raw (unat dst)"
    using Suc.prems by (intro and_single_bit) simp
  show ?case
  proof (cases "unat src < 8 * length b")
    case False
    then have "store_bit b src v = None" for v by (intro store_bit_None) linarith
    moreover have "\<not> mirror_bit (unat src) + Suc n \<le> 8 * length b"
      using False mirror_bit_less [of "unat src" "length b"] by linarith
    ultimately show ?thesis by (simp add: sh)
  next
    case True
    then have "unat src div 8 < length b" by auto
    then obtain b1 where b1: "store_bit b src (bit raw (unat dst)) = Some b1" "length b1 = length b"
      "\<forall>p < 8 * length b. frame_bit b1 p = (if p = unat src then bit raw (unat dst) else frame_bit b p)"
      using store_bit_Some by blast
    have e: "encode_big (Suc n) raw src dst b = encode_big n raw ?src' (dst - 1) b1"
      using b1(1) sh bt by simp
    have in0: "mirror_bit (unat src) < 8 * length b" using True by (simp add: mirror_bit_less)
    have wr: "write_range mirror_bit (mirror_bit (unat src)) (Suc n) (?V dst src) b b'"
      if "write_range mirror_bit (Suc (mirror_bit (unat src))) n V' b1 b'"
        "\<And>q. Suc (mirror_bit (unat src)) \<le> q \<Longrightarrow> V' q = ?V dst src q" for V' b'
      using write_range_Suc [of b1 b "unat src" "?V dst src" mirror_bit V' n b'] b1(2,3) that
        mirror_bit_inj by simp
    show ?thesis
    proof (cases "n = 0")
      case True
      have "encode_big (Suc n) raw src dst b = Some b1" unfolding e by (simp add: True)
      then show ?thesis using wr [of "?V dst src" b1] in0 True by (simp add: write_range_0)
    next
      case False
      have s1: "mirror_bit (unat ?src') = Suc (mirror_bit (unat src))"
        using Suc.prems True mirror_bit_step [of src] by simp
      have d1: "unat (dst - 1) = unat dst - 1"
        using Suc.prems False by (simp add: unat_sub64)
      have le: "n \<le> unat (dst - 1) + 1" "unat (dst - 1) < 64" "8 * length b1 + 16 < 2 ^ 64"
        using Suc.prems d1 b1(2) False by simp_all
      have V: "?V (dst - 1) ?src' q = ?V dst src q" if "Suc (mirror_bit (unat src)) \<le> q" for q
        using that unfolding s1 d1 by (simp flip: Suc_diff_Suc)
      show ?thesis
      proof (cases "mirror_bit (unat src) + Suc n \<le> 8 * length b")
        case True
        then obtain b' where b': "encode_big n raw ?src' (dst - 1) b1 = Some b'"
          "write_range mirror_bit (Suc (mirror_bit (unat src))) n (?V (dst - 1) ?src') b1 b'"
          using Suc.IH [OF le False, of ?src'] unfolding s1 b1(2) by auto
        show ?thesis using wr [OF b'(2) V] b'(1) True unfolding e by simp
      next
        case False
        then show ?thesis
          using Suc.IH [OF le \<open>n \<noteq> 0\<close>, of ?src'] unfolding e s1 b1(2) by simp
      qed
    qed
  qed
qed

section \<open>Encoding a signal\<close>

definition writes_signal :: "'a signal_data_scheme \<Rightarrow> u64 \<Rightarrow> u8 list \<Rightarrow> u8 list \<Rightarrow> bool" where
  "writes_signal d raw b b' \<longleftrightarrow>
     length b' = length b \<and>
     (\<forall>j < unat (sig_bit_size d). frame_bit b' (sig_pos d j) = bit raw j) \<and>
     (\<forall>p < 8 * length b. p \<notin> sig_pos d ` {..<unat (sig_bit_size d)} \<longrightarrow>
        frame_bit b' p = frame_bit b p)"

text \<open>The position of a signal in the numbering its loop walks through.\<close>

definition loop_numbering :: "'a signal_data_scheme \<Rightarrow> nat \<Rightarrow> nat" where
  "loop_numbering d = (if sig_byte_order d = BigEndian then mirror_bit else id)"

lemma loop_numbering_div8 [simp]: "loop_numbering d p div 8 = p div 8"
  by (simp add: loop_numbering_def)

lemma loop_numbering_invol [simp]: "loop_numbering d (loop_numbering d p) = p"
  by (simp add: loop_numbering_def)

lemma loop_numbering_less: "loop_numbering d p < 8 * n \<longleftrightarrow> p < 8 * n"
  by (simp add: loop_numbering_def mirror_bit_less)

lemma sig_pos_numbering:
  assumes "j < unat (sig_bit_size d)"
  shows "loop_numbering d (sig_pos d j) = loop_numbering d (unat (sig_start_bit d)) +
     (if sig_byte_order d = BigEndian then unat (sig_bit_size d) - 1 - j else j)"
  using assms by (cases "sig_byte_order d") (simp_all add: sig_pos_def loop_numbering_def)

lemma sig_pos_inj:
  assumes "i < unat (sig_bit_size d)" "j < unat (sig_bit_size d)" "sig_pos d i = sig_pos d j"
  shows "i = j"
proof -
  have "(if sig_byte_order d = BigEndian then unat (sig_bit_size d) - 1 - i else i) =
      (if sig_byte_order d = BigEndian then unat (sig_bit_size d) - 1 - j else j)"
    using sig_pos_numbering [OF assms(1)] sig_pos_numbering [OF assms(2)] assms(3) by simp
  then show ?thesis using assms(1,2) by (cases "sig_byte_order d") simp_all
qed

lemma occupied_bytes_iff:
  assumes "1 \<le> unat (sig_bit_size d)" "unat (sig_bit_size d) \<le> 64"
  shows "occupied_bytes d \<le> m \<longleftrightarrow>
     loop_numbering d (unat (sig_start_bit d)) + unat (sig_bit_size d) \<le> 8 * m"
proof -
  let ?s = "unat (sig_start_bit d)" and ?n = "unat (sig_bit_size d)"
  define q r where qr: "q = ?s div 8" "r = ?s mod 8"
  have s: "?s = 8 * q + r" "r < 8" by (simp_all add: qr)
  show ?thesis
  proof (cases "sig_byte_order d")
    case LittleEndian
    have "q + (r + ?n + 7) div 8 \<le> m \<longleftrightarrow> 8 * q + r + ?n \<le> 8 * m" by linarith
    then show ?thesis
      using s by (simp add: occupied_bytes_def unat_signal_nbytes assms LittleEndian
          loop_numbering_def flip: qr)
  next
    case BigEndian
    have "mirror_bit ?s = 8 * q + (7 - r)" using mirror_bit_split [OF s(2), of q] by (simp only: s(1))
    moreover have "q + (?n + (7 - r) + 7) div 8 \<le> m \<longleftrightarrow> 8 * q + (7 - r) + ?n \<le> 8 * m" by linarith
    ultimately show ?thesis
      by (simp add: occupied_bytes_def unat_signal_nbytes assms BigEndian
          loop_numbering_def flip: qr)
  qed
qed

lemma sig_pos_less:
  assumes n: "1 \<le> unat (sig_bit_size d)" "unat (sig_bit_size d) \<le> 64"
    and "occupied_bytes d \<le> m" and j: "j < unat (sig_bit_size d)"
  shows "sig_pos d j < 8 * m"
proof -
  have "loop_numbering d (sig_pos d j) < 8 * m"
    using sig_pos_numbering [OF j] occupied_bytes_iff [OF n, of m] assms(3) j by auto
  then show ?thesis by (simp add: loop_numbering_less)
qed

text \<open>Writing a range of the loop's numbering is writing the signal.\<close>

lemma write_range_signal:
  assumes n: "1 \<le> unat (sig_bit_size d)" "unat (sig_bit_size d) \<le> 64"
    and fits: "occupied_bytes d \<le> length b"
    and w: "write_range (loop_numbering d) (loop_numbering d (unat (sig_start_bit d)))
          (unat (sig_bit_size d)) V b b'"
    and V: "\<And>j. j < unat (sig_bit_size d) \<Longrightarrow> V (loop_numbering d (sig_pos d j)) = bit raw j"
  shows "writes_signal d raw b b'"
proof -
  let ?n = "unat (sig_bit_size d)" and ?g = "loop_numbering d"
  let ?lo = "?g (unat (sig_start_bit d))"
  have w': "frame_bit b' p = (if ?lo \<le> ?g p \<and> ?g p < ?lo + ?n then V (?g p) else frame_bit b p)"
    if "p < 8 * length b" for p using w that by (simp add: write_range_def)
  have "frame_bit b' (sig_pos d j) = bit raw j" if j: "j < ?n" for j
  proof -
    have "?lo \<le> ?g (sig_pos d j)" "?g (sig_pos d j) < ?lo + ?n"
      using sig_pos_numbering [OF j] j by auto
    then show ?thesis using w' [OF sig_pos_less [OF n fits j]] V [OF j] by simp
  qed
  moreover have "frame_bit b' p = frame_bit b p"
    if p: "p < 8 * length b" and out: "p \<notin> sig_pos d ` {..<?n}" for p
  proof -
    have "\<not> (?lo \<le> ?g p \<and> ?g p < ?lo + ?n)"
    proof
      assume i: "?lo \<le> ?g p \<and> ?g p < ?lo + ?n"
      define k where "k = ?g p - ?lo"
      define j where "j = (if sig_byte_order d = BigEndian then ?n - 1 - k else k)"
      have k: "k < ?n" using i by (auto simp: k_def)
      then have j: "j < ?n" by (simp add: j_def)
      have "?g (sig_pos d j) = ?lo + k"
        using sig_pos_numbering [OF j] k by (simp add: j_def)
      then have "?g (sig_pos d j) = ?g p" using i by (simp add: k_def)
      then have "?g (?g (sig_pos d j)) = ?g (?g p)" by (rule arg_cong)
      then show False using out j by auto
    qed
    then show ?thesis using w' [OF p] by auto
  qed
  ultimately show ?thesis using w by (simp add: writes_signal_def write_range_def)
qed

lemma Encode_spec:
  assumes new: "SignalImpl_new pf ms d = Some sigi" and mem: "8 * length b + 64 < 2 ^ 64"
  shows "if occupied_bytes d \<le> length b
     then \<exists>b'. Encode sigi raw b = Some b' \<and> writes_signal d raw b b'
     else Encode sigi raw b = None"
proof -
  let ?s = "sig_start_bit d" and ?n = "unat (sig_bit_size d)"
  have n: "1 \<le> ?n" "?n \<le> 64" and tr: "signal_data.truncate sigi = d"
    using new by (auto elim: SignalImpl_new_SomeD)
  note fits = occupied_bytes_iff [OF n, of "length b"]
  note sel = truncate_sel [OF tr]
  have m: "unat (sig_bit_size d - 1) = ?n - 1" using n by (simp add: unat_sub64)
  show ?thesis
  proof (cases "sig_byte_order d")
    case LittleEndian
    have g: "loop_numbering d = id" by (simp add: loop_numbering_def LittleEndian)
    have e: "Encode sigi raw b = encode_little ?n raw ?s 0 b"
      by (simp add: Encode_def sel LittleEndian)
    show ?thesis
    proof (cases "unat ?s + ?n \<le> 2 ^ 64")
      case True
      have spec: "if unat ?s + ?n \<le> 8 * length b
        then \<exists>b'. Encode sigi raw b = Some b' \<and>
          write_range id (unat ?s) ?n (\<lambda>q. bit raw (q - unat ?s)) b b'
        else Encode sigi raw b = None"
        using encode_little_spec [of 0 ?n ?s b raw] True n e
        by (simp split: if_splits)
      show ?thesis
      proof (cases "unat ?s + ?n \<le> 8 * length b")
        case True
        then obtain b' where b': "Encode sigi raw b = Some b'"
          "write_range id (unat ?s) ?n (\<lambda>q. bit raw (q - unat ?s)) b b'" using spec by auto
        have "writes_signal d raw b b'"
          using b'(2) True fits
          by (intro write_range_signal [OF n, where V = "\<lambda>q. bit raw (q - unat ?s)"])
             (simp_all add: g sig_pos_def LittleEndian)
        then show ?thesis using b'(1) True fits by (simp add: g)
      next
        case False
        then show ?thesis using spec fits by (simp add: g)
      qed
    next
      case False
      then have "8 * length b \<le> unat ?s" using mem n(2) by linarith
      then have "store_bit b ?s v = None" for v by (intro store_bit_None) linarith
      moreover have "Suc (?n - 1) = ?n" using n by simp
      ultimately have "Encode sigi raw b = None"
        unfolding e using encode_little.simps(2) [of "?n - 1" raw ?s 0 b] by (simp add: shl64_ok)
      moreover have "\<not> unat ?s + ?n \<le> 8 * length b" using False mem by simp
      ultimately show ?thesis using fits by (simp add: g)
    qed
  next
    case BigEndian
    have g: "loop_numbering d = mirror_bit" by (simp add: loop_numbering_def BigEndian)
    let ?V = "\<lambda>q. bit raw (?n - 1 - (q - mirror_bit (unat ?s)))"
    have e: "Encode sigi raw b = encode_big ?n raw ?s (sig_bit_size d - 1) b"
      by (simp add: Encode_def sel BigEndian)
    have pre: "?n \<le> unat (sig_bit_size d - 1) + 1" "unat (sig_bit_size d - 1) < 64"
      "8 * length b + 16 < 2 ^ 64" "?n \<noteq> 0" using mem n m by simp_all
    have spec: "if mirror_bit (unat ?s) + ?n \<le> 8 * length b
      then \<exists>b'. Encode sigi raw b = Some b' \<and>
        write_range mirror_bit (mirror_bit (unat ?s)) ?n ?V b b'
      else Encode sigi raw b = None"
      using encode_big_spec [OF pre, of ?s raw] by (simp only: m e)
    show ?thesis
    proof (cases "mirror_bit (unat ?s) + ?n \<le> 8 * length b")
      case True
      then obtain b' where b': "Encode sigi raw b = Some b'"
        "write_range mirror_bit (mirror_bit (unat ?s)) ?n ?V b b'" using spec by auto
      have "writes_signal d raw b b'"
        using b'(2) True fits
        by (intro write_range_signal [OF n, where V = ?V])
           (simp_all add: g sig_pos_def BigEndian)
      then show ?thesis using b'(1) True fits by (simp add: g)
    next
      case False
      then show ?thesis using spec fits by (simp add: g)
    qed
  qed
qed

end
