(* ===== verification/CodecLaws.thy ===== *)
theory CodecLaws
  imports Encoding
begin

text \<open>
  The contract between a signal and the frames it lives in, as the locale \<open>frame_field\<close>:
  encoding writes the bits of a field and nothing else, decoding reads a function of those
  bits. Round trips and independence of disjoint fields follow from it once; the
  interpretation at the end shows that \<open>Encode\<close> and \<open>Decode\<close> of the model keep it.
\<close>

locale frame_field =
  fixes ok :: "'s \<Rightarrow> u8 list \<Rightarrow> bool" and width :: "'s \<Rightarrow> nat" and pos :: "'s \<Rightarrow> nat \<Rightarrow> nat"
    and val :: "'s \<Rightarrow> (nat \<Rightarrow> bool) \<Rightarrow> u64"
    and enc :: "'s \<Rightarrow> u64 \<Rightarrow> u8 list \<Rightarrow> u8 list option" and dec :: "'s \<Rightarrow> u8 list \<Rightarrow> u64 option"
  assumes enc_writes: "ok s fr \<Longrightarrow> \<exists>fr'. enc s raw fr = Some fr' \<and> length fr' = length fr \<and>
        (\<forall>j < width s. frame_bit fr' (pos s j) = bit raw j) \<and>
        (\<forall>p < 8 * length fr. p \<notin> pos s ` {..<width s} \<longrightarrow> frame_bit fr' p = frame_bit fr p)"
    and dec_reads: "ok s fr \<Longrightarrow> dec s fr = Some (val s (\<lambda>j. frame_bit fr (pos s j)))"
    and val_cong: "ok s fr \<Longrightarrow> (\<And>j. j < width s \<Longrightarrow> f j = g j) \<Longrightarrow> val s f = val s g"
    and bit_val: "ok s fr \<Longrightarrow> j < width s \<Longrightarrow> bit (val s f) j = f j"
    and ok_length: "length fr = length fr' \<Longrightarrow> ok s fr = ok s fr'"
    and pos_in: "ok s fr \<Longrightarrow> j < width s \<Longrightarrow> pos s j < 8 * length fr"
begin

lemma encE:
  assumes "ok s fr" and "enc s raw fr = Some fr'"
  shows "length fr' = length fr" and "\<And>j. j < width s \<Longrightarrow> frame_bit fr' (pos s j) = bit raw j"
    and "\<And>p. p < 8 * length fr \<Longrightarrow> p \<notin> pos s ` {..<width s} \<Longrightarrow> frame_bit fr' p = frame_bit fr p"
  using enc_writes [OF assms(1), of raw] assms(2) by auto

lemma dec_enc:
  assumes "ok s fr" and "enc s raw fr = Some fr'"
  shows "dec s fr' = Some (val s (bit raw))"
proof -
  have "ok s fr'" using assms ok_length [OF encE(1) [OF assms]] by simp
  then have "dec s fr' = Some (val s (\<lambda>j. frame_bit fr' (pos s j)))" by (rule dec_reads)
  moreover have "val s (\<lambda>j. frame_bit fr' (pos s j)) = val s (bit raw)"
    by (rule val_cong [OF assms(1)]) (rule encE(2) [OF assms])
  ultimately show ?thesis by simp
qed

lemma enc_dec:
  assumes ok: "ok s fr" and "dec s fr = Some raw"
  shows "enc s raw fr = Some fr"
proof -
  have raw: "raw = val s (\<lambda>j. frame_bit fr (pos s j))" using dec_reads [OF ok] assms by simp
  obtain fr' where e: "enc s raw fr = Some fr'" using enc_writes [OF ok] by blast
  note w = encE [OF ok e]
  have "fr' = fr"
  proof (rule frame_eqI [OF w(1)])
    fix p assume p: "p < 8 * length fr'"
    show "frame_bit fr' p = frame_bit fr p"
    proof (cases "p \<in> pos s ` {..<width s}")
      case True
      then obtain j where j: "j < width s" "p = pos s j" by auto
      then show ?thesis using w(2) [OF j(1)] bit_val [OF ok j(1)] by (simp add: raw)
    next
      case False
      then show ?thesis using w(3) p w(1) by simp
    qed
  qed
  then show ?thesis using e by simp
qed

lemma dec_other:
  assumes "ok s fr" and t: "ok t fr" and e: "enc s raw fr = Some fr'"
    and dis: "pos s ` {..<width s} \<inter> pos t ` {..<width t} = {}"
  shows "dec t fr' = dec t fr"
proof -
  note w = encE [OF assms(1) e]
  have "ok t fr'" using t ok_length [OF w(1)] by simp
  moreover have "val t (\<lambda>j. frame_bit fr' (pos t j)) = val t (\<lambda>j. frame_bit fr (pos t j))"
    using dis by (intro val_cong [OF t] w(3) pos_in [OF t]) auto
  ultimately show ?thesis using dec_reads t by simp
qed

lemma enc_commute:
  assumes s: "ok s fr" and t: "ok t fr"
    and dis: "pos s ` {..<width s} \<inter> pos t ` {..<width t} = {}"
    and e: "enc s x fr = Some fs" "enc t y fs = Some fu" "enc t y fr = Some ft"
  shows "enc s x ft = Some fu"
proof -
  note ws = encE [OF s e(1)] and wt = encE [OF t e(3)]
  have tfs: "ok t fs" using t ok_length [OF ws(1)] by simp
  have sft: "ok s ft" using s ok_length [OF wt(1)] by simp
  note wst = encE [OF tfs e(2)]
  obtain fts where e4: "enc s x ft = Some fts" using enc_writes [OF sft] by blast
  note wts = encE [OF sft e4]
  have "fts = fu"
  proof (rule frame_eqI)
    show len: "length fts = length fu" using ws wt wst wts by simp
    fix p assume "p < 8 * length fts"
    then have p: "p < 8 * length fr" "p < 8 * length fs" "p < 8 * length ft"
      using ws(1) wt(1) wts(1) by simp_all
    consider (s) "p \<in> pos s ` {..<width s}" | (t) "p \<in> pos t ` {..<width t}"
      | (n) "p \<notin> pos s ` {..<width s}" "p \<notin> pos t ` {..<width t}" by blast
    then show "frame_bit fts p = frame_bit fu p"
    proof cases
      case s
      then have "p \<notin> pos t ` {..<width t}" using dis by blast
      then show ?thesis using s wts(2) ws(2) wst(3) [OF p(2)] by auto
    next
      case t
      then have "p \<notin> pos s ` {..<width s}" using dis by blast
      then show ?thesis using t wts(3) [OF p(3)] wt(2) wst(2) by auto
    next
      case n
      then show ?thesis using wts(3) [OF p(3)] wt(3) [OF p(1)] wst(3) [OF p(2)] ws(3) [OF p(1)]
        by simp
    qed
  qed
  then show ?thesis using e4 by simp
qed

lemma enc_overwrite:
  assumes s: "ok s fr" and e: "enc s x fr = Some fr'"
  shows "enc s y fr' = enc s y fr"
proof -
  note w = encE [OF s e]
  have s': "ok s fr'" using s ok_length [OF w(1)] by simp
  obtain a b where e2: "enc s y fr' = Some a" "enc s y fr = Some b"
    using enc_writes [OF s'] enc_writes [OF s] by blast
  note wa = encE [OF s' e2(1)] and wb = encE [OF s e2(2)]
  have "a = b"
  proof (rule frame_eqI)
    show "length a = length b" using wa wb w by simp
    fix p assume "p < 8 * length a"
    then have p: "p < 8 * length fr" "p < 8 * length fr'" using wa(1) w(1) by simp_all
    show "frame_bit a p = frame_bit b p"
    proof (cases "p \<in> pos s ` {..<width s}")
      case True
      then show ?thesis using wa(2) wb(2) by auto
    next
      case False
      then show ?thesis using wa(3) [OF p(2)] wb(3) [OF p(1)] w(3) [OF p(1)] by simp
    qed
  qed
  then show ?thesis using e2 by simp
qed

end

section \<open>The model keeps the contract\<close>

lemma touched_truncate: "touched_bytes (signal_data.truncate s) = touched_bytes s"
  "occupied_bytes (signal_data.truncate s) = occupied_bytes s"
  by (simp_all add: touched_bytes_def occupied_bytes_def signal_nbytes_def signal_data.defs)

lemma sig_pos_trunc: "sig_pos (signal_data.truncate s) = sig_pos s"
  by (intro ext) (simp add: sig_pos_def signal_data.defs)

lemma signal_value_trunc: "signal_value (signal_data.truncate s) = signal_value s"
  "well_sized (signal_data.truncate s) = well_sized s"
proof -
  show "signal_value (signal_data.truncate s) = signal_value s"
    by (intro ext)
       (simp add: signal_value_def value_bit_def [abs_def] sign_extended_def signal_data.defs)
  show "well_sized (signal_data.truncate s) = well_sized s"
    by (simp add: well_sized_def signal_data.defs)
qed

lemma occupied_le_touched: "occupied_bytes d \<le> touched_bytes d + (unat (signal_nbytes d) - 9)"
  by (auto simp: occupied_bytes_def touched_bytes_def Let_def)

lemma signal_nbytes_le_9:
  assumes "unat (sig_bit_size d) \<le> 64"
  shows "unat (signal_nbytes d) \<le> 9"
proof -
  have "unat (sig_start_bit d) mod 8 \<le> 7" by simp
  then have "(14 + unat (sig_bit_size d) - unat (sig_start_bit d) mod 8) div 8 \<le> 9"
    "(unat (sig_start_bit d) mod 8 + unat (sig_bit_size d) + 7) div 8 \<le> 9"
    using assms by linarith+
  then show ?thesis using assms by (simp add: unat_signal_nbytes split: EByteOrder.split)
qed

text \<open>
  A signal that a constructor call returned, with a buffer that holds what \<open>Decode\<close> reads and
  whose bit addresses fit in 64 bits.
\<close>

definition constructed :: "SignalImpl \<Rightarrow> bool" where
  "constructed sigi \<longleftrightarrow> (\<exists>pf ms. SignalImpl_new pf ms (signal_data.truncate sigi) = Some sigi)"

definition small_buffer :: "u8 list \<Rightarrow> bool" where
  "small_buffer fr \<longleftrightarrow> 8 * length fr + 64 < 2 ^ 64"

definition signal_in_frame :: "SignalImpl \<Rightarrow> u8 list \<Rightarrow> bool" where
  "signal_in_frame sigi fr \<longleftrightarrow>
     constructed sigi \<and> well_sized sigi \<and> touched_bytes sigi \<le> length fr \<and> small_buffer fr"

lemma constructedI: "SignalImpl_new pf ms d = Some sigi \<Longrightarrow> constructed sigi"
  by (auto simp: constructed_def elim: SignalImpl_new_SomeD)

lemma constructed_size:
  assumes "constructed sigi"
  shows "1 \<le> unat (sig_bit_size sigi)" "unat (sig_bit_size sigi) \<le> 64"
proof -
  from assms obtain pf ms where "SignalImpl_new pf ms (signal_data.truncate sigi) = Some sigi"
    by (auto simp: constructed_def)
  then show "1 \<le> unat (sig_bit_size sigi)" "unat (sig_bit_size sigi) \<le> 64"
    by (auto elim!: SignalImpl_new_SomeD simp: signal_data.defs)
qed

lemma signal_in_frame_occupied:
  "signal_in_frame s fr \<Longrightarrow> occupied_bytes s \<le> length fr"
  using occupied_le_touched [of s] signal_nbytes_le_9 [of s] constructed_size [of s]
  by (auto simp: signal_in_frame_def)

interpretation signal_field:
  frame_field signal_in_frame "\<lambda>s. unat (sig_bit_size s)" sig_pos signal_value Encode "Decode native"
  for native
proof unfold_locales
  fix s fr raw
  assume ok: "signal_in_frame s fr"
  then obtain pf ms where new: "SignalImpl_new pf ms (signal_data.truncate s) = Some s"
    by (auto simp: signal_in_frame_def constructed_def)
  note n = constructed_size [OF constructedI [OF new]]
  have mem: "8 * length fr + 64 < 2 ^ 64" using ok by (simp add: signal_in_frame_def small_buffer_def)
  have tr: "sig_bit_size (signal_data.truncate s) = sig_bit_size s" by (simp add: signal_data.defs)
  show "\<exists>fr'. Encode s raw fr = Some fr' \<and> length fr' = length fr \<and>
      (\<forall>j<unat (sig_bit_size s). frame_bit fr' (sig_pos s j) = bit raw j) \<and>
      (\<forall>p<8 * length fr. p \<notin> sig_pos s ` {..<unat (sig_bit_size s)} \<longrightarrow>
         frame_bit fr' p = frame_bit fr p)"
    using Encode_spec [OF new mem, of raw] signal_in_frame_occupied [OF ok]
    by (simp add: touched_truncate writes_signal_def sig_pos_trunc tr)
  show "Decode native s fr = Some (signal_value s (\<lambda>j. frame_bit fr (sig_pos s j)))"
    using decode_spec [OF new, of native fr] ok
    by (simp add: signal_in_frame_def touched_truncate signal_value_trunc spec_decode_def sig_pos_trunc)
  fix j f assume j: "j < unat (sig_bit_size s)"
  show "bit (signal_value s f) j = f j" using j n by (simp add: bit_signal_value value_bit_def)
  show "sig_pos s j < 8 * length fr"
    by (rule sig_pos_less [OF n signal_in_frame_occupied [OF ok] j])
next
  fix s fr and f g :: "nat \<Rightarrow> bool"
  assume "signal_in_frame s fr" and e: "\<And>j. j < unat (sig_bit_size s) \<Longrightarrow> f j = g j"
  then have "1 \<le> unat (sig_bit_size s)"
    using constructed_size(1) by (auto simp: signal_in_frame_def)
  then have "value_bit s f j = value_bit s g j" for j
    using e by (simp add: value_bit_def Let_def)
  then have "value_bit s f = value_bit s g" by blast
  then show "signal_value s f = signal_value s g" by (simp add: signal_value_def)
next
  fix fr fr' :: "u8 list" and s :: SignalImpl
  assume "length fr = length fr'"
  then show "signal_in_frame s fr = signal_in_frame s fr'"
    by (simp add: signal_in_frame_def small_buffer_def)
qed

end
