(* ===== verification/SignalProps.thy ===== *)
theory SignalProps
  imports CodecLaws
begin

text \<open>
  The properties of signals: what \<open>Decode\<close> and \<open>Encode\<close> promise a caller of the library, and
  what the constructor's error flags say about it.
\<close>

section \<open>Signals used in the concrete instances\<close>

definition ex_signal :: "u64 \<Rightarrow> u64 \<Rightarrow> EByteOrder \<Rightarrow> EValueType \<Rightarrow> signal_data" where
  "ex_signal start_bit bit_size bo vt =
     \<lparr>sig_name = ''S'', sig_multiplexer_indicator = NoMux, sig_multiplexer_switch_value = 0,
      sig_start_bit = start_bit, sig_bit_size = bit_size, sig_byte_order = bo, sig_value_type = vt,
      sig_factor = double_one, sig_offset = 0, sig_minimum = 0, sig_maximum = 0, sig_unit = [],
      sig_receivers = [], sig_attribute_values = [], sig_value_encoding_descriptions = [],
      sig_comment = [], sig_extended_value_type = EVT_Integer,
      sig_signal_multiplexer_values = []\<rparr>"

definition ieee :: platform where
  "ieee = \<lparr>float_is_iec559 = True, double_is_iec559 = True\<rparr>"

definition ex_impl :: "u64 \<Rightarrow> signal_data \<Rightarrow> SignalImpl" where
  "ex_impl message_size d = the (SignalImpl_new ieee message_size d)"

lemma ex_impl: "1 \<le> unat (sig_bit_size d) \<Longrightarrow> unat (sig_bit_size d) \<le> 64 \<Longrightarrow>
    SignalImpl_new ieee ms d = Some (ex_impl ms d)"
  using SignalImpl_new_defined [of ieee ms d] by (auto simp: ex_impl_def)

section \<open>Decoding\<close>

text \<open>C1. \<open>Decode\<close> returns the bits of the signal: bit \<open>j\<close> of the raw value is the frame bit
  \<open>sig_pos d j\<close>, and the bits above the signal's size are zero, or copies of the sign bit for
  signed integers. This holds for every start bit, size from 1 to 64, byte order, value type and
  machine, whichever of the specialised decode functions the constructor selects.\<close>

theorem decode_correct:
  assumes "SignalImpl_new pf ms d = Some sigi" and "well_sized d"
    and "touched_bytes d \<le> length fr"
  shows "\<exists>raw. Decode native sigi fr = Some raw \<and>
     (\<forall>j < 64. bit raw j =
        (if j < unat (sig_bit_size d) then frame_bit fr (sig_pos d j)
         else sig_value_type d = Signed \<and> sig_extended_value_type d = EVT_Integer \<and>
           frame_bit fr (sig_pos d (unat (sig_bit_size d) - 1))))"
  using decode_spec [OF assms(1,2), of native fr] assms(3)
  by (simp add: bit_spec_decode value_bit_def sign_extended_def Let_def)

theorem decode_correct_witness:
  "\<exists>raw. Decode Big (ex_impl 9 (ex_signal 4 64 BigEndian Signed)) (replicate 9 0xA5) = Some raw \<and>
     (\<forall>j < 64. bit raw j = frame_bit (replicate 9 0xA5) (sig_pos (ex_signal 4 64 BigEndian Signed) j))"
proof -
  let ?d = "ex_signal 4 64 BigEndian Signed"
  have "SignalImpl_new ieee 9 ?d = Some (ex_impl 9 ?d)" by (rule ex_impl) (simp_all add: ex_signal_def)
  moreover have "well_sized ?d" by (simp add: well_sized_def ex_signal_def)
  moreover have "touched_bytes ?d \<le> length (replicate 9 (0xA5 :: u8))"
    by (simp add: touched_bytes_def ex_signal_def signal_nbytes_def)
  ultimately show ?thesis
    using decode_correct [of ieee 9 ?d "ex_impl 9 ?d" "replicate 9 0xA5" Big]
    by (simp add: ex_signal_def)
qed

text \<open>C3. \<open>Decode\<close> stays inside a buffer exactly when the buffer has \<open>touched_bytes d\<close> bytes:
  with fewer it reads past the end, with that many it returns a value.\<close>

theorem decode_bounds:
  assumes "SignalImpl_new pf ms d = Some sigi" and "well_sized d"
  shows "Decode native sigi fr = None \<longleftrightarrow> length fr < touched_bytes d"
  using decode_spec [OF assms, of native fr] by auto

theorem decode_bounds_witness:
  "Decode Little (ex_impl 8 (ex_signal 0 12 LittleEndian Signed)) (replicate 7 0) = None"
proof -
  let ?d = "ex_signal 0 12 LittleEndian Signed"
  have "SignalImpl_new ieee 8 ?d = Some (ex_impl 8 ?d)" by (rule ex_impl) (simp_all add: ex_signal_def)
  moreover have "well_sized ?d" by (simp add: well_sized_def ex_signal_def)
  ultimately show ?thesis
    using decode_bounds [of ieee 8 ?d "ex_impl 8 ?d" Little "replicate 7 0"]
    by (simp add: touched_bytes_def ex_signal_def signal_nbytes_def)
qed

lemma take_bit_sum: "take_bit n (k::int) = (\<Sum>j<n. of_bool (bit k j) * 2 ^ j)"
  by (simp add: horner_sum_eq_sum atLeast0LessThan flip: horner_sum_bit_eq_take_bit)

lemma signal_value_unsigned:
  assumes "\<not> sign_extended d" "unat (sig_bit_size d) \<le> 64"
  shows "uint (signal_value d f) = (\<Sum>j < unat (sig_bit_size d). of_bool (f j) * 2 ^ j)"
proof -
  let ?n = "unat (sig_bit_size d)" and ?v = "signal_value d f"
  have "uint ?v = take_bit ?n (uint ?v)"
    using assms by (intro bit_eqI)
      (auto simp: bit_take_bit_iff bit_unsigned_iff bit_signal_value value_bit_def Let_def split: if_splits)
  also have "\<dots> = (\<Sum>j < ?n. of_bool (f j) * 2 ^ j)"
    unfolding take_bit_sum using assms
    by (intro sum.cong refl) (simp add: bit_unsigned_iff bit_signal_value value_bit_def)
  finally show ?thesis .
qed

lemma signal_value_signed:
  assumes s: "sign_extended d" and n: "unat (sig_bit_size d) = Suc m" "m < 64"
  shows "sint (signal_value d f) = (\<Sum>j < m. of_bool (f j) * 2 ^ j) - of_bool (f m) * 2 ^ m"
proof -
  let ?v = "signal_value d f"
  have b: "bit ?v j \<longleftrightarrow> j < 64 \<and> (if j < m then f j else f m)" for j
    using s n by (auto simp: bit_signal_value value_bit_def less_Suc_eq)
  have "sint ?v = signed_take_bit m (uint ?v)"
    using n by (intro bit_eqI) (auto simp: bit_sint_iff bit_signed_take_bit_iff bit_unsigned_iff b
        min_def)
  also have "\<dots> = take_bit (Suc m) (uint ?v) - 2 ^ Suc m * of_bool (bit (uint ?v) m)"
    by (rule signed_take_bit_eq_take_bit_minus)
  also have "take_bit (Suc m) (uint ?v) = (\<Sum>j < Suc m. of_bool (f j) * 2 ^ j)"
    unfolding take_bit_sum using n
    by (intro sum.cong refl) (auto simp: bit_unsigned_iff b less_Suc_eq)
  also have "bit (uint ?v) m = f m" using n by (simp add: bit_unsigned_iff b)
  finally show ?thesis by simp
qed

text \<open>C11. The number \<open>Decode\<close> returns: for signed integers, read as \<open>int64_t\<close>, the two's
  complement value of the signal's bits; otherwise, read as \<open>uint64_t\<close>, their binary value.\<close>

theorem decode_value:
  assumes "SignalImpl_new pf ms d = Some sigi" and "well_sized d"
    and "Decode native sigi fr = Some raw" and "unat (sig_bit_size d) = Suc m"
  shows "if sign_extended d
     then sint raw = (\<Sum>j < m. of_bool (frame_bit fr (sig_pos d j)) * 2 ^ j) -
            of_bool (frame_bit fr (sig_pos d m)) * 2 ^ m
     else uint raw = (\<Sum>j < Suc m. of_bool (frame_bit fr (sig_pos d j)) * 2 ^ j)"
proof -
  have raw: "raw = signal_value d (\<lambda>j. frame_bit fr (sig_pos d j))"
    using decode_spec [OF assms(1,2), of native fr] assms(3)
    by (simp add: spec_decode_def split: if_splits)
  have "m < 64" "unat (sig_bit_size d) \<le> 64" using assms(2,4) by (simp_all add: well_sized_def)
  then show ?thesis
    using signal_value_signed [OF _ assms(4), of "\<lambda>j. frame_bit fr (sig_pos d j)"]
      signal_value_unsigned [of d "\<lambda>j. frame_bit fr (sig_pos d j)"] assms(4)
    unfolding raw by (simp only: split: if_split) simp
qed

theorem decode_value_witness:
  "sint (- 2 :: u64) = (\<Sum>j < 11. of_bool (frame_bit [0x0F, 0xFE, 0, 0, 0, 0, 0, 0]
        (sig_pos (ex_signal 3 12 BigEndian Signed) j)) * 2 ^ j) - 2 ^ 11"
proof -
  let ?d = "ex_signal 3 12 BigEndian Signed" and ?fr = "[0x0F, 0xFE, 0, 0, 0, 0, 0, 0] :: u8 list"
  have "SignalImpl_new ieee 8 ?d = Some (ex_impl 8 ?d)" by (rule ex_impl) (simp_all add: ex_signal_def)
  moreover have "well_sized ?d" "sign_extended ?d"
    by (simp_all add: well_sized_def sign_extended_def ex_signal_def)
  moreover have "Decode Big (ex_impl 8 ?d) ?fr = Some (- 2)" by code_simp
  moreover have "frame_bit ?fr (sig_pos ?d 11)" by code_simp
  ultimately show ?thesis
    using decode_value [of ieee 8 ?d "ex_impl 8 ?d" Big ?fr "- 2" 11] by (simp add: ex_signal_def)
qed

lemma load_native:
  "load_u64 native fr p = None \<and> load_u64 native' fr p = None \<or>
   (\<exists>w w'. load_u64 native fr p = Some w \<and> load_u64 native' fr p = Some w' \<and>
      native_to_little_inplace native w = native_to_little_inplace native' w' \<and>
      native_to_big_inplace native w = native_to_big_inplace native' w')"
proof (cases "p + 8 \<le> length fr")
  case True
  then obtain w w' where "load_u64 native fr p = Some w" "load_u64 native' fr p = Some w'"
    by (simp add: load_u64_def)
  then show ?thesis
    using load_little [of native fr p] load_little [of native' fr p]
      load_big [of native fr p] load_big [of native' fr p] True by simp
next
  case False
  then show ?thesis by (simp add: load_u64_None)
qed

text \<open>C18. The byte order of the machine does not change what \<open>Decode\<close> returns, for any signal
  object and any buffer.\<close>

theorem decode_host_independent: "Decode native sigi fr = Decode native' sigi fr"
proof -
  have "template_decode native a bo vt evt sigi fr = template_decode native' a bo vt evt sigi fr"
    for a bo vt evt
  proof (cases "a = signal_exceeds_64_bit_size_and_signal_does_not_fit_into_64_bit")
    case True
    show ?thesis
      using load_native [of native fr "unat (sig_byte_pos sigi)" native']
      by (elim disjE exE conjE; cases bo; simp add: True template_decode_def Let_def)
  next
    case False
    define p where "p = (if a = size_inbetween_first_64_bit then 0 else unat (sig_byte_pos sigi))"
    show ?thesis
      using load_native [of native fr p native']
      by (elim disjE exE conjE; cases bo; simp add: template_decode_narrow [OF p_def False] Let_def)
  qed
  then show ?thesis
    by (cases "sig_decode sigi") (simp_all add: Decode_def split: decode_func_t.split)
qed

section \<open>Encoding\<close>

text \<open>C2. \<open>Encode\<close> writes the \<open>n\<close> low bits of the raw value to the bits of the signal and
  changes nothing else: the buffer keeps its length and all its other bits. It stays inside the
  buffer exactly when the signal's own bytes lie in it.\<close>

theorem encode_correct:
  assumes "SignalImpl_new pf ms d = Some sigi" and "small_buffer fr"
  shows "if occupied_bytes d \<le> length fr
     then \<exists>fr'. Encode sigi raw fr = Some fr' \<and> length fr' = length fr \<and>
       (\<forall>j < unat (sig_bit_size d). frame_bit fr' (sig_pos d j) = bit raw j) \<and>
       (\<forall>p < 8 * length fr. p \<notin> sig_pos d ` {..<unat (sig_bit_size d)} \<longrightarrow>
          frame_bit fr' p = frame_bit fr p)
     else Encode sigi raw fr = None"
  using Encode_spec [OF assms(1), of fr raw] assms(2)
  by (simp add: small_buffer_def writes_signal_def split: if_splits)

theorem encode_correct_witness:
  "\<exists>fr'. Encode (ex_impl 8 (ex_signal 3 12 BigEndian Signed)) 0xABC [0xFF, 0xFF, 0xFF] = Some fr' \<and>
     (\<forall>j < 12. frame_bit fr' (sig_pos (ex_signal 3 12 BigEndian Signed) j) = bit (0xABC :: u64) j)"
proof -
  let ?d = "ex_signal 3 12 BigEndian Signed"
  have "SignalImpl_new ieee 8 ?d = Some (ex_impl 8 ?d)" by (rule ex_impl) (simp_all add: ex_signal_def)
  moreover have "small_buffer [0xFF, 0xFF, 0xFF]" by (simp add: small_buffer_def)
  moreover have "occupied_bytes ?d \<le> 3" by code_simp
  ultimately show ?thesis
    using encode_correct [of ieee 8 ?d "ex_impl 8 ?d" "[0xFF, 0xFF, 0xFF]" "0xABC"]
    by (auto simp: ex_signal_def)
qed

section \<open>Round trips\<close>

text \<open>The raw values a signal can carry.\<close>

definition representable :: "'a signal_data_scheme \<Rightarrow> u64 \<Rightarrow> bool" where
  "representable d raw \<longleftrightarrow>
     (let n = unat (sig_bit_size d)
      in if sign_extended d then - (2 ^ (n - 1)) \<le> sint raw \<and> sint raw < 2 ^ (n - 1)
         else unat raw < 2 ^ n)"

lemma signal_value_representable:
  assumes "1 \<le> unat (sig_bit_size d)" "unat (sig_bit_size d) \<le> 64" and "representable d raw"
  shows "signal_value d (bit raw) = raw"
proof (cases "sign_extended d")
  case True
  let ?m = "unat (sig_bit_size d) - 1"
  have "signed_take_bit ?m (sint raw) = sint raw"
    using assms(3) True by (simp add: signed_take_bit_int_eq_self_iff representable_def Let_def)
  then have e: "bit (signed_take_bit ?m (sint raw)) j = bit (sint raw) j" for j by simp
  have m: "bit raw j = bit raw ?m" if "j < 64" "\<not> j < unat (sig_bit_size d)" for j
    using e [of j] that assms(2)
    by (simp add: bit_signed_take_bit_iff bit_sint_iff min_def split: if_splits)
  show ?thesis
    using True m by (intro u64_eqI) (simp add: bit_signal_value value_bit_def Let_def)
next
  case False
  then have "take_bit (unat (sig_bit_size d)) (unat raw) = unat raw"
    using assms(3) by (simp add: representable_def Let_def take_bit_nat_eq_self)
  then have "take_bit (unat (sig_bit_size d)) raw = raw"
    by (simp add: word_unat_eq_iff unsigned_take_bit_eq)
  then have "bit (take_bit (unat (sig_bit_size d)) raw) j = bit raw j" for j by simp
  then show ?thesis
    using False by (intro u64_eqI) (auto simp: bit_signal_value value_bit_def Let_def bit_take_bit_iff)
qed

text \<open>C5. Decoding an encoded value gives the value back, for every raw value the signal can
  carry.\<close>

theorem decode_encode:
  assumes "signal_in_frame sigi fr" and "representable sigi raw" and "Encode sigi raw fr = Some fr'"
  shows "Decode native sigi fr' = Some raw"
proof -
  have "constructed sigi" using assms(1) by (simp add: signal_in_frame_def)
  then show ?thesis
    using signal_field.dec_enc [OF assms(1,3)] signal_value_representable [of sigi raw]
      constructed_size assms(2) by simp
qed


text \<open>A signal and a buffer that the concrete instances below share.\<close>

lemma ex_in_frame:
  assumes "1 \<le> unat n" "unat n \<le> 64" and "length fr < 1000"
    and "touched_bytes (ex_signal s n bo vt) \<le> length fr"
  shows "signal_in_frame (ex_impl ms (ex_signal s n bo vt)) fr"
proof -
  let ?d = "ex_signal s n bo vt"
  have new: "SignalImpl_new ieee ms ?d = Some (ex_impl ms ?d)"
    using assms by (intro ex_impl) (simp_all add: ex_signal_def)
  have tr: "signal_data.truncate (ex_impl ms ?d) = ?d" using new by (rule SignalImpl_new_SomeD)
  have "well_sized ?d" using assms by (simp add: well_sized_def ex_signal_def)
  then show ?thesis
    using new assms touched_truncate(1) [of "ex_impl ms ?d"] signal_value_trunc(2) [of "ex_impl ms ?d"]
    by (simp add: signal_in_frame_def constructedI small_buffer_def tr)
qed

theorem decode_encode_witness:
  "Decode Little (ex_impl 8 (ex_signal 3 12 BigEndian Signed)) [0x0F, 0xFE, 3, 4, 5, 6, 7, 8] = Some (- 2)"
proof -
  let ?s = "ex_impl 8 (ex_signal 3 12 BigEndian Signed)" and ?fr = "[0, 0, 3, 4, 5, 6, 7, 8] :: u8 list"
  have "signal_in_frame ?s ?fr" by (rule ex_in_frame) (simp_all, code_simp)
  moreover have "representable ?s (- 2)" by code_simp
  moreover have "Encode ?s (- 2) ?fr = Some [0x0F, 0xFE, 3, 4, 5, 6, 7, 8]" by code_simp
  ultimately show ?thesis by (rule decode_encode)
qed

text \<open>C6. Encoding the value that was decoded leaves the buffer as it was.\<close>

theorem encode_decode:
  assumes "signal_in_frame sigi fr" and "Decode native sigi fr = Some raw"
  shows "Encode sigi raw fr = Some fr"
  by (rule signal_field.enc_dec [OF assms])

theorem encode_decode_witness:
  "Encode (ex_impl 8 (ex_signal 3 12 BigEndian Signed)) (- 2) [0x0F, 0xFE, 3, 4, 5, 6, 7, 8] =
     Some [0x0F, 0xFE, 3, 4, 5, 6, 7, 8]"
proof -
  let ?s = "ex_impl 8 (ex_signal 3 12 BigEndian Signed)"
  let ?fr = "[0x0F, 0xFE, 3, 4, 5, 6, 7, 8] :: u8 list"
  have "signal_in_frame ?s ?fr" by (rule ex_in_frame) (simp_all, code_simp)
  moreover have "Decode Little ?s ?fr = Some (- 2)" by code_simp
  ultimately show ?thesis by (rule encode_decode)
qed

section \<open>Several signals in one frame\<close>

text \<open>C16. Encoding one signal does not change what another signal of the frame decodes to, when
  the two have no bit in common.\<close>

theorem encode_keeps_others:
  assumes "signal_in_frame s fr" and "signal_in_frame t fr" and "Encode s raw fr = Some fr'"
    and "sig_pos s ` {..<unat (sig_bit_size s)} \<inter> sig_pos t ` {..<unat (sig_bit_size t)} = {}"
  shows "Decode native t fr' = Decode native t fr"
  by (rule signal_field.dec_other [OF assms])

theorem encode_keeps_others_witness:
  "Decode Little (ex_impl 8 (ex_signal 4 8 LittleEndian Unsigned)) [0xF5, 0x0F, 0, 0, 0, 0, 0, 0] =
   Decode Little (ex_impl 8 (ex_signal 4 8 LittleEndian Unsigned)) [0xF0, 0x0F, 0, 0, 0, 0, 0, 0]"
proof -
  let ?s = "ex_impl 8 (ex_signal 0 4 LittleEndian Unsigned)"
  let ?t = "ex_impl 8 (ex_signal 4 8 LittleEndian Unsigned)"
  let ?fr = "[0xF0, 0x0F, 0, 0, 0, 0, 0, 0] :: u8 list"
  have "signal_in_frame ?s ?fr" by (rule ex_in_frame) (simp_all, code_simp)
  moreover have "signal_in_frame ?t ?fr" by (rule ex_in_frame) (simp_all, code_simp)
  moreover have "Encode ?s 5 ?fr = Some [0xF5, 0x0F, 0, 0, 0, 0, 0, 0]" by code_simp
  moreover have "sig_pos ?s ` {..<unat (sig_bit_size ?s)} \<inter>
      sig_pos ?t ` {..<unat (sig_bit_size ?t)} = {}" by code_simp
  ultimately show ?thesis by (rule encode_keeps_others)
qed

text \<open>C17. Signals without a common bit can be encoded in either order.\<close>

theorem encode_commute:
  assumes "signal_in_frame s fr" and "signal_in_frame t fr"
    and "sig_pos s ` {..<unat (sig_bit_size s)} \<inter> sig_pos t ` {..<unat (sig_bit_size t)} = {}"
    and "Encode s x fr = Some fs" and "Encode t y fs = Some fst'" and "Encode t y fr = Some ft"
  shows "Encode s x ft = Some fst'"
  by (rule signal_field.enc_commute [OF assms])

theorem encode_commute_witness:
  "Encode (ex_impl 8 (ex_signal 0 4 LittleEndian Unsigned)) 5 [0x30, 0x02, 0, 0, 0, 0, 0, 0] =
     Some [0x35, 0x02, 0, 0, 0, 0, 0, 0]"
proof -
  let ?s = "ex_impl 8 (ex_signal 0 4 LittleEndian Unsigned)"
  let ?t = "ex_impl 8 (ex_signal 4 8 LittleEndian Unsigned)"
  let ?fr = "[0xF0, 0x0F, 0, 0, 0, 0, 0, 0] :: u8 list"
  have "signal_in_frame ?s ?fr" by (rule ex_in_frame) (simp_all, code_simp)
  moreover have "signal_in_frame ?t ?fr" by (rule ex_in_frame) (simp_all, code_simp)
  moreover have "sig_pos ?s ` {..<unat (sig_bit_size ?s)} \<inter>
      sig_pos ?t ` {..<unat (sig_bit_size ?t)} = {}" by code_simp
  moreover have "Encode ?s 5 ?fr = Some [0xF5, 0x0F, 0, 0, 0, 0, 0, 0]" by code_simp
  moreover have "Encode ?t 0x23 [0xF5, 0x0F, 0, 0, 0, 0, 0, 0] = Some [0x35, 0x02, 0, 0, 0, 0, 0, 0]"
    by code_simp
  moreover have "Encode ?t 0x23 ?fr = Some [0x30, 0x02, 0, 0, 0, 0, 0, 0]" by code_simp
  ultimately show ?thesis by (rule encode_commute)
qed

end
