(* ===== verification/Message.thy ===== *)
theory Message
  imports Signal
begin

text \<open>
  \<open>MessageImpl\<close> (\<open>src/src/MessageImpl.cpp\<close>, \<open>MessageImpl.h\<close>): construction with the search
  for the multiplexer switch, copying, and \<open>operator==\<close>. The pointer \<open>_mux_signal\<close> into the
  message's own vector of signals is the index of the signal it points to.
\<close>

section \<open>Data and construction\<close>

datatype MessageErrorCode = MsgNoError | MuxValeWithoutMuxSignal

record MessageImpl =
  msg_id :: u64
  msg_name :: string
  msg_message_size :: u64
  msg_transmitter :: string
  msg_message_transmitters :: "string list"
  msg_signals :: "SignalImpl list"
  msg_attribute_values :: "AttributeImpl list"
  msg_comment :: string
  msg_signal_groups :: "SignalGroupImpl list"
  msg_mux_signal :: "nat option"
  msg_error :: MessageErrorCode

text \<open>The loop over the signals: whether a value was seen, and the last switch.\<close>

definition scan_mux_step ::
    "bool \<times> nat option \<Rightarrow> nat \<times> 'a signal_data_scheme \<Rightarrow> bool \<times> nat option" where
  "scan_mux_step st sig =
     (case sig_multiplexer_indicator (snd sig) of
        MuxValue \<Rightarrow> (True, snd st)
      | MuxSwitch \<Rightarrow> (fst st, Some (fst sig))
      | NoMux \<Rightarrow> st)"

definition scan_mux :: "'a signal_data_scheme list \<Rightarrow> bool \<times> nat option" where
  "scan_mux signals = foldl scan_mux_step (False, None) (enumerate 0 signals)"

definition MessageImpl_new ::
    "u64 \<Rightarrow> string \<Rightarrow> u64 \<Rightarrow> string \<Rightarrow> string list \<Rightarrow> SignalImpl list \<Rightarrow> AttributeImpl list \<Rightarrow>
     string \<Rightarrow> SignalGroupImpl list \<Rightarrow> MessageImpl" where
  "MessageImpl_new id' name message_size transmitter message_transmitters signals
     attribute_values comment signal_groups =
     (let (have_mux_value, mux_signal) = scan_mux signals
      in \<lparr>msg_id = id', msg_name = name, msg_message_size = message_size,
          msg_transmitter = transmitter, msg_message_transmitters = message_transmitters,
          msg_signals = signals, msg_attribute_values = attribute_values, msg_comment = comment,
          msg_signal_groups = signal_groups, msg_mux_signal = mux_signal,
          msg_error = (if have_mux_value \<and> mux_signal = None then MuxValeWithoutMuxSignal
                       else MsgNoError)\<rparr>)"

definition IMessage_Create ::
    "u64 \<Rightarrow> string \<Rightarrow> u64 \<Rightarrow> string \<Rightarrow> string list \<Rightarrow> SignalImpl list \<Rightarrow> AttributeImpl list \<Rightarrow>
     string \<Rightarrow> SignalGroupImpl list \<Rightarrow> MessageImpl" where
  "IMessage_Create id' name message_size transmitter message_transmitters signals
     attribute_values comment signal_groups =
     MessageImpl_new id' name message_size transmitter message_transmitters signals
       attribute_values comment signal_groups"

section \<open>Copying\<close>

text \<open>
  The copy constructor and the assignment list the members one by one and leave out
  \<open>_signal_groups\<close>: a copy has none, and an assigned object keeps its own.
\<close>

definition MessageImpl_copy :: "MessageImpl \<Rightarrow> MessageImpl" where
  "MessageImpl_copy other =
     \<lparr>msg_id = msg_id other, msg_name = msg_name other,
      msg_message_size = msg_message_size other, msg_transmitter = msg_transmitter other,
      msg_message_transmitters = msg_message_transmitters other,
      msg_signals = msg_signals other, msg_attribute_values = msg_attribute_values other,
      msg_comment = msg_comment other, msg_signal_groups = [],
      msg_mux_signal = snd (scan_mux (msg_signals other)), msg_error = msg_error other\<rparr>"

definition MessageImpl_assign :: "MessageImpl \<Rightarrow> MessageImpl \<Rightarrow> MessageImpl" where
  "MessageImpl_assign self other =
     self\<lparr>msg_id := msg_id other, msg_name := msg_name other,
       msg_message_size := msg_message_size other, msg_transmitter := msg_transmitter other,
       msg_message_transmitters := msg_message_transmitters other,
       msg_signals := msg_signals other, msg_attribute_values := msg_attribute_values other,
       msg_comment := msg_comment other,
       msg_mux_signal := snd (scan_mux (msg_signals other)), msg_error := msg_error other\<rparr>"

definition Message_Clone :: "MessageImpl \<Rightarrow> MessageImpl" where
  "Message_Clone self = MessageImpl_copy self"

text \<open>\<open>MuxSignal\<close>: the pointer, read through.\<close>

definition MuxSignal :: "MessageImpl \<Rightarrow> SignalImpl option" where
  "MuxSignal m = map_option (\<lambda>i. msg_signals m ! i) (msg_mux_signal m)"

section \<open>\<open>operator==\<close>\<close>

text \<open>The operator does not compare the message sizes.\<close>

definition Message_eq :: "MessageImpl \<Rightarrow> MessageImpl \<Rightarrow> bool" where
  "Message_eq self rhs \<longleftrightarrow>
     msg_id self = msg_id rhs \<and> msg_name self = msg_name rhs \<and>
     msg_transmitter self = msg_transmitter rhs \<and>
     contains_all (=) (msg_message_transmitters self) (msg_message_transmitters rhs) \<and>
     contains_all Signal_eq (msg_signals self) (msg_signals rhs) \<and>
     contains_all Attribute_eq (msg_attribute_values self) (msg_attribute_values rhs) \<and>
     msg_comment self = msg_comment rhs \<and>
     contains_all SignalGroup_eq (msg_signal_groups self) (msg_signal_groups rhs)"

definition Message_nan_free :: "MessageImpl \<Rightarrow> bool" where
  "Message_nan_free m \<longleftrightarrow>
     list_all Signal_nan_free (msg_signals m) \<and>
     list_all Attribute_nan_free (msg_attribute_values m)"

interpretation message: object_eq Message_eq Message_nan_free
proof unfold_locales
  fix x :: MessageImpl assume "Message_nan_free x"
  then show "Message_eq x x"
    by (simp add: Message_eq_def Message_nan_free_def contains_all_eq signal.vec_refl
        attribute.vec_refl signal_group.vec_refl list_all_iff)
next
  fix x y z :: MessageImpl
  assume "Message_eq x y" "Message_eq y z"
  then show "Message_eq x z"
    using signal.vec_trans [of "msg_signals x" "msg_signals y" "msg_signals z"]
      attribute.vec_trans [of "msg_attribute_values x" "msg_attribute_values y"
        "msg_attribute_values z"]
      signal_group.vec_trans [of "msg_signal_groups x" "msg_signal_groups y" "msg_signal_groups z"]
      subset_trans [of "set (msg_message_transmitters z)" "set (msg_message_transmitters y)"
        "set (msg_message_transmitters x)"]
    by (simp add: Message_eq_def contains_all_eq)
qed

section \<open>The multiplexer switch\<close>

lemma scan_mux_snoc:
  "scan_mux (ss @ [s]) = scan_mux_step (scan_mux ss) (length ss, s)"
  by (simp add: scan_mux_def enumerate_append_eq)

lemma scan_mux_Nil: "scan_mux [] = (False, None)"
  by (simp add: scan_mux_def)

lemma fst_scan_mux:
  "fst (scan_mux ss) \<longleftrightarrow> (\<exists>s \<in> set ss. sig_multiplexer_indicator s = MuxValue)"
  by (induction ss rule: rev_induct)
     (auto simp: scan_mux_Nil scan_mux_snoc scan_mux_step_def split: EMultiplexer.splits)

lemma snd_scan_mux_None:
  "snd (scan_mux ss) = None \<longleftrightarrow> (\<forall>s \<in> set ss. sig_multiplexer_indicator s \<noteq> MuxSwitch)"
  by (induction ss rule: rev_induct)
     (auto simp: scan_mux_Nil scan_mux_snoc scan_mux_step_def split: EMultiplexer.splits)

lemma snd_scan_mux_Some:
  "snd (scan_mux ss) = Some i \<longleftrightarrow>
     i < length ss \<and> sig_multiplexer_indicator (ss ! i) = MuxSwitch \<and>
     (\<forall>k. i < k \<and> k < length ss \<longrightarrow> sig_multiplexer_indicator (ss ! k) \<noteq> MuxSwitch)"
proof (induction ss arbitrary: i rule: rev_induct)
  case Nil
  then show ?case by (simp add: scan_mux_Nil)
next
  case (snoc s ss)
  show ?case
  proof (cases "sig_multiplexer_indicator s = MuxSwitch")
    case True
    then have last: "snd (scan_mux (ss @ [s])) = Some (length ss)"
      by (simp add: scan_mux_snoc scan_mux_step_def)
    show ?thesis
    proof
      assume "snd (scan_mux (ss @ [s])) = Some i"
      then have "i = length ss" using last by simp
      then show "i < length (ss @ [s]) \<and> sig_multiplexer_indicator ((ss @ [s]) ! i) = MuxSwitch \<and>
          (\<forall>k. i < k \<and> k < length (ss @ [s]) \<longrightarrow>
             sig_multiplexer_indicator ((ss @ [s]) ! k) \<noteq> MuxSwitch)"
        using True by auto
    next
      assume r: "i < length (ss @ [s]) \<and> sig_multiplexer_indicator ((ss @ [s]) ! i) = MuxSwitch \<and>
          (\<forall>k. i < k \<and> k < length (ss @ [s]) \<longrightarrow>
             sig_multiplexer_indicator ((ss @ [s]) ! k) \<noteq> MuxSwitch)"
      have "\<not> i < length ss"
      proof
        assume "i < length ss"
        then show False
          using conjunct2 [OF conjunct2 [OF r], rule_format, of "length ss"] True by simp
      qed
      then show "snd (scan_mux (ss @ [s])) = Some i" using r last by simp
    qed
  next
    case False
    then have "snd (scan_mux (ss @ [s])) = snd (scan_mux ss)"
      by (cases "sig_multiplexer_indicator s") (simp_all add: scan_mux_snoc scan_mux_step_def)
    then have e: "snd (scan_mux (ss @ [s])) = Some i \<longleftrightarrow> snd (scan_mux ss) = Some i" by simp
    show ?thesis
      unfolding e snoc.IH using False by (auto simp: nth_append less_Suc_eq)
  qed
qed

text \<open>What every constructor leaves, and every copy keeps.\<close>

definition message_wf :: "MessageImpl \<Rightarrow> bool" where
  "message_wf m \<longleftrightarrow>
     msg_mux_signal m = snd (scan_mux (msg_signals m)) \<and>
     (msg_error m = MuxValeWithoutMuxSignal \<longleftrightarrow>
        fst (scan_mux (msg_signals m)) \<and> msg_mux_signal m = None)"

lemma MessageImpl_new_wf: "message_wf (MessageImpl_new i n ms t mts ss avs c sgs)"
  by (auto simp: message_wf_def MessageImpl_new_def split: prod.split)

lemma MessageImpl_copy_wf: "message_wf m \<Longrightarrow> message_wf (MessageImpl_copy m)"
  by (simp add: message_wf_def MessageImpl_copy_def)

lemma MessageImpl_assign_wf: "message_wf m \<Longrightarrow> message_wf (MessageImpl_assign self m)"
  by (simp add: message_wf_def MessageImpl_assign_def)

lemma MessageImpl_copy_eq:
  "message_wf m \<Longrightarrow> MessageImpl_copy m = m\<lparr>msg_signal_groups := []\<rparr>"
  by (simp add: message_wf_def MessageImpl_copy_def)

lemma MessageImpl_new_sel [simp]:
  "msg_id (MessageImpl_new i n ms t mts ss avs c sgs) = i"
  "msg_name (MessageImpl_new i n ms t mts ss avs c sgs) = n"
  "msg_message_size (MessageImpl_new i n ms t mts ss avs c sgs) = ms"
  "msg_transmitter (MessageImpl_new i n ms t mts ss avs c sgs) = t"
  "msg_message_transmitters (MessageImpl_new i n ms t mts ss avs c sgs) = mts"
  "msg_signals (MessageImpl_new i n ms t mts ss avs c sgs) = ss"
  "msg_attribute_values (MessageImpl_new i n ms t mts ss avs c sgs) = avs"
  "msg_comment (MessageImpl_new i n ms t mts ss avs c sgs) = c"
  "msg_signal_groups (MessageImpl_new i n ms t mts ss avs c sgs) = sgs"
  by (simp_all add: MessageImpl_new_def split: prod.split)

end
