(* ===== verification/Network.thy ===== *)
theory Network
  imports Message
begin

text \<open>
  \<open>NetworkImpl\<close> (\<open>src/src/NetworkImpl.cpp\<close>, \<open>NetworkImpl.h\<close>): construction, copying, merging,
  the search for the message of a signal, \<open>operator==\<close>, and the choice of a loader by the
  extension of a file name. The readers behind \<open>LoadDBCFromIs\<close> and \<open>LoadKCDFromIs\<close> are
  parameters here.
\<close>

section \<open>Data and construction\<close>

record NetworkImpl =
  net_version :: string
  net_new_symbols :: "string list"
  net_bit_timing :: BitTimingImpl
  net_nodes :: "NodeImpl list"
  net_value_tables :: "ValueTableImpl list"
  net_messages :: "MessageImpl list"
  net_environment_variables :: "EnvironmentVariableImpl list"
  net_attribute_definitions :: "AttributeDefinitionImpl list"
  net_attribute_defaults :: "AttributeImpl list"
  net_attribute_values :: "AttributeImpl list"
  net_comment :: string

text \<open>\<open>Create\<close> dereferences \<open>bit_timing\<close>: a null pointer there is undefined behaviour.\<close>

definition INetwork_Create ::
    "string \<Rightarrow> string list \<Rightarrow> BitTimingImpl option \<Rightarrow> NodeImpl list \<Rightarrow> ValueTableImpl list \<Rightarrow>
     MessageImpl list \<Rightarrow> EnvironmentVariableImpl list \<Rightarrow> AttributeDefinitionImpl list \<Rightarrow>
     AttributeImpl list \<Rightarrow> AttributeImpl list \<Rightarrow> string \<Rightarrow> NetworkImpl option" where
  "INetwork_Create version new_symbols bit_timing nodes value_tables messages
     environment_variables attribute_definitions attribute_defaults attribute_values comment = do {
     bt \<leftarrow> bit_timing;
     Some \<lparr>net_version = version, net_new_symbols = new_symbols, net_bit_timing = bt,
           net_nodes = nodes, net_value_tables = value_tables, net_messages = messages,
           net_environment_variables = environment_variables,
           net_attribute_definitions = attribute_definitions,
           net_attribute_defaults = attribute_defaults,
           net_attribute_values = attribute_values, net_comment = comment\<rparr> }"

text \<open>The copy of the vector of messages copies each message.\<close>

definition Network_Clone :: "NetworkImpl \<Rightarrow> NetworkImpl" where
  "Network_Clone self = self\<lparr>net_messages := map MessageImpl_copy (net_messages self)\<rparr>"

section \<open>\<open>ParentMessage\<close>\<close>

text \<open>
  A pointer to a signal: the signal at an index of a message at an index of this network, or
  a signal stored anywhere else. The search compares addresses; its result is the index of
  the message.
\<close>

datatype signal_ptr = SignalAt nat nat | SignalElsewhere

definition ParentMessage :: "NetworkImpl \<Rightarrow> signal_ptr \<Rightarrow> nat option" where
  "ParentMessage self sig =
     map_option fst
       (find (\<lambda>(k, msg). find (\<lambda>l. SignalAt k l = sig) [0..<length (msg_signals msg)] \<noteq> None)
          (enumerate 0 (net_messages self)))"

section \<open>\<open>Merge\<close>\<close>

definition Merge :: "NetworkImpl \<Rightarrow> NetworkImpl \<Rightarrow> NetworkImpl" where
  "Merge self other =
     (let self = self\<lparr>net_new_symbols := net_new_symbols self @ net_new_symbols other\<rparr>;
          self = self\<lparr>net_nodes := net_nodes self @ net_nodes other\<rparr>;
          self = self\<lparr>net_value_tables := net_value_tables self @ net_value_tables other\<rparr>;
          self = self\<lparr>net_messages := net_messages self @ net_messages other\<rparr>;
          self = self\<lparr>net_environment_variables :=
                   net_environment_variables self @ net_environment_variables other\<rparr>;
          self = self\<lparr>net_attribute_definitions :=
                   net_attribute_definitions self @ net_attribute_definitions other\<rparr>;
          self = self\<lparr>net_attribute_defaults :=
                   net_attribute_defaults self @ net_attribute_defaults other\<rparr>
      in self\<lparr>net_attribute_values := net_attribute_values self @ net_attribute_values other\<rparr>)"

section \<open>\<open>operator==\<close>\<close>

text \<open>The loop over the new symbols looks each of them up in the vector it iterates over.\<close>

definition Network_eq :: "NetworkImpl \<Rightarrow> NetworkImpl \<Rightarrow> bool" where
  "Network_eq self rhs \<longleftrightarrow>
     net_version self = net_version rhs \<and>
     contains_all (=) (net_new_symbols self) (net_new_symbols self) \<and>
     BitTiming_eq (net_bit_timing self) (net_bit_timing rhs) \<and>
     contains_all Node_eq (net_nodes self) (net_nodes rhs) \<and>
     contains_all ValueTable_eq (net_value_tables self) (net_value_tables rhs) \<and>
     contains_all Message_eq (net_messages self) (net_messages rhs) \<and>
     contains_all EnvironmentVariable_eq
       (net_environment_variables self) (net_environment_variables rhs) \<and>
     contains_all AttributeDefinition_eq
       (net_attribute_definitions self) (net_attribute_definitions rhs) \<and>
     contains_all Attribute_eq (net_attribute_defaults self) (net_attribute_defaults rhs) \<and>
     contains_all Attribute_eq (net_attribute_values self) (net_attribute_values rhs) \<and>
     net_comment self = net_comment rhs"

definition Network_nan_free :: "NetworkImpl \<Rightarrow> bool" where
  "Network_nan_free n \<longleftrightarrow>
     list_all (\<lambda>n. list_all Attribute_nan_free (node_attribute_values n)) (net_nodes n) \<and>
     list_all (\<lambda>vt. pred_option SignalType_nan_free (vt_signal_type vt)) (net_value_tables n) \<and>
     list_all Message_nan_free (net_messages n) \<and>
     list_all EnvironmentVariable_nan_free (net_environment_variables n) \<and>
     list_all (\<lambda>ad. value_type_nan_free (ad_value_type ad)) (net_attribute_definitions n) \<and>
     list_all Attribute_nan_free (net_attribute_defaults n) \<and>
     list_all Attribute_nan_free (net_attribute_values n)"

interpretation network: object_eq Network_eq Network_nan_free
proof unfold_locales
  fix x :: NetworkImpl assume "Network_nan_free x"
  then show "Network_eq x x"
    by (simp add: Network_eq_def Network_nan_free_def contains_all_eq node.vec_refl
        value_table.vec_refl message.vec_refl environment_variable.vec_refl
        attribute_definition.vec_refl attribute.vec_refl bit_timing.eq_refl)
next
  fix x y z :: NetworkImpl
  assume "Network_eq x y" "Network_eq y z"
  then show "Network_eq x z"
    using bit_timing.eq_trans [of "net_bit_timing x" "net_bit_timing y" "net_bit_timing z"]
      node.vec_trans [of "net_nodes x" "net_nodes y" "net_nodes z"]
      value_table.vec_trans [of "net_value_tables x" "net_value_tables y" "net_value_tables z"]
      message.vec_trans [of "net_messages x" "net_messages y" "net_messages z"]
      environment_variable.vec_trans [of "net_environment_variables x"
        "net_environment_variables y" "net_environment_variables z"]
      attribute_definition.vec_trans [of "net_attribute_definitions x"
        "net_attribute_definitions y" "net_attribute_definitions z"]
      attribute.vec_trans [of "net_attribute_defaults x" "net_attribute_defaults y"
        "net_attribute_defaults z"]
      attribute.vec_trans [of "net_attribute_values x" "net_attribute_values y"
        "net_attribute_values z"]
    by (simp add: Network_eq_def contains_all_eq)
qed

section \<open>\<open>LoadNetworkFromFile\<close>\<close>

text \<open>
  \<open>std::filesystem::path::extension\<close>: the part of the last path component from its last dot,
  unless that component is \<open>.\<close> or \<open>..\<close> or has its only dot in front.
\<close>

definition path_filename :: "string \<Rightarrow> string" where
  "path_filename p = rev (takeWhile (\<lambda>c. c \<noteq> CHR ''/'') (rev p))"

definition path_extension :: "string \<Rightarrow> string" where
  "path_extension p =
     (let f = path_filename p; ext = rev (takeWhile (\<lambda>c. c \<noteq> CHR ''.'') (rev f));
          stem = butlast (rev (dropWhile (\<lambda>c. c \<noteq> CHR ''.'') (rev f)))
      in if f = ''..'' \<or> CHR ''.'' \<notin> set f \<or> stem = [] then [] else CHR ''.'' # ext)"

text \<open>
  \<open>open_file\<close>, \<open>LoadDBCFromIs\<close> and \<open>LoadKCDFromIs\<close> are the file system and the two readers; a
  reader that runs into undefined behaviour gives \<open>None\<close>, one that fails a null pointer.
\<close>

definition LoadNetworkFromFile ::
    "bool \<Rightarrow> (string \<Rightarrow> 'is option) \<Rightarrow> ('is \<Rightarrow> NetworkImpl option option) \<Rightarrow>
     ('is \<Rightarrow> (string \<times> NetworkImpl) list option) \<Rightarrow> string \<Rightarrow> (string \<times> NetworkImpl) list option" where
  "LoadNetworkFromFile enable_kcd open_file LoadDBCFromIs LoadKCDFromIs filename =
     (case open_file filename of
        None \<Rightarrow> Some []
      | Some is \<Rightarrow>
          if path_extension filename = ''.dbc'' then
            map_option (\<lambda>net. case net of Some n \<Rightarrow> [([], n)] | None \<Rightarrow> []) (LoadDBCFromIs is)
          else if enable_kcd \<and> path_extension filename = ''.kcd'' then LoadKCDFromIs is
          else Some [])"

section \<open>Invariant\<close>

definition network_wf :: "NetworkImpl \<Rightarrow> bool" where
  "network_wf n \<longleftrightarrow> list_all message_wf (net_messages n)"

lemma Merge_wf: "network_wf a \<Longrightarrow> network_wf b \<Longrightarrow> network_wf (Merge a b)"
  by (simp add: network_wf_def Merge_def)

lemma Clone_wf: "network_wf a \<Longrightarrow> network_wf (Network_Clone a)"
  by (simp add: network_wf_def Network_Clone_def list.pred_map list_all_iff MessageImpl_copy_wf)

end
