(* ===== verification/Text.thy ===== *)
theory Text
  imports Doubles
begin

text \<open>
  What \<open>operator<<\<close> of the standard output streams and \<open>std::to_string\<close> write for the built-in
  types, with the default format flags: decimal integers, and floating-point numbers with six
  significant digits as \<open>%g\<close> does. An output stream is the text written to it.
\<close>

section \<open>Characters and integers\<close>

definition digit_char :: "nat \<Rightarrow> char" where
  "digit_char d = char_of (48 + d)"

fun show_nat :: "nat \<Rightarrow> string" where
  "show_nat n = (if n < 10 then [digit_char n] else show_nat (n div 10) @ [digit_char (n mod 10)])"

declare show_nat.simps [simp del]

definition show_int :: "int \<Rightarrow> string" where
  "show_int i = (if i < 0 then CHR ''-'' # show_nat (nat (- i)) else show_nat (nat i))"

definition show_u64 :: "u64 \<Rightarrow> string" where
  "show_u64 w = show_nat (unat w)"

definition show_i64 :: "i64 \<Rightarrow> string" where
  "show_i64 w = show_int (sint w)"

definition dquote :: string where "dquote = [char_of (34 :: nat)]"
definition newline :: string where "newline = [char_of (10 :: nat)]"
definition tab :: string where "tab = [char_of (9 :: nat)]"

definition quoted :: "string \<Rightarrow> string" where
  "quoted s = dquote @ s @ dquote"

text \<open>\<open>a, b, c\<close>.\<close>

fun join :: "string \<Rightarrow> string list \<Rightarrow> string" where
  "join sep [] = []"
| "join sep [x] = x"
| "join sep (x # y # xs) = x @ sep @ join sep (y # xs)"

section \<open>Floating-point numbers\<close>

text \<open>The number of decimal digits of \<open>n\<close>.\<close>

fun dec_digits :: "nat \<Rightarrow> nat" where
  "dec_digits n = (if n < 10 then 1 else Suc (dec_digits (n div 10)))"

declare dec_digits.simps [simp del]

text \<open>The largest \<open>k\<close> with \<open>10^k \<le> p / q\<close>.\<close>

definition flog10 :: "nat \<Rightarrow> nat \<Rightarrow> int" where
  "flog10 p q =
     (let k = int (dec_digits p) - int (dec_digits q)
      in if q * 10 ^ nat k \<le> p * 10 ^ nat (- k) then k else k - 1)"

text \<open>\<open>p / q\<close> rounded to six significant digits: the digits as a number, and the exponent of the
  first one.\<close>

definition six_digits :: "nat \<Rightarrow> nat \<Rightarrow> nat \<times> int" where
  "six_digits p q =
     (let x = flog10 p q;
          n = round_div (p * 10 ^ nat (5 - x)) (q * 10 ^ nat (x - 5))
      in if n = 10 ^ 6 then (10 ^ 5, x + 1) else (n, x))"

definition strip_zeros :: "string \<Rightarrow> string" where
  "strip_zeros ds = rev (dropWhile (\<lambda>c. c = CHR ''0'') (rev ds))"

definition with_fraction :: "string \<Rightarrow> string \<Rightarrow> string" where
  "with_fraction whole frac = (if frac = [] then whole else whole @ ''.'' @ frac)"

definition show_exponent :: "int \<Rightarrow> string" where
  "show_exponent x =
     (if x < 0 then ''e-'' else ''e+'') @
     (if \<bar>x\<bar> < 10 then ''0'' else []) @ show_nat (nat \<bar>x\<bar>)"

definition show_positive :: "nat \<Rightarrow> nat \<Rightarrow> string" where
  "show_positive p q =
     (let (n, x) = six_digits p q; ds = show_nat n
      in if x < - 4 \<or> 6 \<le> x then
           with_fraction (take 1 ds) (strip_zeros (drop 1 ds)) @ show_exponent x
         else if x < 0 then
           with_fraction ''0'' (strip_zeros (replicate (nat (- x - 1)) CHR ''0'' @ ds))
         else with_fraction (take (nat x + 1) ds) (strip_zeros (drop (nat x + 1) ds)))"

definition show_double :: "double \<Rightarrow> string" where
  "show_double w =
     (let sgn = (if bit w 63 then ''-'' else [])
      in case fp_of_double w of
           NaN \<Rightarrow> sgn @ ''nan''
         | Inf _ \<Rightarrow> sgn @ ''inf''
         | Fin _ m e \<Rightarrow> sgn @ (if m = 0 then ''0''
             else show_positive (m * 2 ^ nat e) (2 ^ nat (- e))))"

section \<open>Reading integers\<close>

text \<open>
  \<open>std::atoi\<close>: white space, a sign, and the digits up to the first other character. A value
  outside \<open>int\<close> is undefined behaviour. The result is converted to \<open>uint64_t\<close>.
\<close>

definition is_space :: "char \<Rightarrow> bool" where
  "is_space c \<longleftrightarrow> of_char c = (32 :: nat) \<or> (9 \<le> (of_char c :: nat) \<and> of_char c \<le> (13 :: nat))"

definition is_digit :: "char \<Rightarrow> bool" where
  "is_digit c \<longleftrightarrow> 48 \<le> (of_char c :: nat) \<and> of_char c \<le> (57 :: nat)"

definition digits_value :: "string \<Rightarrow> nat" where
  "digits_value ds = foldl (\<lambda>n c. 10 * n + (of_char c - 48)) 0 ds"

definition atoi :: "string \<Rightarrow> int option" where
  "atoi str =
     (let t = dropWhile is_space str;
          neg = (t \<noteq> [] \<and> hd t = CHR ''-'');
          ds = (if t \<noteq> [] \<and> hd t \<in> {CHR ''-'', CHR ''+''} then tl t else t);
          n = int (digits_value (takeWhile is_digit ds));
          i = (if neg then - n else n)
      in if - (2 ^ 31) \<le> i \<and> i < 2 ^ 31 then Some i else None)"

lemma of_char_digit: "d < 10 \<Longrightarrow> of_char (digit_char d) = 48 + d"
  by (simp add: digit_char_def)

lemma digits_value_append: "digits_value (ds @ [c]) = 10 * digits_value ds + (of_char c - 48)"
  by (simp add: digits_value_def)

lemma digits_value_show_nat [simp]: "digits_value (show_nat n) = n"
proof (induction n rule: show_nat.induct)
  case (1 n)
  show ?case
  proof (cases "n < 10")
    case True
    then show ?thesis by (simp add: show_nat.simps [of n] digits_value_def of_char_digit)
  next
    case False
    then have "digits_value (show_nat n) = 10 * (n div 10) + n mod 10"
      using 1 by (simp add: show_nat.simps [of n] digits_value_append of_char_digit)
    then show ?thesis by simp
  qed
qed

lemma show_nat_digits: "c \<in> set (show_nat n) \<Longrightarrow> is_digit c"
proof (induction n rule: show_nat.induct)
  case (1 n)
  have "is_digit (digit_char d)" if "d < 10" for d using that by (simp add: is_digit_def of_char_digit)
  with 1 show ?case by (cases "n < 10") (auto simp: show_nat.simps [of n])
qed

lemma show_nat_not_Nil [simp]: "show_nat n \<noteq> []"
  by (simp add: show_nat.simps [of n])

lemma digit_not_space: "is_digit c \<Longrightarrow> \<not> is_space c \<and> c \<noteq> CHR ''-'' \<and> c \<noteq> CHR ''+''"
  by (auto simp: is_digit_def is_space_def)

text \<open>Decimal printing is read back.\<close>

lemma atoi_show_nat: "n < 2 ^ 31 \<Longrightarrow> atoi (show_nat n) = Some (int n)"
proof -
  assume n: "n < 2 ^ 31"
  obtain c cs where c: "show_nat n = c # cs" by (cases "show_nat n") auto
  have d: "is_digit c" using show_nat_digits [of c n] c by simp
  have all: "takeWhile is_digit (show_nat n) = show_nat n"
    by (rule takeWhile_eq_all_conv [THEN iffD2]) (auto simp: show_nat_digits)
  have sp: "dropWhile is_space (show_nat n) = show_nat n" using digit_not_space [OF d] by (simp add: c)
  have h: "hd (show_nat n) \<noteq> CHR ''-''" "hd (show_nat n) \<noteq> CHR ''+''"
    using digit_not_space [OF d] by (simp_all add: c)
  show ?thesis
    unfolding atoi_def sp Let_def using h n by (simp add: all)
qed

end
