(* ===== verification/Network2C.thy ===== *)
theory Network2C
  imports SignalProps Network Text
begin

text \<open>
  The generator of C code (\<open>src/src/Network2C.cpp\<close>). Each call of \<open>boost::format\<close> writes one
  piece of the generated program; the pieces of a decode function are the values of \<open>c_piece\<close>,
  with the format string the source passes (\<open>piece_format\<close>) and the effect of the C code it
  spells (\<open>run_c\<close>). \<open>boost::format\<close> itself is a library and a parameter here.
\<close>

section \<open>Formatting\<close>

text \<open>An argument that is fed to \<open>boost::format\<close> with \<open>%\<close>.\<close>

datatype fmt_arg = FStr string | FU64 u64 | FI64 i64 | FDouble double

type_synonym formatter = "string \<Rightarrow> fmt_arg list \<Rightarrow> string"

section \<open>The header\<close>

text \<open>The macros of the header, on the integer types C gives them.\<close>

definition c_bswap_16 :: "16 word \<Rightarrow> 32 word" where
  "c_bswap_16 v = push_bit 8 (ucast v AND 0xff) OR drop_bit 8 (ucast v)"

definition c_bswap_32 :: "32 word \<Rightarrow> 32 word" where
  "c_bswap_32 v = push_bit 16 (c_bswap_16 (ucast (v AND 0xffff))) OR c_bswap_16 (ucast (drop_bit 16 v))"

definition c_bswap_64 :: "64 word \<Rightarrow> 64 word" where
  "c_bswap_64 v =
     push_bit 32 (ucast (c_bswap_32 (ucast (v AND 0xffffffff)))) OR
     ucast (c_bswap_32 (ucast (drop_bit 32 v)))"

definition dbcppp_native_to_big :: "Endian \<Rightarrow> u64 \<Rightarrow> u64" where
  "dbcppp_native_to_big native v = (if native = Little then c_bswap_64 v else v)"

definition dbcppp_native_to_little :: "Endian \<Rightarrow> u64 \<Rightarrow> u64" where
  "dbcppp_native_to_little native v = (if native = Little then v else c_bswap_64 v)"

section \<open>The decode function of a signal\<close>

datatype c_piece =
    C_load_start
  | C_load u64
  | C_load_wide u64
  | C_load_last u64
  | C_to_big
  | C_to_little
  | C_shift u64
  | C_mask u64
  | C_join_big u64 u64 u64
  | C_join_little u64 u64 u64
  | C_return_signed u64
  | C_return

abbreviation lines :: "string list \<Rightarrow> string" where
  "lines ls \<equiv> concat (map (\<lambda>l. l @ newline) ls)"

fun piece_format :: "c_piece \<Rightarrow> string \<times> fmt_arg list" where
  "piece_format C_load_start =
     (lines [''    data = *reinterpret_cast<const uint64_t*>(nbytes);''], [])"
| "piece_format (C_load p) =
     (lines [''data = *reinterpret_cast<const uint64_t*>(&reinterpret_cast<const uint8_t*>(nbytes)[%1%]);''],
      [FU64 p])"
| "piece_format (C_load_wide p) =
     (lines [''    data = *reinterpret_cast<const uint64_t*>(&reinterpret_cast<const uint8_t*>(nbytes)[%1%]);''],
      [FU64 p])"
| "piece_format (C_load_last p) =
     (lines [''    uint64_t data1 = reinterpret_cast<const uint8_t*>(nbytes)[%1% + 8];''], [FU64 p])"
| "piece_format C_to_big = (lines [''    data = dbcppp_native_to_big(data);''], [])"
| "piece_format C_to_little = (lines [''    data = dbcppp_native_to_little(data);''], [])"
| "piece_format (C_shift n) = (lines [''    data >>= %1%ull;''], [FU64 n])"
| "piece_format (C_mask m) = (lines [''    data &= %1%ull;''], [FU64 m])"
| "piece_format (C_join_big m a b) =
     (lines [''    data = dbcppp_native_to_big(data);'', ''    data &= %1%ull;'',
             ''    data <<= %2%ull;'', ''    data1 >>= %3%ull;'', ''    data |= data1;''],
      [FU64 m, FU64 a, FU64 b])"
| "piece_format (C_join_little a m b) =
     (lines [''    data = dbcppp_native_to_little(data);'', ''    data >>= %1%ull;'',
             ''    data1 &= %2%ull;'', ''    data1 <<= %3%ull;'', ''    data |= data1;)''],
      [FU64 a, FU64 m, FU64 b])"
| "piece_format (C_return_signed m) =
     (lines [''    if (data & %1%ull)'', ''    {'', ''        data |= %1%ull;'', ''    }'',
             ''    return data;''], [FU64 m])"
| "piece_format C_return = (lines [''    return data;''], [])"

text \<open>The pieces of the function that decodes a signal. \<open>_fixed_start_bit_1\<close> is read only in the
  branch for signals that span nine bytes.\<close>

definition decode_pieces :: "SignalImpl \<Rightarrow> c_piece list option" where
  "decode_pieces sigi =
     (let nbytes = signal_nbytes sigi; evt = sig_extended_value_type sigi;
          pos = sig_byte_pos sigi
      in if pos + nbytes \<le> 8 \<or> nbytes \<le> 8 then
           Some ([if pos + nbytes \<le> 8 then C_load_start else C_load pos] @
             [if sig_byte_order sigi = BigEndian then C_to_big else C_to_little] @
             (if evt = EVT_Double then [C_return]
              else [C_shift (sig_fixed_start_bit_0 sigi)] @
                (if evt \<noteq> EVT_Float then
                   [C_mask (sig_mask sigi)] @
                   (if sig_value_type sigi = Signed then [C_return_signed (sig_mask_signed sigi)] else [])
                 else []) @ [C_return]))
         else do {
           b \<leftarrow> sig_fixed_start_bit_1 sigi;
           Some ([C_load_wide pos, C_load_last pos] @
             [if sig_byte_order sigi = BigEndian
              then C_join_big (sig_mask sigi) (sig_fixed_start_bit_0 sigi) b
              else C_join_little (sig_fixed_start_bit_0 sigi) (sig_mask sigi) b] @
             (case evt of
                EVT_Integer \<Rightarrow>
                  (if sig_value_type sigi = Signed
                   then [C_return_signed (sig_mask_signed sigi), C_return] else [C_return])
              | EVT_Float \<Rightarrow> [C_return]
              | EVT_Double \<Rightarrow> [C_return])) })"

section \<open>The text of the program\<close>

definition c_header :: string where
  "c_header =
     lines [''#ifndef DBCPPP_BYTE_ORDER_LITTLE_ENDIAN'',
       ''#error '' @ quoted ''Please pass -DDBCPPP_BYTE_ORDER_LITTLE_ENDIAN=<1|0>'',
       ''#endif'', ''#include <stdint.h>'',
       ''#define bswap_16(value) ((((value) & 0xff) << 8) | ((value) >> 8))'',
       ''#define bswap_32(value) '' @ [char_of (92 :: nat)],
       ''    (((uint32_t)bswap_16((uint16_t)((value) & 0xffff)) << 16) | '' @ [char_of (92 :: nat)],
       ''    (uint32_t)bswap_16((uint16_t)((value) >> 16)))'',
       ''#define bswap_64(value) '' @ [char_of (92 :: nat)],
       ''    (((uint64_t)bswap_32((uint32_t)((value) & 0xffffffff)) '' @ [char_of (92 :: nat)],
       ''    << 32) | '' @ [char_of (92 :: nat)],
       ''    (uint64_t)bswap_32((uint32_t)((value) >> 32)))'',
       ''uint64_t dbcppp_native_to_big(uint64_t& v)'', ''{'',
       ''#if DBCPPP_BYTE_ORDER_LITTLE_ENDIAN == 1'', ''    return bswap_64(v);'', ''#else'',
       ''    return v;'', ''#endif'', ''}'',
       ''uint64_t dbcppp_native_to_little(uint64_t& v)'', ''{'',
       ''#if DBCPPP_BYTE_ORDER_LITTLE_ENDIAN == 1'', ''    return v;'', ''#else'',
       ''    return bswap_64(v);'', ''#endif'', ''}'']"

definition c_function_name :: "MessageImpl \<Rightarrow> SignalImpl \<Rightarrow> string" where
  "c_function_name m s = msg_name m @ ''_'' @ show_u64 (msg_id m) @ ''_'' @ sig_name s"

definition print_c_signal :: "formatter \<Rightarrow> MessageImpl \<Rightarrow> SignalImpl \<Rightarrow> string option" where
  "print_c_signal fmt m s = do {
     pieces \<leftarrow> decode_pieces s;
     Some (fmt (lines [''uint64_t dbcppp_decode_%s(const void* nbytes)'', ''{'', ''    uint64_t data;''])
         [FStr (c_function_name m s)] @
       concat (map (\<lambda>p. fmt (fst (piece_format p)) (snd (piece_format p))) pieces) @
       fmt (lines [''}'']) [] @
       fmt (lines [''double dbcppp_rawToPhys_%1%(uint64_t value)'', ''{'',
                   ''    return value * %2% + %3%;'', ''}''])
         [FStr (c_function_name m s), FDouble (sig_factor s), FDouble (sig_offset s)]) }"

definition print_c_network :: "formatter \<Rightarrow> NetworkImpl \<Rightarrow> string option" where
  "print_c_network fmt net = do {
     functions \<leftarrow> those (concat (map (\<lambda>m. map (print_c_signal fmt m) (msg_signals m)) (net_messages net)));
     Some (fmt c_header [] @ concat functions) }"

section \<open>What the generated program does\<close>

text \<open>Running the pieces: the variables \<open>data\<close> and \<open>data1\<close> are uninitialised at first, and falling
  off the end of the function is undefined behaviour.\<close>

fun run_c :: "Endian \<Rightarrow> u8 list \<Rightarrow> c_piece list \<Rightarrow> u64 option \<Rightarrow> u64 option \<Rightarrow> u64 option" where
  "run_c native fr [] data data1 = None"
| "run_c native fr (C_load_start # cs) data data1 = do {
     data \<leftarrow> load_u64 native fr 0; run_c native fr cs (Some data) data1 }"
| "run_c native fr (C_load p # cs) data data1 = do {
     data \<leftarrow> load_u64 native fr (unat p); run_c native fr cs (Some data) data1 }"
| "run_c native fr (C_load_wide p # cs) data data1 = do {
     data \<leftarrow> load_u64 native fr (unat p); run_c native fr cs (Some data) data1 }"
| "run_c native fr (C_load_last p # cs) data data1 = do {
     data1 \<leftarrow> load_u8 fr (unat p + 8); run_c native fr cs data (Some data1) }"
| "run_c native fr (C_to_big # cs) data data1 = do {
     data \<leftarrow> data; run_c native fr cs (Some (dbcppp_native_to_big native data)) data1 }"
| "run_c native fr (C_to_little # cs) data data1 = do {
     data \<leftarrow> data; run_c native fr cs (Some (dbcppp_native_to_little native data)) data1 }"
| "run_c native fr (C_shift n # cs) data data1 = do {
     data \<leftarrow> data; data \<leftarrow> shr64 data n; run_c native fr cs (Some data) data1 }"
| "run_c native fr (C_mask m # cs) data data1 = do {
     data \<leftarrow> data; run_c native fr cs (Some (data AND m)) data1 }"
| "run_c native fr (C_join_big m a b # cs) data data1 = do {
     data \<leftarrow> data; data1 \<leftarrow> data1;
     let data = dbcppp_native_to_big native data;
     let data = data AND m;
     data \<leftarrow> shl64 data a;
     data1 \<leftarrow> shr64 data1 b;
     run_c native fr cs (Some (data OR data1)) (Some data1) }"
| "run_c native fr (C_join_little a m b # cs) data data1 = do {
     data \<leftarrow> data; data1 \<leftarrow> data1;
     let data = dbcppp_native_to_little native data;
     data \<leftarrow> shr64 data a;
     let data1 = data1 AND m;
     data1 \<leftarrow> shl64 data1 b;
     run_c native fr cs (Some (data OR data1)) (Some data1) }"
| "run_c native fr (C_return_signed m # cs) data data1 = do {
     data \<leftarrow> data; Some (if data AND m \<noteq> 0 then data OR m else data) }"
| "run_c native fr (C_return # cs) data data1 = data"

text \<open>
  Matching parentheses, which every piece of C++ has: \<open>balanced n t\<close> with \<open>n\<close> of them open. Nothing
  else of the syntax of the text is checked.
\<close>

fun balanced :: "nat \<Rightarrow> string \<Rightarrow> bool" where
  "balanced n [] \<longleftrightarrow> n = 0"
| "balanced n (c # cs) \<longleftrightarrow>
     (if c = CHR ''('' then balanced (Suc n) cs
      else if c = CHR '')'' then n \<noteq> 0 \<and> balanced (n - 1) cs
      else balanced n cs)"

definition parens_match :: "c_piece list \<Rightarrow> bool" where
  "parens_match ps \<longleftrightarrow> list_all (\<lambda>p. balanced 0 (fst (piece_format p))) ps"

text \<open>The value of \<open>dbcppp_decode_...\<close> on a frame.\<close>

definition c_decode :: "Endian \<Rightarrow> SignalImpl \<Rightarrow> u8 list \<Rightarrow> u64 option" where
  "c_decode native s fr = do { ps \<leftarrow> decode_pieces s; run_c native fr ps None None }"

end
