(* ===== verification/Network2Human.thy ===== *)
theory Network2Human
  imports Network2C
begin

text \<open>
  The drawing of the bits of each message (\<open>src/src/Network2Human.cpp\<close>). Every text goes through
  \<open>boost::format\<close>, the parameter \<open>fmt\<close>. The lambdas of \<open>operator<<\<close> share the variables \<open>i_bit\<close>
  and \<open>print_last_line\<close>, which are passed along here.
\<close>

section \<open>Bits of a signal\<close>

text \<open>The step through the bits of a big-endian signal.\<close>

definition human_step :: "u64 \<Rightarrow> u64" where
  "human_step start =
     (if start > 15 \<and> (start + 1) mod 8 = 0 then start - 15 else start + 1)"

fun human_bits :: "nat \<Rightarrow> u64 \<Rightarrow> u64 list" where
  "human_bits 0 start = []"
| "human_bits (Suc n) start = start # human_bits n (human_step start)"

definition bit_is_inbetween :: "SignalImpl \<Rightarrow> u64 \<Rightarrow> u64 \<Rightarrow> bool" where
  "bit_is_inbetween sig i_bit switch_value =
     (if switch_value \<noteq> - 1 \<and> sig_multiplexer_indicator sig = MuxValue \<and>
         sig_multiplexer_switch_value sig \<noteq> switch_value then False
      else
        (case sig_byte_order sig of
           LittleEndian \<Rightarrow>
             sig_start_bit sig \<le> i_bit \<and> sig_start_bit sig + sig_bit_size sig > i_bit
         | BigEndian \<Rightarrow>
             i_bit \<in> set (human_bits (unat (sig_bit_size sig)) (sig_start_bit sig))))"

definition is_start_bit :: "SignalImpl \<Rightarrow> u64 \<Rightarrow> bool" where
  "is_start_bit sig i_bit \<longleftrightarrow> sig_start_bit sig = i_bit"

definition is_end_bit :: "SignalImpl \<Rightarrow> u64 \<Rightarrow> bool" where
  "is_end_bit sig i_bit =
     (case sig_byte_order sig of
        LittleEndian \<Rightarrow> sig_start_bit sig + sig_bit_size sig - 1 = i_bit
      | BigEndian \<Rightarrow>
          if sig_bit_size sig > 0
          then (human_step ^^ (unat (sig_bit_size sig) - 1)) (sig_start_bit sig) = i_bit
          else False)"

definition get_mux_signal :: "MessageImpl \<Rightarrow> SignalImpl option" where
  "get_mux_signal msg = find (\<lambda>sig. sig_multiplexer_indicator sig = MuxSwitch) (msg_signals msg)"

text \<open>A \<open>std::set\<close> is the sorted list of its elements.\<close>

definition get_mux_values :: "MessageImpl \<Rightarrow> u64 list" where
  "get_mux_values msg =
     sort (remdups (map sig_multiplexer_switch_value
       (filter (\<lambda>sig. sig_multiplexer_indicator sig = MuxValue) (msg_signals msg))))"

definition find_cur_sig :: "MessageImpl \<Rightarrow> u64 \<Rightarrow> u64 \<Rightarrow> SignalImpl option" where
  "find_cur_sig msg mux_value i_bit =
     find (\<lambda>sig. bit_is_inbetween sig i_bit mux_value) (msg_signals msg)"

section \<open>The lines of a byte\<close>

definition print_ident :: "formatter \<Rightarrow> string" where
  "print_ident fmt = fmt ''         '' []"

definition print_rule :: "formatter \<Rightarrow> string" where
  "print_rule fmt = fmt (''  +---+---+---+---+---+---+---+---+'' @ newline) []"

definition print_signal_header :: "formatter \<Rightarrow> string" where
  "print_signal_header fmt =
     print_ident fmt @ fmt (''                 Bit'' @ newline) [] @
     print_ident fmt @ fmt (''    7   6   5   4   3   2   1   0'' @ newline) []"

definition bit_cell :: "formatter \<Rightarrow> SignalImpl option \<Rightarrow> u64 \<Rightarrow> string" where
  "bit_cell fmt s i_bit =
     (case s of
        None \<Rightarrow> fmt ''   |'' []
      | Some sig \<Rightarrow>
          if is_start_bit sig i_bit \<and> is_end_bit sig i_bit then fmt ''<-x|'' []
          else if is_start_bit sig i_bit then fmt ''--x|'' []
          else if is_end_bit sig i_bit then
            fmt ''<--'' [] @ (if i_bit mod 8 = 0 then fmt ''|'' [] else fmt ''-'' [])
          else fmt ''---'' [] @ (if i_bit mod 8 = 0 then fmt ''|'' [] else fmt ''-'' []))"

text \<open>The loop over the eight bits: the text, and the number of signals that start (\<open>depth\<close>).\<close>

fun bit_cells :: "formatter \<Rightarrow> (u64 \<Rightarrow> SignalImpl option) \<Rightarrow> nat \<Rightarrow> u64 \<Rightarrow> string \<times> nat \<times> u64" where
  "bit_cells fmt cur 0 i_bit = ([], 0, i_bit)"
| "bit_cells fmt cur (Suc k) i_bit =
     (let (t, depth, b) = bit_cells fmt cur k (i_bit - 1)
      in (bit_cell fmt (cur i_bit) i_bit @ t,
          (case cur i_bit of
             Some sig \<Rightarrow> if is_start_bit sig i_bit then Suc depth else depth
           | None \<Rightarrow> depth), b))"

text \<open>The \<open>while\<close> loop that moves to the start bit; \<open>k\<close> is \<open>8 - i\<close>.\<close>

fun skip_cells :: "formatter \<Rightarrow> u64 \<Rightarrow> nat \<Rightarrow> u64 \<Rightarrow> string \<times> nat \<times> u64" where
  "skip_cells fmt start 0 i_bit = ([], 0, i_bit)"
| "skip_cells fmt start (Suc k) i_bit =
     (if i_bit > start then
        (let (t, r) = skip_cells fmt start k (i_bit - 1) in (fmt ''    '' [] @ t, r))
      else ([], Suc k, i_bit))"

lemma skip_cells_le: "fst (snd (skip_cells fmt start k b)) \<le> k"
  by (induction fmt start k b rule: skip_cells.induct) (auto split: prod.splits intro: le_SucI)

text \<open>One line of names: \<open>depth\<close> is the number of lines that remain.\<close>

function name_cells ::
    "formatter \<Rightarrow> (u64 \<Rightarrow> SignalImpl option) \<Rightarrow> nat \<Rightarrow> nat \<Rightarrow> u64 \<Rightarrow> nat \<Rightarrow> string \<times> u64" where
  "name_cells fmt cur depth k i_bit n_sigs =
     (if k = 0 then ([], i_bit)
      else
        (case cur i_bit of
           None \<Rightarrow>
             (let (t, b) = name_cells fmt cur depth (k - 1) (i_bit - 1) n_sigs in (fmt ''    '' [] @ t, b))
         | Some sig \<Rightarrow>
             (let (skipped, r) = skip_cells fmt (sig_start_bit sig) k i_bit
              in if fst r = 0 then (skipped, snd r)
                 else
                   (let cell = (if depth - 1 = n_sigs then fmt '' +-- %s'' [FStr (sig_name sig)]
                                else if n_sigs < depth - 1 then fmt '' |  '' [] else []);
                        (t, b) = name_cells fmt cur depth (fst r - 1) (snd r - 1) (Suc n_sigs)
                    in (skipped @ cell @ t, b)))))"
  by pat_completeness auto

termination
proof (relation "measure (\<lambda>(fmt, cur, depth, k, i_bit, n_sigs). k)")
  fix fmt cur depth k i_bit n_sigs sig and skipped :: string and r :: "nat \<times> u64"
    and x and cell :: string
  assume k: "k \<noteq> 0" and x: "x = skip_cells fmt (sig_start_bit sig) k i_bit"
    and sr: "(skipped, r) = x" and "fst r \<noteq> 0"
  moreover have "r = snd x"
    using sr by (cases x) simp
  ultimately show "((fmt, cur, depth, fst r - 1, snd r - 1, Suc n_sigs), fmt, cur, depth, k, i_bit, n_sigs)
      \<in> measure (\<lambda>(fmt, cur, depth, k, i_bit, n_sigs). k)"
    using skip_cells_le [of fmt "sig_start_bit sig" k i_bit] by auto
qed auto

declare name_cells.simps [simp del]

text \<open>The lines of names below a row of bits, the last one for \<open>depth = 1\<close>.\<close>

fun name_lines :: "formatter \<Rightarrow> (u64 \<Rightarrow> SignalImpl option) \<Rightarrow> nat \<Rightarrow> u64 \<Rightarrow> string \<times> u64" where
  "name_lines fmt cur 0 i_bit = ([], i_bit)"
| "name_lines fmt cur (Suc d) i_bit =
     (let (t, b) = name_cells fmt cur (Suc d) 8 i_bit 0;
          (rest, b) = name_lines fmt cur d (b + 8)
      in (t @ fmt newline [] @
          (if Suc d \<noteq> 1 then print_ident fmt @ fmt ''   '' [] else []) @ rest, b))"

section \<open>The rows of a message\<close>

text \<open>One row: the text, the new \<open>print_last_line\<close> and the new \<open>i_bit\<close>.\<close>

definition print_human_signal ::
    "formatter \<Rightarrow> MessageImpl \<Rightarrow> u64 \<Rightarrow> u64 \<Rightarrow> string \<times> bool \<times> u64" where
  "print_human_signal fmt msg mux_value i_bit =
     (let cur = find_cur_sig msg mux_value;
          (cells, depth, b) = bit_cells fmt cur 8 i_bit;
          b = b + 8;
          (names, b) = (if depth \<noteq> 0
                        then (let (t, b) = name_lines fmt cur depth b
                              in (print_ident fmt @ fmt ''   '' [] @ t, b))
                        else ([], b))
      in (print_ident fmt @ print_rule fmt @ print_ident fmt @ fmt ''%d |'' [FU64 (i_bit div 8)] @
          cells @ fmt newline [] @
          (if depth \<noteq> 0 then print_ident fmt @ print_rule fmt else []) @ names,
          depth = 0, b + 8))"

text \<open>The \<open>while\<close> loop over the rows; \<open>None\<close> would be a loop that does not end.\<close>

partial_function (option) print_rows ::
    "formatter \<Rightarrow> MessageImpl \<Rightarrow> u64 \<Rightarrow> u64 \<Rightarrow> bool \<Rightarrow> (string \<times> bool) option" where
  "print_rows fmt msg mux_value i_bit print_last_line =
     (if i_bit < msg_message_size msg * 8 then
        (case print_human_signal fmt msg mux_value i_bit of (t, bar, b) \<Rightarrow>
           do { (rest, bar) \<leftarrow> print_rows fmt msg mux_value b bar; Some (t @ rest, bar) })
      else Some ([], print_last_line))"

definition print_layout ::
    "formatter \<Rightarrow> MessageImpl \<Rightarrow> u64 \<Rightarrow> bool \<Rightarrow> (string \<times> bool) option" where
  "print_layout fmt msg mux_value print_last_line = do {
     (rows, bar) \<leftarrow> print_rows fmt msg mux_value 7 print_last_line;
     Some (print_signal_header fmt @ rows @ (if bar then print_ident fmt @ print_rule fmt else []),
           bar) }"

text \<open>The header of a drawing dereferences the multiplexer switch, which may be a null pointer.\<close>

definition print_mux_header :: "formatter \<Rightarrow> SignalImpl option \<Rightarrow> u64 \<Rightarrow> string option" where
  "print_mux_header fmt mux_sig mux_value =
     map_option (\<lambda>s. print_ident fmt @
       fmt (''               %s: %d'' @ newline) [FStr (sig_name s), FU64 mux_value]) mux_sig"

fun print_mux_layouts ::
    "formatter \<Rightarrow> MessageImpl \<Rightarrow> SignalImpl option \<Rightarrow> u64 list \<Rightarrow> bool \<Rightarrow> string option" where
  "print_mux_layouts fmt msg mux_sig [] bar = Some []"
| "print_mux_layouts fmt msg mux_sig (v # vs) bar = do {
     h \<leftarrow> print_mux_header fmt mux_sig v;
     (t, bar) \<leftarrow> print_layout fmt msg v bar;
     rest \<leftarrow> print_mux_layouts fmt msg mux_sig vs bar;
     Some (h @ t @ rest) }"

section \<open>The signal tree and the value tables\<close>

fun print_mux_tree :: "formatter \<Rightarrow> SignalImpl list \<Rightarrow> u64 list \<Rightarrow> string" where
  "print_mux_tree fmt sigs [] = []"
| "print_mux_tree fmt sigs (v # vs) =
     fmt (''       |   +--%d'' @ newline) [FU64 v] @
     concat (map (\<lambda>sig. fmt ((if length (v # vs) > 1 then ''       |   |  +-- %s''
                              else ''       |      +-- %s'') @ newline) [FStr (sig_name sig)])
       (filter (\<lambda>sig. sig_multiplexer_indicator sig = MuxValue \<and>
                      sig_multiplexer_switch_value sig = v) sigs)) @
     print_mux_tree fmt sigs vs"

definition print_signal_tree :: "formatter \<Rightarrow> MessageImpl \<Rightarrow> string" where
  "print_signal_tree fmt msg =
     fmt (''  Signal tree:'' @ newline @ newline) [] @ fmt (''    -- {root}'' @ newline) [] @
     (case get_mux_signal msg of
        None \<Rightarrow> []
      | Some mux_sig \<Rightarrow>
          fmt (''       +-- %s'' @ newline) [FStr (sig_name mux_sig)] @
          print_mux_tree fmt (msg_signals msg) (get_mux_values msg)) @
     concat (map (\<lambda>sig. fmt (''       +-- %s'' @ newline) [FStr (sig_name sig)])
       (filter (\<lambda>sig. sig_multiplexer_indicator sig = NoMux) (msg_signals msg)))"

definition print_choices :: "formatter \<Rightarrow> MessageImpl \<Rightarrow> string" where
  "print_choices fmt msg =
     fmt (''  Signal choices:'' @ newline @ newline) [] @
     concat (map (\<lambda>sig. fmt (''    %s'' @ newline) [FStr (sig_name sig)] @
         concat (map (\<lambda>ved. fmt (''        %d %s'' @ newline)
                       [FI64 (ved_value ved), FStr (ved_description ved)])
           (sig_value_encoding_descriptions sig)) @
         fmt newline [])
       (filter (\<lambda>sig. sig_value_encoding_descriptions sig \<noteq> []) (msg_signals msg)))"

section \<open>Messages and networks\<close>

definition print_human_message :: "formatter \<Rightarrow> MessageImpl \<Rightarrow> string option" where
  "print_human_message fmt msg = do {
     drawing \<leftarrow>
       (if get_mux_values msg = [] then map_option fst (print_layout fmt msg (- 1) False)
        else print_mux_layouts fmt msg (get_mux_signal msg) (get_mux_values msg) False);
     Some (fmt (''  %-12s%s'' @ newline) [FStr ''Name:'', FStr (msg_name msg)] @
       fmt (''  %-12s0x%X'' @ newline) [FStr ''ID:'', FU64 (msg_id msg)] @
       fmt (''  %-12s0x%X'' @ newline) [FStr ''Length:'', FU64 (msg_message_size msg)] @
       fmt (''  %-12s%s'' @ newline) [FStr ''Sender:'', FStr (msg_transmitter msg)] @
       fmt (''  Layout:'' @ newline) [] @
       drawing @ fmt newline [] @ print_signal_tree fmt msg @ fmt newline [] @
       print_choices fmt msg) }"

definition print_human_network :: "formatter \<Rightarrow> NetworkImpl \<Rightarrow> string option" where
  "print_human_network fmt net = do {
     messages \<leftarrow> those (map (print_human_message fmt) (net_messages net));
     Some (fmt (''================================= Messages ================================='' @ newline) [] @
       concat (map (\<lambda>t. t @ fmt
         (''  ------------------------------------------------------------------------'' @ newline) [])
         messages)) }"

end
