(* ===== verification/HumanProps.thy ===== *)
theory HumanProps
  imports Network2Human
begin

text \<open>
  Properties of the drawings: they are always finished, they fail exactly on a null pointer, and
  which bits of the frame they give to a signal.
\<close>

section \<open>The bit counter\<close>

text \<open>Every loop over eight bits moves \<open>i_bit\<close> down by eight, and every row up by eight.\<close>

lemma bit_cells_bit: "snd (snd (bit_cells fmt cur k b)) = b - of_nat k"
  by (induction k arbitrary: b) (auto simp: split_def Let_def algebra_simps)

lemma skip_cells_bit:
  "snd (snd (skip_cells fmt start k b)) =
     b - of_nat k + of_nat (fst (snd (skip_cells fmt start k b)))"
  by (induction k arbitrary: b) (auto simp: split_def Let_def algebra_simps)

lemma name_cells_bit: "snd (name_cells fmt cur depth k b n) = b - of_nat k"
proof (induction fmt cur depth k b n rule: name_cells.induct)
  case (1 fmt cur depth k b n)
  show ?case
  proof (cases "k = 0")
    case True
    then show ?thesis by (simp add: name_cells.simps)
  next
    case k: False
    show ?thesis
    proof (cases "cur b")
      case None
      then have "snd (name_cells fmt cur depth k b n) =
          snd (name_cells fmt cur depth (k - 1) (b - 1) n)"
        using k by (subst name_cells.simps) (simp add: split_def Let_def)
      also have "\<dots> = b - 1 - of_nat (k - 1)"
        using 1(1) [OF k None] .
      finally show ?thesis
        using k by (simp add: of_nat_diff)
    next
      case (Some sig)
      obtain skipped r0 r1 where s: "skip_cells fmt (sig_start_bit sig) k b = (skipped, r0, r1)"
        by (cases "skip_cells fmt (sig_start_bit sig) k b") auto
      have r1: "r1 = b - of_nat k + of_nat r0"
        using skip_cells_bit [of fmt "sig_start_bit sig" k b] by (simp add: s)
      show ?thesis
      proof (cases "r0 = 0")
        case True
        then show ?thesis
          using k Some r1 by (subst name_cells.simps) (simp add: s)
      next
        case r0: False
        have "snd (name_cells fmt cur depth k b n) =
            snd (name_cells fmt cur depth (r0 - 1) (r1 - 1) (Suc n))"
          using k Some r0 by (subst name_cells.simps) (simp add: s split_def Let_def)
        also have "\<dots> = r1 - 1 - of_nat (r0 - 1)"
          using 1(2) [OF k Some s [symmetric]] r0 by simp
        finally show ?thesis
          using r0 r1 by (simp add: of_nat_diff)
      qed
    qed
  qed
qed

lemma name_lines_bit: "snd (name_lines fmt cur d b) = b"
  by (induction d arbitrary: b) (auto simp: split_def Let_def name_cells_bit)

lemma print_human_signal_bit: "snd (snd (print_human_signal fmt msg v b)) = b + 8"
  using bit_cells_bit [of fmt "find_cur_sig msg v" 8 b] name_lines_bit [of fmt "find_cur_sig msg v"]
  by (simp add: print_human_signal_def split_def Let_def)

section \<open>Drawings are finished\<close>

lemma rows_bound: "unat ((n::u64) * 8) \<le> 2 ^ 64 - 8"
proof -
  have "unat (n * 8) = (unat n * 8) mod 2 ^ 64"
    by (simp add: unat_word_ariths)
  also have "\<dots> = 8 * (unat n mod 2 ^ 61)"
    using mult_mod_right [of 8 "unat n" "2 ^ 61"] by (simp add: mult.commute)
  finally have e: "unat (n * 8) = 8 * (unat n mod 2 ^ 61)" .
  have "unat n mod 2 ^ 61 < 2 ^ 61" by simp
  then show ?thesis using e by simp
qed

lemma row_step: "b < (n::u64) * 8 \<Longrightarrow> unat (b + 8) = unat b + 8"
  using rows_bound [of n] by (simp add: word_less_nat_alt unat_add64)

lemma print_rows_returns: "\<exists>r. print_rows fmt msg v b l = Some r"
proof (induction "unat (msg_message_size msg * 8) - unat b" arbitrary: b l rule: less_induct)
  case less
  show ?case
  proof (cases "b < msg_message_size msg * 8")
    case False
    then show ?thesis by (simp add: print_rows.simps)
  next
    case True
    obtain t l' where p: "print_human_signal fmt msg v b = (t, l', b + 8)"
      using print_human_signal_bit [of fmt msg v b]
      by (cases "print_human_signal fmt msg v b") auto
    have "unat (msg_message_size msg * 8) - unat (b + 8) < unat (msg_message_size msg * 8) - unat b"
      using True row_step [OF True] by (simp add: word_less_nat_alt)
    then obtain r where "print_rows fmt msg v (b + 8) l' = Some r"
      using less.hyps by blast
    then show ?thesis
      using True by (subst print_rows.simps) (simp add: p split_def)
  qed
qed

lemma print_layout_returns: "\<exists>r. print_layout fmt msg v l = Some r"
  using print_rows_returns [of fmt msg v 7 l] by (auto simp: print_layout_def)

lemma print_mux_layouts_None:
  "print_mux_layouts fmt msg mux vs l = None \<longleftrightarrow> vs \<noteq> [] \<and> mux = None"
proof (induction vs arbitrary: l)
  case Nil
  then show ?case by simp
next
  case (Cons v vs)
  obtain t l' where "print_layout fmt msg v l = Some (t, l')"
    using print_layout_returns [of fmt msg v l] by auto
  then show ?case
    using Cons.IH [of l']
    by (cases mux; cases vs)
       (auto simp: print_mux_header_def split: Option.bind_splits)
qed

lemma get_mux_values_Nil:
  "get_mux_values msg = [] \<longleftrightarrow>
     (\<forall>s \<in> set (msg_signals msg). sig_multiplexer_indicator s \<noteq> MuxValue)"
proof -
  have "get_mux_values msg = [] \<longleftrightarrow> set (get_mux_values msg) = {}"
    by simp
  also have "\<dots> \<longleftrightarrow> (\<forall>s \<in> set (msg_signals msg). sig_multiplexer_indicator s \<noteq> MuxValue)"
    unfolding get_mux_values_def by auto
  finally show ?thesis .
qed

lemma get_mux_signal_None:
  "get_mux_signal msg = None \<longleftrightarrow>
     (\<forall>s \<in> set (msg_signals msg). sig_multiplexer_indicator s \<noteq> MuxSwitch)"
  by (auto simp: get_mux_signal_def find_None_iff)

lemma print_human_message_None:
  "print_human_message fmt msg = None \<longleftrightarrow> get_mux_values msg \<noteq> [] \<and> get_mux_signal msg = None"
proof (cases "get_mux_values msg = []")
  case True
  obtain r where "print_layout fmt msg (- 1) False = Some r"
    using print_layout_returns by blast
  then show ?thesis
    using True by (simp add: print_human_message_def)
next
  case False
  then show ?thesis
    using print_mux_layouts_None [of fmt msg "get_mux_signal msg" "get_mux_values msg" False]
    by (simp add: print_human_message_def bind_eq_None_conv del: not_None_eq)
qed

lemma created_mux_error:
  "msg_error (IMessage_Create i n ms t mts ss avs c sgs) = MuxValeWithoutMuxSignal \<longleftrightarrow>
     get_mux_values (IMessage_Create i n ms t mts ss avs c sgs) \<noteq> [] \<and>
     get_mux_signal (IMessage_Create i n ms t mts ss avs c sgs) = None"
  using fst_scan_mux [of ss] snd_scan_mux_None [of ss]
  by (simp add: get_mux_values_Nil get_mux_signal_None IMessage_Create_def MessageImpl_new_def split_def)

text \<open>C27. Drawing a new message always ends, whatever its size, its signals and the formatter: the
  \<open>while\<close> loop over the rows steps by eight and cannot wrap around. The result is undefined (a null
  pointer is dereferenced for the name of the multiplexer switch) exactly for the messages with
  the error \<open>MuxValeWithoutMuxSignal\<close>; every other message is drawn.\<close>

theorem human_message_returns:
  "print_human_message fmt (IMessage_Create i n ms t mts ss avs c sgs) = None \<longleftrightarrow>
     msg_error (IMessage_Create i n ms t mts ss avs c sgs) = MuxValeWithoutMuxSignal"
  by (simp only: created_mux_error print_human_message_None)

section \<open>The bits given to a signal\<close>

text \<open>
  Where \<open>human_step\<close> goes: upwards within a byte, at its end to the byte before it, and from the bytes
  0 and 1 to the byte behind; so a long walk ends up between the bytes 1 and 2. \<open>drawn_byte B r\<close> is the
  byte after \<open>r\<close> byte boundaries, \<open>drawn_bit s i\<close> the bit after \<open>i\<close> steps from bit \<open>s\<close>.
\<close>

definition drawn_byte :: "nat \<Rightarrow> nat \<Rightarrow> nat" where
  "drawn_byte B r = (if r < B then B - r else if r = 0 then 0 else if even (r - B) then 2 else 1)"

definition drawn_bit :: "nat \<Rightarrow> nat \<Rightarrow> nat" where
  "drawn_bit s i = 8 * drawn_byte (s div 8) ((s mod 8 + i) div 8) + (s mod 8 + i) mod 8"

lemma drawn_byte_Suc:
  "drawn_byte B (Suc r) = (if 2 \<le> drawn_byte B r then drawn_byte B r - 1 else drawn_byte B r + 1)"
  by (cases "Suc r < B"; cases "r < B") (auto simp: drawn_byte_def Suc_diff_le not_less dest: le_antisym)

lemma drawn_bit_0: "drawn_bit s 0 = s"
  by (simp add: drawn_bit_def drawn_byte_def)

lemma drawn_bit_Suc:
  "drawn_bit s (Suc i) =
     (if 15 < drawn_bit s i \<and> (drawn_bit s i + 1) mod 8 = 0 then drawn_bit s i - 15
      else drawn_bit s i + 1)"
proof -
  define t where "t = s mod 8 + i"
  define c where "c = drawn_byte (s div 8) (t div 8)"
  have d: "drawn_bit s i = 8 * c + t mod 8"
    and e: "drawn_bit s (Suc i) = 8 * drawn_byte (s div 8) (Suc t div 8) + Suc t mod 8"
    by (simp_all add: drawn_bit_def c_def t_def)
  show ?thesis
  proof (cases "t mod 8 = 7")
    case True
    then have "Suc t mod 8 = 0" "Suc t div 8 = Suc (t div 8)"
      by (simp_all add: mod_Suc div_Suc)
    then show ?thesis
      using True by (simp add: d e drawn_byte_Suc diff_mult_distrib2 flip: c_def)
  next
    case False
    then have m: "Suc t mod 8 = Suc (t mod 8)" "Suc t div 8 = t div 8"
      by (simp_all add: mod_Suc div_Suc)
    have "(8 * c + t mod 8 + 1) mod 8 = (t mod 8 + 1) mod 8"
      by (metis add.assoc mod_mult_self4)
    also have "\<dots> \<noteq> 0" using False by (simp add: mod_Suc)
    finally show ?thesis by (simp add: d e m flip: c_def)
  qed
qed

lemma human_step_nat:
  "unat (human_step b) =
     (if 15 < unat b \<and> (unat b + 1) mod 8 = 0 then unat b - 15 else unat b + 1)"
proof (cases "unat b = 2 ^ 64 - 1")
  case True
  then have b: "b = 0xFFFFFFFFFFFFFFFF" by (simp add: word_unat_eq_iff)
  have "human_step b = 0xFFFFFFFFFFFFFFF0" unfolding b by code_simp
  then show ?thesis by (simp add: True)
next
  case False
  then have s: "unat (b + 1) = unat b + 1"
    using unat_lt64 [of b] by (simp add: unat_add64)
  have "(b + 1) mod 8 = 0 \<longleftrightarrow> (unat b + 1) mod 8 = 0"
    by (metis s unat_0 unat_mod8 word_unat_eq_iff)
  moreover have "15 < b \<longleftrightarrow> 15 < unat b" by (simp add: word_less_nat_alt)
  moreover have "unat (b - 15) = unat b - 15" if "15 < unat b"
    using that by (subst unat_sub) (simp_all add: word_le_nat_alt)
  ultimately show ?thesis by (auto simp: human_step_def s)
qed

lemma human_walk: "unat ((human_step ^^ i) b) = drawn_bit (unat b) i"
  by (induction i) (simp_all add: drawn_bit_0 drawn_bit_Suc human_step_nat)

lemma human_bits_walk: "human_bits n b = map (\<lambda>i. (human_step ^^ i) b) [0..<n]"
proof (induction n arbitrary: b)
  case (Suc n)
  have "map (\<lambda>i. (human_step ^^ i) b) [0..<Suc n] =
      b # map (\<lambda>i. (human_step ^^ Suc i) b) [0..<n]"
    unfolding map_upt_Suc by simp
  then show ?case by (simp only: human_bits.simps Suc.IH funpow_Suc_right comp_apply)
qed simp

lemma in_human_bits: "b \<in> set (human_bits n s) \<longleftrightarrow> (\<exists>i<n. drawn_bit (unat s) i = unat b)"
  by (auto simp: human_bits_walk image_iff Bex_def word_unat_eq_iff simp flip: human_walk)

text \<open>The bits of a big-endian signal, as an interval in the mirrored numbering.\<close>

lemma big_endian_bits:
  assumes "sig_byte_order s = BigEndian"
  shows "(\<exists>j < unat (sig_bit_size s). sig_pos s j = p) \<longleftrightarrow>
    mirror_bit (unat (sig_start_bit s)) \<le> mirror_bit p \<and>
    mirror_bit p < mirror_bit (unat (sig_start_bit s)) + unat (sig_bit_size s)"
proof -
  let ?n = "unat (sig_bit_size s)" and ?m = "mirror_bit (unat (sig_start_bit s))"
  have "sig_pos s j = p \<longleftrightarrow> ?m + (?n - 1 - j) = mirror_bit p" for j
    using assms by (simp add: sig_pos_def Let_def) (metis mirror_bit_mirror_bit)
  moreover have "(\<exists>j<?n. ?m + (?n - 1 - j) = q) \<longleftrightarrow> ?m \<le> q \<and> q < ?m + ?n" for q
  proof
    assume "?m \<le> q \<and> q < ?m + ?n"
    then show "\<exists>j<?n. ?m + (?n - 1 - j) = q" by (intro exI [of _ "?n - 1 - (q - ?m)"]) auto
  qed auto
  ultimately show ?thesis by simp
qed

text \<open>The walk takes the bits of the signal in two cases only.\<close>

definition drawn_as_decoded :: "nat \<Rightarrow> nat \<Rightarrow> bool" where
  "drawn_as_decoded s n \<longleftrightarrow>
     (\<forall>p. (\<exists>i<n. drawn_bit s i = p) \<longleftrightarrow> mirror_bit s \<le> mirror_bit p \<and> mirror_bit p < mirror_bit s + n)"

lemma drawn_as_decodedD:
  assumes "drawn_as_decoded s n"
  shows "i < n \<Longrightarrow> mirror_bit s \<le> mirror_bit (drawn_bit s i)"
    and "i < n \<Longrightarrow> \<exists>k<n. drawn_bit s k = mirror_bit (mirror_bit s + i)"
proof -
  show "mirror_bit s \<le> mirror_bit (drawn_bit s i)" if "i < n"
    using assms that by (auto simp: drawn_as_decoded_def)
  show "\<exists>k<n. drawn_bit s k = mirror_bit (mirror_bit s + i)" if "i < n"
    using assms that by (auto simp: drawn_as_decoded_def mirror_bit_mirror_bit)
qed

lemma drawn_from_15:
  "i < 16 \<Longrightarrow> drawn_bit 15 i = (if i = 0 then 15 else if i < 9 then 15 + i else i - 1)"
proof -
  assume i: "i < 16"
  consider "i = 0" | "1 \<le> i" "i < 9" | "9 \<le> i" by linarith
  then show ?thesis
  proof cases
    case 2
    then have "(7 + i) div 8 = 1" "(7 + i) mod 8 = i - 1"
      using div_nat_eqI [of 8 1 "7 + i"] by (auto simp: modulo_nat_def)
    then show ?thesis using 2 by (simp add: drawn_bit_def drawn_byte_def)
  next
    case 3
    then have "(7 + i) div 8 = 2" "(7 + i) mod 8 = i - 9"
      using i div_nat_eqI [of 8 2 "7 + i"] by (auto simp: modulo_nat_def)
    then show ?thesis using 3 by (simp add: drawn_bit_def drawn_byte_def)
  qed (simp add: drawn_bit_def drawn_byte_def)
qed

lemma drawn_from_15_le: "drawn_bit 15 i < 24"
proof -
  have "drawn_byte 1 r \<le> 2" for r by (simp add: drawn_byte_def)
  from this [of "(7 + i) div 8"] have "drawn_byte (15 div 8) ((15 mod 8 + i) div 8) \<le> 2" by simp
  then show ?thesis
    using mod_less_divisor [of 8 "15 mod 8 + i"] unfolding drawn_bit_def by linarith
qed

lemma mirror_bit_succ:
  assumes "p mod 8 \<noteq> 7"
  shows "mirror_bit (Suc p) < mirror_bit p"
proof -
  have "Suc p mod 8 = Suc (p mod 8)" "Suc p div 8 = p div 8"
    using assms by (simp_all add: mod_Suc div_Suc)
  then show ?thesis
    using assms by (simp add: mirror_bit_def) (use mod_less_divisor [of 8 p] in linarith)
qed

lemma little_endian_interval:
  "(a::u64) \<le> b \<and> b < a + n \<longleftrightarrow>
     unat a + unat n < 2 ^ 64 \<and> unat a \<le> unat b \<and> unat b < unat a + unat n"
proof (cases "unat a + unat n < 2 ^ 64")
  case True
  then show ?thesis by (simp add: word_le_nat_alt word_less_nat_alt unat_add64)
next
  case False
  then have "unat (a + n) = unat a + unat n - 2 ^ 64"
    using unat_lt64 [of a] unat_lt64 [of n] by (simp add: unat_word_ariths mod_if)
  then have "unat (a + n) \<le> unat a"
    using unat_lt64 [of n] by simp
  then show ?thesis using False by (auto simp: word_le_nat_alt word_less_nat_alt)
qed

lemma drawn_as_decoded_iff: "drawn_as_decoded s n \<longleftrightarrow> n \<le> 1 \<or> s = 15 \<and> n = 16"
proof
  assume d: "drawn_as_decoded s n"
  show "n \<le> 1 \<or> s = 15 \<and> n = 16"
  proof (rule ccontr)
    assume "\<not> ?thesis"
    then have n: "1 < n" and other: "\<not> (s = 15 \<and> n = 16)" by auto
    have up: "mirror_bit s \<le> mirror_bit (drawn_bit s 1)"
      using drawn_as_decodedD(1) [OF d n] .
    have s7: "s mod 8 = 7"
    proof (rule ccontr)
      assume "s mod 8 \<noteq> 7"
      moreover from this have "drawn_bit s 1 = Suc s"
        using drawn_bit_Suc [of s 0] by (auto simp: drawn_bit_0 mod_Suc)
      ultimately show False using up mirror_bit_succ [of s] by simp
    qed
    then have m: "mirror_bit s = 8 * (s div 8)" by (simp add: mirror_bit_def)
    have "s \<le> 15"
    proof (rule ccontr)
      assume "\<not> s \<le> 15"
      moreover have "(s + 1) mod 8 = 0" using s7 by (simp add: mod_Suc)
      ultimately have "drawn_bit s 1 < 8 * (s div 8)"
        using drawn_bit_Suc [of s 0] div_mult_mod_eq [of s 8] s7 by (simp add: drawn_bit_0)
      then show False using up m mirror_bit_less [of "drawn_bit s 1" "s div 8"] by simp
    qed
    then have "s = 7 \<or> s = 15" using s7 by presburger
    then show False
    proof
      assume s: "s = 7"
      obtain k where "drawn_bit 7 k = 6"
        using drawn_as_decodedD(2) [OF d n] by (auto simp: s mirror_bit_def)
      then show False by (cases k) (auto simp: drawn_bit_def drawn_byte_def split: if_splits)
    next
      assume s: "s = 15"
      obtain k where k: "k < n" "drawn_bit 15 k = 14"
        using drawn_as_decodedD(2) [OF d n] by (auto simp: s mirror_bit_def)
      then have "15 \<le> k" using drawn_from_15 [of k] by (cases "k < 16") (auto split: if_splits)
      then have "16 < n" using k(1) other s by auto
      then obtain k' where "drawn_bit 15 k' = 31"
        using drawn_as_decodedD(2) [OF d, of 16] by (auto simp: s mirror_bit_def)
      then show False using drawn_from_15_le [of k'] by simp
    qed
  qed
next
  assume "n \<le> 1 \<or> s = 15 \<and> n = 16"
  then show "drawn_as_decoded s n"
  proof
    assume "n \<le> 1"
    moreover have "mirror_bit s \<le> mirror_bit p \<and> mirror_bit p < mirror_bit s + 1 \<longleftrightarrow> s = p" for p
      using mirror_bit_inj [of s p] by linarith
    ultimately show ?thesis
      by (cases n) (auto simp: drawn_as_decoded_def drawn_bit_0)
  next
    assume sn: "s = 15 \<and> n = 16"
    have "(\<exists>i<16. drawn_bit 15 i = p) \<longleftrightarrow> 8 \<le> p \<and> p < 24" for p
    proof
      assume "8 \<le> p \<and> p < 24"
      then show "\<exists>i<16. drawn_bit 15 i = p"
        by (intro exI [of _ "if p < 15 then p + 1 else p - 15"]) (auto simp: drawn_from_15)
    qed (auto simp: drawn_from_15)
    moreover have "8 \<le> mirror_bit p \<and> mirror_bit p < 24 \<longleftrightarrow> 8 \<le> p \<and> p < 24" for p
      using mirror_bit_less [of p 1] mirror_bit_less [of p 3] by auto
    moreover have "mirror_bit 15 = 8" by (simp add: mirror_bit_def)
    ultimately show ?thesis using sn by (simp add: drawn_as_decoded_def)
  qed
qed

text \<open>C28. The bits a drawing gives to a signal, exactly. A signal that depends on another value of the
  multiplexer switch gets none (\<open>v = - 1\<close> draws every signal). A little-endian signal gets exactly
  the bits that \<open>Decode\<close> reads and \<open>Encode\<close> writes, and none when \<open>start_bit + bit_size\<close> wraps around.
  A big-endian signal gets the first \<open>bit_size\<close> bits of the walk \<open>drawn_bit\<close>, which goes upwards from
  the start bit although the signal runs downwards; its last bit is where the drawing ends the
  signal. These are the bits of the signal only for signals of at most one bit and for the
  signals of sixteen bits that start at bit 15.\<close>

theorem human_drawn_bits:
  "(bit_is_inbetween s b v \<longleftrightarrow>
     (v = - 1 \<or> sig_multiplexer_indicator s \<noteq> MuxValue \<or> sig_multiplexer_switch_value s = v) \<and>
     (if sig_byte_order s = LittleEndian
      then unat (sig_start_bit s) + unat (sig_bit_size s) < 2 ^ 64 \<and>
        (\<exists>j < unat (sig_bit_size s). sig_pos s j = unat b)
      else \<exists>i < unat (sig_bit_size s). drawn_bit (unat (sig_start_bit s)) i = unat b)) \<and>
   (sig_byte_order s = BigEndian \<longrightarrow>
     (is_end_bit s b \<longleftrightarrow> sig_bit_size s \<noteq> 0 \<and>
        drawn_bit (unat (sig_start_bit s)) (unat (sig_bit_size s) - 1) = unat b) \<and>
     ((\<forall>p. (\<exists>i < unat (sig_bit_size s). drawn_bit (unat (sig_start_bit s)) i = p) \<longleftrightarrow>
           (\<exists>j < unat (sig_bit_size s). sig_pos s j = p)) \<longleftrightarrow>
        sig_bit_size s \<le> 1 \<or> sig_start_bit s = 15 \<and> sig_bit_size s = 16))"
proof (cases "sig_byte_order s")
  case LittleEndian
  let ?s = "sig_start_bit s" and ?n = "sig_bit_size s"
  have "(\<exists>j < unat ?n. unat ?s + j = unat b) \<longleftrightarrow> unat ?s \<le> unat b \<and> unat b < unat ?s + unat ?n"
    by (metis add_less_cancel_left le_add1 le_iff_add)
  then show ?thesis
    using little_endian_interval [of ?s b ?n] LittleEndian
    by (auto simp: bit_is_inbetween_def sig_pos_def Let_def)
next
  case BigEndian
  let ?s = "sig_start_bit s" and ?n = "sig_bit_size s"
  have "is_end_bit s b \<longleftrightarrow> ?n \<noteq> 0 \<and> drawn_bit (unat ?s) (unat ?n - 1) = unat b"
    using BigEndian
    by (auto simp: is_end_bit_def word_neq_0_conv word_unat_eq_iff [of _ b] human_walk)
  moreover have "?n \<le> 1 \<longleftrightarrow> unat ?n \<le> 1" "?s = 15 \<longleftrightarrow> unat ?s = 15" "?n = 16 \<longleftrightarrow> unat ?n = 16"
    by (simp_all add: word_le_nat_alt word_unat_eq_iff)
  ultimately show ?thesis
    using BigEndian drawn_as_decoded_iff [of "unat ?s" "unat ?n"]
    by (auto simp: bit_is_inbetween_def in_human_bits big_endian_bits drawn_as_decoded_def)
qed

text \<open>Drawn bits of a signal of four bits from bit 3: the signal has the bits 3 to 0, the drawing gives
  it 3 to 6. The same walk from bit 22 on goes through bytes 1 and 2.\<close>

theorem human_drawn_bits_witness:
  "let s = ex_impl 8 (ex_signal 3 4 BigEndian Unsigned);
       t = ex_impl 8 (ex_signal 22 12 BigEndian Unsigned)
   in bit_is_inbetween s 6 (- 1) \<and> \<not> bit_is_inbetween s 2 (- 1) \<and> is_end_bit s 6 \<and>
      \<not> (\<forall>p. (\<exists>i < 4. drawn_bit 3 i = p) \<longleftrightarrow> (\<exists>j < 4. sig_pos s j = p)) \<and>
      bit_is_inbetween t 17 (- 1) \<and> is_end_bit t 17"
proof -
  have fields: "sig_start_bit (ex_impl 8 (ex_signal a n BigEndian Unsigned)) = a \<and>
      sig_bit_size (ex_impl 8 (ex_signal a n BigEndian Unsigned)) = n \<and>
      sig_byte_order (ex_impl 8 (ex_signal a n BigEndian Unsigned)) = BigEndian"
    if "1 \<le> n" "n \<le> 64" for a n :: u64
  proof -
    have "SignalImpl_new ieee 8 (ex_signal a n BigEndian Unsigned) =
        Some (ex_impl 8 (ex_signal a n BigEndian Unsigned))"
      using that by (intro ex_impl) (simp_all add: ex_signal_def word_le_nat_alt)
    then have "signal_data.truncate (ex_impl 8 (ex_signal a n BigEndian Unsigned)) =
        ex_signal a n BigEndian Unsigned"
      by (rule SignalImpl_new_SomeD)
    note truncated = truncate_sel [OF this]
    have "sig_start_bit (ex_signal a n BigEndian Unsigned) = a \<and>
        sig_bit_size (ex_signal a n BigEndian Unsigned) = n \<and>
        sig_byte_order (ex_signal a n BigEndian Unsigned) = BigEndian"
      by (simp add: ex_signal_def)
    then show ?thesis by (simp only: truncated)
  qed
  let ?s = "ex_impl 8 (ex_signal 3 4 BigEndian Unsigned)"
    and ?t = "ex_impl 8 (ex_signal 22 12 BigEndian Unsigned)"
  have "drawn_bit 3 3 = 6" "drawn_bit 22 11 = 17"
    by (simp_all add: drawn_bit_def drawn_byte_def)
  moreover have "drawn_bit 3 i = 3 + i" if "i < 4" for i
    using that by (simp add: drawn_bit_def drawn_byte_def)
  then have "\<not> (\<exists>i<4. drawn_bit 3 i = 2)" by auto
  moreover have "bit_is_inbetween ?s 6 (- 1) \<longleftrightarrow> (\<exists>i<4. drawn_bit 3 i = 6)"
    "bit_is_inbetween ?s 2 (- 1) \<longleftrightarrow> (\<exists>i<4. drawn_bit 3 i = 2)"
    "bit_is_inbetween ?t 17 (- 1) \<longleftrightarrow> (\<exists>i<12. drawn_bit 22 i = 17)"
    by (simp_all add: fields human_drawn_bits [THEN conjunct1])
  moreover have "is_end_bit ?s 6 \<longleftrightarrow> drawn_bit 3 3 = 6" "is_end_bit ?t 17 \<longleftrightarrow> drawn_bit 22 11 = 17"
    "\<not> (\<forall>p. (\<exists>i < 4. drawn_bit 3 i = p) \<longleftrightarrow> (\<exists>j < 4. sig_pos ?s j = p))"
    using human_drawn_bits [of ?s 6 0] human_drawn_bits [of ?t 17 0] by (simp_all add: fields word_le_nat_alt)
  moreover have "\<exists>i<4. drawn_bit 3 i = 6" "\<exists>i<12. drawn_bit 22 i = 17"
    by (rule exI [of _ 3], simp add: drawn_bit_def drawn_byte_def)
      (rule exI [of _ 11], simp add: drawn_bit_def drawn_byte_def)
  ultimately show ?thesis unfolding Let_def by blast
qed

end
