(* ===== verification/Network2DBC.thy ===== *)
theory Network2DBC
  imports Network Text
begin

text \<open>
  Writing a network as a DBC file (\<open>src/src/Network2DBC.cpp\<close>). An overload of \<open>operator<<\<close> is
  a function that returns the text it appends. The overload for attributes searches the network
  for the object that holds the attribute, comparing addresses; an address is the position of
  the attribute in the network. Dereferencing the null pointer the search for a signal may
  return is \<open>None\<close>.
\<close>

section \<open>Attributes\<close>

datatype attr_ptr =
    DefaultAttr nat
  | NetworkAttr nat
  | NodeAttr nat nat
  | MessageAttr nat nat
  | SignalAttr nat nat nat
  | EnvVarAttr nat nat

fun print_value :: "value_t \<Rightarrow> string" where
  "print_value (V_int64 i) = '' '' @ show_i64 i"
| "print_value (V_double d) = '' '' @ show_double d"
| "print_value (V_string s) = '' '' @ quoted s"

text \<open>\<open>find_if\<close> on a vector: the index of the first element that satisfies the predicate.\<close>

definition find_idx :: "(nat \<Rightarrow> 'a \<Rightarrow> bool) \<Rightarrow> 'a list \<Rightarrow> nat option" where
  "find_idx P xs = map_option fst (find (\<lambda>(i, x). P i x) (enumerate 0 xs))"

text \<open>Whether a vector of attributes, whose elements have the given addresses, contains \<open>iattr\<close>.\<close>

definition holds_attr :: "(nat \<Rightarrow> attr_ptr) \<Rightarrow> AttributeImpl list \<Rightarrow> attr_ptr \<Rightarrow> bool" where
  "holds_attr addr attrs iattr \<longleftrightarrow> find_idx (\<lambda>i _. addr i = iattr) attrs \<noteq> None"

definition find_node_name :: "NetworkImpl \<Rightarrow> attr_ptr \<Rightarrow> string" where
  "find_node_name net iattr =
     (case find_idx (\<lambda>k n. holds_attr (NodeAttr k) (node_attribute_values n) iattr) (net_nodes net) of
        Some k \<Rightarrow> node_name (net_nodes net ! k)
      | None \<Rightarrow> [])"

definition find_message_id :: "NetworkImpl \<Rightarrow> attr_ptr \<Rightarrow> u64" where
  "find_message_id net iattr =
     (case find_idx (\<lambda>k m. holds_attr (MessageAttr k) (msg_attribute_values m) iattr)
             (net_messages net) of
        Some k \<Rightarrow> msg_id (net_messages net ! k)
      | None \<Rightarrow> - 1)"

text \<open>The search over messages and signals stops at the first message with a hit, and \<open>osig\<close> is
  then the signal that was hit in it.\<close>

definition find_signal :: "NetworkImpl \<Rightarrow> attr_ptr \<Rightarrow> (nat \<times> nat) option" where
  "find_signal net iattr = do {
     k \<leftarrow> find_idx (\<lambda>k m. find_idx (\<lambda>l s. holds_attr (SignalAttr k l) (sig_attribute_values s) iattr)
            (msg_signals m) \<noteq> None) (net_messages net);
     l \<leftarrow> find_idx (\<lambda>l s. holds_attr (SignalAttr k l) (sig_attribute_values s) iattr)
            (msg_signals (net_messages net ! k));
     Some (k, l) }"

definition find_environment_variable_name :: "NetworkImpl \<Rightarrow> attr_ptr \<Rightarrow> string" where
  "find_environment_variable_name net iattr =
     (case find_idx (\<lambda>k ev. holds_attr (EnvVarAttr k) (ev_attribute_values ev) iattr)
             (net_environment_variables net) of
        Some k \<Rightarrow> ev_name (net_environment_variables net ! k)
      | None \<Rightarrow> [])"

definition print_attribute :: "NetworkImpl \<Rightarrow> attr_ptr \<Rightarrow> AttributeImpl \<Rightarrow> string option" where
  "print_attribute net iattr a = do {
     let cmd = (if holds_attr DefaultAttr (net_attribute_defaults net) iattr
                then ''BA_DEF_DEF_'' else ''BA_'');
     body \<leftarrow>
       (case attr_object_type a of
          OT_Network \<Rightarrow> Some (print_value (attr_value a))
        | OT_Node \<Rightarrow> Some ('' BU_ '' @ find_node_name net iattr @ print_value (attr_value a))
        | OT_Message \<Rightarrow>
            Some ('' BO_ '' @ show_u64 (find_message_id net iattr) @ print_value (attr_value a))
        | OT_Signal \<Rightarrow> do {
            (k, l) \<leftarrow> find_signal net iattr;
            parent \<leftarrow> ParentMessage net (SignalAt k l);
            Some ('' SG_ '' @ show_u64 (msg_id (net_messages net ! parent)) @ '' '' @
                  sig_name (msg_signals (net_messages net ! k) ! l) @ print_value (attr_value a)) }
        | OT_EnvironmentVariable \<Rightarrow>
            Some ('' EV_ '' @ find_environment_variable_name net iattr @ print_value (attr_value a)));
     Some (cmd @ '' '' @ quoted (attr_name a) @ body @ '';'' @ newline) }"

section \<open>Definitions, bit timing and environment variables\<close>

fun print_value_type :: "value_type_t \<Rightarrow> string" where
  "print_value_type (ValueTypeInt a b) = '' INT '' @ show_i64 a @ '' '' @ show_i64 b"
| "print_value_type (ValueTypeHex a b) = '' HEX '' @ show_i64 a @ '' '' @ show_i64 b"
| "print_value_type (ValueTypeFloat a b) = '' FLOAT '' @ show_double a @ '' '' @ show_double b"
| "print_value_type ValueTypeString = '' STRING''"
| "print_value_type (ValueTypeEnum vs) =
     '' ENUM'' @ (if vs = [] then [] else '' '' @ join '', '' (map quoted vs))"

definition print_object_type :: "EObjectType \<Rightarrow> string" where
  "print_object_type ot =
     (case ot of
        OT_Network \<Rightarrow> [] | OT_Node \<Rightarrow> ''BU_'' | OT_Message \<Rightarrow> ''BO_'' | OT_Signal \<Rightarrow> ''SG_''
      | OT_EnvironmentVariable \<Rightarrow> ''EV_'')"

definition print_attribute_definition :: "AttributeDefinitionImpl \<Rightarrow> string" where
  "print_attribute_definition ad =
     (let object_type = print_object_type (ad_object_type ad)
      in ''BA_DEF_ '' @ (if object_type \<noteq> [] then object_type @ '' '' else []) @
         quoted (ad_name ad) @ print_value_type (ad_value_type ad) @ '';'' @ newline)"

definition print_bit_timing :: "BitTimingImpl \<Rightarrow> string" where
  "print_bit_timing bt =
     ''BS_:'' @
     (if bt_baudrate bt \<noteq> 0 \<and> bt_BTR1 bt \<noteq> 0 \<and> bt_BTR2 bt \<noteq> 0
      then '' '' @ show_u64 (bt_baudrate bt) @ '' : '' @ show_u64 (bt_BTR1 bt) @ '', '' @
        show_u64 (bt_BTR2 bt) else []) @ newline"

definition print_access_type :: "EAccessType \<Rightarrow> string" where
  "print_access_type a =
     (case a of
        Unrestricted \<Rightarrow> ''DUMMY_NODE_VECTOR0'' | Read \<Rightarrow> ''DUMMY_NODE_VECTOR1''
      | Write \<Rightarrow> ''DUMMY_NODE_VECTOR2'' | ReadWrite \<Rightarrow> ''DUMMY_NODE_VECTOR3''
      | Unrestricted' \<Rightarrow> ''DUMMY_NODE_VECTOR8000'' | Read' \<Rightarrow> ''DUMMY_NODE_VECTOR8001''
      | Write' \<Rightarrow> ''DUMMY_NODE_VECTOR8002'' | ReadWrite' \<Rightarrow> ''DUMMY_NODE_VECTOR8003'')"

definition print_environment_variable :: "EnvironmentVariableImpl \<Rightarrow> string" where
  "print_environment_variable ev =
     ''EV_ '' @ ev_name ev @ '': '' @
     (case ev_var_type ev of VT_Integer \<Rightarrow> ''0'' | VT_Float \<Rightarrow> ''1'' | VT_String \<Rightarrow> ''2'' | VT_Data \<Rightarrow> ''0'') @
     '' ['' @ show_double (ev_minimum ev) @ ''|'' @ show_double (ev_maximum ev) @ '']'' @ '' '' @
     quoted (ev_unit ev) @ '' '' @ show_double (ev_initial_value ev) @ '' '' @
     show_u64 (ev_ev_id ev) @ '' '' @ print_access_type (ev_access_type ev) @
     (if ev_access_nodes ev = [] then [] else '' '' @ join '', '' (ev_access_nodes ev)) @
     '';'' @ newline"

section \<open>Signals, messages, value tables\<close>

definition print_multiplexer :: "'a signal_data_scheme \<Rightarrow> string" where
  "print_multiplexer s =
     (case sig_multiplexer_indicator s of
        MuxSwitch \<Rightarrow> ''M ''
      | MuxValue \<Rightarrow> ''m'' @ show_u64 (sig_multiplexer_switch_value s) @ '' ''
      | NoMux \<Rightarrow> [])"

definition print_byte_order :: "EByteOrder \<Rightarrow> string" where
  "print_byte_order bo = (case bo of BigEndian \<Rightarrow> ''0'' | LittleEndian \<Rightarrow> ''1'')"

definition print_value_type_sign :: "EValueType \<Rightarrow> string" where
  "print_value_type_sign vt = (case vt of Unsigned \<Rightarrow> ''+ '' | Signed \<Rightarrow> ''- '')"

definition print_signal :: "SignalImpl \<Rightarrow> string" where
  "print_signal s =
     tab @ ''SG_ '' @ sig_name s @ '' '' @ print_multiplexer s @
     '': '' @ show_u64 (sig_start_bit s) @ ''|'' @ show_u64 (sig_bit_size s) @ ''@'' @
     print_byte_order (sig_byte_order s) @ print_value_type_sign (sig_value_type s) @
     ''('' @ show_double (sig_factor s) @ '','' @ show_double (sig_offset s) @ '') '' @
     ''['' @ show_double (sig_minimum s) @ ''|'' @ show_double (sig_maximum s) @ ''] '' @
     quoted (sig_unit s) @
     (let receivers = concat (map (\<lambda>n. n @ '', '') (sig_receivers s))
      in if receivers \<noteq> [] then '' '' @ butlast (butlast receivers) else []) @ newline"

definition print_message :: "MessageImpl \<Rightarrow> string" where
  "print_message m =
     ''BO_ '' @ show_u64 (msg_id m) @ '' '' @ msg_name m @ '': '' @ show_u64 (msg_message_size m) @
     '' '' @ msg_transmitter m @ newline @ concat (map print_signal (msg_signals m))"

definition print_veds :: "ValueEncodingDescriptionImpl list \<Rightarrow> string" where
  "print_veds veds =
     concat (map (\<lambda>ved. '' '' @ show_i64 (ved_value ved) @ '' '' @ quoted (ved_description ved)) veds)"

definition print_value_table :: "ValueTableImpl \<Rightarrow> string" where
  "print_value_table vt =
     (if vt_value_encoding_descriptions vt \<noteq> [] then
        ''VAL_TABLE_ '' @ vt_name vt @ print_veds (vt_value_encoding_descriptions vt) @ '';'' @ newline
      else [])"

definition print_node :: "NodeImpl \<Rightarrow> string" where
  "print_node n = node_name n"

definition print_signal_type :: "SignalTypeImpl \<Rightarrow> string" where
  "print_signal_type st =
     ''SGTYPE_ '' @ st_name st @ '' : '' @ show_u64 (st_signal_size st) @ ''@'' @
     print_byte_order (st_byte_order st) @ print_value_type_sign (st_value_type st) @
     ''('' @ show_double (st_factor st) @ '','' @ show_double (st_offset st) @ '') '' @
     ''['' @ show_double (st_minimum st) @ ''|'' @ show_double (st_maximum st) @ ''] '' @
     quoted (st_unit st) @ '' '' @ show_double (st_default_value st) @ '', '' @
     st_value_table st @ '';''"

section \<open>Networks\<close>

text \<open>
  The loops of \<open>operator<<(std::ostream&, const INetwork&)\<close>, one definition for each group. The
  reference to an attribute that \<open>na_t\<close> holds is its position; the loops write a line break
  before each attribute.
\<close>

definition print_head :: "NetworkImpl \<Rightarrow> string" where
  "print_head net =
     ''VERSION '' @ quoted (net_version net) @ newline @
     ''NS_:'' @ newline @
     concat (map (\<lambda>ns. tab @ ns @ newline) (net_new_symbols net)) @
     print_bit_timing (net_bit_timing net) @
     ''BU_:'' @ concat (map (\<lambda>n. '' '' @ node_name n) (net_nodes net)) @ newline"

definition print_message_transmitters :: "MessageImpl \<Rightarrow> string" where
  "print_message_transmitters m =
     (case msg_message_transmitters m of
        [] \<Rightarrow> []
      | n # ns \<Rightarrow> ''BO_TX_BU_ '' @ show_u64 (msg_id m) @ '' :'' @ '' '' @ n @
                  concat (map (\<lambda>n. '', '' @ n) ns) @ '';'' @ newline)"

definition print_environment_variable_data :: "EnvironmentVariableImpl \<Rightarrow> string" where
  "print_environment_variable_data ev =
     (if ev_var_type ev = VT_Data
      then ''ENVVAR_DATA_ '' @ ev_name ev @ '' : '' @ show_u64 (ev_data_size ev) @ '';'' @ newline
      else [])"

text \<open>The second loop over the value tables: those with a signal type are written once more.\<close>

definition print_value_tables_with_type :: "NetworkImpl \<Rightarrow> string" where
  "print_value_tables_with_type net =
     concat (map (\<lambda>vt. if vt_signal_type vt \<noteq> None then print_value_table vt else [])
       (net_value_tables net))"

text \<open>A comment is written unless it is empty; \<open>subject\<close> is the text before it.\<close>

definition print_comment :: "string \<Rightarrow> string \<Rightarrow> string" where
  "print_comment subject c =
     (if c \<noteq> [] then ''CM_ '' @ subject @ quoted c @ '';'' @ newline else [])"

definition print_comments :: "NetworkImpl \<Rightarrow> string" where
  "print_comments net =
     print_comment [] (net_comment net) @
     concat (map (\<lambda>n. print_comment (''BU_ '' @ node_name n @ '' '') (node_comment n))
       (net_nodes net)) @
     concat (map (\<lambda>m. print_comment (''BO_ '' @ show_u64 (msg_id m) @ '' '') (msg_comment m))
       (net_messages net)) @
     concat (map (\<lambda>m. concat (map (\<lambda>s. print_comment
         (''SG_ '' @ show_u64 (msg_id m) @ '' '' @ sig_name s @ '' '') (sig_comment s)) (msg_signals m)))
       (net_messages net)) @
     concat (map (\<lambda>ev. print_comment (''EV_ '' @ ev_name ev @ '' '') (ev_comment ev))
       (net_environment_variables net))"

definition print_attribute_list :: "NetworkImpl \<Rightarrow> (nat \<Rightarrow> attr_ptr) \<Rightarrow> AttributeImpl list \<Rightarrow> string option"
  where
  "print_attribute_list net addr attrs =
     map_option concat (those (map (\<lambda>(i, a). do {
       t \<leftarrow> print_attribute net (addr i) a;
       Some (newline @ t) }) (enumerate 0 attrs)))"

definition print_all :: "(nat \<Rightarrow> 'a \<Rightarrow> string option) \<Rightarrow> 'a list \<Rightarrow> string option" where
  "print_all f xs = map_option concat (those (map (\<lambda>(k, x). f k x) (enumerate 0 xs)))"

definition print_attribute_section :: "NetworkImpl \<Rightarrow> string option" where
  "print_attribute_section net = do {
     let definitions = concat (map (\<lambda>ad. newline @ print_attribute_definition ad)
       (net_attribute_definitions net));
     defaults \<leftarrow> print_attribute_list net DefaultAttr (net_attribute_defaults net);
     values \<leftarrow> print_attribute_list net NetworkAttr (net_attribute_values net);
     nodes \<leftarrow> print_all (\<lambda>k n. print_attribute_list net (NodeAttr k) (node_attribute_values n))
       (net_nodes net);
     messages \<leftarrow> print_all (\<lambda>k m. print_attribute_list net (MessageAttr k) (msg_attribute_values m))
       (net_messages net);
     signals \<leftarrow> print_all (\<lambda>k m. print_all (\<lambda>l s.
         print_attribute_list net (SignalAttr k l) (sig_attribute_values s)) (msg_signals m))
       (net_messages net);
     env_vars \<leftarrow> print_all (\<lambda>k ev. print_attribute_list net (EnvVarAttr k) (ev_attribute_values ev))
       (net_environment_variables net);
     Some (definitions @ defaults @ values @ nodes @ messages @ signals @ env_vars) }"

definition print_value_descriptions :: "string \<Rightarrow> ValueEncodingDescriptionImpl list \<Rightarrow> string" where
  "print_value_descriptions subject veds =
     (if veds \<noteq> [] then ''VAL_ '' @ subject @ print_veds veds @ '';'' @ newline else [])"

definition print_descriptions :: "NetworkImpl \<Rightarrow> string" where
  "print_descriptions net =
     concat (map (\<lambda>m. concat (map (\<lambda>s. print_value_descriptions
         (show_u64 (msg_id m) @ '' '' @ sig_name s) (sig_value_encoding_descriptions s))
       (msg_signals m))) (net_messages net)) @
     concat (map (\<lambda>ev. print_value_descriptions (ev_name ev) (ev_value_encoding_descriptions ev))
       (net_environment_variables net))"

definition print_signal_group :: "SignalGroupImpl \<Rightarrow> string" where
  "print_signal_group sg =
     ''SIG_GROUP_ '' @ show_u64 (sg_message_id sg) @ '' '' @ sg_name sg @ '' '' @
     show_u64 (sg_repetitions sg) @ '' :'' @
     concat (map (\<lambda>name. '' '' @ name) (sg_signal_names sg)) @ '';'' @ newline"

definition print_extended_value_type :: "MessageImpl \<Rightarrow> SignalImpl \<Rightarrow> string" where
  "print_extended_value_type m s =
     (if sig_extended_value_type s \<noteq> EVT_Integer then
        ''SIG_VALTYPE_ '' @ show_u64 (msg_id m) @ '' '' @ sig_name s @ '' : '' @
        show_u64 (case sig_extended_value_type s of
                    EVT_Float \<Rightarrow> 1 | EVT_Double \<Rightarrow> 2 | EVT_Integer \<Rightarrow> 0) @ '';'' @ newline
      else [])"

definition print_multiplexer_value ::
    "MessageImpl \<Rightarrow> SignalImpl \<Rightarrow> SignalMultiplexerValueImpl \<Rightarrow> string" where
  "print_multiplexer_value m s smv =
     ''SG_MUL_VAL_ '' @ show_u64 (msg_id m) @ '' '' @ sig_name s @ '' '' @ smv_switch_name smv @
     (let ssr = concat (map (\<lambda>r. '' '' @ show_u64 (range_from r) @ ''-'' @ show_u64 (range_to r) @ '','')
                  (smv_value_ranges smv))
      in if ssr \<noteq> [] then butlast ssr else []) @ '';'' @ newline"

definition print_signals :: "(MessageImpl \<Rightarrow> SignalImpl \<Rightarrow> string) \<Rightarrow> NetworkImpl \<Rightarrow> string" where
  "print_signals f net = concat (map (\<lambda>m. concat (map (f m) (msg_signals m))) (net_messages net))"

definition print_network :: "NetworkImpl \<Rightarrow> string option" where
  "print_network net = do {
     attributes \<leftarrow> print_attribute_section net;
     Some (print_head net @
       concat (map print_value_table (net_value_tables net)) @
       concat (map print_message (net_messages net)) @
       concat (map print_message_transmitters (net_messages net)) @
       concat (map print_environment_variable (net_environment_variables net)) @
       concat (map print_environment_variable_data (net_environment_variables net)) @
       print_value_tables_with_type net @
       print_comments net @
       attributes @
       print_descriptions net @
       concat (map (\<lambda>m. concat (map print_signal_group (msg_signal_groups m))) (net_messages net)) @
       print_signals print_extended_value_type net @
       print_signals (\<lambda>m s. concat (map (print_multiplexer_value m s)
         (sig_signal_multiplexer_values s))) net) }"

end
