(* ===== verification/NetworkProps.thy ===== *)
theory NetworkProps
  imports Network
begin

text \<open>
  The properties of messages and networks: the multiplexer switch, copying, the comparison
  operators, merging and the search for the message of a signal.
\<close>

section \<open>Messages\<close>

definition switches :: "SignalImpl list \<Rightarrow> SignalImpl list" where
  "switches ss = filter (\<lambda>s. sig_multiplexer_indicator s = MuxSwitch) ss"

lemma switches_last: "switches ss = [] \<longleftrightarrow> snd (scan_mux ss) = None"
  "switches ss \<noteq> [] \<Longrightarrow> map_option (\<lambda>i. ss ! i) (snd (scan_mux ss)) = Some (last (switches ss))"
proof (induction ss rule: rev_induct)
  case (snoc s ss)
  have nth: "map_option (\<lambda>i. (ss @ [s]) ! i) (snd (scan_mux ss)) =
      map_option (\<lambda>i. ss ! i) (snd (scan_mux ss))"
  proof (cases "snd (scan_mux ss)")
    case (Some i)
    then have "i < length ss" by (simp add: snd_scan_mux_Some)
    then show ?thesis by (simp add: Some nth_append)
  qed simp
  {
    case 1 show ?case
      using snoc.IH by (cases "sig_multiplexer_indicator s")
        (simp_all add: switches_def scan_mux_snoc scan_mux_step_def)
  next
    case 2 then show ?case
      using snoc.IH nth by (cases "sig_multiplexer_indicator s")
        (simp_all add: switches_def scan_mux_snoc scan_mux_step_def)
  }
qed (simp_all add: switches_def scan_mux_Nil)

text \<open>A new message points to the last of its signals that is a multiplexer switch, and has
  an error exactly when one of its signals is a multiplexer value and none is a switch.\<close>

theorem message_mux_signal:
  "let m = IMessage_Create i n ms t mts ss avs c sgs
   in MuxSignal m = (if switches ss = [] then None else Some (last (switches ss))) \<and>
      (msg_error m = MuxValeWithoutMuxSignal \<longleftrightarrow>
         (\<exists>s \<in> set ss. sig_multiplexer_indicator s = MuxValue) \<and> switches ss = [])"
proof -
  let ?m = "MessageImpl_new i n ms t mts ss avs c sgs"
  have wf: "message_wf ?m" by (rule MessageImpl_new_wf)
  then have mux: "msg_mux_signal ?m = snd (scan_mux ss)" by (simp add: message_wf_def)
  show ?thesis
    using wf switches_last [of ss] mux
    by (auto simp: IMessage_Create_def MuxSignal_def message_wf_def fst_scan_mux Let_def)
qed

text \<open>C35. A clone of a message agrees with it in every member except the signal groups, which the
  copy loses: the clone equals the original exactly when that has no groups.\<close>

theorem message_clone:
  assumes "message_wf m" and "Message_nan_free m"
  shows "Message_Clone m = m\<lparr>msg_signal_groups := []\<rparr> \<and>
     (Message_eq (Message_Clone m) m \<longleftrightarrow> msg_signal_groups m = [])"
proof -
  have c: "Message_Clone m = m\<lparr>msg_signal_groups := []\<rparr>"
    using assms(1) by (simp add: Message_Clone_def MessageImpl_copy_eq)
  have "Message_eq m m" using assms(2) by (rule message.eq_refl)
  moreover have "contains_all SignalGroup_eq [] gs \<longleftrightarrow> gs = []" for gs
    by (cases gs) (auto simp: contains_all_iff)
  ultimately show ?thesis by (simp add: c Message_eq_def)
qed

definition ex_group :: SignalGroupImpl where
  "ex_group = ISignalGroup_Create 1 ''G'' 1 [''A'']"

definition ex_message :: MessageImpl where
  "ex_message = IMessage_Create 1 ''M'' 8 ''T'' [] [] [] [] [ex_group]"

theorem message_clone_witness:
  "msg_signal_groups (Message_Clone ex_message) = [] \<and> \<not> Message_eq (Message_Clone ex_message) ex_message"
proof -
  have "message_wf ex_message" "Message_nan_free ex_message" by code_simp+
  moreover have "msg_signal_groups ex_message \<noteq> []" by code_simp
  moreover have "msg_signal_groups (Message_Clone ex_message) = []"
    using message_clone [of ex_message] calculation by simp
  ultimately show ?thesis using message_clone [of ex_message] by blast
qed

section \<open>\<open>ParentMessage\<close>\<close>

lemma find_index:
  "find (\<lambda>(j, m). j = k \<and> Q m) (enumerate n ms) =
     (if n \<le> k \<and> k < n + length ms \<and> Q (ms ! (k - n)) then Some (k, ms ! (k - n)) else None)"
proof (induction ms arbitrary: n)
  case (Cons m ms)
  show ?case
  proof (cases "n = k")
    case True
    then show ?thesis using Cons.IH [of "Suc n"] by simp
  next
    case False
    then have "n \<le> k \<longleftrightarrow> Suc n \<le> k" by auto
    then show ?thesis using Cons.IH [of "Suc n"] False by (auto simp: nth_Cons')
  qed
qed simp

lemma find_address:
  "find (\<lambda>l'. SignalAt j l' = SignalAt k l) [0..<n] \<noteq> None \<longleftrightarrow> j = k \<and> l < n"
  by (auto simp: find_None_iff)

lemma parent_lookup:
  "ParentMessage net (SignalAt k l) =
     (if k < length (net_messages net) \<and> l < length (msg_signals (net_messages net ! k))
      then Some k else None)"
proof -
  have "ParentMessage net (SignalAt k l) =
      map_option fst (find (\<lambda>(j, m). j = k \<and> l < length (msg_signals m)) (enumerate 0 (net_messages net)))"
    unfolding ParentMessage_def find_address ..
  then show ?thesis by (simp add: find_index)
qed

lemma parent_elsewhere: "ParentMessage net SignalElsewhere = None"
proof -
  have "find (\<lambda>l'. SignalAt j l' = SignalElsewhere) [0..<n] = None" for j n
    by (simp add: find_None_iff)
  moreover have "find (\<lambda>(j, m). False) xs = None" for xs :: "(nat \<times> MessageImpl) list"
    by (simp add: find_None_iff)
  ultimately show ?thesis by (simp add: ParentMessage_def)
qed

text \<open>\<open>ParentMessage\<close> finds the message a signal of the network is stored in, and nothing for
  a pointer to any other signal.\<close>

theorem parent_message:
  "ParentMessage net p =
     (case p of
        SignalAt k l \<Rightarrow>
          if k < length (net_messages net) \<and> l < length (msg_signals (net_messages net ! k))
          then Some k else None
      | SignalElsewhere \<Rightarrow> None)"
  by (simp add: parent_lookup parent_elsewhere split: signal_ptr.split)

section \<open>Comparison\<close>

text \<open>\<open>==\<close> of networks is transitive, and reflexive on networks without NaN.\<close>

theorem network_eq_preorder:
  assumes "Network_nan_free a" and "Network_eq b c" and "Network_eq c d"
  shows "Network_eq a a \<and> Network_eq b d"
  using network.eq_refl [OF assms(1)] network.eq_trans [OF assms(2,3)] by blast

definition ex_network :: "string list \<Rightarrow> MessageImpl list \<Rightarrow> NetworkImpl" where
  "ex_network symbols messages =
     the (INetwork_Create ''1'' symbols (Some (IBitTiming_Create 1 2 3)) [] [] messages [] [] [] []
       ''c'')"

theorem network_eq_preorder_witness:
  "Network_eq (ex_network [] [ex_message]) (ex_network [] [ex_message]) \<and>
   Network_eq (ex_network [] [ex_message, ex_message]) (ex_network [] [])"
proof -
  have "Network_nan_free (ex_network [] [ex_message])" by code_simp
  moreover have "Network_eq (ex_network [] [ex_message, ex_message]) (ex_network [] [ex_message])"
    by code_simp
  moreover have "Network_eq (ex_network [] [ex_message]) (ex_network [] [])" by code_simp
  ultimately show ?thesis by (rule network_eq_preorder)
qed

text \<open>\<open>==\<close> is not symmetric: a network is equal to one with fewer messages, but not the other
  way round.\<close>

theorem network_eq_not_symmetric:
  "Network_eq (ex_network [] [ex_message]) (ex_network [] []) \<and>
   \<not> Network_eq (ex_network [] []) (ex_network [] [ex_message])"
  by code_simp

text \<open>\<open>==\<close> ignores the new symbols of both networks.\<close>

theorem network_eq_ignores_new_symbols:
  "Network_eq (a\<lparr>net_new_symbols := xs\<rparr>) (b\<lparr>net_new_symbols := ys\<rparr>) = Network_eq a b"
  by (simp add: Network_eq_def contains_all_eq)

section \<open>Merging and cloning\<close>

lemma contains_all_append1: "contains_all eq xs zs \<Longrightarrow> contains_all eq (xs @ ys) zs"
  by (auto simp: contains_all_iff)

lemma contains_all_append2: "contains_all eq ys zs \<Longrightarrow> contains_all eq (xs @ ys) zs"
  by (auto simp: contains_all_iff)

text \<open>Merging networks one after the other, as the tools do with the files they are given, appends
  each collection of each of them, the new symbols included.\<close>

lemma merged_collections:
  "net_new_symbols (foldl Merge a bs) = net_new_symbols a @ concat (map net_new_symbols bs) \<and>
   net_nodes (foldl Merge a bs) = net_nodes a @ concat (map net_nodes bs) \<and>
   net_value_tables (foldl Merge a bs) = net_value_tables a @ concat (map net_value_tables bs) \<and>
   net_messages (foldl Merge a bs) = net_messages a @ concat (map net_messages bs) \<and>
   net_environment_variables (foldl Merge a bs) =
     net_environment_variables a @ concat (map net_environment_variables bs) \<and>
   net_attribute_definitions (foldl Merge a bs) =
     net_attribute_definitions a @ concat (map net_attribute_definitions bs) \<and>
   net_attribute_defaults (foldl Merge a bs) =
     net_attribute_defaults a @ concat (map net_attribute_defaults bs) \<and>
   net_attribute_values (foldl Merge a bs) =
     net_attribute_values a @ concat (map net_attribute_values bs)"
  by (induction bs arbitrary: a) (simp_all add: Merge_def)

lemma merged_fields:
  "net_version (foldl Merge a bs) = net_version a"
  "net_bit_timing (foldl Merge a bs) = net_bit_timing a"
  "net_comment (foldl Merge a bs) = net_comment a"
  by (induction bs arbitrary: a) (simp_all add: Merge_def)

lemma Merge_assoc: "Merge (Merge a b) c = Merge a (Merge b c)"
  by (simp add: Merge_def)

text \<open>C37. Merging appends: after any number of networks \<open>bs\<close> have been merged into \<open>a\<close>, each of the
  eight collections (the new symbols too) is that of \<open>a\<close> followed by those of \<open>bs\<close>, in their order and
  with duplicates, and version, bit timing and comment are those of \<open>a\<close>; how the merges are
  grouped makes no difference. For \<open>operator==\<close> the merged network equals the receiver, and the
  argument too when version, bit timing and comment agree. The receiver's signals keep their
  message, and those of the argument are found after the receiver's messages. A network whose
  messages are well formed stays so.\<close>

theorem merge_extends:
  assumes "Network_nan_free a" and "Network_nan_free b" and "network_wf a" and "network_wf b"
  shows "Network_eq (Merge a b) a \<and>
     (net_version a = net_version b \<and> net_bit_timing a = net_bit_timing b \<and>
        net_comment a = net_comment b \<longrightarrow> Network_eq (Merge a b) b) \<and>
     network_wf (Merge a b) \<and>
     (\<forall>k l i. ParentMessage a (SignalAt k l) = Some i \<longrightarrow>
        ParentMessage (Merge a b) (SignalAt k l) = Some i) \<and>
     (\<forall>k l i. ParentMessage b (SignalAt k l) = Some i \<longrightarrow>
        ParentMessage (Merge a b) (SignalAt (length (net_messages a) + k) l) =
          Some (length (net_messages a) + i)) \<and>
     (\<forall>bs. let net = foldl Merge a bs in
        net_new_symbols net = net_new_symbols a @ concat (map net_new_symbols bs) \<and>
        net_nodes net = net_nodes a @ concat (map net_nodes bs) \<and>
        net_value_tables net = net_value_tables a @ concat (map net_value_tables bs) \<and>
        net_messages net = net_messages a @ concat (map net_messages bs) \<and>
        net_environment_variables net =
          net_environment_variables a @ concat (map net_environment_variables bs) \<and>
        net_attribute_definitions net =
          net_attribute_definitions a @ concat (map net_attribute_definitions bs) \<and>
        net_attribute_defaults net =
          net_attribute_defaults a @ concat (map net_attribute_defaults bs) \<and>
        net_attribute_values net =
          net_attribute_values a @ concat (map net_attribute_values bs) \<and>
        net_version net = net_version a \<and> net_bit_timing net = net_bit_timing a \<and>
        net_comment net = net_comment a) \<and>
     (\<forall>c. Merge (Merge a b) c = Merge a (Merge b c))"
proof (intro conjI allI impI)
  have a: "Network_eq a a" and b: "Network_eq b b"
    using assms by (simp_all add: network.eq_refl)
  show "Network_eq (Merge a b) a"
    using a by (simp add: Network_eq_def Merge_def contains_all_append1 contains_all_eq)
  show "Network_eq (Merge a b) b"
    if "net_version a = net_version b \<and> net_bit_timing a = net_bit_timing b \<and>
        net_comment a = net_comment b"
    using b that by (simp add: Network_eq_def Merge_def contains_all_append2 contains_all_eq)
  show "network_wf (Merge a b)" using assms by (simp add: Merge_wf)
  have msgs: "net_messages (Merge a b) = net_messages a @ net_messages b"
    by (simp add: Merge_def)
  show "ParentMessage (Merge a b) (SignalAt k l) = Some i"
    if "ParentMessage a (SignalAt k l) = Some i" for k l i
    using that by (auto simp: parent_lookup msgs nth_append split: if_splits)
  show "ParentMessage (Merge a b) (SignalAt (length (net_messages a) + k) l) =
      Some (length (net_messages a) + i)"
    if "ParentMessage b (SignalAt k l) = Some i" for k l i
    using that by (auto simp: parent_lookup msgs nth_append split: if_splits)
  show "let net = foldl Merge a bs in
      net_new_symbols net = net_new_symbols a @ concat (map net_new_symbols bs) \<and>
      net_nodes net = net_nodes a @ concat (map net_nodes bs) \<and>
      net_value_tables net = net_value_tables a @ concat (map net_value_tables bs) \<and>
      net_messages net = net_messages a @ concat (map net_messages bs) \<and>
      net_environment_variables net =
        net_environment_variables a @ concat (map net_environment_variables bs) \<and>
      net_attribute_definitions net =
        net_attribute_definitions a @ concat (map net_attribute_definitions bs) \<and>
      net_attribute_defaults net =
        net_attribute_defaults a @ concat (map net_attribute_defaults bs) \<and>
      net_attribute_values net =
        net_attribute_values a @ concat (map net_attribute_values bs) \<and>
      net_version net = net_version a \<and> net_bit_timing net = net_bit_timing a \<and>
      net_comment net = net_comment a" for bs
    using merged_collections [of a bs] merged_fields [of a bs] by (simp add: Let_def)
  show "Merge (Merge a b) c = Merge a (Merge b c)" for c by (rule Merge_assoc)
qed

theorem merge_extends_witness:
  "Network_eq (Merge (ex_network [] [ex_message]) (ex_network [] [])) (ex_network [] [ex_message]) \<and>
   net_new_symbols (foldl Merge (ex_network [''A''] [ex_message]) [ex_network [''B'', ''A''] [], ex_network [''C''] []]) =
     [''A'', ''B'', ''A'', ''C'']"
proof -
  have "Network_nan_free (ex_network [] [ex_message])" "Network_nan_free (ex_network [] [])"
    "network_wf (ex_network [] [ex_message])" "network_wf (ex_network [] [])"
    by code_simp+
  then have "Network_eq (Merge (ex_network [] [ex_message]) (ex_network [] [])) (ex_network [] [ex_message])"
    using merge_extends by blast
  moreover have "Network_nan_free (ex_network [''A''] [ex_message])" "Network_nan_free (ex_network [] [])"
    "network_wf (ex_network [''A''] [ex_message])" "network_wf (ex_network [] [])"
    by code_simp+
  note merge_extends [OF this, THEN conjunct2, THEN conjunct2, THEN conjunct2, THEN conjunct2,
      THEN conjunct2, THEN conjunct1, THEN spec, of "[ex_network [''B'', ''A''] [], ex_network [''C''] []]"]
  moreover have "net_new_symbols (ex_network xs ms) = xs" for xs ms
    by (simp add: ex_network_def INetwork_Create_def)
  ultimately show ?thesis by (simp add: Let_def)
qed

text \<open>C36. A network is equal to its clone; the clone is equal to the network exactly when no
  message has a signal group, since the clone has none.\<close>

theorem network_clone:
  assumes "Network_nan_free n" and "network_wf n"
  shows "Network_eq n (Network_Clone n) \<and> network_wf (Network_Clone n) \<and>
     (Network_eq (Network_Clone n) n \<longleftrightarrow> (\<forall>m \<in> set (net_messages n). msg_signal_groups m = []))"
proof -
  let ?ms = "net_messages n"
  have refl: "Network_eq n n" using assms(1) by (rule network.eq_refl)
  have copy: "MessageImpl_copy m = m\<lparr>msg_signal_groups := []\<rparr>" if "m \<in> set ?ms" for m
    using assms(2) that by (simp add: network_wf_def list_all_iff MessageImpl_copy_eq)
  have eq: "Message_eq m m" if "m \<in> set ?ms" for m
    using assms(1) that by (simp add: Network_nan_free_def list_all_iff message.eq_refl)
  have none: "contains_all SignalGroup_eq [] gs \<longleftrightarrow> gs = []" for gs
    by (cases gs) (auto simp: contains_all_iff)
  have "contains_all Message_eq ?ms (map MessageImpl_copy ?ms)"
  proof -
    have "Message_eq m (MessageImpl_copy m)" if "m \<in> set ?ms" for m
      using eq [OF that] by (simp add: copy [OF that] Message_eq_def)
    then show ?thesis by (auto simp: contains_all_iff)
  qed
  moreover have "contains_all Message_eq (map MessageImpl_copy ?ms) ?ms \<longleftrightarrow>
      (\<forall>m \<in> set ?ms. msg_signal_groups m = [])"
  proof
    assume c: "contains_all Message_eq (map MessageImpl_copy ?ms) ?ms"
    show "\<forall>m \<in> set ?ms. msg_signal_groups m = []"
    proof
      fix m assume "m \<in> set ?ms"
      then obtain m' where "m' \<in> set ?ms" "Message_eq (MessageImpl_copy m') m"
        using c by (auto simp: contains_all_iff)
      then show "msg_signal_groups m = []" by (simp add: copy Message_eq_def none)
    qed
  next
    assume g: "\<forall>m \<in> set ?ms. msg_signal_groups m = []"
    have "MessageImpl_copy m = m" if "m \<in> set ?ms" for m
      using g that by (simp add: copy)
    then show "contains_all Message_eq (map MessageImpl_copy ?ms) ?ms"
      using eq by (auto simp: contains_all_iff)
  qed
  ultimately show ?thesis
    using refl Clone_wf [OF assms(2)] by (simp add: Network_eq_def Network_Clone_def)
qed

theorem network_clone_witness:
  "\<not> Network_eq (Network_Clone (ex_network [] [ex_message])) (ex_network [] [ex_message])"
proof -
  have "Network_nan_free (ex_network [] [ex_message])" "network_wf (ex_network [] [ex_message])"
    by code_simp+
  moreover have "\<exists>m \<in> set (net_messages (ex_network [] [ex_message])). msg_signal_groups m \<noteq> []"
    by code_simp
  ultimately show ?thesis using network_clone [of "ex_network [] [ex_message]"] by blast
qed

end
