(* ===== verification/Ast.thy ===== *)
theory Ast
  imports Network
begin

text \<open>
  The syntax tree the DBC parser delivers (\<open>src/src/DBCX3.h\<close>), one record for each struct and
  one datatype for each \<open>boost::variant\<close>. The base class \<open>position_tagged\<close> is not modelled.
\<close>

datatype variant_attr_value_t = AV_int64 i64 | AV_double double | AV_string string

record G_Version = g_version :: string

record G_BitTiming =
  g_baudrate :: u64
  g_BTR1 :: u64
  g_BTR2 :: u64

record G_Node = g_node_name :: string

record G_ValueEncodingDescription =
  g_ved_value :: i64
  g_ved_description :: string

record G_ValueTable =
  g_vt_name :: string
  g_vt_value_encoding_descriptions :: "G_ValueEncodingDescription list"

record G_Signal =
  g_sig_name :: string
  g_sig_multiplexer_indicator :: "string option"
  g_sig_start_bit :: u64
  g_sig_signal_size :: u64
  g_sig_byte_order :: char
  g_sig_value_type :: char
  g_sig_factor :: double
  g_sig_offset :: double
  g_sig_minimum :: double
  g_sig_maximum :: double
  g_sig_unit :: string
  g_sig_receivers :: "string list"

record G_Message =
  g_msg_id :: u64
  g_msg_name :: string
  g_msg_size :: u64
  g_msg_transmitter :: string
  g_msg_signals :: "G_Signal list"

record G_MessageTransmitter =
  g_mt_id :: u64
  g_mt_transmitters :: "string list"

record G_EnvironmentVariable =
  g_ev_name :: string
  g_ev_var_type :: u64
  g_ev_minimum :: double
  g_ev_maximum :: double
  g_ev_unit :: string
  g_ev_initial_value :: double
  g_ev_id :: u64
  g_ev_access_type :: string
  g_ev_access_nodes :: "string list"

record G_EnvironmentVariableData =
  g_evd_name :: string
  g_evd_size :: u64

record G_SignalType =
  g_st_name :: string
  g_st_size :: u64
  g_st_byte_order :: char
  g_st_value_type :: char
  g_st_factor :: double
  g_st_offset :: double
  g_st_minimum :: double
  g_st_maximum :: double
  g_st_unit :: string
  g_st_default_value :: double
  g_st_value_table_name :: string

text \<open>\<open>variant_comment_t\<close> and the five structs it holds.\<close>

datatype variant_comment_t =
    G_CommentNetwork (g_comment: string)
  | G_CommentNode (g_comment_node_name: string) (g_comment: string)
  | G_CommentMessage (g_comment_message_id: u64) (g_comment: string)
  | G_CommentSignal (g_comment_message_id: u64) (g_comment_signal_name: string) (g_comment: string)
  | G_CommentEnvVar (g_comment_env_var_name: string) (g_comment: string)

datatype variant_attribute_value_t =
    G_AttributeValueTypeInt i64 i64
  | G_AttributeValueTypeHex i64 i64
  | G_AttributeValueTypeFloat double double
  | G_AttributeValueTypeString
  | G_AttributeValueTypeEnum "string list"

record G_AttributeDefinition =
  g_ad_object_type :: "string option"
  g_ad_name :: string
  g_ad_value_type :: variant_attribute_value_t

record G_Attribute =
  g_attr_name :: string
  g_attr_value :: variant_attr_value_t

text \<open>\<open>variant_attribute_t\<close> and the five structs it holds.\<close>

datatype variant_attribute_t =
    G_AttributeNetwork (g_attribute_name: string) (g_attribute_value: variant_attr_value_t)
  | G_AttributeNode (g_attribute_name: string) (g_attribute_node_name: string)
      (g_attribute_value: variant_attr_value_t)
  | G_AttributeMessage (g_attribute_name: string) (g_attribute_message_id: u64)
      (g_attribute_value: variant_attr_value_t)
  | G_AttributeSignal (g_attribute_name: string) (g_attribute_message_id: u64)
      (g_attribute_signal_name: string) (g_attribute_value: variant_attr_value_t)
  | G_AttributeEnvVar (g_attribute_name: string) (g_attribute_env_var_name: string)
      (g_attribute_value: variant_attr_value_t)

record G_ValueDescription =
  g_vd_value :: i64
  g_vd_description :: string

text \<open>\<open>G_ValueDescriptionSigEnvVar\<close>: the description of a signal or of an environment variable.\<close>

datatype Description =
    G_ValueDescriptionSignal (g_vds_message_id: u64) (g_vds_signal_name: string)
      (g_value_descriptions: "G_ValueDescription list")
  | G_ValueDescriptionEnvVar (g_vde_env_var_name: string)
      (g_value_descriptions: "G_ValueDescription list")

record G_SignalExtendedValueType =
  g_sev_message_id :: u64
  g_sev_signal_name :: string
  g_sev_value :: u64

record G_Range =
  g_range_from :: u64
  g_range_to :: u64

record G_SignalMultiplexerValue =
  g_smv_message_id :: u64
  g_smv_signal_name :: string
  g_smv_switch_name :: string
  g_smv_value_ranges :: "G_Range list"

record G_SignalGroup =
  g_sg_message_id :: u64
  g_sg_signal_group_name :: string
  g_sg_repetitions :: u64
  g_sg_signal_names :: "string list"

record G_Network =
  g_net_version :: G_Version
  g_net_new_symbols :: "string list"
  g_net_bit_timing :: "G_BitTiming option"
  g_net_nodes :: "G_Node list"
  g_net_value_tables :: "G_ValueTable list"
  g_net_messages :: "G_Message list"
  g_net_message_transmitters :: "G_MessageTransmitter list"
  g_net_environment_variables :: "G_EnvironmentVariable list"
  g_net_environment_variable_datas :: "G_EnvironmentVariableData list"
  g_net_signal_types :: "G_SignalType list"
  g_net_comments :: "variant_comment_t list"
  g_net_attribute_definitions :: "G_AttributeDefinition list"
  g_net_attribute_defaults :: "G_Attribute list"
  g_net_attribute_values :: "variant_attribute_t list"
  g_net_value_descriptions_sig_env_var :: "Description list"
  g_net_signal_groups :: "G_SignalGroup list"
  g_net_signal_extended_value_types :: "G_SignalExtendedValueType list"
  g_net_signal_multiplexer_values :: "G_SignalMultiplexerValue list"

end
