(* ===== verification/Ast2Network.thy ===== *)
theory Ast2Network
  imports Ast Text
begin

text \<open>
  \<open>DBCAST2Network\<close> and \<open>INetwork::LoadDBCFromIs\<close> (\<open>src/src/DBCAST2Network.cpp\<close>): one pass over
  the attributes, value descriptions and comments of the syntax tree fills hash maps
  (\<open>Cache\<close>), and the objects are then built with lookups in them. The caches hold pointers
  into the syntax tree; here they hold what the pointers point to. \<open>boost::get\<close> of the wrong
  alternative is \<open>None\<close>. The overloads \<open>getAttributeValues\<close>, \<open>getComment\<close> and
  \<open>getValueDescriptions\<close> carry the name of the object they are for.
\<close>

section \<open>Caches\<close>

record SignalCache =
  sc_Attributes :: "variant_attribute_t list"
  sc_Description :: "Description option"
  sc_Comment :: "variant_comment_t option"

record MessageCache =
  mc_Signals :: "string \<rightharpoonup> SignalCache"
  mc_Attributes :: "variant_attribute_t list"
  mc_Comment :: "variant_comment_t option"

record EnvVarCache =
  ec_Attributes :: "variant_attribute_t list"
  ec_Description :: "Description option"
  ec_Comment :: "variant_comment_t option"

record NodeCache =
  nc_Attributes :: "variant_attribute_t list"
  nc_Comment :: "variant_comment_t option"

record Cache =
  c_NetworkAttributes :: "variant_attribute_t list"
  c_NetworkComment :: "variant_comment_t option"
  c_EnvVars :: "string \<rightharpoonup> EnvVarCache"
  c_Nodes :: "string \<rightharpoonup> NodeCache"
  c_Messages :: "u64 \<rightharpoonup> MessageCache"

definition SignalCache_new :: SignalCache where
  "SignalCache_new = \<lparr>sc_Attributes = [], sc_Description = None, sc_Comment = None\<rparr>"

definition MessageCache_new :: MessageCache where
  "MessageCache_new = \<lparr>mc_Signals = Map.empty, mc_Attributes = [], mc_Comment = None\<rparr>"

definition EnvVarCache_new :: EnvVarCache where
  "EnvVarCache_new = \<lparr>ec_Attributes = [], ec_Description = None, ec_Comment = None\<rparr>"

definition NodeCache_new :: NodeCache where
  "NodeCache_new = \<lparr>nc_Attributes = [], nc_Comment = None\<rparr>"

definition Cache_new :: Cache where
  "Cache_new = \<lparr>c_NetworkAttributes = [], c_NetworkComment = None, c_EnvVars = Map.empty,
     c_Nodes = Map.empty, c_Messages = Map.empty\<rparr>"

text \<open>\<open>find\<close>, \<open>emplace\<close> of a new entry when there is none, and an update of the entry.\<close>

definition find_or_emplace :: "('k \<rightharpoonup> 'v) \<Rightarrow> 'k \<Rightarrow> 'v \<Rightarrow> ('v \<Rightarrow> 'v) \<Rightarrow> ('k \<rightharpoonup> 'v)" where
  "find_or_emplace m k new f =
     (case m k of None \<Rightarrow> m(k \<mapsto> f new) | Some v \<Rightarrow> m(k \<mapsto> f v))"

definition update_message :: "u64 \<Rightarrow> (MessageCache \<Rightarrow> MessageCache) \<Rightarrow> Cache \<Rightarrow> Cache" where
  "update_message i f cache =
     cache\<lparr>c_Messages := find_or_emplace (c_Messages cache) i MessageCache_new f\<rparr>"

definition update_signal :: "u64 \<Rightarrow> string \<Rightarrow> (SignalCache \<Rightarrow> SignalCache) \<Rightarrow> Cache \<Rightarrow> Cache" where
  "update_signal i s f cache =
     update_message i
       (\<lambda>mc. mc\<lparr>mc_Signals := find_or_emplace (mc_Signals mc) s SignalCache_new f\<rparr>) cache"

definition update_env_var :: "string \<Rightarrow> (EnvVarCache \<Rightarrow> EnvVarCache) \<Rightarrow> Cache \<Rightarrow> Cache" where
  "update_env_var e f cache =
     cache\<lparr>c_EnvVars := find_or_emplace (c_EnvVars cache) e EnvVarCache_new f\<rparr>"

definition update_node :: "string \<Rightarrow> (NodeCache \<Rightarrow> NodeCache) \<Rightarrow> Cache \<Rightarrow> Cache" where
  "update_node n f cache =
     cache\<lparr>c_Nodes := find_or_emplace (c_Nodes cache) n NodeCache_new f\<rparr>"

text \<open>The bodies of the three loops.\<close>

fun cache_attribute :: "variant_attribute_t \<Rightarrow> Cache \<Rightarrow> Cache" where
  "cache_attribute (G_AttributeNetwork a v) cache =
     cache\<lparr>c_NetworkAttributes := c_NetworkAttributes cache @ [G_AttributeNetwork a v]\<rparr>"
| "cache_attribute (G_AttributeNode a n v) cache =
     update_node n (\<lambda>nc. nc\<lparr>nc_Attributes := nc_Attributes nc @ [G_AttributeNode a n v]\<rparr>) cache"
| "cache_attribute (G_AttributeMessage a i v) cache =
     update_message i
       (\<lambda>mc. mc\<lparr>mc_Attributes := mc_Attributes mc @ [G_AttributeMessage a i v]\<rparr>) cache"
| "cache_attribute (G_AttributeSignal a i s v) cache =
     update_signal i s
       (\<lambda>sc. sc\<lparr>sc_Attributes := sc_Attributes sc @ [G_AttributeSignal a i s v]\<rparr>) cache"
| "cache_attribute (G_AttributeEnvVar a e v) cache =
     update_env_var e
       (\<lambda>ec. ec\<lparr>ec_Attributes := ec_Attributes ec @ [G_AttributeEnvVar a e v]\<rparr>) cache"

fun cache_description :: "Description \<Rightarrow> Cache \<Rightarrow> Cache" where
  "cache_description (G_ValueDescriptionSignal i s vds) cache =
     update_signal i s (\<lambda>sc. sc\<lparr>sc_Description := Some (G_ValueDescriptionSignal i s vds)\<rparr>) cache"
| "cache_description (G_ValueDescriptionEnvVar e vds) cache =
     update_env_var e (\<lambda>ec. ec\<lparr>ec_Description := Some (G_ValueDescriptionEnvVar e vds)\<rparr>) cache"

fun cache_comment :: "variant_comment_t \<Rightarrow> Cache \<Rightarrow> Cache" where
  "cache_comment (G_CommentNetwork c) cache = cache\<lparr>c_NetworkComment := Some (G_CommentNetwork c)\<rparr>"
| "cache_comment (G_CommentNode n c) cache =
     update_node n (\<lambda>nc. nc\<lparr>nc_Comment := Some (G_CommentNode n c)\<rparr>) cache"
| "cache_comment (G_CommentMessage i c) cache =
     update_message i (\<lambda>mc. mc\<lparr>mc_Comment := Some (G_CommentMessage i c)\<rparr>) cache"
| "cache_comment (G_CommentSignal i s c) cache =
     update_signal i s (\<lambda>sc. sc\<lparr>sc_Comment := Some (G_CommentSignal i s c)\<rparr>) cache"
| "cache_comment (G_CommentEnvVar e c) cache =
     update_env_var e (\<lambda>ec. ec\<lparr>ec_Comment := Some (G_CommentEnvVar e c)\<rparr>) cache"

definition build_cache :: "G_Network \<Rightarrow> Cache" where
  "build_cache gnet =
     (let cache = fold cache_attribute (g_net_attribute_values gnet) Cache_new;
          cache = fold cache_description (g_net_value_descriptions_sig_env_var gnet) cache
      in fold cache_comment (g_net_comments gnet) cache)"

section \<open>\<open>boost::get\<close> and the conversion of variants\<close>

fun boost_variant_to_std_variant :: "variant_attr_value_t \<Rightarrow> value_t" where
  "boost_variant_to_std_variant (AV_int64 i) = V_int64 i"
| "boost_variant_to_std_variant (AV_double d) = V_double d"
| "boost_variant_to_std_variant (AV_string s) = V_string s"

fun to_attribute :: "EObjectType \<Rightarrow> variant_attribute_t \<Rightarrow> AttributeImpl option" where
  "to_attribute OT_Network (G_AttributeNetwork a v) =
     Some (IAttribute_Create a OT_Network (boost_variant_to_std_variant v))"
| "to_attribute OT_Node (G_AttributeNode a _ v) =
     Some (IAttribute_Create a OT_Node (boost_variant_to_std_variant v))"
| "to_attribute OT_Message (G_AttributeMessage a _ v) =
     Some (IAttribute_Create a OT_Message (boost_variant_to_std_variant v))"
| "to_attribute OT_Signal (G_AttributeSignal a _ _ v) =
     Some (IAttribute_Create a OT_Signal (boost_variant_to_std_variant v))"
| "to_attribute OT_EnvironmentVariable (G_AttributeEnvVar a _ v) =
     Some (IAttribute_Create a OT_EnvironmentVariable (boost_variant_to_std_variant v))"
| "to_attribute _ _ = None"

definition to_attributes ::
    "EObjectType \<Rightarrow> variant_attribute_t list \<Rightarrow> AttributeImpl list option" where
  "to_attributes ot avs = those (map (to_attribute ot) avs)"

fun comment_of :: "EObjectType \<Rightarrow> variant_comment_t option \<Rightarrow> string option" where
  "comment_of _ None = Some []"
| "comment_of OT_Network (Some (G_CommentNetwork c)) = Some c"
| "comment_of OT_Node (Some (G_CommentNode _ c)) = Some c"
| "comment_of OT_Message (Some (G_CommentMessage _ c)) = Some c"
| "comment_of OT_Signal (Some (G_CommentSignal _ _ c)) = Some c"
| "comment_of OT_EnvironmentVariable (Some (G_CommentEnvVar _ c)) = Some c"
| "comment_of _ _ = None"

definition value_descriptions :: "G_ValueDescription list \<Rightarrow> ValueEncodingDescriptionImpl list" where
  "value_descriptions vds =
     map (\<lambda>vd. IValueEncodingDescription_Create (g_vd_value vd) (g_vd_description vd)) vds"

section \<open>The parts of a network\<close>

definition getVersion :: "G_Network \<Rightarrow> string" where
  "getVersion gnet = g_version (g_net_version gnet)"

definition getNewSymbols :: "G_Network \<Rightarrow> string list" where
  "getNewSymbols gnet = map (\<lambda>ns. ns) (g_net_new_symbols gnet)"

definition byte_order_of :: "char \<Rightarrow> EByteOrder" where
  "byte_order_of c = (if c = CHR ''0'' then BigEndian else LittleEndian)"

definition value_type_of :: "char \<Rightarrow> EValueType" where
  "value_type_of c = (if c = CHR ''+'' then Unsigned else Signed)"

definition getSignalType :: "G_Network \<Rightarrow> G_ValueTable \<Rightarrow> SignalTypeImpl option" where
  "getSignalType gnet vt =
     map_option (\<lambda>st. ISignalType_Create (g_st_name st) (g_st_size st)
         (byte_order_of (g_st_byte_order st)) (value_type_of (g_st_value_type st))
         (g_st_factor st) (g_st_offset st) (g_st_minimum st) (g_st_maximum st) (g_st_unit st)
         (g_st_default_value st) (g_st_value_table_name st))
       (find (\<lambda>st. g_st_value_table_name st = g_vt_name vt) (g_net_signal_types gnet))"

definition getValueTables :: "G_Network \<Rightarrow> ValueTableImpl list" where
  "getValueTables gnet =
     map (\<lambda>vt.
        let sig_type = getSignalType gnet vt;
            copy_ved = map (\<lambda>ved. IValueEncodingDescription_Create
              (g_ved_value ved) (g_ved_description ved)) (g_vt_value_encoding_descriptions vt)
        in IValueTable_Create (g_vt_name vt) sig_type copy_ved)
      (g_net_value_tables gnet)"

definition getBitTiming :: "G_Network \<Rightarrow> BitTimingImpl" where
  "getBitTiming gnet =
     (case g_net_bit_timing gnet of
        Some bt \<Rightarrow> IBitTiming_Create (g_baudrate bt) (g_BTR1 bt) (g_BTR2 bt)
      | None \<Rightarrow> IBitTiming_Create 0 0 0)"

section \<open>Nodes\<close>

definition getAttributeValues_node :: "G_Node \<Rightarrow> Cache \<Rightarrow> AttributeImpl list option" where
  "getAttributeValues_node n cache =
     (case c_Nodes cache (g_node_name n) of
        Some nc \<Rightarrow> to_attributes OT_Node (nc_Attributes nc)
      | None \<Rightarrow> Some [])"

definition getComment_node :: "G_Node \<Rightarrow> Cache \<Rightarrow> string option" where
  "getComment_node n cache =
     (case c_Nodes cache (g_node_name n) of
        Some nc \<Rightarrow> comment_of OT_Node (nc_Comment nc)
      | None \<Rightarrow> Some [])"

definition getNodes :: "G_Network \<Rightarrow> Cache \<Rightarrow> NodeImpl list option" where
  "getNodes gnet cache =
     those (map (\<lambda>n. do {
        comment \<leftarrow> getComment_node n cache;
        attribute_values \<leftarrow> getAttributeValues_node n cache;
        Some (INode_Create (g_node_name n) comment attribute_values) }) (g_net_nodes gnet))"

section \<open>Signals\<close>

definition getAttributeValues_signal ::
    "G_Message \<Rightarrow> G_Signal \<Rightarrow> Cache \<Rightarrow> AttributeImpl list option" where
  "getAttributeValues_signal m s cache =
     (case c_Messages cache (g_msg_id m) of
        Some mc \<Rightarrow>
          (case mc_Signals mc (g_sig_name s) of
             Some sc \<Rightarrow> to_attributes OT_Signal (sc_Attributes sc)
           | None \<Rightarrow> Some [])
      | None \<Rightarrow> Some [])"

definition getValueDescriptions_signal ::
    "G_Message \<Rightarrow> G_Signal \<Rightarrow> Cache \<Rightarrow> ValueEncodingDescriptionImpl list option" where
  "getValueDescriptions_signal m s cache =
     (case c_Messages cache (g_msg_id m) of
        Some mc \<Rightarrow>
          (case mc_Signals mc (g_sig_name s) of
             Some sc \<Rightarrow>
               (case sc_Description sc of
                  Some (G_ValueDescriptionSignal _ _ vds) \<Rightarrow> Some (value_descriptions vds)
                | Some (G_ValueDescriptionEnvVar _ _) \<Rightarrow> None
                | None \<Rightarrow> Some [])
           | None \<Rightarrow> Some [])
      | None \<Rightarrow> Some [])"

definition getComment_signal :: "G_Message \<Rightarrow> G_Signal \<Rightarrow> Cache \<Rightarrow> string option" where
  "getComment_signal m s cache =
     (case c_Messages cache (g_msg_id m) of
        Some mc \<Rightarrow>
          (case mc_Signals mc (g_sig_name s) of
             Some sc \<Rightarrow> comment_of OT_Signal (sc_Comment sc)
           | None \<Rightarrow> Some [])
      | None \<Rightarrow> Some [])"

definition getSignalExtendedValueType ::
    "G_Network \<Rightarrow> G_Message \<Rightarrow> G_Signal \<Rightarrow> EExtendedValueType" where
  "getSignalExtendedValueType gnet m s =
     (case find (\<lambda>sev. g_sev_message_id sev = g_msg_id m \<and> g_sev_signal_name sev = g_sig_name s)
             (g_net_signal_extended_value_types gnet) of
        Some sev \<Rightarrow> if g_sev_value sev = 1 then EVT_Float
                    else if g_sev_value sev = 2 then EVT_Double else EVT_Integer
      | None \<Rightarrow> EVT_Integer)"

definition getSignalMultiplexerValues ::
    "G_Network \<Rightarrow> string \<Rightarrow> u64 \<Rightarrow> SignalMultiplexerValueImpl list" where
  "getSignalMultiplexerValues gnet s m =
     map (\<lambda>gsmv. ISignalMultiplexerValue_Create (g_smv_switch_name gsmv)
            (map (\<lambda>r. \<lparr>range_from = g_range_from r, range_to = g_range_to r\<rparr>)
               (g_smv_value_ranges gsmv)))
       (filter (\<lambda>gsmv. g_smv_signal_name gsmv = s \<and> g_smv_message_id gsmv = m)
          (g_net_signal_multiplexer_values gnet))"

text \<open>The indicator of a signal: a text that starts with \<open>M\<close> is the switch, any other text the
  switch value after its first character (an empty text makes \<open>substr\<close> throw).\<close>

definition multiplexer_of :: "string option \<Rightarrow> (EMultiplexer \<times> u64) option" where
  "multiplexer_of ind =
     (case ind of
        None \<Rightarrow> Some (NoMux, 0)
      | Some m \<Rightarrow>
          if take 1 m = ''M'' then Some (MuxSwitch, 0)
          else if m = [] then None
          else do { v \<leftarrow> atoi (drop 1 m); Some (MuxValue, word_of_int v) })"

text \<open>The warnings the conversion prints.\<close>

datatype warning =
    Warn_exceeds_message_size string string
  | Warn_wrong_bit_size string string
  | Warn_float_encoding string string
  | Warn_double_encoding string string
  | Warn_mux_value_without_switch string

definition signal_warnings :: "G_Message \<Rightarrow> G_Signal \<Rightarrow> SignalImpl \<Rightarrow> warning list" where
  "signal_warnings m s ns =
     (if Error ns SignalExceedsMessageSize
      then [Warn_exceeds_message_size (g_msg_name m) (g_sig_name s)] else []) @
     (if Error ns WrongBitSizeForExtendedDataType
      then [Warn_wrong_bit_size (g_msg_name m) (g_sig_name s)] else []) @
     (if Error ns MaschinesFloatEncodingNotSupported
      then [Warn_float_encoding (g_msg_name m) (g_sig_name s)] else []) @
     (if Error ns MaschinesDoubleEncodingNotSupported
      then [Warn_double_encoding (g_msg_name m) (g_sig_name s)] else [])"

definition getSignal ::
    "platform \<Rightarrow> G_Network \<Rightarrow> G_Message \<Rightarrow> Cache \<Rightarrow> G_Signal \<Rightarrow> (SignalImpl \<times> warning list) option"
  where
  "getSignal pf gnet m cache s = do {
     attribute_values \<leftarrow> getAttributeValues_signal m s cache;
     value_descriptions \<leftarrow> getValueDescriptions_signal m s cache;
     let extended_value_type = getSignalExtendedValueType gnet m s;
     comment \<leftarrow> getComment_signal m s cache;
     let signal_multiplexer_values = getSignalMultiplexerValues gnet (g_sig_name s) (g_msg_id m);
     (multiplexer_indicator, multiplexer_switch_value) \<leftarrow>
       multiplexer_of (g_sig_multiplexer_indicator s);
     ns \<leftarrow> SignalImpl_new pf (g_msg_size m)
       \<lparr>sig_name = g_sig_name s, sig_multiplexer_indicator = multiplexer_indicator,
        sig_multiplexer_switch_value = multiplexer_switch_value,
        sig_start_bit = g_sig_start_bit s, sig_bit_size = g_sig_signal_size s,
        sig_byte_order = byte_order_of (g_sig_byte_order s),
        sig_value_type = value_type_of (g_sig_value_type s),
        sig_factor = g_sig_factor s, sig_offset = g_sig_offset s,
        sig_minimum = g_sig_minimum s, sig_maximum = g_sig_maximum s, sig_unit = g_sig_unit s,
        sig_receivers = g_sig_receivers s, sig_attribute_values = attribute_values,
        sig_value_encoding_descriptions = value_descriptions, sig_comment = comment,
        sig_extended_value_type = extended_value_type,
        sig_signal_multiplexer_values = signal_multiplexer_values\<rparr>;
     Some (ns, signal_warnings m s ns) }"

definition getSignals ::
    "platform \<Rightarrow> G_Network \<Rightarrow> G_Message \<Rightarrow> Cache \<Rightarrow> (SignalImpl list \<times> warning list) option" where
  "getSignals pf gnet m cache =
     map_option (\<lambda>r. (map fst r, concat (map snd r)))
       (those (map (getSignal pf gnet m cache) (g_msg_signals m)))"

section \<open>Messages\<close>

definition getMessageTransmitters :: "G_Network \<Rightarrow> G_Message \<Rightarrow> string list" where
  "getMessageTransmitters gnet m =
     (case find (\<lambda>mt. g_mt_id mt = g_msg_id m) (g_net_message_transmitters gnet) of
        Some mt \<Rightarrow> g_mt_transmitters mt
      | None \<Rightarrow> [])"

definition getAttributeValues_message :: "G_Message \<Rightarrow> Cache \<Rightarrow> AttributeImpl list option" where
  "getAttributeValues_message m cache =
     (case c_Messages cache (g_msg_id m) of
        Some mc \<Rightarrow> to_attributes OT_Message (mc_Attributes mc)
      | None \<Rightarrow> Some [])"

definition getComment_message :: "G_Message \<Rightarrow> Cache \<Rightarrow> string option" where
  "getComment_message m cache =
     (case c_Messages cache (g_msg_id m) of
        Some mc \<Rightarrow> comment_of OT_Message (mc_Comment mc)
      | None \<Rightarrow> Some [])"

definition getSignalGroups :: "G_Network \<Rightarrow> G_Message \<Rightarrow> SignalGroupImpl list" where
  "getSignalGroups gnet m =
     map (\<lambda>sg. ISignalGroup_Create (g_sg_message_id sg) (g_sg_signal_group_name sg)
            (g_sg_repetitions sg) (g_sg_signal_names sg))
       (filter (\<lambda>sg. g_sg_message_id sg = g_msg_id m) (g_net_signal_groups gnet))"

definition getMessage ::
    "platform \<Rightarrow> G_Network \<Rightarrow> Cache \<Rightarrow> G_Message \<Rightarrow> (MessageImpl \<times> warning list) option" where
  "getMessage pf gnet cache m = do {
     let message_transmitters = getMessageTransmitters gnet m;
     (signals, warnings) \<leftarrow> getSignals pf gnet m cache;
     attribute_values \<leftarrow> getAttributeValues_message m cache;
     comment \<leftarrow> getComment_message m cache;
     let signal_groups = getSignalGroups gnet m;
     let msg = IMessage_Create (g_msg_id m) (g_msg_name m) (g_msg_size m) (g_msg_transmitter m)
                 message_transmitters signals attribute_values comment signal_groups;
     Some (msg, warnings @
       (if msg_error msg = MuxValeWithoutMuxSignal
        then [Warn_mux_value_without_switch (msg_name msg)] else [])) }"

definition getMessages ::
    "platform \<Rightarrow> G_Network \<Rightarrow> Cache \<Rightarrow> (MessageImpl list \<times> warning list) option" where
  "getMessages pf gnet cache =
     map_option (\<lambda>r. (map fst r, concat (map snd r)))
       (those (map (getMessage pf gnet cache) (g_net_messages gnet)))"

section \<open>Environment variables\<close>

definition getValueDescriptions_env_var ::
    "G_EnvironmentVariable \<Rightarrow> Cache \<Rightarrow> ValueEncodingDescriptionImpl list option" where
  "getValueDescriptions_env_var ev cache =
     (case c_EnvVars cache (g_ev_name ev) of
        Some ec \<Rightarrow>
          (case ec_Description ec of
             Some (G_ValueDescriptionEnvVar _ vds) \<Rightarrow> Some (value_descriptions vds)
           | Some (G_ValueDescriptionSignal _ _ _) \<Rightarrow> None
           | None \<Rightarrow> Some [])
      | None \<Rightarrow> Some [])"

definition getAttributeValues_env_var ::
    "G_EnvironmentVariable \<Rightarrow> Cache \<Rightarrow> AttributeImpl list option" where
  "getAttributeValues_env_var ev cache =
     (case c_EnvVars cache (g_ev_name ev) of
        Some ec \<Rightarrow> to_attributes OT_EnvironmentVariable (ec_Attributes ec)
      | None \<Rightarrow> Some [])"

definition getComment_env_var :: "G_EnvironmentVariable \<Rightarrow> Cache \<Rightarrow> string option" where
  "getComment_env_var ev cache =
     (case c_EnvVars cache (g_ev_name ev) of
        Some ec \<Rightarrow> comment_of OT_EnvironmentVariable (ec_Comment ec)
      | None \<Rightarrow> Some [])"

text \<open>
  \<open>var_type\<close> stays uninitialised when the number is above 2 and there is no data entry for the
  variable; passing it on is \<open>None\<close>.
\<close>

definition var_type_of :: "u64 \<Rightarrow> EVarType option" where
  "var_type_of n =
     (if n = 0 then Some VT_Integer else if n = 1 then Some VT_Float
      else if n = 2 then Some VT_String else None)"

definition access_type_of :: "string \<Rightarrow> EAccessType" where
  "access_type_of a =
     (if a = ''DUMMY_NODE_VECTOR0'' then Unrestricted
      else if a = ''DUMMY_NODE_VECTOR1'' then Read
      else if a = ''DUMMY_NODE_VECTOR2'' then Write
      else if a = ''DUMMY_NODE_VECTOR3'' then ReadWrite
      else if a = ''DUMMY_NODE_VECTOR8000'' then Unrestricted'
      else if a = ''DUMMY_NODE_VECTOR8001'' then Read'
      else if a = ''DUMMY_NODE_VECTOR8002'' then Write'
      else if a = ''DUMMY_NODE_VECTOR8003'' then ReadWrite'
      else Unrestricted)"

definition getEnvironmentVariable ::
    "G_Network \<Rightarrow> Cache \<Rightarrow> G_EnvironmentVariable \<Rightarrow> EnvironmentVariableImpl option" where
  "getEnvironmentVariable gnet cache ev = do {
     value_descriptions \<leftarrow> getValueDescriptions_env_var ev cache;
     attribute_values \<leftarrow> getAttributeValues_env_var ev cache;
     comment \<leftarrow> getComment_env_var ev cache;
     let access_type = access_type_of (g_ev_access_type ev);
     let evd = find (\<lambda>evd. g_evd_name evd = g_ev_name ev) (g_net_environment_variable_datas gnet);
     let data_size = (case evd of Some d \<Rightarrow> g_evd_size d | None \<Rightarrow> 0);
     var_type \<leftarrow> (case evd of Some _ \<Rightarrow> Some VT_Data | None \<Rightarrow> var_type_of (g_ev_var_type ev));
     Some (IEnvironmentVariable_Create (g_ev_name ev) var_type (g_ev_minimum ev)
       (g_ev_maximum ev) (g_ev_unit ev) (g_ev_initial_value ev) (g_ev_id ev) access_type
       (g_ev_access_nodes ev) value_descriptions data_size attribute_values comment) }"

definition getEnvironmentVariables ::
    "G_Network \<Rightarrow> Cache \<Rightarrow> EnvironmentVariableImpl list option" where
  "getEnvironmentVariables gnet cache =
     those (map (getEnvironmentVariable gnet cache) (g_net_environment_variables gnet))"

section \<open>Attribute definitions, defaults and the attributes of the network\<close>

fun VisitorValueType :: "variant_attribute_value_t \<Rightarrow> value_type_t" where
  "VisitorValueType (G_AttributeValueTypeInt a b) = ValueTypeInt a b"
| "VisitorValueType (G_AttributeValueTypeHex a b) = ValueTypeHex a b"
| "VisitorValueType (G_AttributeValueTypeFloat a b) = ValueTypeFloat a b"
| "VisitorValueType G_AttributeValueTypeString = ValueTypeString"
| "VisitorValueType (G_AttributeValueTypeEnum vs) = ValueTypeEnum vs"

definition object_type_of :: "string option \<Rightarrow> EObjectType" where
  "object_type_of ot =
     (case ot of
        None \<Rightarrow> OT_Network
      | Some t \<Rightarrow>
          if t = ''BU_'' then OT_Node
          else if t = ''BO_'' then OT_Message
          else if t = ''SG_'' then OT_Signal
          else OT_EnvironmentVariable)"

definition getAttributeDefinitions :: "G_Network \<Rightarrow> AttributeDefinitionImpl list" where
  "getAttributeDefinitions gnet =
     map (\<lambda>ad. IAttributeDefinition_Create (g_ad_name ad) (object_type_of (g_ad_object_type ad))
            (VisitorValueType (g_ad_value_type ad)))
       (g_net_attribute_definitions gnet)"

definition getAttributeDefaults :: "G_Network \<Rightarrow> AttributeImpl list" where
  "getAttributeDefaults gnet =
     map (\<lambda>ad. IAttribute_Create (g_attr_name ad) OT_Network
            (boost_variant_to_std_variant (g_attr_value ad)))
       (g_net_attribute_defaults gnet)"

definition getAttributeValues_network :: "Cache \<Rightarrow> AttributeImpl list option" where
  "getAttributeValues_network cache = to_attributes OT_Network (c_NetworkAttributes cache)"

definition getComment_network :: "Cache \<Rightarrow> string option" where
  "getComment_network cache = comment_of OT_Network (c_NetworkComment cache)"

section \<open>\<open>DBCAST2Network\<close>\<close>

definition DBCAST2Network :: "platform \<Rightarrow> G_Network \<Rightarrow> (NetworkImpl \<times> warning list) option" where
  "DBCAST2Network pf gnet = do {
     let cache = build_cache gnet;
     nodes \<leftarrow> getNodes gnet cache;
     (messages, warnings) \<leftarrow> getMessages pf gnet cache;
     environment_variables \<leftarrow> getEnvironmentVariables gnet cache;
     attribute_values \<leftarrow> getAttributeValues_network cache;
     comment \<leftarrow> getComment_network cache;
     net \<leftarrow> INetwork_Create (getVersion gnet) (getNewSymbols gnet) (Some (getBitTiming gnet)) nodes
       (getValueTables gnet) messages environment_variables (getAttributeDefinitions gnet)
       (getAttributeDefaults gnet) attribute_values comment;
     Some (net, warnings) }"

text \<open>
  \<open>LoadDBCFromIs\<close>: no network when the text does not parse. \<open>ParseFromMemory\<close> is the parser,
  which \<open>Boost.Spirit\<close> generates from the grammar. The outer option is undefined behaviour,
  the inner one a null pointer.
\<close>

definition LoadDBCFromIs ::
    "(string \<Rightarrow> G_Network option) \<Rightarrow> platform \<Rightarrow> string \<Rightarrow>
     (NetworkImpl option \<times> warning list) option" where
  "LoadDBCFromIs ParseFromMemory pf str =
     (case ParseFromMemory str of
        Some gnet \<Rightarrow> map_option (\<lambda>(net, ws). (Some net, ws)) (DBCAST2Network pf gnet)
      | None \<Rightarrow> Some (None, []))"

end
