(* ===== verification/AstRefinement.thy ===== *)
theory AstRefinement
  imports Ast2Network
begin

text \<open>
  \<open>DBCAST2Network\<close> without its caches: the attributes of an object are the matching entries of
  the syntax tree in their order, its comment and its value descriptions are those of the last
  matching entry. The cached construction computes the same network.
\<close>

section \<open>Reference construction\<close>

fun node_attr :: "string \<Rightarrow> variant_attribute_t \<Rightarrow> bool" where
  "node_attr n (G_AttributeNode _ n' _) = (n' = n)"
| "node_attr n _ = False"

fun message_attr :: "u64 \<Rightarrow> variant_attribute_t \<Rightarrow> bool" where
  "message_attr i (G_AttributeMessage _ i' _) = (i' = i)"
| "message_attr i _ = False"

fun signal_attr :: "u64 \<Rightarrow> string \<Rightarrow> variant_attribute_t \<Rightarrow> bool" where
  "signal_attr i s (G_AttributeSignal _ i' s' _) = (i' = i \<and> s' = s)"
| "signal_attr i s _ = False"

fun env_var_attr :: "string \<Rightarrow> variant_attribute_t \<Rightarrow> bool" where
  "env_var_attr e (G_AttributeEnvVar _ e' _) = (e' = e)"
| "env_var_attr e _ = False"

fun network_attr :: "variant_attribute_t \<Rightarrow> bool" where
  "network_attr (G_AttributeNetwork _ _) = True"
| "network_attr _ = False"

fun node_comment_for :: "string \<Rightarrow> variant_comment_t \<Rightarrow> bool" where
  "node_comment_for n (G_CommentNode n' _) = (n' = n)"
| "node_comment_for n _ = False"

fun message_comment_for :: "u64 \<Rightarrow> variant_comment_t \<Rightarrow> bool" where
  "message_comment_for i (G_CommentMessage i' _) = (i' = i)"
| "message_comment_for i _ = False"

fun signal_comment_for :: "u64 \<Rightarrow> string \<Rightarrow> variant_comment_t \<Rightarrow> bool" where
  "signal_comment_for i s (G_CommentSignal i' s' _) = (i' = i \<and> s' = s)"
| "signal_comment_for i s _ = False"

fun env_var_comment_for :: "string \<Rightarrow> variant_comment_t \<Rightarrow> bool" where
  "env_var_comment_for e (G_CommentEnvVar e' _) = (e' = e)"
| "env_var_comment_for e _ = False"

fun network_comment :: "variant_comment_t \<Rightarrow> bool" where
  "network_comment (G_CommentNetwork _) = True"
| "network_comment _ = False"

fun signal_description :: "u64 \<Rightarrow> string \<Rightarrow> Description \<Rightarrow> bool" where
  "signal_description i s (G_ValueDescriptionSignal i' s' _) = (i' = i \<and> s' = s)"
| "signal_description i s _ = False"

fun env_var_description :: "string \<Rightarrow> Description \<Rightarrow> bool" where
  "env_var_description e (G_ValueDescriptionEnvVar e' _) = (e' = e)"
| "env_var_description e _ = False"

definition attributes_for ::
    "(variant_attribute_t \<Rightarrow> bool) \<Rightarrow> EObjectType \<Rightarrow> G_Network \<Rightarrow> AttributeImpl list" where
  "attributes_for P ot gnet =
     map (\<lambda>av. IAttribute_Create (g_attribute_name av) ot
            (boost_variant_to_std_variant (g_attribute_value av)))
       (filter P (g_net_attribute_values gnet))"

definition last_match :: "('a \<Rightarrow> bool) \<Rightarrow> 'a list \<Rightarrow> 'a option" where
  "last_match P xs = (let ys = filter P xs in if ys = [] then None else Some (last ys))"

definition comment_for :: "(variant_comment_t \<Rightarrow> bool) \<Rightarrow> G_Network \<Rightarrow> string" where
  "comment_for P gnet =
     (case last_match P (g_net_comments gnet) of Some c \<Rightarrow> g_comment c | None \<Rightarrow> [])"

definition descriptions_for ::
    "(Description \<Rightarrow> bool) \<Rightarrow> G_Network \<Rightarrow> ValueEncodingDescriptionImpl list" where
  "descriptions_for P gnet =
     (case last_match P (g_net_value_descriptions_sig_env_var gnet) of
        Some d \<Rightarrow> value_descriptions (g_value_descriptions d) | None \<Rightarrow> [])"

definition spec_signal ::
    "platform \<Rightarrow> G_Network \<Rightarrow> G_Message \<Rightarrow> G_Signal \<Rightarrow> (SignalImpl \<times> warning list) option" where
  "spec_signal pf gnet m s = do {
     (indicator, switch_value) \<leftarrow> multiplexer_of (g_sig_multiplexer_indicator s);
     ns \<leftarrow> SignalImpl_new pf (g_msg_size m)
       \<lparr>sig_name = g_sig_name s, sig_multiplexer_indicator = indicator,
        sig_multiplexer_switch_value = switch_value,
        sig_start_bit = g_sig_start_bit s, sig_bit_size = g_sig_signal_size s,
        sig_byte_order = byte_order_of (g_sig_byte_order s),
        sig_value_type = value_type_of (g_sig_value_type s),
        sig_factor = g_sig_factor s, sig_offset = g_sig_offset s,
        sig_minimum = g_sig_minimum s, sig_maximum = g_sig_maximum s, sig_unit = g_sig_unit s,
        sig_receivers = g_sig_receivers s,
        sig_attribute_values =
          attributes_for (signal_attr (g_msg_id m) (g_sig_name s)) OT_Signal gnet,
        sig_value_encoding_descriptions =
          descriptions_for (signal_description (g_msg_id m) (g_sig_name s)) gnet,
        sig_comment = comment_for (signal_comment_for (g_msg_id m) (g_sig_name s)) gnet,
        sig_extended_value_type = getSignalExtendedValueType gnet m s,
        sig_signal_multiplexer_values =
          getSignalMultiplexerValues gnet (g_sig_name s) (g_msg_id m)\<rparr>;
     Some (ns, signal_warnings m s ns) }"

definition spec_message ::
    "platform \<Rightarrow> G_Network \<Rightarrow> G_Message \<Rightarrow> (MessageImpl \<times> warning list) option" where
  "spec_message pf gnet m = do {
     signals \<leftarrow> those (map (spec_signal pf gnet m) (g_msg_signals m));
     let msg = IMessage_Create (g_msg_id m) (g_msg_name m) (g_msg_size m) (g_msg_transmitter m)
       (getMessageTransmitters gnet m) (map fst signals)
       (attributes_for (message_attr (g_msg_id m)) OT_Message gnet)
       (comment_for (message_comment_for (g_msg_id m)) gnet) (getSignalGroups gnet m);
     Some (msg, concat (map snd signals) @
       (if msg_error msg = MuxValeWithoutMuxSignal
        then [Warn_mux_value_without_switch (msg_name msg)] else [])) }"

definition spec_env_var ::
    "G_Network \<Rightarrow> G_EnvironmentVariable \<Rightarrow> EnvironmentVariableImpl option" where
  "spec_env_var gnet ev = do {
     let evd = find (\<lambda>evd. g_evd_name evd = g_ev_name ev) (g_net_environment_variable_datas gnet);
     var_type \<leftarrow> (case evd of Some _ \<Rightarrow> Some VT_Data | None \<Rightarrow> var_type_of (g_ev_var_type ev));
     Some (IEnvironmentVariable_Create (g_ev_name ev) var_type (g_ev_minimum ev)
       (g_ev_maximum ev) (g_ev_unit ev) (g_ev_initial_value ev) (g_ev_id ev)
       (access_type_of (g_ev_access_type ev)) (g_ev_access_nodes ev)
       (descriptions_for (env_var_description (g_ev_name ev)) gnet)
       (case evd of Some d \<Rightarrow> g_evd_size d | None \<Rightarrow> 0)
       (attributes_for (env_var_attr (g_ev_name ev)) OT_EnvironmentVariable gnet)
       (comment_for (env_var_comment_for (g_ev_name ev)) gnet)) }"

definition spec_node :: "G_Network \<Rightarrow> G_Node \<Rightarrow> NodeImpl" where
  "spec_node gnet n =
     INode_Create (g_node_name n) (comment_for (node_comment_for (g_node_name n)) gnet)
       (attributes_for (node_attr (g_node_name n)) OT_Node gnet)"

definition spec_network :: "platform \<Rightarrow> G_Network \<Rightarrow> (NetworkImpl \<times> warning list) option" where
  "spec_network pf gnet = do {
     messages \<leftarrow> those (map (spec_message pf gnet) (g_net_messages gnet));
     environment_variables \<leftarrow> those (map (spec_env_var gnet) (g_net_environment_variables gnet));
     net \<leftarrow> INetwork_Create (getVersion gnet) (getNewSymbols gnet) (Some (getBitTiming gnet))
       (map (spec_node gnet) (g_net_nodes gnet)) (getValueTables gnet) (map fst messages)
       environment_variables (getAttributeDefinitions gnet) (getAttributeDefaults gnet)
       (attributes_for network_attr OT_Network gnet) (comment_for network_comment gnet);
     Some (net, concat (map snd messages)) }"

section \<open>Hash maps seen through their default entries\<close>

definition view :: "('k \<rightharpoonup> 'v) \<Rightarrow> 'v \<Rightarrow> 'k \<Rightarrow> 'v" where
  "view m new k = (case m k of Some v \<Rightarrow> v | None \<Rightarrow> new)"

lemma view_find_or_emplace:
  "view (find_or_emplace m k new f) new k' = (if k' = k then f (view m new k) else view m new k')"
  by (simp add: view_def find_or_emplace_def split: option.split)

lemma view_empty: "view Map.empty new k = new"
  by (simp add: view_def)

definition node_view :: "Cache \<Rightarrow> string \<Rightarrow> NodeCache" where
  "node_view c = view (c_Nodes c) NodeCache_new"

definition env_view :: "Cache \<Rightarrow> string \<Rightarrow> EnvVarCache" where
  "env_view c = view (c_EnvVars c) EnvVarCache_new"

definition message_view :: "Cache \<Rightarrow> u64 \<Rightarrow> MessageCache" where
  "message_view c = view (c_Messages c) MessageCache_new"

definition signal_view :: "Cache \<Rightarrow> u64 \<Rightarrow> string \<Rightarrow> SignalCache" where
  "signal_view c i = view (mc_Signals (message_view c i)) SignalCache_new"

named_theorems cache_views \<comment> \<open>the four views of an updated cache\<close>

lemma views_node [cache_views]:
  "node_view (update_node n f c) n' = (if n' = n then f (node_view c n) else node_view c n')"
  "env_view (update_node n f c) = env_view c" "message_view (update_node n f c) = message_view c"
  "signal_view (update_node n f c) = signal_view c"
  "c_NetworkAttributes (update_node n f c) = c_NetworkAttributes c"
  "c_NetworkComment (update_node n f c) = c_NetworkComment c"
  by (simp_all add: node_view_def env_view_def message_view_def signal_view_def [abs_def]
      update_node_def view_find_or_emplace)

lemma views_env_var [cache_views]:
  "env_view (update_env_var n f c) n' = (if n' = n then f (env_view c n) else env_view c n')"
  "node_view (update_env_var n f c) = node_view c"
  "message_view (update_env_var n f c) = message_view c"
  "signal_view (update_env_var n f c) = signal_view c"
  "c_NetworkAttributes (update_env_var n f c) = c_NetworkAttributes c"
  "c_NetworkComment (update_env_var n f c) = c_NetworkComment c"
  by (simp_all add: node_view_def env_view_def message_view_def signal_view_def [abs_def]
      update_env_var_def view_find_or_emplace)

lemma views_message [cache_views]:
  "message_view (update_message i f c) i' = (if i' = i then f (message_view c i) else message_view c i')"
  "node_view (update_message i f c) = node_view c"
  "env_view (update_message i f c) = env_view c"
  "c_NetworkAttributes (update_message i f c) = c_NetworkAttributes c"
  "c_NetworkComment (update_message i f c) = c_NetworkComment c"
  by (simp_all add: node_view_def env_view_def message_view_def update_message_def
      view_find_or_emplace)

lemma signal_view_message [cache_views]:
  assumes "\<And>mc. mc_Signals (f mc) = mc_Signals mc"
  shows "signal_view (update_message i f c) = signal_view c"
  using assms by (intro ext) (simp add: signal_view_def views_message)

lemma views_signal [cache_views]:
  "signal_view (update_signal i s f c) i' s' =
     (if i' = i \<and> s' = s then f (signal_view c i s) else signal_view c i' s')"
  "mc_Attributes (message_view (update_signal i s f c) i') = mc_Attributes (message_view c i')"
  "mc_Comment (message_view (update_signal i s f c) i') = mc_Comment (message_view c i')"
  "node_view (update_signal i s f c) = node_view c"
  "env_view (update_signal i s f c) = env_view c"
  "c_NetworkAttributes (update_signal i s f c) = c_NetworkAttributes c"
  "c_NetworkComment (update_signal i s f c) = c_NetworkComment c"
  by (auto simp: update_signal_def signal_view_def views_message view_find_or_emplace)

lemma views_network [cache_views]:
  "node_view (c\<lparr>c_NetworkAttributes := as\<rparr>) = node_view c"
  "env_view (c\<lparr>c_NetworkAttributes := as\<rparr>) = env_view c"
  "message_view (c\<lparr>c_NetworkAttributes := as\<rparr>) = message_view c"
  "signal_view (c\<lparr>c_NetworkAttributes := as\<rparr>) = signal_view c"
  "node_view (c\<lparr>c_NetworkComment := co\<rparr>) = node_view c"
  "env_view (c\<lparr>c_NetworkComment := co\<rparr>) = env_view c"
  "message_view (c\<lparr>c_NetworkComment := co\<rparr>) = message_view c"
  "signal_view (c\<lparr>c_NetworkComment := co\<rparr>) = signal_view c"
  by (simp_all add: node_view_def env_view_def message_view_def signal_view_def [abs_def])

lemma views_new [cache_views]:
  "node_view Cache_new n = NodeCache_new" "env_view Cache_new e = EnvVarCache_new"
  "message_view Cache_new i = MessageCache_new" "signal_view Cache_new i s = SignalCache_new"
  "c_NetworkAttributes Cache_new = []" "c_NetworkComment Cache_new = None"
  by (simp_all add: node_view_def env_view_def message_view_def signal_view_def Cache_new_def
      view_empty MessageCache_new_def)

section \<open>What the three passes leave in the caches\<close>

lemma last_match_Nil [simp]: "last_match P [] = None"
  by (simp add: last_match_def)

lemma last_match_Cons [simp]:
  "last_match P (x # xs) =
     (case last_match P xs of Some y \<Rightarrow> Some y | None \<Rightarrow> if P x then Some x else None)"
  by (simp add: last_match_def Let_def)

lemma last_match_sat: "last_match P xs = Some x \<Longrightarrow> P x"
proof -
  assume "last_match P xs = Some x"
  then have "x \<in> set (filter P xs)"
    by (auto simp: last_match_def Let_def simp del: set_filter split: if_splits)
  then show "P x" by simp
qed

definition or_else :: "'a option \<Rightarrow> 'a option \<Rightarrow> 'a option" where
  "or_else a b = (case a of Some x \<Rightarrow> Some x | None \<Rightarrow> b)"

lemma attribute_step:
  "nc_Attributes (node_view (cache_attribute av c) n) =
     nc_Attributes (node_view c n) @ (if node_attr n av then [av] else [])"
  "ec_Attributes (env_view (cache_attribute av c) e) =
     ec_Attributes (env_view c e) @ (if env_var_attr e av then [av] else [])"
  "mc_Attributes (message_view (cache_attribute av c) i) =
     mc_Attributes (message_view c i) @ (if message_attr i av then [av] else [])"
  "sc_Attributes (signal_view (cache_attribute av c) i s) =
     sc_Attributes (signal_view c i s) @ (if signal_attr i s av then [av] else [])"
  "c_NetworkAttributes (cache_attribute av c) =
     c_NetworkAttributes c @ (if network_attr av then [av] else [])"
  by (cases av; simp add: cache_views)+

lemma attribute_pass:
  "nc_Attributes (node_view (fold cache_attribute avs c) n) =
     nc_Attributes (node_view c n) @ filter (node_attr n) avs"
  "ec_Attributes (env_view (fold cache_attribute avs c) e) =
     ec_Attributes (env_view c e) @ filter (env_var_attr e) avs"
  "mc_Attributes (message_view (fold cache_attribute avs c) i) =
     mc_Attributes (message_view c i) @ filter (message_attr i) avs"
  "sc_Attributes (signal_view (fold cache_attribute avs c) i s) =
     sc_Attributes (signal_view c i s) @ filter (signal_attr i s) avs"
  "c_NetworkAttributes (fold cache_attribute avs c) =
     c_NetworkAttributes c @ filter network_attr avs"
  by (induction avs arbitrary: c) (simp_all add: attribute_step)

lemma attribute_step_keeps:
  "nc_Comment (node_view (cache_attribute av c) n) = nc_Comment (node_view c n)"
  "ec_Comment (env_view (cache_attribute av c) e) = ec_Comment (env_view c e)"
  "ec_Description (env_view (cache_attribute av c) e) = ec_Description (env_view c e)"
  "mc_Comment (message_view (cache_attribute av c) i) = mc_Comment (message_view c i)"
  "sc_Comment (signal_view (cache_attribute av c) i s) = sc_Comment (signal_view c i s)"
  "sc_Description (signal_view (cache_attribute av c) i s) =
     sc_Description (signal_view c i s)"
  "c_NetworkComment (cache_attribute av c) = c_NetworkComment c"
  by (cases av; simp add: cache_views)+

lemma attribute_pass_keeps:
  "nc_Comment (node_view (fold cache_attribute avs c) n) = nc_Comment (node_view c n)"
  "ec_Comment (env_view (fold cache_attribute avs c) e) = ec_Comment (env_view c e)"
  "ec_Description (env_view (fold cache_attribute avs c) e) = ec_Description (env_view c e)"
  "mc_Comment (message_view (fold cache_attribute avs c) i) = mc_Comment (message_view c i)"
  "sc_Comment (signal_view (fold cache_attribute avs c) i s) = sc_Comment (signal_view c i s)"
  "sc_Description (signal_view (fold cache_attribute avs c) i s) =
     sc_Description (signal_view c i s)"
  "c_NetworkComment (fold cache_attribute avs c) = c_NetworkComment c"
  by (induction avs arbitrary: c) (simp_all add: attribute_step_keeps)

lemma description_step:
  "sc_Description (signal_view (cache_description d c) i s) =
     (if signal_description i s d then Some d else (sc_Description (signal_view c i s)))"
  "ec_Description (env_view (cache_description d c) e) =
     (if env_var_description e d then Some d else (ec_Description (env_view c e)))"
  by (cases d; simp add: cache_views)+

lemma description_pass:
  "sc_Description (signal_view (fold cache_description ds c) i s) =
     or_else (last_match (signal_description i s) ds) (sc_Description (signal_view c i s))"
  "ec_Description (env_view (fold cache_description ds c) e) =
     or_else (last_match (env_var_description e) ds) (ec_Description (env_view c e))"
  by (induction ds arbitrary: c) (simp_all add: description_step or_else_def split: option.split)

lemma description_step_keeps:
  "node_view (cache_description d c) = node_view c"
  "ec_Attributes (env_view (cache_description d c) e) = ec_Attributes (env_view c e)"
  "ec_Comment (env_view (cache_description d c) e) = ec_Comment (env_view c e)"
  "mc_Attributes (message_view (cache_description d c) i) = mc_Attributes (message_view c i)"
  "mc_Comment (message_view (cache_description d c) i) = mc_Comment (message_view c i)"
  "sc_Attributes (signal_view (cache_description d c) i s) = sc_Attributes (signal_view c i s)"
  "sc_Comment (signal_view (cache_description d c) i s) = sc_Comment (signal_view c i s)"
  "c_NetworkAttributes (cache_description d c) = c_NetworkAttributes c"
  "c_NetworkComment (cache_description d c) = c_NetworkComment c"
  by (cases d; simp add: cache_views)+

lemma description_pass_keeps:
  "node_view (fold cache_description ds c) = node_view c"
  "ec_Attributes (env_view (fold cache_description ds c) e) = ec_Attributes (env_view c e)"
  "ec_Comment (env_view (fold cache_description ds c) e) = ec_Comment (env_view c e)"
  "mc_Attributes (message_view (fold cache_description ds c) i) = mc_Attributes (message_view c i)"
  "mc_Comment (message_view (fold cache_description ds c) i) = mc_Comment (message_view c i)"
  "sc_Attributes (signal_view (fold cache_description ds c) i s) = sc_Attributes (signal_view c i s)"
  "sc_Comment (signal_view (fold cache_description ds c) i s) = sc_Comment (signal_view c i s)"
  "c_NetworkAttributes (fold cache_description ds c) = c_NetworkAttributes c"
  "c_NetworkComment (fold cache_description ds c) = c_NetworkComment c"
  by (induction ds arbitrary: c) (simp_all add: description_step_keeps)

lemma comment_step:
  "nc_Comment (node_view (cache_comment co c) n) =
     (if node_comment_for n co then Some co else (nc_Comment (node_view c n)))"
  "ec_Comment (env_view (cache_comment co c) e) =
     (if env_var_comment_for e co then Some co else (ec_Comment (env_view c e)))"
  "mc_Comment (message_view (cache_comment co c) i) =
     (if message_comment_for i co then Some co else (mc_Comment (message_view c i)))"
  "sc_Comment (signal_view (cache_comment co c) i s) =
     (if signal_comment_for i s co then Some co else (sc_Comment (signal_view c i s)))"
  "c_NetworkComment (cache_comment co c) =
     (if network_comment co then Some co else (c_NetworkComment c))"
  by (cases co; simp add: cache_views)+

lemma comment_pass:
  "nc_Comment (node_view (fold cache_comment cs c) n) =
     or_else (last_match (node_comment_for n) cs) (nc_Comment (node_view c n))"
  "ec_Comment (env_view (fold cache_comment cs c) e) =
     or_else (last_match (env_var_comment_for e) cs) (ec_Comment (env_view c e))"
  "mc_Comment (message_view (fold cache_comment cs c) i) =
     or_else (last_match (message_comment_for i) cs) (mc_Comment (message_view c i))"
  "sc_Comment (signal_view (fold cache_comment cs c) i s) =
     or_else (last_match (signal_comment_for i s) cs) (sc_Comment (signal_view c i s))"
  "c_NetworkComment (fold cache_comment cs c) =
     or_else (last_match network_comment cs) (c_NetworkComment c)"
  by (induction cs arbitrary: c) (simp_all add: comment_step or_else_def split: option.split)

lemma comment_step_keeps:
  "nc_Attributes (node_view (cache_comment co c) n) = nc_Attributes (node_view c n)"
  "ec_Attributes (env_view (cache_comment co c) e) = ec_Attributes (env_view c e)"
  "ec_Description (env_view (cache_comment co c) e) = ec_Description (env_view c e)"
  "mc_Attributes (message_view (cache_comment co c) i) = mc_Attributes (message_view c i)"
  "sc_Attributes (signal_view (cache_comment co c) i s) = sc_Attributes (signal_view c i s)"
  "sc_Description (signal_view (cache_comment co c) i s) = sc_Description (signal_view c i s)"
  "c_NetworkAttributes (cache_comment co c) = c_NetworkAttributes c"
  by (cases co; simp add: cache_views)+

lemma comment_pass_keeps:
  "nc_Attributes (node_view (fold cache_comment cs c) n) = nc_Attributes (node_view c n)"
  "ec_Attributes (env_view (fold cache_comment cs c) e) = ec_Attributes (env_view c e)"
  "ec_Description (env_view (fold cache_comment cs c) e) = ec_Description (env_view c e)"
  "mc_Attributes (message_view (fold cache_comment cs c) i) = mc_Attributes (message_view c i)"
  "sc_Attributes (signal_view (fold cache_comment cs c) i s) = sc_Attributes (signal_view c i s)"
  "sc_Description (signal_view (fold cache_comment cs c) i s) = sc_Description (signal_view c i s)"
  "c_NetworkAttributes (fold cache_comment cs c) = c_NetworkAttributes c"
  by (induction cs arbitrary: c) (simp_all add: comment_step_keeps)
text \<open>Everything a lookup in the finished cache sees.\<close>

lemma build_cache_views:
  "nc_Attributes (node_view (build_cache gnet) n) = filter (node_attr n) (g_net_attribute_values gnet)"
  "nc_Comment (node_view (build_cache gnet) n) = last_match (node_comment_for n) (g_net_comments gnet)"
  "ec_Attributes (env_view (build_cache gnet) e) =
     filter (env_var_attr e) (g_net_attribute_values gnet)"
  "ec_Description (env_view (build_cache gnet) e) =
     last_match (env_var_description e) (g_net_value_descriptions_sig_env_var gnet)"
  "ec_Comment (env_view (build_cache gnet) e) =
     last_match (env_var_comment_for e) (g_net_comments gnet)"
  "mc_Attributes (message_view (build_cache gnet) i) =
     filter (message_attr i) (g_net_attribute_values gnet)"
  "mc_Comment (message_view (build_cache gnet) i) =
     last_match (message_comment_for i) (g_net_comments gnet)"
  "sc_Attributes (signal_view (build_cache gnet) i s) =
     filter (signal_attr i s) (g_net_attribute_values gnet)"
  "sc_Description (signal_view (build_cache gnet) i s) =
     last_match (signal_description i s) (g_net_value_descriptions_sig_env_var gnet)"
  "sc_Comment (signal_view (build_cache gnet) i s) =
     last_match (signal_comment_for i s) (g_net_comments gnet)"
  "c_NetworkAttributes (build_cache gnet) = filter network_attr (g_net_attribute_values gnet)"
  "c_NetworkComment (build_cache gnet) = last_match network_comment (g_net_comments gnet)"
  by (simp_all add: build_cache_def Let_def attribute_pass attribute_pass_keeps description_pass
      description_pass_keeps comment_pass comment_pass_keeps cache_views NodeCache_new_def
      EnvVarCache_new_def MessageCache_new_def SignalCache_new_def or_else_def split: option.split)

section \<open>The lookups compute the reference\<close>

lemma those_map_Some: "those (map (\<lambda>x. Some (f x)) xs) = Some (map f xs)"
  by (induction xs) simp_all

lemma to_attributes_filter:
  assumes "\<And>av. P av \<Longrightarrow> to_attribute ot av =
     Some (IAttribute_Create (g_attribute_name av) ot
       (boost_variant_to_std_variant (g_attribute_value av)))"
  shows "to_attributes ot (filter P (g_net_attribute_values gnet)) = Some (attributes_for P ot gnet)"
proof -
  have "those (map (to_attribute ot) (filter P avs)) =
      Some (map (\<lambda>av. IAttribute_Create (g_attribute_name av) ot
        (boost_variant_to_std_variant (g_attribute_value av))) (filter P avs))" for avs
    using assms by (induction avs) simp_all
  then show ?thesis by (simp add: to_attributes_def attributes_for_def)
qed

lemma comment_of_last_match:
  assumes "\<And>c. P c \<Longrightarrow> comment_of ot (Some c) = Some (g_comment c)"
  shows "comment_of ot (last_match P (g_net_comments gnet)) = Some (comment_for P gnet)"
  using last_match_sat [of P "g_net_comments gnet"] assms
  by (cases "last_match P (g_net_comments gnet)") (simp_all add: comment_for_def)

lemma to_attributes_Nil: "to_attributes ot [] = Some []"
  by (simp add: to_attributes_def)

lemma node_lookups:
  "getAttributeValues_node n (build_cache gnet) =
     Some (attributes_for (node_attr (g_node_name n)) OT_Node gnet)"
  "getComment_node n (build_cache gnet) = Some (comment_for (node_comment_for (g_node_name n)) gnet)"
proof -
  have "getAttributeValues_node n c = to_attributes OT_Node (nc_Attributes (node_view c (g_node_name n)))"
    "getComment_node n c = comment_of OT_Node (nc_Comment (node_view c (g_node_name n)))" for c
    by (simp_all add: getAttributeValues_node_def getComment_node_def node_view_def view_def
        NodeCache_new_def to_attributes_Nil split: option.split)
  then show "getAttributeValues_node n (build_cache gnet) =
     Some (attributes_for (node_attr (g_node_name n)) OT_Node gnet)"
    "getComment_node n (build_cache gnet) = Some (comment_for (node_comment_for (g_node_name n)) gnet)"
    by (simp_all add: build_cache_views, subst to_attributes_filter,
        auto elim: node_attr.elims node_comment_for.elims intro!: comment_of_last_match)
qed

lemma message_lookups:
  "getAttributeValues_message m (build_cache gnet) =
     Some (attributes_for (message_attr (g_msg_id m)) OT_Message gnet)"
  "getComment_message m (build_cache gnet) =
     Some (comment_for (message_comment_for (g_msg_id m)) gnet)"
proof -
  have "getAttributeValues_message m c =
      to_attributes OT_Message (mc_Attributes (message_view c (g_msg_id m)))"
    "getComment_message m c = comment_of OT_Message (mc_Comment (message_view c (g_msg_id m)))" for c
    by (simp_all add: getAttributeValues_message_def getComment_message_def message_view_def
        view_def MessageCache_new_def to_attributes_Nil split: option.split)
  then show "getAttributeValues_message m (build_cache gnet) =
      Some (attributes_for (message_attr (g_msg_id m)) OT_Message gnet)"
    "getComment_message m (build_cache gnet) =
      Some (comment_for (message_comment_for (g_msg_id m)) gnet)"
    by (simp_all add: build_cache_views, subst to_attributes_filter,
        auto elim: message_attr.elims message_comment_for.elims intro!: comment_of_last_match)
qed

lemma signal_lookups:
  "getAttributeValues_signal m s (build_cache gnet) =
     Some (attributes_for (signal_attr (g_msg_id m) (g_sig_name s)) OT_Signal gnet)"
  "getComment_signal m s (build_cache gnet) =
     Some (comment_for (signal_comment_for (g_msg_id m) (g_sig_name s)) gnet)"
proof -
  have "getAttributeValues_signal m s c =
      to_attributes OT_Signal (sc_Attributes (signal_view c (g_msg_id m) (g_sig_name s)))"
    "getComment_signal m s c =
      comment_of OT_Signal (sc_Comment (signal_view c (g_msg_id m) (g_sig_name s)))" for c
    by (simp_all add: getAttributeValues_signal_def getComment_signal_def signal_view_def
        message_view_def view_def SignalCache_new_def MessageCache_new_def to_attributes_Nil
        split: option.split)
  then show "getAttributeValues_signal m s (build_cache gnet) =
      Some (attributes_for (signal_attr (g_msg_id m) (g_sig_name s)) OT_Signal gnet)"
    "getComment_signal m s (build_cache gnet) =
      Some (comment_for (signal_comment_for (g_msg_id m) (g_sig_name s)) gnet)"
    by (simp_all add: build_cache_views, subst to_attributes_filter,
        auto elim: signal_attr.elims signal_comment_for.elims intro!: comment_of_last_match)
qed

lemma env_var_lookups:
  "getAttributeValues_env_var ev (build_cache gnet) =
     Some (attributes_for (env_var_attr (g_ev_name ev)) OT_EnvironmentVariable gnet)"
  "getComment_env_var ev (build_cache gnet) =
     Some (comment_for (env_var_comment_for (g_ev_name ev)) gnet)"
proof -
  have "getAttributeValues_env_var ev c =
      to_attributes OT_EnvironmentVariable (ec_Attributes (env_view c (g_ev_name ev)))"
    "getComment_env_var ev c =
      comment_of OT_EnvironmentVariable (ec_Comment (env_view c (g_ev_name ev)))" for c
    by (simp_all add: getAttributeValues_env_var_def getComment_env_var_def env_view_def view_def
        EnvVarCache_new_def to_attributes_Nil split: option.split)
  then show "getAttributeValues_env_var ev (build_cache gnet) =
      Some (attributes_for (env_var_attr (g_ev_name ev)) OT_EnvironmentVariable gnet)"
    "getComment_env_var ev (build_cache gnet) =
      Some (comment_for (env_var_comment_for (g_ev_name ev)) gnet)"
    by (simp_all add: build_cache_views, subst to_attributes_filter,
        auto elim: env_var_attr.elims env_var_comment_for.elims intro!: comment_of_last_match)
qed

lemma network_lookups:
  "getAttributeValues_network (build_cache gnet) = Some (attributes_for network_attr OT_Network gnet)"
  "getComment_network (build_cache gnet) = Some (comment_for network_comment gnet)"
  unfolding getAttributeValues_network_def getComment_network_def build_cache_views
  by (rule to_attributes_filter, auto elim: network_attr.elims)
     (auto elim: network_comment.elims intro!: comment_of_last_match)

lemma description_lookups:
  "getValueDescriptions_signal m s (build_cache gnet) =
     Some (descriptions_for (signal_description (g_msg_id m) (g_sig_name s)) gnet)"
  "getValueDescriptions_env_var ev (build_cache gnet) =
     Some (descriptions_for (env_var_description (g_ev_name ev)) gnet)"
proof -
  let ?ds = "g_net_value_descriptions_sig_env_var gnet"
  have "getValueDescriptions_signal m s c =
      (case sc_Description (signal_view c (g_msg_id m) (g_sig_name s)) of
         Some (G_ValueDescriptionSignal _ _ vds) \<Rightarrow> Some (value_descriptions vds)
       | Some (G_ValueDescriptionEnvVar _ _) \<Rightarrow> None
       | None \<Rightarrow> Some [])" for c
    by (simp add: getValueDescriptions_signal_def signal_view_def message_view_def view_def
        SignalCache_new_def MessageCache_new_def split: option.split)
  then show "getValueDescriptions_signal m s (build_cache gnet) =
      Some (descriptions_for (signal_description (g_msg_id m) (g_sig_name s)) gnet)"
    using last_match_sat [of "signal_description (g_msg_id m) (g_sig_name s)" ?ds]
    by (auto simp: build_cache_views descriptions_for_def split: option.split Description.split)
  have "getValueDescriptions_env_var ev c =
      (case ec_Description (env_view c (g_ev_name ev)) of
         Some (G_ValueDescriptionEnvVar _ vds) \<Rightarrow> Some (value_descriptions vds)
       | Some (G_ValueDescriptionSignal _ _ _) \<Rightarrow> None
       | None \<Rightarrow> Some [])" for c
    by (simp add: getValueDescriptions_env_var_def env_view_def view_def EnvVarCache_new_def
        split: option.split)
  then show "getValueDescriptions_env_var ev (build_cache gnet) =
      Some (descriptions_for (env_var_description (g_ev_name ev)) gnet)"
    using last_match_sat [of "env_var_description (g_ev_name ev)" ?ds]
    by (auto simp: build_cache_views descriptions_for_def split: option.split Description.split)
qed

lemma getSignal_spec: "getSignal pf gnet m (build_cache gnet) s = spec_signal pf gnet m s"
  by (simp add: getSignal_def spec_signal_def signal_lookups description_lookups Let_def)

lemma getMessage_spec: "getMessage pf gnet (build_cache gnet) m = spec_message pf gnet m"
proof -
  have "getSignals pf gnet m (build_cache gnet) =
      map_option (\<lambda>r. (map fst r, concat (map snd r)))
        (those (map (spec_signal pf gnet m) (g_msg_signals m)))"
    by (simp add: getSignals_def getSignal_spec [abs_def])
  then show ?thesis
    by (cases "those (map (spec_signal pf gnet m) (g_msg_signals m))")
       (simp_all add: getMessage_def spec_message_def message_lookups Let_def)
qed

lemma getEnvironmentVariable_spec:
  "getEnvironmentVariable gnet (build_cache gnet) ev = spec_env_var gnet ev"
  by (simp add: getEnvironmentVariable_def spec_env_var_def env_var_lookups description_lookups
      Let_def)

lemma getNodes_spec: "getNodes gnet (build_cache gnet) = Some (map (spec_node gnet) (g_net_nodes gnet))"
  by (simp add: getNodes_def node_lookups those_map_Some spec_node_def [abs_def])

lemma DBCAST2Network_eq: "DBCAST2Network pf gnet = spec_network pf gnet"
proof -
  have m: "getMessages pf gnet (build_cache gnet) =
      map_option (\<lambda>r. (map fst r, concat (map snd r)))
        (those (map (spec_message pf gnet) (g_net_messages gnet)))"
    by (simp add: getMessages_def getMessage_spec [abs_def])
  have e: "getEnvironmentVariables gnet (build_cache gnet) =
      those (map (spec_env_var gnet) (g_net_environment_variables gnet))"
    by (simp add: getEnvironmentVariables_def getEnvironmentVariable_spec [abs_def])
  show ?thesis
    by (cases "those (map (spec_message pf gnet) (g_net_messages gnet))")
       (simp_all add: DBCAST2Network_def spec_network_def Let_def getNodes_spec m e network_lookups)
qed

text \<open>C4. The network that is built through the caches is the one built by searching the syntax
  tree for each object: every node, message, signal, environment variable and the network itself
  has exactly the attributes that name it, in the order of the file, and the comment and the value
  descriptions of the last entry that names it. In particular no lookup meets the wrong
  alternative of a variant.\<close>

theorem DBCAST2Network_refines: "DBCAST2Network pf gnet = spec_network pf gnet"
  by (rule DBCAST2Network_eq)

end
