(* ===== verification/SignalErrors.thy ===== *)
theory SignalErrors
  imports SignalProps
begin

text \<open>
  The constructor of \<open>SignalImpl\<close>: when it is defined, what each error flag means, and what
  the absence of \<open>SignalExceedsMessageSize\<close> guarantees for \<open>Decode\<close>.
\<close>

text \<open>Constructing a signal is free of undefined behaviour exactly for the sizes from 1 to
  64 bits; for any other size one of the mask computations shifts by 64 or more.\<close>

theorem constructor_defined:
  "SignalImpl_new pf message_size d = None \<longleftrightarrow>
     sig_bit_size d = 0 \<or> 64 < unat (sig_bit_size d)"
proof -
  have "sig_bit_size d = 0 \<longleftrightarrow> \<not> 1 \<le> unat (sig_bit_size d)"
    using unat_eq_zero [of "sig_bit_size d"] by linarith
  then show ?thesis using SignalImpl_new_defined [of pf message_size d] by linarith
qed

lemma exceeds_little:
  assumes "sig_byte_order d = LittleEndian" and "unat (sig_bit_size d) \<le> 64"
    and ms: "unat ms < 2 ^ 60" and "unat (sig_start_bit d) < 2 ^ 63"
  shows "exceeds_message_size ms d \<longleftrightarrow>
     8 * max 8 (unat ms) < unat (sig_start_bit d) + unat (sig_bit_size d)"
proof -
  define m where "m = (if ms < 8 then 8 else ms)"
  have m: "unat m = max 8 (unat ms)" by (simp add: m_def word_less_nat_alt max_def)
  have "unat (m * 8) = 8 * unat m" using m ms unat_mul64 [of m 8] by simp
  moreover have "unat (sig_start_bit d + sig_bit_size d) = unat (sig_start_bit d) + unat (sig_bit_size d)"
    using assms by (intro unat_add64) simp
  ultimately show ?thesis
    unfolding exceeds_message_size_def Let_def m_def [symmetric] m [symmetric]
    by (simp add: assms(1) word_less_nat_alt)
qed

lemma last_byte_iff: "8 * m \<le> 8 * q + 8 * (g div 8) \<longleftrightarrow> 8 * m < 8 * q + Suc g" for m :: nat
proof -
  define k where "k = g div 8"
  have "8 * k \<le> g" "g < 8 * k + 8" by (simp_all add: k_def)
  note k = this
  have "8 * m \<le> 8 * q + 8 * k \<longleftrightarrow> 8 * m < 8 * q + Suc g"
  proof
    assume "8 * m < 8 * q + Suc g"
    then have "m < q + k + 1" using k by linarith
    then show "8 * m \<le> 8 * q + 8 * k" by simp
  qed (use k in linarith)
  then show ?thesis by (simp only: k_def)
qed

lemma exceeds_big:
  assumes "sig_byte_order d = BigEndian" and n: "1 \<le> unat (sig_bit_size d)" "unat (sig_bit_size d) \<le> 64"
    and ms: "unat ms < 2 ^ 60" and s: "unat (sig_start_bit d) < 2 ^ 63"
  shows "exceeds_message_size ms d \<longleftrightarrow>
     8 * max 8 (unat ms) < mirror_bit (unat (sig_start_bit d)) + unat (sig_bit_size d)"
proof -
  let ?s = "sig_start_bit d" and ?n = "sig_bit_size d"
  define m where "m = (if ms < 8 then 8 else ms)"
  have m: "unat m = max 8 (unat ms)" by (simp add: m_def word_less_nat_alt max_def)
  have m8: "unat (m * 8) = 8 * unat m" using m ms unat_mul64 [of m 8] by simp
  define q r where qr: "q = unat ?s div 8" "r = unat ?s mod 8"
  have S: "unat ?s = 8 * q + r" "r < 8" by (simp_all add: qr)
  define fs where "fs = ?n + (7 - ?s mod 8)"
  have fs: "unat fs = unat ?n + (7 - r)"
    using n unat_add64 [of ?n "7 - ?s mod 8"] unat_8_minus [of ?s] by (simp add: fs_def qr)
  have "unat (fs - 1) = unat ?n + (7 - r) - 1" using fs n by (simp add: unat_sub64)
  then have "unat ((fs - 1) div 8) = (unat ?n + (7 - r) - 1) div 8" by (simp add: unat_div8)
  moreover have "(unat ?n + (7 - r) - 1) div 8 \<le> 8" using n by simp
  ultimately have k: "unat ((fs - 1) div 8 * 8) = 8 * ((unat ?n + (7 - r) - 1) div 8)"
    using unat_mul64 [of "(fs - 1) div 8" 8] by simp
  have f: "unat (?s - ?s mod 8) = 8 * q"
    using unat_sub64 [of "?s mod 8" ?s] by (simp add: unat_mod8 qr minus_mod_eq_mult_div)
  have sum: "unat (?s - ?s mod 8 + (fs - 1) div 8 * 8) = 8 * q + 8 * ((unat ?n + (7 - r) - 1) div 8)"
  proof -
    have "8 * ((unat ?n + (7 - r) - 1) div 8) \<le> 72" using n by simp
    moreover have "8 * q \<le> unat ?s" using S(1) by simp
    ultimately have "unat (?s - ?s mod 8) + unat ((fs - 1) div 8 * 8) < 2 ^ 64"
      using s unfolding f k by simp
    then show ?thesis using unat_add64 [of "?s - ?s mod 8" "(fs - 1) div 8 * 8"] unfolding f k by blast
  qed
  have "mirror_bit (unat ?s) = 8 * q + (7 - r)" using mirror_bit_split [OF S(2), of q] unfolding S(1) .
  moreover have "8 * unat m \<le> 8 * q + 8 * ((unat ?n + (7 - r) - 1) div 8) \<longleftrightarrow>
      8 * unat m < 8 * q + (7 - r) + unat ?n"
  proof -
    have e: "Suc (unat ?n + (7 - r) - 1) = unat ?n + (7 - r)"
      using n by (intro Suc_diff_1) simp
    show ?thesis using last_byte_iff [of "unat m" q "unat ?n + (7 - r) - 1"]
      unfolding e by (simp only: add.assoc add.commute [of "7 - r"])
  qed
  ultimately show ?thesis
    unfolding exceeds_message_size_def Let_def m_def [symmetric] m [symmetric] fs_def [symmetric]
    by (simp add: assms(1) word_le_nat_alt sum m8)
qed

lemma exceeds_occupied:
  assumes "1 \<le> unat (sig_bit_size d)" "unat (sig_bit_size d) \<le> 64"
    and "unat ms < 2 ^ 60" and "unat (sig_start_bit d) < 2 ^ 63"
  shows "exceeds_message_size ms d \<longleftrightarrow> max 8 (unat ms) < occupied_bytes d"
proof -
  have "occupied_bytes d \<le> max 8 (unat ms) \<longleftrightarrow> \<not> exceeds_message_size ms d"
    unfolding occupied_bytes_iff [OF assms(1,2)]
    using exceeds_little [of d ms] exceeds_big [of d ms] assms
    by (cases "sig_byte_order d") (auto simp: loop_numbering_def not_less)
  then show ?thesis by auto
qed

lemma occupied_bytes_pos:
  assumes n: "1 \<le> unat (sig_bit_size d)" "unat (sig_bit_size d) \<le> 64"
  shows "m < occupied_bytes d \<longleftrightarrow> (\<exists>j < unat (sig_bit_size d). m \<le> sig_pos d j div 8)"
proof
  assume "m < occupied_bytes d"
  then have "\<not> loop_numbering d (unat (sig_start_bit d)) + unat (sig_bit_size d) \<le> 8 * m"
    using occupied_bytes_iff [OF n, of m] by simp
  moreover define j where "j = (if sig_byte_order d = BigEndian then 0 else unat (sig_bit_size d) - 1)"
  moreover have j: "j < unat (sig_bit_size d)" using n by (simp add: j_def)
  ultimately have "8 * m \<le> loop_numbering d (sig_pos d j)"
    using sig_pos_numbering [OF j] n by (auto split: if_splits)
  then have "m \<le> sig_pos d j div 8" using loop_numbering_less [of d "sig_pos d j" m] by linarith
  then show "\<exists>j < unat (sig_bit_size d). m \<le> sig_pos d j div 8" using j by blast
next
  assume "\<exists>j < unat (sig_bit_size d). m \<le> sig_pos d j div 8"
  then obtain j where j: "j < unat (sig_bit_size d)" "m \<le> sig_pos d j div 8" by blast
  then show "m < occupied_bytes d" using sig_pos_less [OF n _ j(1), of m] by linarith
qed

text \<open>C14. The error flags of a new signal. \<open>SignalExceedsMessageSize\<close> is set exactly when some
  byte of the signal lies beyond the message, counting messages shorter than 8 bytes as 8;
  \<open>WrongBitSizeForExtendedDataType\<close> exactly for floating-point signals of a size other than
  their type's; the two encoding flags exactly for floating-point signals on a machine whose
  type is not IEEE 754.\<close>

theorem constructor_errors:
  assumes "SignalImpl_new pf ms d = Some sigi"
    and "unat ms < 2 ^ 60" and "unat (sig_start_bit d) < 2 ^ 63"
  shows "(Error sigi SignalExceedsMessageSize \<longleftrightarrow>
       (\<exists>j < unat (sig_bit_size d). max 8 (unat ms) \<le> sig_pos d j div 8)) \<and>
     (Error sigi WrongBitSizeForExtendedDataType \<longleftrightarrow>
       sig_extended_value_type d = EVT_Float \<and> sig_bit_size d \<noteq> 32 \<or>
       sig_extended_value_type d = EVT_Double \<and> sig_bit_size d \<noteq> 64) \<and>
     (Error sigi MaschinesFloatEncodingNotSupported \<longleftrightarrow>
       sig_extended_value_type d = EVT_Float \<and> \<not> float_is_iec559 pf) \<and>
     (Error sigi MaschinesDoubleEncodingNotSupported \<longleftrightarrow>
       sig_extended_value_type d = EVT_Double \<and> \<not> double_is_iec559 pf)"
proof -
  have n: "1 \<le> unat (sig_bit_size d)" "unat (sig_bit_size d) \<le> 64"
    and err: "sig_error sigi = constructor_error pf ms d"
    using assms(1) by (auto elim: SignalImpl_new_SomeD)
  have ex: "(\<exists>j < unat (sig_bit_size d). max 8 (unat ms) \<le> sig_pos d j div 8) \<longleftrightarrow>
      exceeds_message_size ms d"
    using exceeds_occupied [OF n assms(2,3)] occupied_bytes_pos [OF n] by simp
  show ?thesis
    unfolding ex
    by (cases "sig_extended_value_type d"; cases "exceeds_message_size ms d")
       (simp_all add: Error_def err constructor_error_def SetError_def)
qed

theorem constructor_errors_witness:
  "Error (ex_impl 8 (ex_signal 60 8 LittleEndian Unsigned)) SignalExceedsMessageSize"
proof -
  let ?d = "ex_signal 60 8 LittleEndian Unsigned"
  have "SignalImpl_new ieee 8 ?d = Some (ex_impl 8 ?d)" by (rule ex_impl) (simp_all add: ex_signal_def)
  moreover have "\<exists>j < unat (sig_bit_size ?d). max 8 (unat (8 :: u64)) \<le> sig_pos ?d j div 8"
    by (rule exI [of _ 7]) (simp add: ex_signal_def sig_pos_def)
  ultimately show ?thesis
    using constructor_errors [of ieee 8 ?d "ex_impl 8 ?d"] by (simp add: ex_signal_def)
qed

lemma touched_le_occupied:
  assumes "1 \<le> unat (signal_nbytes d)"
  shows "touched_bytes d \<le> max 8 (occupied_bytes d + 7)"
  using assms by (auto simp: touched_bytes_def occupied_bytes_def Let_def)

lemma decodes_without_error:
  assumes new: "SignalImpl_new pf ms d = Some sigi" and ws: "well_sized d"
    and "\<not> Error sigi SignalExceedsMessageSize"
    and ms: "unat ms < 2 ^ 60" and s: "unat (sig_start_bit d) < 2 ^ 63"
    and len: "if unat ms \<le> 8 then 8 \<le> length fr else unat ms + 7 \<le> length fr"
  shows "\<exists>raw. Decode native sigi fr = Some raw"
proof -
  have n: "1 \<le> unat (sig_bit_size d)" "unat (sig_bit_size d) \<le> 64"
    using ws by (simp_all add: well_sized_def)
  have err: "sig_error sigi = constructor_error pf ms d"
    using new by (auto elim: SignalImpl_new_SomeD)
  have "\<not> exceeds_message_size ms d"
    using assms(3)
    by (cases "sig_extended_value_type d")
       (auto simp: Error_def err constructor_error_def SetError_def split: if_splits)
  then have occ: "occupied_bytes d \<le> max 8 (unat ms)"
    using exceeds_occupied [OF n ms s] by linarith
  have "touched_bytes d \<le> length fr"
  proof (cases "unat ms \<le> 8")
    case True
    then show ?thesis using occ len by (auto simp: touched_bytes_def occupied_bytes_def Let_def)
  next
    case False
    have "1 \<le> unat (signal_nbytes d)"
      using n by (auto simp: unat_signal_nbytes split: EByteOrder.split)
    then have "touched_bytes d \<le> max 8 (occupied_bytes d + 7)" by (rule touched_le_occupied)
    with occ False len show ?thesis by simp
  qed
  then show ?thesis using decode_spec [OF new ws, of native fr] by simp
qed

text \<open>C15. A signal without the \<open>SignalExceedsMessageSize\<close> flag decodes from every 8-byte buffer
  when the message has at most 8 bytes, and in general from every buffer that holds the
  message padded with 7 more bytes.\<close>

theorem no_error_decodes:
  assumes new: "SignalImpl_new pf ms d = Some sigi" and ws: "well_sized d"
    and "\<not> Error sigi SignalExceedsMessageSize"
    and ms: "unat ms < 2 ^ 60" and s: "unat (sig_start_bit d) < 2 ^ 63"
    and len: "if unat ms \<le> 8 then 8 \<le> length fr else unat ms + 7 \<le> length fr"
  shows "\<exists>raw. Decode native sigi fr = Some raw"
  by (rule decodes_without_error [OF assms])

theorem no_error_decodes_witness:
  "\<exists>raw. Decode Little (ex_impl 8 (ex_signal 3 12 BigEndian Signed)) (replicate 8 0) = Some raw"
proof -
  let ?d = "ex_signal 3 12 BigEndian Signed"
  have "SignalImpl_new ieee 8 ?d = Some (ex_impl 8 ?d)" by (rule ex_impl) (simp_all add: ex_signal_def)
  moreover have "\<not> Error (ex_impl 8 ?d) SignalExceedsMessageSize" by code_simp
  ultimately show ?thesis
    using no_error_decodes [of ieee 8 ?d "ex_impl 8 ?d" "replicate 8 0" Little]
    by (simp add: ex_signal_def well_sized_def)
qed

text \<open>Without the padding the flag guarantees nothing: for a 12-byte message, a signal in
  bytes 8 to 11 has no error, its bytes all lie in the message, \<open>Encode\<close> accepts the buffer,
  and \<open>Decode\<close> reads 4 bytes past its end.\<close>

theorem decode_overreads_message:
  "let d = ex_signal 64 32 LittleEndian Unsigned; sigi = ex_impl 12 d; fr = replicate 12 0
   in sig_error sigi = NoError \<and> occupied_bytes d = 12 \<and> Encode sigi 1 fr \<noteq> None \<and>
      Decode Little sigi fr = None \<and> touched_bytes d = 16"
  by code_simp

end
