(* ===== verification/LoadProps.thy ===== *)
theory LoadProps
  imports AstRefinement SignalErrors NetworkProps
begin

text \<open>
  What a loaded network is: when the conversion of a syntax tree is defined, which objects it
  creates, and what the absence of warnings means for decoding.
\<close>

section \<open>Definedness\<close>

lemma those_map_defined: "those (map f xs) \<noteq> None \<longleftrightarrow> (\<forall>x \<in> set xs. f x \<noteq> None)"
proof (induction xs)
  case (Cons x xs)
  then show ?case by (cases "f x"; cases "those (map f xs)") simp_all
qed simp

lemma those_Some_nth:
  "those xs = Some ys \<Longrightarrow> length ys = length xs \<and> (\<forall>i < length xs. xs ! i = Some (ys ! i))"
proof (induction xs arbitrary: ys)
  case (Cons x xs)
  from Cons.prems obtain y zs where "x = Some y" "those xs = Some zs" "ys = y # zs"
    by (cases x; cases "those xs") auto
  then show ?case using Cons.IH [of zs] by (auto simp: nth_Cons split: nat.split)
qed simp

lemma those_map_SomeD:
  "those (map f xs) = Some ys \<Longrightarrow> length ys = length xs \<and> (\<forall>i < length xs. f (xs ! i) = Some (ys ! i))"
  using those_Some_nth [of "map f xs" ys] by auto

lemma those_map_eq:
  assumes "those (map f xs) = Some ys" and "\<And>x y. x \<in> set xs \<Longrightarrow> f x = Some y \<Longrightarrow> g y = h x"
  shows "map g ys = map h xs"
  using those_map_SomeD [OF assms(1)] assms(2) by (intro nth_equalityI) auto

lemma those_map_all:
  assumes "those (map f xs) = Some ys" and "\<And>x y. x \<in> set xs \<Longrightarrow> f x = Some y \<Longrightarrow> P y"
  shows "list_all P ys"
proof -
  have "P (ys ! i)" if "i < length ys" for i
    using those_map_SomeD [OF assms(1)] that by (intro assms(2) [of "xs ! i"]) auto
  then show ?thesis by (simp add: list_all_length)
qed

definition signal_ok :: "G_Signal \<Rightarrow> bool" where
  "signal_ok s \<longleftrightarrow>
     1 \<le> unat (g_sig_signal_size s) \<and> unat (g_sig_signal_size s) \<le> 64 \<and>
     multiplexer_of (g_sig_multiplexer_indicator s) \<noteq> None"

definition env_var_ok :: "G_Network \<Rightarrow> G_EnvironmentVariable \<Rightarrow> bool" where
  "env_var_ok gnet ev \<longleftrightarrow>
     unat (g_ev_var_type ev) \<le> 2 \<or>
     list_ex (\<lambda>evd. g_evd_name evd = g_ev_name ev) (g_net_environment_variable_datas gnet)"

lemma spec_signal_defined: "spec_signal pf gnet m s \<noteq> None \<longleftrightarrow> signal_ok s"
proof (cases "multiplexer_of (g_sig_multiplexer_indicator s)")
  case None
  then show ?thesis by (simp add: spec_signal_def signal_ok_def)
next
  case (Some p)
  let ?d = "\<lparr>sig_name = g_sig_name s, sig_multiplexer_indicator = fst p,
        sig_multiplexer_switch_value = snd p,
        sig_start_bit = g_sig_start_bit s, sig_bit_size = g_sig_signal_size s,
        sig_byte_order = byte_order_of (g_sig_byte_order s),
        sig_value_type = value_type_of (g_sig_value_type s),
        sig_factor = g_sig_factor s, sig_offset = g_sig_offset s,
        sig_minimum = g_sig_minimum s, sig_maximum = g_sig_maximum s, sig_unit = g_sig_unit s,
        sig_receivers = g_sig_receivers s,
        sig_attribute_values =
          attributes_for (signal_attr (g_msg_id m) (g_sig_name s)) OT_Signal gnet,
        sig_value_encoding_descriptions =
          descriptions_for (signal_description (g_msg_id m) (g_sig_name s)) gnet,
        sig_comment = comment_for (signal_comment_for (g_msg_id m) (g_sig_name s)) gnet,
        sig_extended_value_type = getSignalExtendedValueType gnet m s,
        sig_signal_multiplexer_values =
          getSignalMultiplexerValues gnet (g_sig_name s) (g_msg_id m)\<rparr>"
  have "spec_signal pf gnet m s \<noteq> None \<longleftrightarrow> SignalImpl_new pf (g_msg_size m) ?d \<noteq> None"
    by (cases p; cases "SignalImpl_new pf (g_msg_size m) ?d") (simp_all add: spec_signal_def Some)
  also have "\<dots> \<longleftrightarrow> signal_ok s"
    using SignalImpl_new_defined [of pf "g_msg_size m" ?d] Some by (simp add: signal_ok_def)
  finally show ?thesis .
qed

lemma spec_message_defined:
  "spec_message pf gnet m \<noteq> None \<longleftrightarrow> list_all signal_ok (g_msg_signals m)"
proof -
  have "spec_message pf gnet m \<noteq> None \<longleftrightarrow>
      those (map (spec_signal pf gnet m) (g_msg_signals m)) \<noteq> None"
    by (cases "those (map (spec_signal pf gnet m) (g_msg_signals m))")
       (simp_all add: spec_message_def Let_def)
  also have "\<dots> \<longleftrightarrow> (\<forall>s \<in> set (g_msg_signals m). spec_signal pf gnet m s \<noteq> None)"
    by (rule those_map_defined)
  finally show ?thesis by (simp add: spec_signal_defined list_all_iff del: not_None_eq)
qed

lemma spec_env_var_defined: "spec_env_var gnet ev \<noteq> None \<longleftrightarrow> env_var_ok gnet ev"
proof -
  have v: "var_type_of n \<noteq> None \<longleftrightarrow> unat n \<le> 2" for n
  proof -
    have "n = 0 \<or> n = 1 \<or> n = 2 \<longleftrightarrow> unat n = 0 \<or> unat n = 1 \<or> unat n = 2"
      by (simp add: word_unat_eq_iff)
    then show ?thesis by (auto simp: var_type_of_def)
  qed
  show ?thesis
    using v [of "g_ev_var_type ev"]
      find_None_iff [of "\<lambda>evd. g_evd_name evd = g_ev_name ev" "g_net_environment_variable_datas gnet"]
    by (cases "find (\<lambda>evd. g_evd_name evd = g_ev_name ev) (g_net_environment_variable_datas gnet)")
       (auto simp: spec_env_var_def env_var_ok_def list_ex_iff Let_def)
qed

lemma spec_network_defined:
  "spec_network pf gnet \<noteq> None \<longleftrightarrow>
     list_all (\<lambda>m. list_all signal_ok (g_msg_signals m)) (g_net_messages gnet) \<and>
     list_all (env_var_ok gnet) (g_net_environment_variables gnet)"
proof -
  have "spec_network pf gnet \<noteq> None \<longleftrightarrow>
      those (map (spec_message pf gnet) (g_net_messages gnet)) \<noteq> None \<and>
      those (map (spec_env_var gnet) (g_net_environment_variables gnet)) \<noteq> None"
    by (cases "those (map (spec_message pf gnet) (g_net_messages gnet))";
        cases "those (map (spec_env_var gnet) (g_net_environment_variables gnet))")
       (simp_all add: spec_network_def INetwork_Create_def)
  moreover have "those (map (spec_message pf gnet) (g_net_messages gnet)) \<noteq> None \<longleftrightarrow>
      (\<forall>m \<in> set (g_net_messages gnet). spec_message pf gnet m \<noteq> None)"
    by (rule those_map_defined)
  moreover have "those (map (spec_env_var gnet) (g_net_environment_variables gnet)) \<noteq> None \<longleftrightarrow>
      (\<forall>ev \<in> set (g_net_environment_variables gnet). spec_env_var gnet ev \<noteq> None)"
    by (rule those_map_defined)
  ultimately show ?thesis
    by (simp add: spec_message_defined spec_env_var_defined list_all_iff del: not_None_eq)
qed

text \<open>C21. Converting a syntax tree is free of undefined behaviour exactly when every signal has 1
  to 64 bits and a readable multiplexer text, and every environment variable has a type number up
  to 2 or a data entry.\<close>

theorem conversion_defined:
  "DBCAST2Network pf gnet = None \<longleftrightarrow>
     \<not> (list_all (\<lambda>m. list_all signal_ok (g_msg_signals m)) (g_net_messages gnet) \<and>
        list_all (env_var_ok gnet) (g_net_environment_variables gnet))"
  unfolding DBCAST2Network_eq using spec_network_defined [of pf gnet] by blast

section \<open>The objects of a loaded network\<close>

lemma conversion_parts:
  assumes "DBCAST2Network pf gnet = Some (net, ws)"
  obtains msgs where "those (map (spec_message pf gnet) (g_net_messages gnet)) = Some msgs"
    and "net_messages net = map fst msgs" and "ws = concat (map snd msgs)"
    and "net_nodes net = map (spec_node gnet) (g_net_nodes gnet)"
    and "those (map (spec_env_var gnet) (g_net_environment_variables gnet)) =
           Some (net_environment_variables net)"
  using assms unfolding DBCAST2Network_eq
  by (cases "those (map (spec_message pf gnet) (g_net_messages gnet))";
      cases "those (map (spec_env_var gnet) (g_net_environment_variables gnet))")
     (auto simp: spec_network_def INetwork_Create_def)

lemma spec_message_parts:
  assumes "spec_message pf gnet m = Some (msg, ws)"
  obtains sigs where "those (map (spec_signal pf gnet m) (g_msg_signals m)) = Some sigs"
    and "msg_signals msg = map fst sigs" and "message_wf msg"
    and "msg_id msg = g_msg_id m" and "msg_name msg = g_msg_name m"
    and "msg_message_size msg = g_msg_size m"
    and "ws = concat (map snd sigs) @ (if msg_error msg = MuxValeWithoutMuxSignal
           then [Warn_mux_value_without_switch (msg_name msg)] else [])"
  using assms
  by (cases "those (map (spec_signal pf gnet m) (g_msg_signals m))")
     (auto simp: spec_message_def IMessage_Create_def MessageImpl_new_wf Let_def)

lemma spec_signal_parts:
  assumes "spec_signal pf gnet m s = Some (sigi, ws)"
  obtains d where "SignalImpl_new pf (g_msg_size m) d = Some sigi"
    and "sig_name d = g_sig_name s" and "sig_start_bit d = g_sig_start_bit s"
    and "sig_bit_size d = g_sig_signal_size s"
    and "sig_byte_order d = byte_order_of (g_sig_byte_order s)"
    and "sig_value_type d = value_type_of (g_sig_value_type s)"
    and "sig_extended_value_type d = getSignalExtendedValueType gnet m s"
    and "ws = signal_warnings m s sigi"
proof (cases "multiplexer_of (g_sig_multiplexer_indicator s)")
  case None
  then show ?thesis using assms by (simp add: spec_signal_def)
next
  case (Some p)
  let ?d = "\<lparr>sig_name = g_sig_name s, sig_multiplexer_indicator = fst p,
        sig_multiplexer_switch_value = snd p,
        sig_start_bit = g_sig_start_bit s, sig_bit_size = g_sig_signal_size s,
        sig_byte_order = byte_order_of (g_sig_byte_order s),
        sig_value_type = value_type_of (g_sig_value_type s),
        sig_factor = g_sig_factor s, sig_offset = g_sig_offset s,
        sig_minimum = g_sig_minimum s, sig_maximum = g_sig_maximum s, sig_unit = g_sig_unit s,
        sig_receivers = g_sig_receivers s,
        sig_attribute_values =
          attributes_for (signal_attr (g_msg_id m) (g_sig_name s)) OT_Signal gnet,
        sig_value_encoding_descriptions =
          descriptions_for (signal_description (g_msg_id m) (g_sig_name s)) gnet,
        sig_comment = comment_for (signal_comment_for (g_msg_id m) (g_sig_name s)) gnet,
        sig_extended_value_type = getSignalExtendedValueType gnet m s,
        sig_signal_multiplexer_values =
          getSignalMultiplexerValues gnet (g_sig_name s) (g_msg_id m)\<rparr>"
  have "SignalImpl_new pf (g_msg_size m) ?d = Some sigi \<and> ws = signal_warnings m s sigi"
    using assms by (cases p; cases "SignalImpl_new pf (g_msg_size m) ?d")
      (simp_all add: spec_signal_def Some)
  then show ?thesis by (intro that [of ?d]) simp_all
qed

text \<open>The fields of a signal that say where its bits are.\<close>

abbreviation signal_place :: "SignalImpl \<Rightarrow> string \<times> u64 \<times> u64 \<times> EByteOrder \<times> EValueType" where
  "signal_place s \<equiv>
     (sig_name s, sig_start_bit s, sig_bit_size s, sig_byte_order s, sig_value_type s)"

abbreviation g_signal_place :: "G_Signal \<Rightarrow> string \<times> u64 \<times> u64 \<times> EByteOrder \<times> EValueType" where
  "g_signal_place s \<equiv>
     (g_sig_name s, g_sig_start_bit s, g_sig_signal_size s,
      byte_order_of (g_sig_byte_order s), value_type_of (g_sig_value_type s))"

lemma spec_signal_place:
  assumes "spec_signal pf gnet mm s = Some (s', w)"
  shows "signal_place s' = g_signal_place s \<and> constructed s'"
proof -
  obtain d where d: "SignalImpl_new pf (g_msg_size mm) d = Some s'" "sig_name d = g_sig_name s"
    "sig_start_bit d = g_sig_start_bit s" "sig_bit_size d = g_sig_signal_size s"
    "sig_byte_order d = byte_order_of (g_sig_byte_order s)"
    "sig_value_type d = value_type_of (g_sig_value_type s)"
    using assms by (rule spec_signal_parts)
  have "signal_data.truncate s' = d" using d(1) by (rule SignalImpl_new_SomeD)
  from truncate_sel [OF this] show ?thesis using d constructedI [OF d(1)] by simp
qed

lemma spec_message_places:
  assumes "spec_message pf gnet mm = Some (x, w)"
  shows "map signal_place (msg_signals x) = map g_signal_place (g_msg_signals mm)"
    and "list_all constructed (msg_signals x)"
proof -
  obtain ss where ss: "those (map (spec_signal pf gnet mm) (g_msg_signals mm)) = Some ss"
    "msg_signals x = map fst ss" using assms by (rule spec_message_parts)
  have "map (\<lambda>s. signal_place (fst s)) ss = map g_signal_place (g_msg_signals mm)"
    using spec_signal_place by (intro those_map_eq [OF ss(1)]) auto
  then show "map signal_place (msg_signals x) = map g_signal_place (g_msg_signals mm)"
    by (simp add: ss(2) comp_def)
  have "list_all (\<lambda>s. constructed (fst s)) ss"
    using spec_signal_place by (intro those_map_all [OF ss(1)]) auto
  then show "list_all constructed (msg_signals x)"
    by (simp add: ss(2) list.pred_map comp_def)
qed

lemma spec_message_ids:
  "spec_message pf gnet mm = Some (x, w) \<Longrightarrow>
     message_wf x \<and> msg_id x = g_msg_id mm \<and> msg_name x = g_msg_name mm"
  by (erule spec_message_parts) simp

lemma conversion_wf:
  assumes "DBCAST2Network pf gnet = Some (net, ws)"
  shows "network_wf net" and "list_all (\<lambda>m. list_all constructed (msg_signals m)) (net_messages net)"
proof -
  obtain msgs where m: "those (map (spec_message pf gnet) (g_net_messages gnet)) = Some msgs"
    and net: "net_messages net = map fst msgs"
    using assms by (rule conversion_parts)
  have "list_all (\<lambda>x. message_wf (fst x)) msgs"
    "list_all (\<lambda>x. list_all constructed (msg_signals (fst x))) msgs"
    using spec_message_ids spec_message_places(2) by (auto intro!: those_map_all [OF m])
  then show "network_wf net"
    and "list_all (\<lambda>m. list_all constructed (msg_signals m)) (net_messages net)"
    by (simp_all add: network_wf_def net list.pred_map comp_def)
qed

text \<open>C20. The messages and signals of a converted network are those of the file, in its order:
  same identifiers, names, sizes and bit positions. Every signal comes out of the constructor, and
  every message has its multiplexer switch and error set consistently.\<close>

theorem conversion_objects:
  assumes "DBCAST2Network pf gnet = Some (net, ws)"
  shows "network_wf net \<and>
     map msg_id (net_messages net) = map g_msg_id (g_net_messages gnet) \<and>
     map msg_name (net_messages net) = map g_msg_name (g_net_messages gnet) \<and>
     map (\<lambda>m. map signal_place (msg_signals m)) (net_messages net) =
     map (\<lambda>m. map g_signal_place (g_msg_signals m)) (g_net_messages gnet) \<and>
     list_all (\<lambda>m. list_all constructed (msg_signals m)) (net_messages net)"
proof -
  obtain msgs where m: "those (map (spec_message pf gnet) (g_net_messages gnet)) = Some msgs"
    and net: "net_messages net = map fst msgs"
    using assms by (rule conversion_parts)
  have "map (\<lambda>x. msg_id (fst x)) msgs = map g_msg_id (g_net_messages gnet)"
    "map (\<lambda>x. msg_name (fst x)) msgs = map g_msg_name (g_net_messages gnet)"
    using spec_message_ids by (auto intro!: those_map_eq [OF m])
  moreover have "map (\<lambda>x. map signal_place (msg_signals (fst x))) msgs =
      map (\<lambda>m. map g_signal_place (g_msg_signals m)) (g_net_messages gnet)"
    using spec_message_places(1) by (intro those_map_eq [OF m]) auto
  ultimately show ?thesis
    using conversion_wf [OF assms] by (simp add: net comp_def)
qed

definition ex_gnet :: "u64 \<Rightarrow> G_Signal list \<Rightarrow> G_Network" where
  "ex_gnet msize signals =
     \<lparr>g_net_version = \<lparr>g_version = ''1.0''\<rparr>, g_net_new_symbols = [''NS_DESC_''],
      g_net_bit_timing = None, g_net_nodes = [\<lparr>g_node_name = ''ECU''\<rparr>], g_net_value_tables = [],
      g_net_messages = [\<lparr>g_msg_id = 100, g_msg_name = ''Msg'', g_msg_size = msize,
        g_msg_transmitter = ''ECU'', g_msg_signals = signals\<rparr>],
      g_net_message_transmitters = [], g_net_environment_variables = [],
      g_net_environment_variable_datas = [], g_net_signal_types = [],
      g_net_comments = [G_CommentSignal 100 ''Sig'' ''first'', G_CommentSignal 100 ''Sig'' ''last''],
      g_net_attribute_definitions = [], g_net_attribute_defaults = [],
      g_net_attribute_values = [], g_net_value_descriptions_sig_env_var = [],
      g_net_signal_groups = [], g_net_signal_extended_value_types = [],
      g_net_signal_multiplexer_values = []\<rparr>"

definition ex_gsignal :: G_Signal where
  "ex_gsignal =
     \<lparr>g_sig_name = ''Sig'', g_sig_multiplexer_indicator = Some ''m3'', g_sig_start_bit = 3,
      g_sig_signal_size = 12, g_sig_byte_order = CHR ''0'', g_sig_value_type = CHR ''-'',
      g_sig_factor = double_one, g_sig_offset = 0, g_sig_minimum = 0, g_sig_maximum = 0,
      g_sig_unit = [], g_sig_receivers = [''ECU'']\<rparr>"

definition ex_net :: "G_Signal list \<Rightarrow> NetworkImpl" where
  "ex_net ss = fst (the (DBCAST2Network ieee (ex_gnet 8 ss)))"

theorem conversion_objects_witness:
  "map msg_id (net_messages (ex_net [ex_gsignal])) = [100] \<and> network_wf (ex_net [ex_gsignal])"
proof -
  have "DBCAST2Network ieee (ex_gnet 8 [ex_gsignal]) \<noteq> None" by code_simp
  then obtain ws where "DBCAST2Network ieee (ex_gnet 8 [ex_gsignal]) = Some (ex_net [ex_gsignal], ws)"
    by (auto simp: ex_net_def)
  from conversion_objects [OF this] show ?thesis by (simp add: ex_gnet_def)
qed

section \<open>Warnings\<close>

lemma silent_signal:
  assumes new: "SignalImpl_new pf ms d = Some sigi" and "signal_warnings m s sigi = []"
  shows "well_sized d \<and> \<not> Error sigi SignalExceedsMessageSize"
proof -
  have n: "1 \<le> unat (sig_bit_size d)" "unat (sig_bit_size d) \<le> 64"
    and err: "sig_error sigi = constructor_error pf ms d"
    using new by (auto elim: SignalImpl_new_SomeD)
  have no: "\<not> Error sigi SignalExceedsMessageSize" "\<not> Error sigi WrongBitSizeForExtendedDataType"
    using assms(2) by (auto simp: signal_warnings_def split: if_splits)
  have "\<not> exceeds_message_size ms d"
    using no(1) by (cases "sig_extended_value_type d")
      (auto simp: Error_def err constructor_error_def SetError_def split: if_splits)
  then have "(sig_extended_value_type d = EVT_Float \<longrightarrow> sig_bit_size d = 32) \<and>
      (sig_extended_value_type d = EVT_Double \<longrightarrow> sig_bit_size d = 64)"
    using no(2) by (cases "sig_extended_value_type d")
      (auto simp: Error_def err constructor_error_def SetError_def split: if_splits)
  then show ?thesis using n no(1) by (simp add: well_sized_def)
qed

lemma silent_conversion:
  assumes "DBCAST2Network pf gnet = Some (net, [])" and "m \<in> set (net_messages net)"
    and "s \<in> set (msg_signals m)"
  shows "msg_error m = MsgNoError \<and>
     (\<exists>d. SignalImpl_new pf (msg_message_size m) d = Some s \<and> well_sized d \<and>
        \<not> Error s SignalExceedsMessageSize)"
proof -
  obtain msgs where msgs: "those (map (spec_message pf gnet) (g_net_messages gnet)) = Some msgs"
    "net_messages net = map fst msgs" "[] = concat (map snd msgs)"
    using assms(1) by (rule conversion_parts)
  obtain i where i: "i < length msgs" "m = fst (msgs ! i)"
    using assms(2) msgs(2) by (auto simp: in_set_conv_nth)
  obtain mm where spec: "spec_message pf gnet mm = Some (m, [])"
    using those_map_SomeD [OF msgs(1)] i msgs(3) by (metis concat_eq_Nil_conv length_map
        nth_map nth_mem prod.collapse)
  obtain ss where ss: "those (map (spec_signal pf gnet mm) (g_msg_signals mm)) = Some ss"
    "msg_signals m = map fst ss" "msg_message_size m = g_msg_size mm"
    "[] = concat (map snd ss) @ (if msg_error m = MuxValeWithoutMuxSignal
       then [Warn_mux_value_without_switch (msg_name m)] else [])"
    using spec by (rule spec_message_parts)
  obtain j where j: "j < length ss" "s = fst (ss ! j)"
    using assms(3) ss(2) by (auto simp: in_set_conv_nth)
  have "snd (ss ! j) = []" using ss(4) j(1) by (auto split: if_splits)
  then have sig: "spec_signal pf gnet mm (g_msg_signals mm ! j) = Some (s, [])"
    using those_map_SomeD [OF ss(1)] j by (metis prod.collapse)
  then obtain d where d: "SignalImpl_new pf (g_msg_size mm) d = Some s"
    "[] = signal_warnings mm (g_msg_signals mm ! j) s"
    by (rule spec_signal_parts)
  have "msg_error m = MsgNoError" using ss(4) by (cases "msg_error m") auto
  then show ?thesis using d silent_signal [OF d(1) d(2) [symmetric]] ss(3) by auto
qed

text \<open>C10. When a network converts without a warning, every signal of it decodes: from any 8-byte
  buffer if its message has at most 8 bytes, from any buffer with 7 bytes more than the message
  otherwise; and no message has a multiplexer value without a switch.\<close>

theorem no_warnings_decode:
  assumes "DBCAST2Network pf gnet = Some (net, [])" and "m \<in> set (net_messages net)"
    and "s \<in> set (msg_signals m)"
    and "unat (msg_message_size m) < 2 ^ 60" and "unat (sig_start_bit s) < 2 ^ 63"
    and "if unat (msg_message_size m) \<le> 8 then 8 \<le> length fr
         else unat (msg_message_size m) + 7 \<le> length fr"
  shows "msg_error m = MsgNoError \<and> (\<exists>raw. Decode native s fr = Some raw)"
proof -
  obtain d where d: "SignalImpl_new pf (msg_message_size m) d = Some s" "well_sized d"
    "\<not> Error s SignalExceedsMessageSize" and e: "msg_error m = MsgNoError"
    using silent_conversion [OF assms(1-3)] by blast
  have "signal_data.truncate s = d" using d(1) by (rule SignalImpl_new_SomeD)
  then have "unat (sig_start_bit d) < 2 ^ 63" using assms(5) truncate_sel(2) by metis
  then show ?thesis using decodes_without_error [OF d assms(4) _ assms(6)] e by blast
qed

theorem no_warnings_decode_witness:
  "\<exists>raw. Decode Little (hd (msg_signals (hd (net_messages (ex_net
     [ex_gsignal\<lparr>g_sig_multiplexer_indicator := None\<rparr>]))))) (replicate 8 0) = Some raw"
proof -
  let ?ss = "[ex_gsignal\<lparr>g_sig_multiplexer_indicator := None\<rparr>]"
  let ?m = "hd (net_messages (ex_net ?ss))" and ?s = "hd (msg_signals (hd (net_messages (ex_net ?ss))))"
  have r: "map_option snd (DBCAST2Network ieee (ex_gnet 8 ?ss)) = Some []" by code_simp
  then have "DBCAST2Network ieee (ex_gnet 8 ?ss) = Some (ex_net ?ss, [])"
    by (auto simp: ex_net_def)
  moreover have "net_messages (ex_net ?ss) \<noteq> []" "msg_signals ?m \<noteq> []" by code_simp+
  moreover have "msg_message_size ?m = 8" "sig_start_bit ?s = 3" by code_simp+
  ultimately show ?thesis
    using no_warnings_decode [of ieee "ex_gnet 8 ?ss" "ex_net ?ss" ?m ?s "replicate 8 0" Little] by simp
qed

end
