(* ===== verification/PrintProps.thy ===== *)
theory PrintProps
  imports Network2DBC NetworkProps LoadProps
begin

text \<open>
  What the DBC writer produces: whose attribute a line names, when writing is free of undefined
  behaviour, and what a file keeps of a network.
\<close>

section \<open>Searching by address\<close>

lemma find_idx_Some_iff:
  "find_idx P xs = Some k \<longleftrightarrow> k < length xs \<and> P k (xs ! k) \<and> (\<forall>j<k. \<not> P j (xs ! j))"
proof
  assume "find_idx P xs = Some k"
  then show "k < length xs \<and> P k (xs ! k) \<and> (\<forall>j<k. \<not> P j (xs ! j))"
    by (auto simp: find_idx_def find_Some_iff nth_enumerate_eq)
next
  assume k: "k < length xs \<and> P k (xs ! k) \<and> (\<forall>j<k. \<not> P j (xs ! j))"
  have "find (\<lambda>(i, x). P i x) (enumerate 0 xs) = Some (k, xs ! k)"
    unfolding find_Some_iff using k by (intro exI [of _ k]) (auto simp: nth_enumerate_eq)
  then show "find_idx P xs = Some k" by (simp add: find_idx_def)
qed

lemma find_idx_None_iff: "find_idx P xs = None \<longleftrightarrow> (\<forall>k<length xs. \<not> P k (xs ! k))"
  by (auto simp: find_idx_def find_None_iff in_set_conv_nth nth_enumerate_eq)

lemma find_idx_at:
  assumes "\<And>i. i < length xs \<Longrightarrow> P i (xs ! i) \<longleftrightarrow> i = k \<and> Q"
  shows "find_idx P xs = (if k < length xs \<and> Q then Some k else None)"
  using assms by (auto simp: find_idx_Some_iff find_idx_None_iff)

lemma holds_attr_iff: "holds_attr addr attrs p \<longleftrightarrow> (\<exists>i<length attrs. addr i = p)"
  unfolding holds_attr_def by (auto simp: find_idx_None_iff simp del: not_None_eq)

text \<open>The attribute at an address.\<close>

definition at :: "'a list \<Rightarrow> nat \<Rightarrow> 'a option" where
  "at xs i = (if i < length xs then Some (xs ! i) else None)"

fun stored_attr :: "NetworkImpl \<Rightarrow> attr_ptr \<Rightarrow> AttributeImpl option" where
  "stored_attr net (DefaultAttr i) = at (net_attribute_defaults net) i"
| "stored_attr net (NetworkAttr i) = at (net_attribute_values net) i"
| "stored_attr net (NodeAttr k i) = do {
     n \<leftarrow> at (net_nodes net) k; at (node_attribute_values n) i }"
| "stored_attr net (MessageAttr k i) = do {
     m \<leftarrow> at (net_messages net) k; at (msg_attribute_values m) i }"
| "stored_attr net (SignalAttr k l i) = do {
     m \<leftarrow> at (net_messages net) k; s \<leftarrow> at (msg_signals m) l; at (sig_attribute_values s) i }"
| "stored_attr net (EnvVarAttr k i) = do {
     ev \<leftarrow> at (net_environment_variables net) k; at (ev_attribute_values ev) i }"

lemma at_Some_iff: "at xs i = Some x \<longleftrightarrow> i < length xs \<and> x = xs ! i"
  by (auto simp: at_def)

fun owner_type :: "attr_ptr \<Rightarrow> EObjectType" where
  "owner_type (DefaultAttr i) = OT_Network"
| "owner_type (NetworkAttr i) = OT_Network"
| "owner_type (NodeAttr k i) = OT_Node"
| "owner_type (MessageAttr k i) = OT_Message"
| "owner_type (SignalAttr k l i) = OT_Signal"
| "owner_type (EnvVarAttr k i) = OT_EnvironmentVariable"

fun attr_subject :: "NetworkImpl \<Rightarrow> attr_ptr \<Rightarrow> string" where
  "attr_subject net (DefaultAttr i) = []"
| "attr_subject net (NetworkAttr i) = []"
| "attr_subject net (NodeAttr k i) = '' BU_ '' @ node_name (net_nodes net ! k)"
| "attr_subject net (MessageAttr k i) = '' BO_ '' @ show_u64 (msg_id (net_messages net ! k))"
| "attr_subject net (SignalAttr k l i) =
     '' SG_ '' @ show_u64 (msg_id (net_messages net ! k)) @ '' '' @
     sig_name (msg_signals (net_messages net ! k) ! l)"
| "attr_subject net (EnvVarAttr k i) = '' EV_ '' @ ev_name (net_environment_variables net ! k)"

lemma find_node_name_at:
  "stored_attr net (NodeAttr k i) = Some a \<Longrightarrow>
   find_node_name net (NodeAttr k i) = node_name (net_nodes net ! k)"
  unfolding find_node_name_def holds_attr_iff
  by (subst find_idx_at [where k = k and Q = "i < length (node_attribute_values (net_nodes net ! k))"])
     (auto simp: at_Some_iff bind_eq_Some_conv)

lemma find_message_id_at:
  "stored_attr net (MessageAttr k i) = Some a \<Longrightarrow>
   find_message_id net (MessageAttr k i) = msg_id (net_messages net ! k)"
  unfolding find_message_id_def holds_attr_iff
  by (subst find_idx_at [where k = k and Q = "i < length (msg_attribute_values (net_messages net ! k))"])
     (auto simp: at_Some_iff bind_eq_Some_conv)

lemma find_environment_variable_name_at:
  "stored_attr net (EnvVarAttr k i) = Some a \<Longrightarrow>
   find_environment_variable_name net (EnvVarAttr k i) = ev_name (net_environment_variables net ! k)"
  unfolding find_environment_variable_name_def holds_attr_iff
  by (subst find_idx_at [where k = k and
        Q = "i < length (ev_attribute_values (net_environment_variables net ! k))"])
     (auto simp: at_Some_iff bind_eq_Some_conv)

lemma find_signal_at:
  assumes "stored_attr net (SignalAttr k l i) = Some a"
  shows "find_signal net (SignalAttr k l i) = Some (k, l)"
proof -
  let ?p = "SignalAttr k l i"
  let ?sigs = "\<lambda>k. msg_signals (net_messages net ! k)"
  have v: "k < length (net_messages net)" "l < length (?sigs k)"
      "i < length (sig_attribute_values (?sigs k ! l))"
    using assms by (auto simp: at_Some_iff bind_eq_Some_conv)
  have inner: "find_idx (\<lambda>l' s. holds_attr (SignalAttr k' l') (sig_attribute_values s) ?p) (?sigs k') =
      (if k' = k then Some l else None)" for k'
    using v by (auto simp: find_idx_Some_iff find_idx_None_iff holds_attr_iff)
  have "find_idx (\<lambda>k m. find_idx (\<lambda>l s. holds_attr (SignalAttr k l) (sig_attribute_values s) ?p)
            (msg_signals m) \<noteq> None) (net_messages net) = Some k"
    using v by (auto simp: find_idx_Some_iff inner simp del: not_None_eq)
  then show ?thesis by (simp add: find_signal_def inner)
qed

lemma find_signal_other:
  "(\<And>k l i. p \<noteq> SignalAttr k l i) \<Longrightarrow> find_signal net p = None"
proof -
  assume p: "\<And>k l i. p \<noteq> SignalAttr k l i"
  have inner: "find_idx (\<lambda>l s. holds_attr (SignalAttr k l) (sig_attribute_values s) p) xs = None"
    for k xs
    using p by (fastforce simp: find_idx_None_iff holds_attr_iff)
  have "find_idx (\<lambda>k m. find_idx (\<lambda>l s. holds_attr (SignalAttr k l) (sig_attribute_values s) p)
            (msg_signals m) \<noteq> None) (net_messages net) = None"
    by (rule find_idx_None_iff [THEN iffD2]) (simp add: inner)
  then show ?thesis unfolding find_signal_def by (simp only: Option.bind.simps)
qed

lemma holds_default:
  "stored_attr net p = Some a \<Longrightarrow>
   holds_attr DefaultAttr (net_attribute_defaults net) p \<longleftrightarrow> (\<exists>i. p = DefaultAttr i)"
  by (cases p) (auto simp: holds_attr_iff at_Some_iff)

lemma parent_stored:
  "stored_attr net (SignalAttr k l i) = Some a \<Longrightarrow> ParentMessage net (SignalAt k l) = Some k"
  by (auto simp: parent_lookup at_Some_iff bind_eq_Some_conv)

text \<open>The line written for an attribute names the object that holds it: a node by its name, a
  message by its identifier, a signal by the identifier of its message and its name, an
  environment variable by its name; defaults get their own keyword.\<close>

theorem print_attribute_line:
  assumes "stored_attr net p = Some a" and "attr_object_type a = owner_type p"
  shows "print_attribute net p a =
     Some ((case p of DefaultAttr _ \<Rightarrow> ''BA_DEF_DEF_'' | _ \<Rightarrow> ''BA_'') @ '' '' @
           quoted (attr_name a) @ attr_subject net p @ print_value (attr_value a) @ '';'' @ newline)"
  using assms holds_default [OF assms(1)]
  by (cases p) (simp_all add: print_attribute_def find_node_name_at find_message_id_at
      find_environment_variable_name_at find_signal_at parent_stored)


text \<open>A node with an attribute in a network of its own.\<close>

definition ex_attr_net :: NetworkImpl where
  "ex_attr_net = ex_network [] []\<lparr>net_nodes :=
     [INode_Create ''A'' [] [],
      INode_Create ''ECU'' [] [IAttribute_Create ''Slot'' OT_Node (V_int64 5)]]\<rparr>"

theorem print_attribute_line_witness:
  "print_attribute ex_attr_net (NodeAttr 1 0) (IAttribute_Create ''Slot'' OT_Node (V_int64 5)) =
     Some (''BA_ '' @ quoted ''Slot'' @ '' BU_ ECU 5;'' @ newline)"
  using print_attribute_line [of ex_attr_net "NodeAttr 1 0"
      "IAttribute_Create ''Slot'' OT_Node (V_int64 5)"]
  by (simp add: ex_attr_net_def at_def INode_Create_def IAttribute_Create_def show_i64_def
      show_int_def show_nat.simps [of 5] digit_char_def char_of_def bit_0)

section \<open>When writing is defined\<close>

lemma print_attribute_None_iff:
  assumes "stored_attr net p = Some a"
  shows "print_attribute net p a = None \<longleftrightarrow>
     attr_object_type a = OT_Signal \<and> (\<forall>k l i. p \<noteq> SignalAttr k l i)"
proof (cases "attr_object_type a = OT_Signal")
  case True
  show ?thesis
  proof (cases "\<forall>k l i. p \<noteq> SignalAttr k l i")
    case other: True
    with True show ?thesis by (simp add: print_attribute_def find_signal_other)
  next
    case False
    then obtain k l i where "p = SignalAttr k l i" by blast
    with True assms show ?thesis
      by (simp add: print_attribute_def find_signal_at parent_stored)
  qed
next
  case False
  then show ?thesis
    by (cases "attr_object_type a") (simp_all add: print_attribute_def)
qed

lemma those_None_iff: "those xs = None \<longleftrightarrow> None \<in> set xs"
proof (induction xs)
  case (Cons x xs)
  then show ?case by (cases x; cases "those xs") auto
qed simp

lemma those_enumerate_None_iff:
  "those (map (\<lambda>(k, x). f k x) (enumerate 0 xs)) = None \<longleftrightarrow> (\<exists>k<length xs. f k (xs ! k) = None)"
  by (force simp: those_None_iff image_iff in_set_conv_nth nth_enumerate_eq)

lemma print_all_None_iff: "print_all f xs = None \<longleftrightarrow> (\<exists>k<length xs. f k (xs ! k) = None)"
  unfolding print_all_def by (simp add: those_enumerate_None_iff)

lemma print_attribute_list_None_iff:
  "print_attribute_list net addr attrs = None \<longleftrightarrow>
     (\<exists>i<length attrs. print_attribute net (addr i) (attrs ! i) = None)"
proof -
  have "(do { t \<leftarrow> print_attribute net (addr i) a; Some (newline @ t) }) = None \<longleftrightarrow>
      print_attribute net (addr i) a = None" for i a
    by (cases "print_attribute net (addr i) a") simp_all
  then show ?thesis
    unfolding print_attribute_list_def map_option_is_None those_enumerate_None_iff by simp
qed

lemma ex_attr_ptr:
  "(\<exists>p. P p) \<longleftrightarrow> (\<exists>i. P (DefaultAttr i)) \<or> (\<exists>i. P (NetworkAttr i)) \<or> (\<exists>k i. P (NodeAttr k i)) \<or>
     (\<exists>k i. P (MessageAttr k i)) \<or> (\<exists>k l i. P (SignalAttr k l i)) \<or> (\<exists>k i. P (EnvVarAttr k i))"
  by (metis attr_ptr.exhaust)

lemma print_attribute_section_None_iff:
  "print_attribute_section net = None \<longleftrightarrow>
     (\<exists>p a. stored_attr net p = Some a \<and> print_attribute net p a = None)"
proof -
  have "print_attribute_section net = None \<longleftrightarrow>
      print_attribute_list net DefaultAttr (net_attribute_defaults net) = None \<or>
      print_attribute_list net NetworkAttr (net_attribute_values net) = None \<or>
      print_all (\<lambda>k n. print_attribute_list net (NodeAttr k) (node_attribute_values n))
        (net_nodes net) = None \<or>
      print_all (\<lambda>k m. print_attribute_list net (MessageAttr k) (msg_attribute_values m))
        (net_messages net) = None \<or>
      print_all (\<lambda>k m. print_all (\<lambda>l s.
         print_attribute_list net (SignalAttr k l) (sig_attribute_values s)) (msg_signals m))
        (net_messages net) = None \<or>
      print_all (\<lambda>k ev. print_attribute_list net (EnvVarAttr k) (ev_attribute_values ev))
        (net_environment_variables net) = None"
    unfolding print_attribute_section_def by (simp add: Let_def bind_eq_None_conv)
  then show ?thesis
    unfolding ex_attr_ptr print_all_None_iff print_attribute_list_None_iff
    by (auto simp: at_Some_iff bind_eq_Some_conv)
qed

text \<open>C39. Writing a network dereferences the null pointer exactly when an attribute whose object type
  is \<open>Signal\<close> is stored in something other than a signal; otherwise a text is written.\<close>

theorem print_network_defined:
  "print_network net = None \<longleftrightarrow>
     (\<exists>p a. stored_attr net p = Some a \<and> attr_object_type a = OT_Signal \<and>
        (\<forall>k l i. p \<noteq> SignalAttr k l i))"
proof -
  have "print_network net = None \<longleftrightarrow> print_attribute_section net = None"
    by (cases "print_attribute_section net") (simp_all add: print_network_def)
  also have "\<dots> \<longleftrightarrow> (\<exists>p a. stored_attr net p = Some a \<and> attr_object_type a = OT_Signal \<and>
        (\<forall>k l i. p \<noteq> SignalAttr k l i))"
    unfolding print_attribute_section_None_iff using print_attribute_None_iff by blast
  finally show ?thesis .
qed

section \<open>Networks loaded from a file\<close>

abbreviation typed_attrs :: "EObjectType \<Rightarrow> AttributeImpl list \<Rightarrow> bool" where
  "typed_attrs ot \<equiv> list_all (\<lambda>a. attr_object_type a = ot)"

lemma attributes_for_typed: "typed_attrs ot (attributes_for P ot gnet)"
  by (simp add: attributes_for_def list_all_iff IAttribute_Create_def)

lemma spec_signal_typed:
  assumes "spec_signal pf gnet m s = Some (sigi, ws)"
  shows "typed_attrs OT_Signal (sig_attribute_values sigi)"
proof -
  obtain d where new: "SignalImpl_new pf (g_msg_size m) d = Some sigi"
    and d: "sig_attribute_values d =
        attributes_for (signal_attr (g_msg_id m) (g_sig_name s)) OT_Signal gnet"
    using assms unfolding spec_signal_def by (fastforce simp: bind_eq_Some_conv split: prod.splits)
  from new have "signal_data.truncate sigi = d" by (rule SignalImpl_new_SomeD)
  then have "sig_attribute_values sigi = sig_attribute_values d" by (rule truncate_sel)
  then show ?thesis by (simp add: d attributes_for_typed)
qed

lemma spec_message_typed:
  assumes "spec_message pf gnet m = Some (msg, ws)"
  shows "typed_attrs OT_Message (msg_attribute_values msg)"
    and "list_all (\<lambda>s. typed_attrs OT_Signal (sig_attribute_values s)) (msg_signals msg)"
proof -
  from assms obtain sigs where sigs: "those (map (spec_signal pf gnet m) (g_msg_signals m)) = Some sigs"
    and msg: "msg_signals msg = map fst sigs"
      "msg_attribute_values msg = attributes_for (message_attr (g_msg_id m)) OT_Message gnet"
    by (cases "those (map (spec_signal pf gnet m) (g_msg_signals m))")
       (auto simp: spec_message_def IMessage_Create_def Let_def)
  show "typed_attrs OT_Message (msg_attribute_values msg)"
    by (simp add: msg attributes_for_typed)
  have "list_all (\<lambda>r. typed_attrs OT_Signal (sig_attribute_values (fst r))) sigs"
    by (rule those_map_all [OF sigs]) (metis spec_signal_typed prod.collapse)
  then show "list_all (\<lambda>s. typed_attrs OT_Signal (sig_attribute_values s)) (msg_signals msg)"
    by (simp add: msg list_all_iff)
qed

lemma spec_env_var_typed:
  "spec_env_var gnet ev = Some e \<Longrightarrow> typed_attrs OT_EnvironmentVariable (ev_attribute_values e)"
  unfolding spec_env_var_def
  by (auto simp: bind_eq_Some_conv IEnvironmentVariable_Create_def attributes_for_typed Let_def)

lemma conversion_typed:
  assumes "DBCAST2Network pf gnet = Some (net, ws)"
  shows "typed_attrs OT_Network (net_attribute_defaults net)"
    and "typed_attrs OT_Network (net_attribute_values net)"
    and "list_all (\<lambda>n. typed_attrs OT_Node (node_attribute_values n)) (net_nodes net)"
    and "list_all (\<lambda>m. typed_attrs OT_Message (msg_attribute_values m) \<and>
           list_all (\<lambda>s. typed_attrs OT_Signal (sig_attribute_values s)) (msg_signals m))
           (net_messages net)"
    and "list_all (\<lambda>ev. typed_attrs OT_EnvironmentVariable (ev_attribute_values ev))
           (net_environment_variables net)"
proof -
  obtain msgs where msgs: "those (map (spec_message pf gnet) (g_net_messages gnet)) = Some msgs"
    "net_messages net = map fst msgs"
    and nodes: "net_nodes net = map (spec_node gnet) (g_net_nodes gnet)"
    and evs: "those (map (spec_env_var gnet) (g_net_environment_variables gnet)) =
           Some (net_environment_variables net)"
    using assms by (rule conversion_parts)
  show "typed_attrs OT_Network (net_attribute_defaults net)"
    using assms unfolding DBCAST2Network_eq spec_network_def
    by (auto simp: bind_eq_Some_conv INetwork_Create_def getAttributeDefaults_def list_all_iff
        IAttribute_Create_def)
  show "typed_attrs OT_Network (net_attribute_values net)"
    using assms unfolding DBCAST2Network_eq spec_network_def
    by (auto simp: bind_eq_Some_conv INetwork_Create_def attributes_for_typed)
  show "list_all (\<lambda>n. typed_attrs OT_Node (node_attribute_values n)) (net_nodes net)"
    unfolding nodes by (simp add: list_all_iff spec_node_def INode_Create_def
        attributes_for_typed [unfolded list_all_iff])
  have "list_all (\<lambda>r. typed_attrs OT_Message (msg_attribute_values (fst r)) \<and>
           list_all (\<lambda>s. typed_attrs OT_Signal (sig_attribute_values s)) (msg_signals (fst r))) msgs"
    by (rule those_map_all [OF msgs(1)]) (metis spec_message_typed prod.collapse)
  then show "list_all (\<lambda>m. typed_attrs OT_Message (msg_attribute_values m) \<and>
           list_all (\<lambda>s. typed_attrs OT_Signal (sig_attribute_values s)) (msg_signals m))
           (net_messages net)"
    by (simp add: msgs(2) list_all_iff)
  show "list_all (\<lambda>ev. typed_attrs OT_EnvironmentVariable (ev_attribute_values ev))
           (net_environment_variables net)"
    by (rule those_map_all [OF evs]) (rule spec_env_var_typed)
qed

text \<open>C38. Every attribute of a converted network has the object type of the object that holds it, so
  the network can be written, and the writer names that object.\<close>

theorem converted_attributes_typed:
  assumes "DBCAST2Network pf gnet = Some (net, ws)"
  shows "(\<forall>p a. stored_attr net p = Some a \<longrightarrow> attr_object_type a = owner_type p) \<and>
     print_attribute_section net \<noteq> None \<and> print_network net \<noteq> None"
proof -
  have typed: "attr_object_type a = owner_type p" if "stored_attr net p = Some a" for p a
    using that conversion_typed [OF assms]
    by (cases p) (auto simp: at_Some_iff bind_eq_Some_conv list_all_length)
  have "print_attribute_section net \<noteq> None"
  proof
    assume "print_attribute_section net = None"
    then obtain p a where p: "stored_attr net p = Some a" "print_attribute net p a = None"
      unfolding print_attribute_section_None_iff by blast
    then show False using typed [OF p(1)] print_attribute_None_iff [OF p(1)] by (cases p) auto
  qed
  then show ?thesis using typed by (auto simp: print_network_def)
qed

theorem converted_attributes_typed_witness:
  "print_network (ex_net [ex_gsignal]) \<noteq> None"
proof -
  have "DBCAST2Network ieee (ex_gnet 8 [ex_gsignal]) \<noteq> None" by code_simp
  then obtain ws where "DBCAST2Network ieee (ex_gnet 8 [ex_gsignal]) = Some (ex_net [ex_gsignal], ws)"
    by (auto simp: ex_net_def)
  from converted_attributes_typed [OF this] show ?thesis by simp
qed

section \<open>Reading back what was written\<close>

text \<open>The token of the multiplexer indicator, without the space that follows it.\<close>

definition multiplexer_token :: "'a signal_data_scheme \<Rightarrow> string option" where
  "multiplexer_token s =
     (let t = print_multiplexer s in if t = [] then None else Some (butlast t))"

lemma atoi_show_nat_big: "2 ^ 31 \<le> n \<Longrightarrow> atoi (show_nat n) = None"
proof -
  assume n: "2 ^ 31 \<le> n"
  obtain c cs where c: "show_nat n = c # cs" by (cases "show_nat n") auto
  have d: "is_digit c" using show_nat_digits [of c n] c by simp
  have all: "takeWhile is_digit (show_nat n) = show_nat n"
    by (rule takeWhile_eq_all_conv [THEN iffD2]) (auto simp: show_nat_digits)
  have sp: "dropWhile is_space (show_nat n) = show_nat n" using digit_not_space [OF d] by (simp add: c)
  have h: "hd (show_nat n) \<noteq> CHR ''-''" "hd (show_nat n) \<noteq> CHR ''+''"
    using digit_not_space [OF d] by (simp_all add: c)
  show ?thesis unfolding atoi_def sp Let_def using h n by (simp add: all)
qed

lemma multiplexer_reread:
  "multiplexer_of (multiplexer_token s) =
     (case sig_multiplexer_indicator s of
        NoMux \<Rightarrow> Some (NoMux, 0) | MuxSwitch \<Rightarrow> Some (MuxSwitch, 0)
      | MuxValue \<Rightarrow> if unat (sig_multiplexer_switch_value s) < 2 ^ 31
                    then Some (MuxValue, sig_multiplexer_switch_value s) else None)"
proof (cases "sig_multiplexer_indicator s")
  case MuxValue
  let ?v = "sig_multiplexer_switch_value s"
  have tok: "multiplexer_token s = Some (CHR ''m'' # show_u64 ?v)"
    by (simp add: multiplexer_token_def print_multiplexer_def MuxValue Let_def butlast_append)
  show ?thesis
  proof (cases "unat ?v < 2 ^ 31")
    case True
    then show ?thesis
      using atoi_show_nat [of "unat ?v"] by (simp add: tok MuxValue multiplexer_of_def show_u64_def)
  next
    case False
    then show ?thesis
      using atoi_show_nat_big [of "unat ?v"] by (simp add: tok MuxValue multiplexer_of_def show_u64_def)
  qed
qed (simp_all add: multiplexer_token_def print_multiplexer_def multiplexer_of_def Let_def)

text \<open>The enumerations the writer spells out are read back by the converter: access types, byte
  orders, value types, object types of attribute definitions, and the multiplexer indicator with
  its switch value as long as that value fits into an \<open>int\<close> (above, reading it is undefined
  behaviour).\<close>

theorem fields_reread:
  "access_type_of (print_access_type acc) = acc \<and>
   byte_order_of (hd (print_byte_order bo)) = bo \<and>
   value_type_of (hd (print_value_type_sign vt)) = vt \<and>
   object_type_of (if print_object_type ot = [] then None else Some (print_object_type ot)) = ot \<and>
   multiplexer_of (multiplexer_token s) =
     (case sig_multiplexer_indicator s of
        NoMux \<Rightarrow> Some (NoMux, 0) | MuxSwitch \<Rightarrow> Some (MuxSwitch, 0)
      | MuxValue \<Rightarrow> if unat (sig_multiplexer_switch_value s) < 2 ^ 31
                    then Some (MuxValue, sig_multiplexer_switch_value s) else None)"
proof (intro conjI)
  show "access_type_of (print_access_type acc) = acc"
    by (cases acc) (simp_all add: access_type_of_def print_access_type_def)
  show "byte_order_of (hd (print_byte_order bo)) = bo"
    by (cases bo) (simp_all add: byte_order_of_def print_byte_order_def)
  show "value_type_of (hd (print_value_type_sign vt)) = vt"
    by (cases vt) (simp_all add: value_type_of_def print_value_type_sign_def)
  show "object_type_of (if print_object_type ot = [] then None else Some (print_object_type ot)) = ot"
    by (cases ot) (simp_all add: object_type_of_def print_object_type_def)
qed (rule multiplexer_reread)

text \<open>Evaluation of the conversions on given numbers.\<close>

lemmas double_eval =
  double_of_int_def double_round_def fp_bits_def flog2_def ilog2.simps round_div_def Let_def
  sign64_def fp_of_double_def

lemmas show_eval =
  show_positive_def six_digits_def flog10_def dec_digits.simps round_div_def Let_def strip_zeros_def
  with_fraction_def show_exponent_def show_nat.simps digit_char_def char_of_def bit_0

lemma double_4294967295: "double_of_int 4294967295 = 0x41EFFFFFFFE00000"
  by (simp add: double_eval)

lemma double_4294967296: "double_of_int 4294967296 = 0x41F0000000000000"
  by (simp add: double_eval)

lemma show_maximum:
  "show_double 0x41EFFFFFFFE00000 = ''4.29497e+09''" "show_double 0x41F0000000000000 = ''4.29497e+09''"
proof -
  have "fp_of_double 0x41EFFFFFFFE00000 = Fin False 9007199252643840 (- 21)"
    "fp_of_double 0x41F0000000000000 = Fin False 4503599627370496 (- 20)"
    by (simp_all add: double_eval)
  moreover have "show_positive 9007199252643840 (2 ^ 21) = ''4.29497e+09''"
    "show_positive 4503599627370496 (2 ^ 20) = ''4.29497e+09''"
    by (simp_all add: show_eval)
  moreover have "\<not> bit (0x41EFFFFFFFE00000 :: double) 63" "\<not> bit (0x41F0000000000000 :: double) 63"
    by simp_all
  ultimately show "show_double 0x41EFFFFFFFE00000 = ''4.29497e+09''"
    "show_double 0x41F0000000000000 = ''4.29497e+09''"
    unfolding show_double_def Let_def by simp_all
qed

text \<open>Floating-point values are written with six significant digits: a signal with maximum
  4294967295 and one with maximum 4294967296 have the same text.\<close>

theorem print_loses_precision:
  "print_signal (s\<lparr>sig_maximum := double_of_int 4294967295\<rparr>) =
     print_signal (s\<lparr>sig_maximum := double_of_int 4294967296\<rparr>) \<and>
   \<not> double_eq (double_of_int 4294967295) (double_of_int 4294967296)"
  unfolding double_4294967295 double_4294967296
  by (simp add: print_signal_def print_multiplexer_def show_maximum double_eq_def is_zero_def
      split: EMultiplexer.split)

section \<open>Signal types\<close>

abbreviation change_signal_types :: "(SignalTypeImpl \<Rightarrow> SignalTypeImpl) \<Rightarrow> NetworkImpl \<Rightarrow> NetworkImpl"
  where
  "change_signal_types f net \<equiv>
     net\<lparr>net_value_tables := map (\<lambda>vt. vt\<lparr>vt_signal_type := map_option f (vt_signal_type vt)\<rparr>)
        (net_value_tables net)\<rparr>"

lemma searches_value_tables:
  "find_node_name (net\<lparr>net_value_tables := vts\<rparr>) p = find_node_name net p"
  "find_message_id (net\<lparr>net_value_tables := vts\<rparr>) p = find_message_id net p"
  "find_signal (net\<lparr>net_value_tables := vts\<rparr>) p = find_signal net p"
  "find_environment_variable_name (net\<lparr>net_value_tables := vts\<rparr>) p =
     find_environment_variable_name net p"
  "ParentMessage (net\<lparr>net_value_tables := vts\<rparr>) sp = ParentMessage net sp"
  by (simp_all add: find_node_name_def find_message_id_def find_signal_def
      find_environment_variable_name_def ParentMessage_def split: option.split)

lemma print_attribute_value_tables:
  "print_attribute (net\<lparr>net_value_tables := vts\<rparr>) p a = print_attribute net p a"
  unfolding print_attribute_def searches_value_tables by (simp split: EObjectType.split)

lemma print_attribute_section_value_tables:
  "print_attribute_section (net\<lparr>net_value_tables := vts\<rparr>) = print_attribute_section net"
  by (simp add: print_attribute_section_def print_attribute_list_def print_attribute_value_tables)

lemma concat_if_filter: "concat (map (\<lambda>x. if P x then f x else []) xs) = concat (map f (filter P xs))"
  by (induction xs) simp_all

lemma print_value_table_signal_type:
  "print_value_table (vt\<lparr>vt_signal_type := st\<rparr>) = print_value_table vt"
  by (simp add: print_value_table_def)

text \<open>The signal type of a value table never reaches the file: whatever is in it, the text is the
  same. (The value table itself is written a second time instead.)\<close>

theorem print_ignores_signal_types:
  "print_network (change_signal_types f net) = print_network net \<and>
   print_value_tables_with_type net =
     concat (map print_value_table (filter (\<lambda>vt. vt_signal_type vt \<noteq> None) (net_value_tables net)))"
proof
  have "print_value_tables_with_type (change_signal_types f net) = print_value_tables_with_type net"
    by (simp add: print_value_tables_with_type_def print_value_table_signal_type comp_def cong: if_cong)
  then show "print_network (change_signal_types f net) = print_network net"
    by (simp add: print_network_def print_attribute_section_value_tables print_head_def
        print_value_table_signal_type print_comments_def print_descriptions_def print_signals_def comp_def)
  show "print_value_tables_with_type net =
     concat (map print_value_table (filter (\<lambda>vt. vt_signal_type vt \<noteq> None) (net_value_tables net)))"
    unfolding print_value_tables_with_type_def concat_if_filter ..
qed

end
