(* ===== verification/Network2CProps.thy ===== *)
theory Network2CProps
  imports Network2C
begin

text \<open>
  The generated C code against the library: its byte swap, and its decode functions.
\<close>

section \<open>The byte swap macros\<close>

lemma bit_c_bswap_16:
  "bit (c_bswap_16 v) j \<longleftrightarrow> (if j < 8 then bit v (j + 8) else j < 16 \<and> bit v (j - 8))"
proof -
  have m: "ucast v AND 0xff = take_bit 8 (ucast v :: 32 word)"
  proof -
    have e: "(0xff :: 32 word) = mask 8" by (simp add: mask_eq_exp_minus_1)
    show ?thesis unfolding e take_bit_eq_mask ..
  qed
  show ?thesis unfolding c_bswap_16_def m
    by (auto simp: bit_or_iff bit_take_bit_iff bit_push_bit_iff bit_drop_bit_eq
        bit_ucast_iff add.commute dest: bit_imp_le_length)
qed

lemma bit_c_bswap_32:
  "bit (c_bswap_32 v) j \<longleftrightarrow>
     (if j < 16 then bit (c_bswap_16 (ucast (drop_bit 16 v))) j
      else j < 32 \<and> bit (c_bswap_16 (ucast v)) (j - 16))"
proof -
  have m: "ucast (v AND 0xffff) = (ucast v :: 16 word)"
  proof -
    have e: "(0xffff :: 32 word) = mask 16" by (simp add: mask_eq_exp_minus_1)
    show ?thesis
      unfolding e take_bit_eq_mask [symmetric]
      by (intro bit_word_eqI) (simp add: bit_ucast_iff bit_take_bit_iff)
  qed
  have s: "bit (c_bswap_16 w) k \<Longrightarrow> k < 16" for w k
    by (auto simp: bit_c_bswap_16 split: if_splits)
  show ?thesis unfolding c_bswap_32_def m
    by (auto simp: bit_or_iff bit_push_bit_iff dest: s)
qed

lemma bit_c_bswap_64:
  "bit (c_bswap_64 v) j \<longleftrightarrow>
     (if j < 32 then bit (c_bswap_32 (ucast (drop_bit 32 v))) j
      else j < 64 \<and> bit (c_bswap_32 (ucast v)) (j - 32))"
proof -
  have m: "ucast (v AND 0xffffffff) = (ucast v :: 32 word)"
  proof -
    have e: "(0xffffffff :: 64 word) = mask 32" by (simp add: mask_eq_exp_minus_1)
    show ?thesis
      unfolding e take_bit_eq_mask [symmetric]
      by (intro bit_word_eqI) (simp add: bit_ucast_iff bit_take_bit_iff)
  qed
  have s: "bit (w :: 32 word) k \<Longrightarrow> k < 32" for w k
    by (auto dest: bit_imp_le_length)
  show ?thesis unfolding c_bswap_64_def m
    by (auto simp: bit_or_iff bit_push_bit_iff bit_ucast_iff dest: s)
qed

lemma c_bswap_64_eq: "c_bswap_64 v = bswap_64 v"
proof (rule u64_eqI)
  fix j :: nat assume j: "j < 64"
  have "bit (bswap_64 v) j = bit v (8 * (7 - j div 8) + j mod 8)"
    using j by (simp add: bswap_64_def bit_be_word nth_bytes_of bit_byte_of)
  moreover have "bit (c_bswap_64 v) j = bit v (8 * (7 - j div 8) + j mod 8)"
  proof -
    obtain q r where jq: "j = 8 * q + r" and r: "r < 8" using mod_less_divisor [of 8 j]
      by (metis mult_div_mod_eq zero_less_numeral)
    have "q = 0 \<or> q = 1 \<or> q = 2 \<or> q = 3 \<or> q = 4 \<or> q = 5 \<or> q = 6 \<or> q = 7" using j jq by linarith
    moreover have dm: "j div 8 = q" "j mod 8 = r" using jq r by simp_all
    ultimately show ?thesis
      unfolding dm using r by (elim disjE) (simp_all add: jq bit_c_bswap_64 bit_c_bswap_32 bit_c_bswap_16
          bit_ucast_iff bit_drop_bit_eq add.commute)
  qed
  ultimately show "bit (c_bswap_64 v) j = bit (bswap_64 v) j" by simp
qed

lemma native_conversions:
  "dbcppp_native_to_big native v = native_to_big_inplace native v"
  "dbcppp_native_to_little native v = native_to_little_inplace native v"
  by (cases native; simp add: dbcppp_native_to_big_def dbcppp_native_to_little_def
      native_to_big_inplace_def native_to_little_inplace_def c_bswap_64_eq)+

section \<open>The decode functions\<close>

text \<open>The generator finds out the alignment of a signal from what the constructor has stored.\<close>

lemma layout_tests:
  assumes n: "1 \<le> unat (sig_bit_size d)" "unat (sig_bit_size d) \<le> 64"
    and l: "signal_layout d m = Some l"
  shows "lay_alignment l = size_inbetween_first_64_bit \<longleftrightarrow> lay_byte_pos l + signal_nbytes d \<le> 8"
    and "lay_alignment l = signal_exceeds_64_bit_size_and_signal_does_not_fit_into_64_bit \<longleftrightarrow>
      \<not> (lay_byte_pos l + signal_nbytes d \<le> 8 \<or> signal_nbytes d \<le> 8)"
proof -
  let ?s = "sig_start_bit d" and ?nb = "signal_nbytes d"
  let ?p = "unat ?s div 8"
  have nb: "1 \<le> unat ?nb" "unat ?nb \<le> 10"
    using n by (auto simp: unat_signal_nbytes split: EByteOrder.split)
  have p61: "?p < 2 ^ 61" using unat_lt64 [of ?s] by simp
  have sum: "b + ?nb \<le> 8 \<longleftrightarrow> unat b + unat ?nb \<le> 8" if "unat b \<le> ?p" for b
    using that nb p61 by (simp add: word_le_nat_alt unat_add64)
  note conds = layout_conditions [OF n(2)]
  consider (first) "?p + unat ?nb \<le> 8" | (aligned) "\<not> ?p + unat ?nb \<le> 8" "?p mod 8 + unat ?nb \<le> 8"
    | (unaligned) "\<not> ?p + unat ?nb \<le> 8" "\<not> ?p mod 8 + unat ?nb \<le> 8" "unat ?nb \<le> 8"
    | (wide) "\<not> unat ?nb \<le> 8" by blast
  then have "(lay_alignment l = size_inbetween_first_64_bit \<longleftrightarrow> lay_byte_pos l + ?nb \<le> 8) \<and>
     (lay_alignment l = signal_exceeds_64_bit_size_and_signal_does_not_fit_into_64_bit \<longleftrightarrow>
      \<not> (lay_byte_pos l + ?nb \<le> 8 \<or> ?nb \<le> 8))"
  proof cases
    case first
    then have "lay_alignment l = size_inbetween_first_64_bit" "lay_byte_pos l = ?s div 8"
      using l by (auto simp: signal_layout_def conds Let_def)
    then show ?thesis using first conds(1) by simp
  next
    case aligned
    let ?b = "?s div 8 - ?s div 8 mod 8"
    have b: "unat ?b = ?p - ?p mod 8" by (simp add: unat_sub64 unat_div8 unat_mod8)
    have "lay_alignment l = signal_exceeds_64_bit_size_but_signal_fits_into_64_bit"
      "lay_byte_pos l = ?b" using l aligned by (auto simp: signal_layout_def conds Let_def)
    moreover have "\<not> unat ?b + unat ?nb \<le> 8"
    proof
      assume "unat ?b + unat ?nb \<le> 8"
      then have "?p - ?p mod 8 < 8" using nb b by linarith
      then have "?p div 8 * 8 < 8" by (simp only: minus_mod_eq_div_mult)
      then have "?p div 8 = 0" by simp
      then have "?p < 8" by (simp add: div_eq_0_iff)
      then show False using aligned by simp
    qed
    moreover have "?nb \<le> 8" using aligned(2) conds(3) by linarith
    ultimately show ?thesis using sum [of ?b] b by simp
  next
    case unaligned
    have "lay_alignment l = signal_exceeds_64_bit_size_but_signal_fits_into_64_bit"
      "lay_byte_pos l = ?s div 8" using l unaligned by (auto simp: signal_layout_def conds Let_def)
    then show ?thesis using unaligned conds by simp
  next
    case wide
    have c: "\<not> ?p + unat ?nb \<le> 8" "\<not> ?p mod 8 + unat ?nb \<le> 8" using wide by auto
    have "lay_alignment l = signal_exceeds_64_bit_size_and_signal_does_not_fit_into_64_bit"
      "lay_byte_pos l = ?s div 8"
      using l c wide by (auto simp: signal_layout_def conds Let_def bind_eq_Some_conv split: if_splits)
    then show ?thesis using wide c conds by simp
  qed
  then show "lay_alignment l = size_inbetween_first_64_bit \<longleftrightarrow> lay_byte_pos l + ?nb \<le> 8"
    and "lay_alignment l = signal_exceeds_64_bit_size_and_signal_does_not_fit_into_64_bit \<longleftrightarrow>
      \<not> (lay_byte_pos l + ?nb \<le> 8 \<or> ?nb \<le> 8)" by blast+
qed

lemma parens_match_Nil [simp]: "parens_match []"
  by (simp add: parens_match_def)

lemma parens_match_Cons [simp]:
  "parens_match (p # ps) \<longleftrightarrow> (case p of C_join_little _ _ _ \<Rightarrow> False | _ \<Rightarrow> True) \<and> parens_match ps"
proof -
  have nl: "newline = [CHR 0x0A]" by (simp add: newline_def char_of_def bit_0)
  have "balanced 0 (fst (piece_format p)) \<longleftrightarrow> (case p of C_join_little _ _ _ \<Rightarrow> False | _ \<Rightarrow> True)"
    by (cases p) (simp_all add: nl)
  then show ?thesis by (simp add: parens_match_def)
qed

lemma narrow_run:
  assumes a: "a \<noteq> signal_exceeds_64_bit_size_and_signal_does_not_fit_into_64_bit"
    and first: "a = size_inbetween_first_64_bit \<longleftrightarrow> sig_byte_pos s + signal_nbytes s \<le> 8"
    and narrow: "sig_byte_pos s + signal_nbytes s \<le> 8 \<or> signal_nbytes s \<le> 8"
    and evt: "sig_extended_value_type s \<noteq> EVT_Float"
  shows "\<exists>ps. decode_pieces s = Some ps \<and> parens_match ps \<and> run_c native fr ps None None =
     template_decode native a (sig_byte_order s) (sig_value_type s) (sig_extended_value_type s) s fr"
proof -
  let ?first = "sig_byte_pos s + signal_nbytes s \<le> 8"
  let ?p = "if a = size_inbetween_first_64_bit then 0 else unat (sig_byte_pos s)"
  let ?ps = "[if ?first then C_load_start else C_load (sig_byte_pos s)] @
    [if sig_byte_order s = BigEndian then C_to_big else C_to_little] @
    (if sig_extended_value_type s = EVT_Double then [C_return]
     else [C_shift (sig_fixed_start_bit_0 s)] @ [C_mask (sig_mask s)] @
       (if sig_value_type s = Signed then [C_return_signed (sig_mask_signed s)] else []) @ [C_return])"
  have ps: "decode_pieces s = Some ?ps"
    using narrow evt by (simp add: decode_pieces_def Let_def)
  have load: "run_c native fr ((if ?first then C_load_start else C_load (sig_byte_pos s)) # cs) None None =
      do { data \<leftarrow> load_u64 native fr ?p; run_c native fr cs (Some data) None }" for cs
    using first by simp
  have "run_c native fr ?ps None None =
      template_decode native a (sig_byte_order s) (sig_value_type s) (sig_extended_value_type s) s fr"
    unfolding template_decode_narrow [OF refl a] append.append_Cons append.append_Nil load
    using evt by (cases "load_u64 native fr ?p"; cases "sig_extended_value_type s";
        cases "sig_value_type s"; cases "sig_byte_order s")
      (simp_all add: native_conversions sign_extend_def Let_def)
  moreover have "parens_match ?ps" by simp
  ultimately show ?thesis using ps by blast
qed

lemma wide_run:
  assumes wide: "\<not> (sig_byte_pos s + signal_nbytes s \<le> 8 \<or> signal_nbytes s \<le> 8)"
    and f1: "sig_fixed_start_bit_1 s = Some b"
  shows "\<exists>ps. decode_pieces s = Some ps \<and> (parens_match ps \<longleftrightarrow> sig_byte_order s = BigEndian) \<and>
     run_c native fr ps None None =
     template_decode native signal_exceeds_64_bit_size_and_signal_does_not_fit_into_64_bit
       (sig_byte_order s) (sig_value_type s) (sig_extended_value_type s) s fr"
proof -
  let ?ps = "[C_load_wide (sig_byte_pos s), C_load_last (sig_byte_pos s)] @
    [if sig_byte_order s = BigEndian
     then C_join_big (sig_mask s) (sig_fixed_start_bit_0 s) b
     else C_join_little (sig_fixed_start_bit_0 s) (sig_mask s) b] @
    (if sig_extended_value_type s = EVT_Integer \<and> sig_value_type s = Signed
     then [C_return_signed (sig_mask_signed s)] else []) @ [C_return]"
  have ps: "decode_pieces s = Some ?ps"
    using wide f1 by (cases "sig_extended_value_type s") (simp_all add: decode_pieces_def Let_def)
  have "run_c native fr ?ps None None =
     template_decode native signal_exceeds_64_bit_size_and_signal_does_not_fit_into_64_bit
       (sig_byte_order s) (sig_value_type s) (sig_extended_value_type s) s fr"
    using f1 by (cases "load_u64 native fr (unat (sig_byte_pos s))";
        cases "load_u8 fr (unat (sig_byte_pos s) + 8)"; cases "sig_extended_value_type s";
        cases "sig_value_type s"; cases "sig_byte_order s")
      (simp_all add: template_decode_def native_conversions sign_extend_def Let_def)
  moreover have "parens_match ?ps \<longleftrightarrow> sig_byte_order s = BigEndian" by simp
  ultimately show ?thesis using ps by blast
qed

text \<open>C12. The decode function generated for a signal computes what \<open>Decode\<close> computes, on every frame
  and machine, undefined behaviour included, for every signal that is not a \<open>float\<close>. The
  parentheses of its text match unless the signal is little-endian and spans nine bytes: that branch
  writes an unmatched closing parenthesis, so the text is not C++. (That the text is C++ otherwise,
  with its \<open>reinterpret_cast\<close> and references, is not part of the statement.)\<close>

theorem generated_decode:
  assumes "SignalImpl_new pf ms d = Some s" and "sig_extended_value_type d \<noteq> EVT_Float"
  shows "\<exists>ps. decode_pieces s = Some ps \<and> run_c native fr ps None None = Decode native s fr \<and>
     (parens_match ps \<longleftrightarrow> sig_byte_order d = BigEndian \<or> unat (signal_nbytes d) \<le> 8)"
proof -
  obtain l where l: "signal_layout d (mask (unat (sig_bit_size d))) = Some l"
    and n: "1 \<le> unat (sig_bit_size d)" "unat (sig_bit_size d) \<le> 64"
    and tr: "signal_data.truncate s = d"
    and f: "sig_fixed_start_bit_1 s = lay_fixed_start_bit_1 l" "sig_byte_pos s = lay_byte_pos l"
      "sig_decode s = Some (Template_decode (lay_alignment l) (sig_byte_order d)
           (sig_value_type d) (sig_extended_value_type d))"
    using assms(1) by (rule SignalImpl_new_SomeD)
  note sel = truncate_sel [OF tr]
  have nb: "signal_nbytes s = signal_nbytes d" by (simp add: signal_nbytes_def sel)
  note tests = layout_tests [OF n l]
  note nb8 = layout_conditions(3) [OF n(2)]
  let ?wide = "signal_exceeds_64_bit_size_and_signal_does_not_fit_into_64_bit"
  show ?thesis
  proof (cases "lay_alignment l = ?wide")
    case False
    have "unat (signal_nbytes d) \<le> 8"
    proof (rule ccontr)
      assume "\<not> unat (signal_nbytes d) \<le> 8"
      then have "wide_layout d l" by (rule layout_wide [OF n l])
      then show False using False by (simp add: wide_layout_def Let_def)
    qed
    moreover have "\<exists>ps. decode_pieces s = Some ps \<and> parens_match ps \<and> run_c native fr ps None None =
        template_decode native (lay_alignment l) (sig_byte_order s) (sig_value_type s)
          (sig_extended_value_type s) s fr"
      by (rule narrow_run) (use False tests assms(2) in \<open>simp_all add: f nb sel\<close>)
    ultimately show ?thesis by (auto simp: Decode_def f sel)
  next
    case True
    then have w: "\<not> (sig_byte_pos s + signal_nbytes s \<le> 8 \<or> signal_nbytes s \<le> 8)"
      using tests by (simp add: f nb)
    then have c: "\<not> unat (signal_nbytes d) \<le> 8" using nb8 by (simp add: nb)
    obtain b where b: "sig_fixed_start_bit_1 s = Some b"
      using layout_wide [OF n l c] by (cases "sig_byte_order d") (auto simp: wide_layout_def Let_def f)
    show ?thesis using wide_run [OF w b, of native fr] True c by (auto simp: Decode_def f sel)
  qed
qed

theorem generated_decode_witness:
  "c_decode Big (ex_impl 9 (ex_signal 4 64 BigEndian Signed)) (replicate 9 0xA5) =
     Decode Big (ex_impl 9 (ex_signal 4 64 BigEndian Signed)) (replicate 9 0xA5)"
proof -
  let ?d = "ex_signal 4 64 BigEndian Signed"
  have "SignalImpl_new ieee 9 ?d = Some (ex_impl 9 ?d)" by (rule ex_impl) (simp_all add: ex_signal_def)
  moreover have "sig_extended_value_type ?d \<noteq> EVT_Float" by (simp add: ex_signal_def)
  ultimately show ?thesis
    using generated_decode [of ieee 9 ?d "ex_impl 9 ?d" Big "replicate 9 0xA5"]
    by (auto simp: c_decode_def)
qed

text \<open>For a \<open>float\<close> signal the generated function leaves out the mask: at bit 0 of a frame whose
  other bytes are not zero it returns the bits after the signal as well, and the value it returns
  differs from that of \<open>Decode\<close>.\<close>

theorem generated_decode_float_unmasked:
  "c_decode Little (ex_impl 8 ((ex_signal 0 32 LittleEndian Signed)\<lparr>sig_extended_value_type := EVT_Float\<rparr>))
     (replicate 8 1) = Some 0x0101010101010101 \<and>
   Decode Little (ex_impl 8 ((ex_signal 0 32 LittleEndian Signed)\<lparr>sig_extended_value_type := EVT_Float\<rparr>))
     (replicate 8 1) = Some 0x01010101"
  by (intro conjI) code_simp+

end
