(* ===== verification/DoubleProps.thy ===== *)
theory DoubleProps
  imports Doubles Complex_Main
begin

text \<open>
  Exactness of the floating-point operations on integers: as long as a result is an integer below
  \<open>2^53\<close> in absolute value, no rounding takes place. \<open>exact w i\<close> says that the bit pattern \<open>w\<close>
  is a number equal to the integer \<open>i\<close>.
\<close>

section \<open>Powers of two\<close>

abbreviation p2 :: "int \<Rightarrow> real" where "p2 k \<equiv> 2 powi k"

lemma p2_add: "p2 (a + b) = p2 a * p2 b"
  by (simp add: power_int_add)

lemma p2_pos [simp]: "0 < p2 a"
  by (simp add: zero_less_power_int)

lemma p2_less_iff: "p2 a < p2 b \<longleftrightarrow> a < b"
  using power_int_strict_increasing [of a b "2::real"] power_int_increasing [of b a "2::real"]
  by (cases "a < b") (auto simp: not_less)

lemma p2_minus: "p2 (- a) * p2 a = 1"
  by (simp flip: p2_add)

lemma p2_nat: "p2 (int n) = 2 ^ n"
  by simp

lemma p2_split: "p2 a = 2 ^ nat a / 2 ^ nat (- a)"
proof (cases "0 \<le> a")
  case True
  then have "p2 a = p2 (int (nat a))" by simp
  then show ?thesis using True unfolding p2_nat by simp
next
  case False
  then have "p2 (- a) = p2 (int (nat (- a)))" by simp
  then have "p2 (- a) = 2 ^ nat (- a)" unfolding p2_nat .
  then show ?thesis using False p2_minus [of a] by (simp add: field_simps)
qed

section \<open>Logarithms\<close>

lemma ilog2_bounds: "0 < n \<Longrightarrow> 2 ^ ilog2 n \<le> n \<and> n < 2 ^ Suc (ilog2 n)"
proof (induction n rule: ilog2.induct)
  case (1 n)
  show ?case
  proof (cases "n < 2")
    case True
    then show ?thesis using "1.prems" by (simp add: ilog2.simps [of n])
  next
    case False
    then have "2 ^ ilog2 (n div 2) \<le> n div 2 \<and> n div 2 < 2 ^ Suc (ilog2 (n div 2))"
      using "1.IH" by simp
    then show ?thesis using False by (simp add: ilog2.simps [of n]) linarith
  qed
qed

lemma ilog2_less: "0 < n \<Longrightarrow> n < 2 ^ k \<Longrightarrow> ilog2 n < k"
proof -
  assume "0 < n" "n < 2 ^ k"
  then have "(2::nat) ^ ilog2 n < 2 ^ k" using ilog2_bounds [of n] by (meson order_le_less_trans)
  then show ?thesis by (simp add: power_strict_increasing_iff)
qed

text \<open>\<open>2^k \<le> x < 2^(k + 1)\<close> determines \<open>k\<close>.\<close>

definition log_range :: "int \<Rightarrow> real \<Rightarrow> bool" where
  "log_range k x \<longleftrightarrow> p2 k \<le> x \<and> x < p2 (k + 1)"

lemma log_range_unique: "log_range k x \<Longrightarrow> log_range l x \<Longrightarrow> k = l"
proof -
  assume "log_range k x" "log_range l x"
  then have "p2 k < p2 (l + 1)" "p2 l < p2 (k + 1)" unfolding log_range_def by linarith+
  then show ?thesis unfolding p2_less_iff by simp
qed

lemma log_range_scale: "log_range k x \<Longrightarrow> log_range (k + e) (x * p2 e)"
proof -
  assume "log_range k x"
  then have "p2 k * p2 e \<le> x * p2 e" "x * p2 e < p2 (k + 1) * p2 e"
    unfolding log_range_def by simp_all
  moreover have "k + e + 1 = (k + 1) + e" by simp
  ultimately show ?thesis unfolding log_range_def by (simp only: p2_add)
qed

lemma log_range_ilog2: "0 < n \<Longrightarrow> log_range (int (ilog2 n)) (real n)"
proof -
  assume "0 < n"
  then have "2 ^ ilog2 n \<le> n" "n < 2 ^ Suc (ilog2 n)" using ilog2_bounds by blast+
  then have "real (2 ^ ilog2 n) \<le> real n" "real n < real (2 ^ Suc (ilog2 n))"
    by (simp_all only: of_nat_le_iff of_nat_less_iff)
  then show ?thesis unfolding log_range_def by (simp add: p2_add)
qed

text \<open>The two candidates of \<open>flog2\<close>.\<close>

lemma log_range_flog2:
  assumes "0 < p" and "0 < q"
  shows "log_range (flog2 p q) (real p / real q)"
proof -
  let ?k = "int (ilog2 p) - int (ilog2 q)"
  have p: "p2 (int (ilog2 p)) \<le> real p" "real p < p2 (int (ilog2 p) + 1)"
    and q: "p2 (int (ilog2 q)) \<le> real q" "real q < p2 (int (ilog2 q) + 1)"
    using log_range_ilog2 assms by (simp_all add: log_range_def)
  have q0: "0 < real q" using assms by simp
  have up: "real p / real q < p2 (?k + 1)"
  proof -
    have "real p < p2 (int (ilog2 p) + 1)" by (rule p)
    also have "\<dots> = p2 (?k + 1) * p2 (int (ilog2 q))"
      unfolding p2_add [symmetric] by (rule arg_cong) simp
    also have "\<dots> \<le> p2 (?k + 1) * real q" using q(1) by simp
    finally show ?thesis using q0 by (simp add: field_simps)
  qed
  have low: "p2 (?k - 1) \<le> real p / real q"
  proof -
    have "p2 (?k - 1) * real q \<le> p2 (?k - 1) * p2 (int (ilog2 q) + 1)" using q(2) by simp
    also have "\<dots> = p2 (int (ilog2 p))" by (simp flip: p2_add)
    also have "\<dots> \<le> real p" by (rule p)
    finally show ?thesis using q0 by (simp add: field_simps)
  qed
  have test: "q * 2 ^ nat ?k \<le> p * 2 ^ nat (- ?k) \<longleftrightarrow> p2 ?k \<le> real p / real q"
  proof -
    have "q * 2 ^ nat ?k \<le> p * 2 ^ nat (- ?k) \<longleftrightarrow>
        real (q * 2 ^ nat ?k) \<le> real (p * 2 ^ nat (- ?k))"
      by (simp only: of_nat_le_iff)
    also have "\<dots> \<longleftrightarrow> real q * 2 ^ nat ?k \<le> real p * 2 ^ nat (- ?k)" by simp
    also have "\<dots> \<longleftrightarrow> p2 ?k \<le> real p / real q"
      unfolding p2_split [of ?k] using q0 by (simp add: field_simps)
    finally show ?thesis .
  qed
  show ?thesis
  proof (cases "p2 ?k \<le> real p / real q")
    case True
    then have "flog2 p q = ?k" using test by (simp add: flog2_def)
    then show ?thesis unfolding log_range_def using True up by simp
  next
    case False
    then have "flog2 p q = ?k - 1" using test by (simp add: flog2_def Let_def)
    then show ?thesis unfolding log_range_def using False low by simp
  qed
qed

section \<open>The fields of a rounded number\<close>

lemma round_div_exact: "0 < b \<Longrightarrow> round_div (b * c) b = c"
  by (simp add: round_div_def)

lemma sign64_bit: "bit (sign64 s) j \<longleftrightarrow> s \<and> j = 63"
  unfolding sign64_def by (cases s) (simp_all only: if_True if_False bit_push64 bit_1_iff bit_0_eq, auto)

text \<open>Sign, exponent field and fraction, put together and taken apart.\<close>

lemma fp_of_fields:
  assumes "f < 2 ^ 52" and "0 < x" and "x < 2047"
  shows "fp_of_double (sign64 s OR of_nat (f + x * 2 ^ 52)) = Fin s (f + 2 ^ 52) (int x - 1075)"
proof -
  obtain n where n: "n = f + x * 2 ^ 52" by simp
  let ?b = "of_nat n :: u64"
  have small: "n < 2 ^ 63"
  proof -
    have "x * 2 ^ 52 \<le> 2046 * 2 ^ 52" using assms by simp
    then show ?thesis using assms by (simp add: n)
  qed
  have u: "unat ?b = f + x * 2 ^ 52"
    using small unfolding n [symmetric] by (simp add: unat_of_nat take_bit_eq_mod)
  have b63: "\<not> bit ?b 63"
  proof -
    have "drop_bit 63 n = 0" using small by (simp add: drop_bit_eq_div)
    then have "\<not> bit n 63" by (simp add: bit_iff_odd_drop_bit)
    then show ?thesis by (simp add: bit_of_nat_iff_bit bit_of_nat_iff)
  qed
  have sgn: "bit (sign64 s OR ?b) 63 = s" using b63 by (simp add: bit_or_iff sign64_bit)
  have low: "take_bit 63 (sign64 s OR ?b) = ?b"
  proof (rule u64_eqI)
    fix j :: nat assume "j < 64"
    then show "bit (take_bit 63 (sign64 s OR ?b)) j = bit ?b j"
      using b63 by (cases "j = 63") (auto simp: bit_take_bit_iff bit_or_iff sign64_bit)
  qed
  have ex: "take_bit 11 (drop_bit 52 (sign64 s OR ?b)) = drop_bit 52 ?b"
  proof -
    have "take_bit 11 (drop_bit 52 (sign64 s OR ?b)) = drop_bit 52 (take_bit 63 (sign64 s OR ?b))"
      by (simp add: drop_bit_take_bit)
    then show ?thesis by (simp only: low)
  qed
  have fr: "take_bit 52 (sign64 s OR ?b) = take_bit 52 ?b"
  proof -
    have "take_bit 52 (sign64 s OR ?b) = take_bit 52 (take_bit 63 (sign64 s OR ?b))" by simp
    then show ?thesis by (simp only: low)
  qed
  have "unat (drop_bit 52 ?b) = (f + x * 2 ^ 52) div 2 ^ 52"
    using unat_drop_bit_eq [of 52 ?b] unfolding u by (simp only: drop_bit_eq_div)
  then have "unat (drop_bit 52 ?b) = x" using assms by simp
  moreover have "unat (take_bit 52 ?b) = (f + x * 2 ^ 52) mod 2 ^ 52"
  proof -
    have "unat (take_bit 52 ?b) = take_bit 52 (unat ?b)" by (rule unsigned_take_bit_eq)
    then show ?thesis unfolding u by (simp only: take_bit_eq_mod)
  qed
  then have "unat (take_bit 52 ?b) = f" using assms by simp
  ultimately show ?thesis
    using assms unfolding n [symmetric] fp_of_double_def Let_def sgn ex fr by simp
qed

text \<open>\<open>p / q * 2^e\<close> is stored exactly when it is an integer below \<open>2^53\<close>.\<close>

lemma double_round_exact:
  assumes "0 < p" and "0 < q" and n: "0 < n" "n < 2 ^ 53" and v: "real p / real q * p2 e = real n"
  shows "fp_of_double (double_round s p q e) = Fin s (n * 2 ^ (52 - ilog2 n)) (int (ilog2 n) - 52)"
proof -
  let ?k = "ilog2 n"
  let ?eu = "int ?k - 52" and ?m = "n * 2 ^ (52 - ?k)"
  have k: "?k \<le> 52" using ilog2_less [OF n] by simp
  have "log_range (flog2 p q + e) (real n)"
    using log_range_scale [OF log_range_flog2 [OF assms(1,2)], of e] v by simp
  then have fl: "flog2 p q + e = int ?k" using log_range_unique log_range_ilog2 [OF n(1)] by blast
  have round: "round_div (p * 2 ^ nat (e - ?eu)) (q * 2 ^ nat (?eu - e)) = ?m"
  proof -
    have "real (p * 2 ^ nat (e - ?eu)) = real (q * 2 ^ nat (?eu - e) * ?m)"
    proof -
      have "real p * p2 (e - ?eu) = real q * real n * p2 (- ?eu)"
      proof -
        have "real p * p2 e = real q * real n" using v assms(2) by (simp add: field_simps)
        moreover have "p2 (e - ?eu) = p2 e * p2 (- ?eu)"
          unfolding p2_add [symmetric] by (rule arg_cong) simp
        ultimately show ?thesis by (metis mult.assoc)
      qed
      moreover have "p2 (- ?eu) = 2 ^ (52 - ?k)" using k p2_nat [of "52 - ?k"] by (simp add: of_nat_diff)
      ultimately have "real p * p2 (e - ?eu) = real q * real n * 2 ^ (52 - ?k)" by simp
      moreover have "p2 (e - ?eu) * 2 ^ nat (?eu - e) = 2 ^ nat (e - ?eu)"
        using p2_split [of "e - ?eu"] by simp
      ultimately have "real p * 2 ^ nat (e - ?eu) = real q * real n * 2 ^ (52 - ?k) * 2 ^ nat (?eu - e)"
        by (metis mult.assoc)
      then show ?thesis by (simp add: mult_ac)
    qed
    then have "p * 2 ^ nat (e - ?eu) = q * 2 ^ nat (?eu - e) * ?m" by (simp only: of_nat_eq_iff)
    then show ?thesis using assms(2) by (simp add: round_div_exact)
  qed
  have m: "2 ^ 52 \<le> ?m" "?m < 2 ^ 53"
  proof -
    have "2 ^ ?k * 2 ^ (52 - ?k) \<le> ?m" "?m < 2 ^ Suc ?k * 2 ^ (52 - ?k)"
      using ilog2_bounds [OF n(1)] by simp_all
    moreover have "(2::nat) ^ ?k * 2 ^ (52 - ?k) = 2 ^ 52" "(2::nat) ^ Suc ?k * 2 ^ (52 - ?k) = 2 ^ 53"
      unfolding power_add [symmetric] using k by simp_all
    ultimately show "2 ^ 52 \<le> ?m" "?m < 2 ^ 53" by (simp_all only:)
  qed
  let ?x = "nat (?eu + 1075)"
  have bits: "?m + nat (?eu + 1074) * 2 ^ 52 = (?m - 2 ^ 52) + ?x * 2 ^ 52"
  proof -
    have "?x = Suc (nat (?eu + 1074))" using k by simp
    then show ?thesis using m by simp
  qed
  have x: "0 < ?x" "?x < 2047" using k by simp_all
  have f: "?m - 2 ^ 52 < 2 ^ 52" using m by simp
  have lim: "(?m - 2 ^ 52) + ?x * 2 ^ 52 \<le> 2047 * 2 ^ 52"
  proof -
    have "?x * 2 ^ 52 \<le> 2046 * 2 ^ 52" using x by simp
    then show ?thesis using f by simp
  qed
  have "fp_bits 52 (- 1074) 2047 p q e = (?m - 2 ^ 52) + ?x * 2 ^ 52"
  proof -
    have eu: "max (- 1074) (flog2 p q + e - int 52) = ?eu" using fl k by simp
    show ?thesis unfolding fp_bits_def eu Let_def round using lim bits by simp
  qed
  then have "double_round s p q e = sign64 s OR of_nat ((?m - 2 ^ 52) + ?x * 2 ^ 52)"
    using assms(1) by (simp add: double_round_def)
  then have "fp_of_double (double_round s p q e) = Fin s ((?m - 2 ^ 52) + 2 ^ 52) (int ?x - 1075)"
    using fp_of_fields [OF f x] by simp
  moreover have "int ?x - 1075 = ?eu" using k by simp
  ultimately show ?thesis using m by simp
qed

section \<open>Doubles that are integers\<close>

definition exact :: "double \<Rightarrow> int \<Rightarrow> bool" where
  "exact w i \<longleftrightarrow> (\<exists>s m e. fp_of_double w = Fin s m e \<and> real_of_int (signed_of s m) * p2 e = of_int i)"

lemma exactE:
  assumes "exact w i"
  obtains s m e where "fp_of_double w = Fin s m e" and "real_of_int (signed_of s m) * p2 e = of_int i"
  using assms unfolding exact_def by blast

lemma fp_of_zero: "fp_of_double (double_zero s) = Fin s 0 (- 1074)"
proof -
  have "take_bit 52 (sign64 s) = 0" "take_bit 11 (drop_bit 52 (sign64 s)) = 0"
    by (rule u64_eqI; simp add: bit_take_bit_iff bit_drop_bit_eq sign64_bit)+
  then show ?thesis
    by (simp add: double_zero_def fp_of_double_def Let_def sign64_bit del: take_bit_drop_bit)
qed

lemma signed_of_0 [simp]: "signed_of s 0 = 0"
  by (simp add: signed_of_def)

lemma exact_zero: "exact (double_zero s) 0"
  unfolding exact_def fp_of_zero by simp

text \<open>A rounded quotient that is an integer is that integer.\<close>

lemma exact_round:
  assumes "0 < q" and "\<bar>i\<bar> < 2 ^ 53" and "real p / real q * p2 e = real_of_int \<bar>i\<bar>"
    and "i < 0 \<Longrightarrow> s" and "0 < i \<Longrightarrow> \<not> s"
  shows "exact (double_round s p q e) i"
proof (cases "i = 0")
  case True
  then have "p = 0" using assms(1,3) by simp
  then show ?thesis using True exact_zero by (simp add: double_round_def)
next
  case False
  let ?n = "nat \<bar>i\<bar>"
  have n: "0 < ?n" "?n < 2 ^ 53" "real p / real q * p2 e = real ?n" using False assms by simp_all
  have "0 < p"
  proof (rule ccontr)
    assume "\<not> 0 < p"
    then have "real_of_int \<bar>i\<bar> = 0" using assms(3) by simp
    then show False using False by simp
  qed
  from double_round_exact [OF this assms(1) n]
  have fp: "fp_of_double (double_round s p q e) =
      Fin s (?n * 2 ^ (52 - ilog2 ?n)) (int (ilog2 ?n) - 52)" .
  have "ilog2 ?n \<le> 52" using ilog2_less [OF n(1,2)] by simp
  then have "p2 (int (ilog2 ?n) - 52) * 2 ^ (52 - ilog2 ?n) = 1"
    using p2_minus [of "52 - int (ilog2 ?n)"] p2_nat [of "52 - ilog2 ?n"] by (simp add: of_nat_diff)
  then have "real (?n * 2 ^ (52 - ilog2 ?n)) * p2 (int (ilog2 ?n) - 52) = real ?n"
    by (simp add: mult_ac)
  moreover have "s \<longleftrightarrow> i < 0" using False assms(4,5) by linarith
  ultimately show ?thesis unfolding exact_def fp by (auto simp: signed_of_def)
qed

lemma exact_of_int: "\<bar>i\<bar> < 2 ^ 53 \<Longrightarrow> exact (double_of_int i) i"
  unfolding double_of_int_def by (rule exact_round) simp_all

lemma signed_of_abs: "\<bar>signed_of s m\<bar> = int m"
  by (simp add: signed_of_def)

lemma exact_value_sign:
  assumes "real_of_int (signed_of s m) * p2 e = of_int i"
  shows "i < 0 \<Longrightarrow> s" and "0 < i \<Longrightarrow> \<not> s" and "real m * p2 e = real_of_int \<bar>i\<bar>"
    and "m = 0 \<longleftrightarrow> i = 0"
proof -
  have "real_of_int \<bar>i\<bar> = \<bar>real_of_int (signed_of s m) * p2 e\<bar>" using assms by simp
  also have "\<dots> = real_of_int \<bar>signed_of s m\<bar> * p2 e" by (simp add: abs_mult)
  finally show a: "real m * p2 e = real_of_int \<bar>i\<bar>" by (simp add: signed_of_abs)
  show "m = 0 \<longleftrightarrow> i = 0"
  proof
    assume "m = 0"
    then have "real_of_int \<bar>i\<bar> = 0" using a by simp
    then show "i = 0" by simp
  next
    assume "i = 0"
    then have "real m * p2 e = 0" using a by simp
    then show "m = 0" by simp
  qed
  have "\<not> s \<Longrightarrow> 0 \<le> real_of_int (signed_of s m) * p2 e" by (simp add: signed_of_def)
  then show "i < 0 \<Longrightarrow> s" unfolding assms by fastforce
  have "s \<Longrightarrow> real_of_int (signed_of s m) * p2 e \<le> 0" by (simp add: signed_of_def)
  then show "0 < i \<Longrightarrow> \<not> s" unfolding assms by fastforce
qed

lemma exact_mul:
  assumes "exact a i" and "exact b j" and "\<bar>i * j\<bar> < 2 ^ 53"
  shows "exact (double_mul a b) (i * j)"
proof -
  obtain s m e where a: "fp_of_double a = Fin s m e" "real_of_int (signed_of s m) * p2 e = of_int i"
    using assms(1) by (rule exactE)
  obtain t n f where b: "fp_of_double b = Fin t n f" "real_of_int (signed_of t n) * p2 f = of_int j"
    using assms(2) by (rule exactE)
  have "exact (double_round (s \<noteq> t) (m * n) 1 (e + f)) (i * j)"
  proof (rule exact_round)
    have "real (m * n) / real 1 * p2 (e + f) = (real m * p2 e) * (real n * p2 f)"
      by (simp add: p2_add)
    then show "real (m * n) / real 1 * p2 (e + f) = real_of_int \<bar>i * j\<bar>"
      using exact_value_sign(3) [OF a(2)] exact_value_sign(3) [OF b(2)] by (simp add: abs_mult)
    show "i * j < 0 \<Longrightarrow> s \<noteq> t"
      using exact_value_sign(1,2) [OF a(2)] exact_value_sign(1,2) [OF b(2)]
      by (auto simp: mult_less_0_iff)
    show "0 < i * j \<Longrightarrow> \<not> (s \<noteq> t)"
      using exact_value_sign(1,2) [OF a(2)] exact_value_sign(1,2) [OF b(2)]
      by (auto simp: zero_less_mult_iff)
  qed (use assms in simp_all)
  then show ?thesis by (simp add: double_mul_def a b)
qed

lemma exact_div:
  assumes "exact a (i * j)" and "exact b j" and "j \<noteq> 0" and "\<bar>i\<bar> < 2 ^ 53"
  shows "exact (double_div a b) i"
proof -
  obtain s m e where a: "fp_of_double a = Fin s m e"
      "real_of_int (signed_of s m) * p2 e = of_int (i * j)"
    using assms(1) by (rule exactE)
  obtain t n f where b: "fp_of_double b = Fin t n f" "real_of_int (signed_of t n) * p2 f = of_int j"
    using assms(2) by (rule exactE)
  have n: "n \<noteq> 0" using exact_value_sign(4) [OF b(2)] assms(3) by simp
  have "exact (double_round (s \<noteq> t) m n (e - f)) i"
  proof (rule exact_round)
    have "real m / real n * p2 (e - f) = (real m * p2 e) / (real n * p2 f)"
      using p2_add [of "e - f" f] n by (simp add: field_simps)
    then show "real m / real n * p2 (e - f) = real_of_int \<bar>i\<bar>"
      using exact_value_sign(3) [OF a(2)] exact_value_sign(3) [OF b(2)] assms(3)
      by (simp add: abs_mult)
    show "i < 0 \<Longrightarrow> s \<noteq> t"
      using exact_value_sign(1,2) [OF a(2)] exact_value_sign(1,2) [OF b(2)] assms(3)
      by (cases "0 < j") (auto simp: mult_less_0_iff zero_less_mult_iff)
    show "0 < i \<Longrightarrow> \<not> (s \<noteq> t)"
      using exact_value_sign(1,2) [OF a(2)] exact_value_sign(1,2) [OF b(2)] assms(3)
      by (cases "0 < j") (auto simp: mult_less_0_iff zero_less_mult_iff)
  qed (use assms n in simp_all)
  then show ?thesis using n by (simp add: double_div_def a b)
qed

lemma exact_add:
  assumes "exact a i" and "exact b j" and "\<bar>i + j\<bar> < 2 ^ 53"
  shows "exact (double_add a b) (i + j)"
proof -
  obtain s m e where a: "fp_of_double a = Fin s m e" "real_of_int (signed_of s m) * p2 e = of_int i"
    using assms(1) by (rule exactE)
  obtain t n f where b: "fp_of_double b = Fin t n f" "real_of_int (signed_of t n) * p2 f = of_int j"
    using assms(2) by (rule exactE)
  define g where "g = min e f"
  define x where "x = signed_of s (m * 2 ^ nat (e - g)) + signed_of t (n * 2 ^ nat (f - g))"
  have shift: "real_of_int (signed_of r (k * 2 ^ nat (h - g))) * p2 g = real_of_int (signed_of r k) * p2 h"
    if "g \<le> h" for r k h
  proof -
    have "2 ^ nat (h - g) * p2 g = p2 h"
      using that p2_nat [of "nat (h - g)"] p2_add [of "h - g" g] by simp
    then show ?thesis by (simp add: signed_of_def mult.assoc)
  qed
  have val: "real_of_int x * p2 g = of_int (i + j)"
    using shift [of e s m] shift [of f t n] a(2) b(2) unfolding x_def
    by (simp add: g_def distrib_right)
  have add: "double_add a b = (if x = 0 then double_zero (s \<and> t)
      else double_round (x < 0) (nat \<bar>x\<bar>) 1 g)"
    by (simp add: double_add_def a b x_def g_def Let_def)
  show ?thesis
  proof (cases "x = 0")
    case True
    then have "real_of_int (i + j) = 0" using val by simp
    then have "i + j = 0" by linarith
    then show ?thesis using True exact_zero by (simp add: add)
  next
    case False
    have "exact (double_round (x < 0) (nat \<bar>x\<bar>) 1 g) (i + j)"
    proof (rule exact_round)
      have "real (nat \<bar>x\<bar>) * p2 g = \<bar>real_of_int x * p2 g\<bar>" by (simp add: abs_mult)
      then show "real (nat \<bar>x\<bar>) / real 1 * p2 g = real_of_int \<bar>i + j\<bar>" unfolding val by simp
      have "0 \<le> x \<Longrightarrow> 0 \<le> real_of_int x * p2 g" by simp
      then show "i + j < 0 \<Longrightarrow> x < 0" unfolding val by (metis not_less of_int_0_le_iff)
      have "x < 0 \<Longrightarrow> real_of_int x * p2 g \<le> 0" by (simp add: mult_nonpos_nonneg)
      then show "0 < i + j \<Longrightarrow> \<not> x < 0" unfolding val by (metis not_less of_int_le_0_iff)
    qed (use assms in simp_all)
    then show ?thesis using False by (simp add: add)
  qed
qed

text \<open>Subtraction adds the number with its sign bit flipped.\<close>

lemma flip_bit: "bit (b XOR push_bit 63 1 :: double) j \<longleftrightarrow> bit b j \<noteq> (j = 63)"
proof -
  have "bit (push_bit 63 1 :: double) j \<longleftrightarrow> j = 63" using sign64_bit [of True j] by (simp add: sign64_def)
  then show ?thesis by (simp only: bit_xor_iff)
qed

lemma fp_of_flip:
  assumes "fp_of_double b = Fin s m e"
  shows "fp_of_double (b XOR push_bit 63 1) = Fin (\<not> s) m e"
proof -
  let ?c = "b XOR push_bit 63 1"
  have sgn: "bit ?c 63 \<longleftrightarrow> \<not> bit b 63" unfolding flip_bit by simp
  have ex: "take_bit 11 (drop_bit 52 ?c) = take_bit 11 (drop_bit 52 b)"
    by (rule u64_eqI) (auto simp only: bit_take_bit_iff bit_drop_bit_eq comp_apply flip_bit)
  have fr: "take_bit 52 ?c = take_bit 52 b"
    by (rule u64_eqI) (auto simp only: bit_take_bit_iff flip_bit)
  show ?thesis
    using assms unfolding fp_of_double_def Let_def sgn ex fr by (simp split: if_splits)
qed

lemma exact_sub:
  assumes "exact a i" and "exact b j" and "\<bar>i - j\<bar> < 2 ^ 53"
  shows "exact (double_sub a b) (i - j)"
proof -
  obtain t n f where b: "fp_of_double b = Fin t n f" "real_of_int (signed_of t n) * p2 f = of_int j"
    using assms(2) by (rule exactE)
  have "exact (b XOR push_bit 63 1) (- j)"
    unfolding exact_def fp_of_flip [OF b(1)] using b(2) by (auto simp: signed_of_def)
  then show ?thesis using exact_add [OF assms(1), of "b XOR push_bit 63 1" "- j"] assms(3)
    by (simp add: double_sub_def)
qed

lemma exact_trunc:
  assumes "exact w i"
  shows "trunc_double w = Some i"
proof -
  obtain s m e where w: "fp_of_double w = Fin s m e" "real_of_int (signed_of s m) * p2 e = of_int i"
    using assms by (rule exactE)
  have a: "real m * p2 e = real_of_int \<bar>i\<bar>" by (rule exact_value_sign(3) [OF w(2)])
  have abs: "(if 0 \<le> e then m * 2 ^ nat e else m div 2 ^ nat (- e)) = nat \<bar>i\<bar>"
  proof (cases "0 \<le> e")
    case True
    then have "real (m * 2 ^ nat e) = real (nat \<bar>i\<bar>)" using a p2_nat [of "nat e"] by simp
    then show ?thesis using True by (simp only: of_nat_eq_iff if_True)
  next
    case False
    then have "p2 e * 2 ^ nat (- e) = 1" using p2_minus [of e] p2_nat [of "nat (- e)"] by (simp add: mult.commute)
    then have "real m = real (nat \<bar>i\<bar>) * 2 ^ nat (- e)" using a by (metis mult.assoc mult.right_neutral of_nat_nat abs_ge_zero of_int_of_nat_eq)
    then have "real m = real (nat \<bar>i\<bar> * 2 ^ nat (- e))" by simp
    then have "m = nat \<bar>i\<bar> * 2 ^ nat (- e)" by (simp only: of_nat_eq_iff)
    then show ?thesis using False by simp
  qed
  have "signed_of s (nat \<bar>i\<bar>) = i"
    using exact_value_sign(1,2) [OF w(2)]
    by (cases i "0 :: int" rule: linorder_cases) (auto simp: signed_of_def)
  then show ?thesis unfolding trunc_double_def w(1) by (simp add: abs)
qed

lemma exact_one: "exact double_one 1"
proof -
  have "fp_of_double double_one = Fin False (2 ^ 52) (- 52)"
    by (simp add: fp_of_double_def double_one_def Let_def)
  moreover have "real_of_int (signed_of False (2 ^ 52)) * p2 (- 52) = 1"
    using p2_minus [of 52] by (simp add: signed_of_def mult.commute)
  ultimately show ?thesis unfolding exact_def by force
qed

end
