(* ===== verification/SignalPhys.thy ===== *)
theory SignalPhys
  imports SignalProps DoubleProps
begin

text \<open>
  The conversions between raw and physical values (\<open>raw_to_phys\<close> and \<open>phys_to_raw\<close> of
  \<open>src/src/SignalImpl.cpp\<close>), called through \<open>ISignal::RawToPhys\<close> and \<open>ISignal::PhysToRaw\<close>.
\<close>

section \<open>The conversions\<close>

text \<open>
  \<open>double(*reinterpret_cast<T*>(&raw))\<close>. A \<open>float\<close> is the first four bytes of the raw value in
  memory: its low half on a little-endian machine and its high half on a big-endian one.
\<close>

definition reinterpret_raw :: "Endian \<Rightarrow> phys_func_t \<Rightarrow> u64 \<Rightarrow> double" where
  "reinterpret_raw native f raw =
     (case f of
        Phys_int64 \<Rightarrow> double_of_int (sint raw)
      | Phys_uint64 \<Rightarrow> double_of_int (uint raw)
      | Phys_float \<Rightarrow> double_of_float (case native of
            Little \<Rightarrow> ucast raw | Big \<Rightarrow> ucast (drop_bit 32 raw))
      | Phys_double \<Rightarrow> raw)"

definition raw_to_phys :: "Endian \<Rightarrow> phys_func_t \<Rightarrow> 'a signal_data_scheme \<Rightarrow> u64 \<Rightarrow> double" where
  "raw_to_phys native f sigi raw =
     (let draw = reinterpret_raw native f raw
      in double_add (double_mul draw (sig_factor sigi)) (sig_offset sigi))"

text \<open>
  \<open>T((phys - offset) / factor)\<close>, whose eight bytes are then read as the raw value: an object of
  type \<open>float\<close> has only four, so reading it is undefined behaviour.
\<close>

definition phys_to_raw :: "phys_func_t \<Rightarrow> 'a signal_data_scheme \<Rightarrow> double \<Rightarrow> u64 option" where
  "phys_to_raw f sigi phys =
     (let q = double_div (double_sub phys (sig_offset sigi)) (sig_factor sigi)
      in case f of
           Phys_int64 \<Rightarrow> i64_of_double q
         | Phys_uint64 \<Rightarrow> u64_of_double q
         | Phys_float \<Rightarrow> None
         | Phys_double \<Rightarrow> Some q)"

text \<open>The calls through the function pointers the constructor has set.\<close>

definition RawToPhys :: "Endian \<Rightarrow> SignalImpl \<Rightarrow> u64 \<Rightarrow> double" where
  "RawToPhys native sigi raw = raw_to_phys native (sig_raw_to_phys sigi) sigi raw"

definition PhysToRaw :: "SignalImpl \<Rightarrow> double \<Rightarrow> u64 option" where
  "PhysToRaw sigi phys = phys_to_raw (sig_phys_to_raw sigi) sigi phys"

section \<open>Integer signals\<close>

text \<open>The integer a raw value stands for.\<close>

definition raw_int :: "EValueType \<Rightarrow> u64 \<Rightarrow> int" where
  "raw_int vt raw = (case vt of Signed \<Rightarrow> sint raw | Unsigned \<Rightarrow> uint raw)"

lemma raw_int_inj: "raw_int vt (word_of_int (raw_int vt raw)) = raw_int vt raw"
  by (cases vt) (simp_all add: raw_int_def)

lemma of_raw_int: "word_of_int (raw_int vt raw) = raw"
  by (cases vt) (simp_all add: raw_int_def)

lemma small_factor:
  fixes r f :: int
  assumes "f \<noteq> 0" and "\<bar>r * f\<bar> < b"
  shows "\<bar>r\<bar> < b"
proof -
  have "1 \<le> \<bar>f\<bar>" using assms(1) by linarith
  then have "\<bar>r\<bar> * 1 \<le> \<bar>r\<bar> * \<bar>f\<bar>" by (intro mult_left_mono) simp_all
  then show ?thesis using assms(2) by (simp add: abs_mult)
qed

text \<open>C13. The physical value of an integer signal whose factor and offset are integers is exactly
  \<open>raw * factor + offset\<close>, and converting it back gives the raw value, as long as the numbers stay
  below \<open>2^53\<close> in absolute value.\<close>

theorem phys_roundtrip:
  assumes "SignalImpl_new pf ms d = Some s" and "sig_extended_value_type d = EVT_Integer"
    and "exact (sig_factor d) f" and "f \<noteq> 0" and "exact (sig_offset d) o'"
    and "\<bar>raw_int (sig_value_type d) raw * f\<bar> < 2 ^ 53"
    and "\<bar>raw_int (sig_value_type d) raw * f + o'\<bar> < 2 ^ 53"
  shows "exact (RawToPhys native s raw) (raw_int (sig_value_type d) raw * f + o') \<and>
     PhysToRaw s (RawToPhys native s raw) = Some raw"
proof -
  let ?r = "raw_int (sig_value_type d) raw" and ?p = "RawToPhys native s raw"
  have s: "signal_data.truncate s = d" "sig_raw_to_phys s = phys_func EVT_Integer (sig_value_type d)"
    "sig_phys_to_raw s = phys_func EVT_Integer (sig_value_type d)"
    using assms(1,2) by (auto elim: SignalImpl_new_SomeD)
  note sel = truncate_sel [OF s(1)]
  have r: "\<bar>?r\<bar> < 2 ^ 53" using assms(4,6) by (rule small_factor)
  have draw: "reinterpret_raw native (sig_raw_to_phys s) raw = double_of_int ?r"
    by (cases "sig_value_type d") (simp_all add: s phys_func_def reinterpret_raw_def raw_int_def)
  have p: "exact ?p (?r * f + o')"
    unfolding RawToPhys_def raw_to_phys_def draw Let_def sel
    by (intro exact_add exact_mul exact_of_int) (use assms r in simp_all)
  have "exact (double_sub ?p (sig_offset s)) (?r * f)"
    using exact_sub [OF p, of "sig_offset s" o'] assms by (simp add: sel)
  then have "exact (double_div (double_sub ?p (sig_offset s)) (sig_factor s)) ?r"
    by (rule exact_div) (use assms r in \<open>simp_all add: sel\<close>)
  then have t: "trunc_double (double_div (double_sub ?p (sig_offset s)) (sig_factor s)) = Some ?r"
    by (rule exact_trunc)
  have u: "sig_value_type d = Unsigned \<Longrightarrow> 0 \<le> ?r" by (simp add: raw_int_def)
  have "PhysToRaw s ?p = Some (word_of_int ?r)"
    using r u by (cases "sig_value_type d")
      (auto simp: PhysToRaw_def phys_to_raw_def s phys_func_def Let_def i64_of_double_def
        u64_of_double_def t)
  then show ?thesis using p by (simp add: of_raw_int)
qed

text \<open>A temperature of one byte: factor 2, offset -40.\<close>

definition ex_temperature :: signal_data where
  "ex_temperature = (ex_signal 8 8 BigEndian Unsigned)
     \<lparr>sig_factor := double_of_int 2, sig_offset := double_of_int (- 40)\<rparr>"

theorem phys_roundtrip_witness:
  "exact (RawToPhys Big (ex_impl 8 ex_temperature) 75) 110 \<and>
   PhysToRaw (ex_impl 8 ex_temperature) (RawToPhys Big (ex_impl 8 ex_temperature) 75) = Some 75"
proof -
  have "SignalImpl_new ieee 8 ex_temperature = Some (ex_impl 8 ex_temperature)"
    by (rule ex_impl) (simp_all add: ex_temperature_def ex_signal_def)
  moreover have "sig_extended_value_type ex_temperature = EVT_Integer"
    "sig_value_type ex_temperature = Unsigned" "sig_factor ex_temperature = double_of_int 2"
    "sig_offset ex_temperature = double_of_int (- 40)"
    by (simp_all add: ex_temperature_def ex_signal_def)
  moreover have "exact (double_of_int 2) 2" "exact (double_of_int (- 40)) (- 40)"
    by (rule exact_of_int; simp)+
  ultimately show ?thesis
    using phys_roundtrip [of ieee 8 ex_temperature "ex_impl 8 ex_temperature" 2 "- 40" 75 Big]
    by (simp add: raw_int_def)
qed

section \<open>Floating-point signals\<close>

text \<open>\<open>PhysToRaw\<close> of a \<open>float\<close> signal is undefined behaviour whatever the value: the function
  reads eight bytes of a four-byte object. \<open>RawToPhys\<close> of such a signal looks at one half of the
  raw value only: the low half on a little-endian machine, the high half on a big-endian one, where
  \<open>Decode\<close> leaves zero.\<close>

theorem float_phys:
  assumes "SignalImpl_new pf ms d = Some s" and "sig_extended_value_type d = EVT_Float"
  shows "PhysToRaw s phys = None \<and>
     (take_bit 32 raw = take_bit 32 raw' \<longrightarrow> RawToPhys Little s raw = RawToPhys Little s raw') \<and>
     (drop_bit 32 raw = 0 \<longrightarrow> RawToPhys Big s raw = RawToPhys Big s 0)"
proof (intro conjI impI)
  have f: "sig_raw_to_phys s = Phys_float" "sig_phys_to_raw s = Phys_float"
    using assms by (auto elim: SignalImpl_new_SomeD simp: phys_func_def)
  show "PhysToRaw s phys = None" by (simp add: PhysToRaw_def phys_to_raw_def f)
  show "RawToPhys Big s raw = RawToPhys Big s 0" if "drop_bit 32 raw = 0"
    unfolding RawToPhys_def raw_to_phys_def reinterpret_raw_def f using that by simp
  show "RawToPhys Little s raw = RawToPhys Little s raw'" if e: "take_bit 32 raw = take_bit 32 raw'"
  proof -
    have "ucast raw = (ucast raw' :: u32)"
    proof (rule bit_word_eqI)
      fix j :: nat assume "j < LENGTH(32)"
      then have "bit (take_bit 32 raw) j = bit raw j" "bit (take_bit 32 raw') j = bit raw' j"
        by (simp_all add: bit_take_bit_iff)
      then show "bit (ucast raw :: u32) j = bit (ucast raw' :: u32) j"
        unfolding bit_ucast_iff e by simp
    qed
    then show ?thesis by (simp add: RawToPhys_def raw_to_phys_def reinterpret_raw_def f)
  qed
qed

theorem float_phys_witness:
  "PhysToRaw (ex_impl 8 ((ex_signal 0 32 LittleEndian Signed)\<lparr>sig_extended_value_type := EVT_Float\<rparr>))
     double_one = None \<and>
   RawToPhys Big (ex_impl 8 ((ex_signal 0 32 LittleEndian Signed)
     \<lparr>sig_extended_value_type := EVT_Float\<rparr>)) 0x3F800000 =
   RawToPhys Big (ex_impl 8 ((ex_signal 0 32 LittleEndian Signed)
     \<lparr>sig_extended_value_type := EVT_Float\<rparr>)) 0"
proof -
  let ?d = "(ex_signal 0 32 LittleEndian Signed)\<lparr>sig_extended_value_type := EVT_Float\<rparr>"
  have "SignalImpl_new ieee 8 ?d = Some (ex_impl 8 ?d)"
    by (rule ex_impl) (simp_all add: ex_signal_def)
  then show ?thesis
    using float_phys [where pf = ieee and ms = 8 and d = ?d and phys = double_one and raw = "0x3F800000"]
    by simp
qed

end
