(* ===== verification/DecodeTool.thy ===== *)
theory DecodeTool
  imports SignalPhys Network Text
begin

text \<open>
  The \<open>decode\<close> program of \<open>src/tools/dbcppp/main.cpp\<close>: it reads lines written by candump, finds
  the message of each frame and prints the values of its signals. The command line parser is a
  library; the options it delivers are arguments here, and so is the function that loads a
  DBC file.
\<close>

section \<open>The regular expression\<close>

text \<open>
  The elements of \<open>regex_candump_line\<close>: at least \<open>rx_min\<close> and at most \<open>rx_max\<close> characters of a
  class, as a capture group or not, perhaps optional. Matching is greedy and backtracks; the
  result holds the capture groups, \<open>None\<close> for a group that took no part.
\<close>

record rx =
  rx_class :: "char \<Rightarrow> bool"
  rx_min :: nat
  rx_max :: "nat option"
  rx_capture :: bool
  rx_optional :: bool

text \<open>The lengths an element may take of a text, the preferred ones first.\<close>

definition rx_lengths :: "rx \<Rightarrow> string \<Rightarrow> nat list" where
  "rx_lengths r t =
     (let n = length (takeWhile (rx_class r) t);
          n = (case rx_max r of None \<Rightarrow> n | Some b \<Rightarrow> min b n)
      in rev [rx_min r..<Suc n])"

fun first_some :: "('a \<Rightarrow> 'b option) \<Rightarrow> 'a list \<Rightarrow> 'b option" where
  "first_some f [] = None"
| "first_some f (x # xs) = (case f x of Some y \<Rightarrow> Some y | None \<Rightarrow> first_some f xs)"

primrec rx_match :: "rx list \<Rightarrow> string \<Rightarrow> string option list option" where
  "rx_match [] t = (if t = [] then Some [] else None)"
| "rx_match (r # rs) t =
     (case first_some (\<lambda>k. map_option (\<lambda>cs. if rx_capture r then Some (take k t) # cs else cs)
               (rx_match rs (drop k t))) (rx_lengths r t) of
        Some cs \<Rightarrow> Some cs
      | None \<Rightarrow>
          if rx_optional r
          then map_option (\<lambda>cs. if rx_capture r then None # cs else cs) (rx_match rs t) else None)"

definition rx_spaces :: rx where
  "rx_spaces = \<lparr>rx_class = is_space, rx_min = 0, rx_max = None, rx_capture = False,
     rx_optional = False\<rparr>"

definition rx_hex :: "nat \<Rightarrow> bool \<Rightarrow> rx" where
  "rx_hex n opt = \<lparr>rx_class = (\<lambda>c. is_digit c \<or> c \<in> set ''ABCDEF''), rx_min = n, rx_max = Some n,
     rx_capture = True, rx_optional = opt\<rparr>"

definition rx_char :: "char \<Rightarrow> rx" where
  "rx_char c = \<lparr>rx_class = (\<lambda>d. d = c), rx_min = 1, rx_max = Some 1, rx_capture = False,
     rx_optional = False\<rparr>"

definition rx_some :: "(char \<Rightarrow> bool) \<Rightarrow> rx" where
  "rx_some P = \<lparr>rx_class = P, rx_min = 1, rx_max = None, rx_capture = True, rx_optional = False\<rparr>"

definition regex_candump_line :: "rx list" where
  "regex_candump_line =
     [rx_spaces, rx_some (\<lambda>c. \<not> is_space c),
      rx_spaces, rx_hex 3 False,
      rx_spaces, rx_char (CHR ''[''), rx_some is_digit, rx_char (CHR '']'')] @
     concat (replicate 8 [rx_spaces, rx_hex 2 True])"

text \<open>\<open>cm[n].str()\<close>: empty when the group, or the whole line, did not match.\<close>

definition group :: "string option list option \<Rightarrow> nat \<Rightarrow> string" where
  "group cm n =
     (case cm of
        None \<Rightarrow> []
      | Some cs \<Rightarrow> if 1 \<le> n \<and> n \<le> length cs then (case cs ! (n - 1) of Some t \<Rightarrow> t | None \<Rightarrow> []) else [])"

text \<open>\<open>strtol\<close> with base 16, on a text of hexadecimal digits or the empty one.\<close>

definition hex_digit :: "char \<Rightarrow> nat" where
  "hex_digit c = (if is_digit c then of_char c - 48 else of_char c - 55)"

definition strtol16 :: "string \<Rightarrow> nat" where
  "strtol16 t = foldl (\<lambda>n c. 16 * n + hex_digit c) 0 t"

section \<open>Frames\<close>

text \<open>
  The loop that fills \<open>std::array<uint8_t, 8> data\<close>: writing past the eighth byte is undefined
  behaviour. \<open>junk\<close> is what the array holds before.
\<close>

fun fill_data :: "string option list option \<Rightarrow> nat \<Rightarrow> nat \<Rightarrow> u8 list \<Rightarrow> u8 list option" where
  "fill_data cm i 0 data = Some data"
| "fill_data cm i (Suc n) data =
     (if i < length data
      then fill_data cm (Suc i) n (data[i := of_nat (strtol16 (group cm (4 + i)))]) else None)"

text \<open>
  \<open>msg_size\<close> counts down in \<open>nat\<close>: beyond eight iterations the loop has already failed, so the
  count is cut at nine.
\<close>

definition read_data :: "u8 list \<Rightarrow> string option list option \<Rightarrow> u64 \<Rightarrow> u8 list option" where
  "read_data junk cm msg_size = fill_data cm 0 (min 9 (unat msg_size)) junk"

section \<open>Printing a signal\<close>

definition print_signal_value :: "Endian \<Rightarrow> u8 list \<Rightarrow> SignalImpl \<Rightarrow> bool \<Rightarrow> string option" where
  "print_signal_value native data sig is_first = do {
     raw \<leftarrow> Decode native sig data;
     let sep = (if \<not> is_first then '', '' else []);
     (case find (\<lambda>ved. ved_value ved = raw) (sig_value_encoding_descriptions sig) of
        Some ved \<Rightarrow>
          Some (sep @ sig_name sig @ '': '' @ [CHR 0x27] @ ved_description ved @ [CHR 0x27] @ '' '' @
                sig_unit sig)
      | None \<Rightarrow>
          Some (sep @ sig_name sig @ '': '' @ show_double (RawToPhys native sig raw) @
                (if sig_unit sig \<noteq> [] then '' '' @ sig_unit sig else []))) }"

section \<open>Extended multiplexing\<close>

text \<open>The two loops of \<open>check_signal_multiplexer_values\<close> visit the switches that exist, each with
  its ranges.\<close>

definition switch_ranges :: "MessageImpl \<Rightarrow> SignalImpl \<Rightarrow> (SignalImpl \<times> Range) list" where
  "switch_ranges msg sig =
     concat (map (\<lambda>smv.
       case find (\<lambda>s. sig_name s = smv_switch_name smv) (msg_signals msg) of
         Some s \<Rightarrow> map (\<lambda>r. (s, r)) (smv_value_ranges smv)
       | None \<Rightarrow> []) (sig_signal_multiplexer_values sig))"

text \<open>The switch of the first range that passes the test; \<open>None\<close> outside is undefined behaviour of
  \<open>Decode\<close>.\<close>

fun first_hit :: "Endian \<Rightarrow> u8 list \<Rightarrow> (SignalImpl \<times> Range) list \<Rightarrow> SignalImpl option option" where
  "first_hit native data [] = Some None"
| "first_hit native data ((s, ranges) # rest) = do {
     raw \<leftarrow> Decode native s data;
     if range_from ranges \<ge> raw \<and> range_to ranges \<le> raw then Some (Some s)
     else first_hit native data rest }"

text \<open>
  The recursion follows the switch that was hit and need not end; not returning is the outer
  \<open>None\<close>, undefined behaviour the inner one.
\<close>

partial_function (option) check_signal_multiplexer_values ::
    "Endian \<Rightarrow> u8 list \<Rightarrow> MessageImpl \<Rightarrow> SignalImpl \<Rightarrow> bool option option" where
  "check_signal_multiplexer_values native data msg sig =
     (case first_hit native data (switch_ranges msg sig) of
        None \<Rightarrow> Some None
      | Some None \<Rightarrow> Some (Some False)
      | Some (Some s) \<Rightarrow>
          if sig_signal_multiplexer_values s \<noteq> []
          then check_signal_multiplexer_values native data msg s
          else Some (Some True))"

text \<open>Whether a signal is printed.\<close>

definition signal_shown ::
    "Endian \<Rightarrow> u8 list \<Rightarrow> MessageImpl \<Rightarrow> SignalImpl \<Rightarrow> bool option option" where
  "signal_shown native data msg sig =
     (if sig_multiplexer_indicator sig \<noteq> MuxValue then Some (Some True)
      else
        (case (if sig_signal_multiplexer_values sig = [] then MuxSignal msg else None) of
           Some mux \<Rightarrow>
             (case Decode native mux data of
                None \<Rightarrow> Some None
              | Some v \<Rightarrow>
                  if sig_multiplexer_switch_value sig = v then Some (Some True)
                  else check_signal_multiplexer_values native data msg sig)
         | None \<Rightarrow> check_signal_multiplexer_values native data msg sig))"

section \<open>A message and a line\<close>

fun print_signal_values ::
    "Endian \<Rightarrow> u8 list \<Rightarrow> MessageImpl \<Rightarrow> SignalImpl list \<Rightarrow> bool \<Rightarrow> string option option" where
  "print_signal_values native data msg [] is_first = Some (Some [])"
| "print_signal_values native data msg (sig # sigs) is_first = do {
     shown \<leftarrow> signal_shown native data msg sig;
     (case shown of
        None \<Rightarrow> Some None
      | Some False \<Rightarrow> print_signal_values native data msg sigs is_first
      | Some True \<Rightarrow>
          (case print_signal_value native data sig is_first of
             None \<Rightarrow> Some None
           | Some t \<Rightarrow> map_option (map_option (\<lambda>rest. t @ rest))
                        (print_signal_values native data msg sigs False))) }"

definition decode_frame :: "Endian \<Rightarrow> string \<Rightarrow> u8 list \<Rightarrow> MessageImpl \<Rightarrow> string option option" where
  "decode_frame native line data msg =
     map_option (map_option (\<lambda>t. line @ '' :: '' @ msg_name msg @ ''('' @ t @ '')'' @ newline))
       (print_signal_values native data msg (msg_signals msg) True)"

definition decode_line ::
    "Endian \<Rightarrow> u8 list \<Rightarrow> (string \<rightharpoonup> NetworkImpl) \<Rightarrow> string \<Rightarrow> string option option" where
  "decode_line native junk buses line =
     (let cm = rx_match regex_candump_line (takeWhile (\<lambda>c. c \<noteq> CHR 0x00) line)
      in case buses (group cm 1) of
           None \<Rightarrow> Some (Some [])
         | Some net \<Rightarrow>
             (let msg_id' = of_nat (strtol16 (group cm 2))
              in case do {
                   msg_size \<leftarrow> atoi (group cm 3);
                   read_data junk cm (word_of_int msg_size) } of
                   None \<Rightarrow> Some None
                 | Some data \<Rightarrow>
                     (case find (\<lambda>msg. msg_id msg = msg_id') (net_messages net) of
                        None \<Rightarrow> Some (Some [])
                      | Some msg \<Rightarrow> decode_frame native line data msg)))"

section \<open>The program\<close>

text \<open>A bus option: a name, a colon and a file name; both \<open>getline\<close> calls fail on an empty rest.\<close>

definition parse_bus :: "string \<Rightarrow> (string \<times> string) option" where
  "parse_bus opt =
     (let name = takeWhile (\<lambda>c. c \<noteq> CHR '':'') opt; rest = drop 1 (dropWhile (\<lambda>c. c \<noteq> CHR '':'') opt)
      in if opt = [] \<or> rest = [] then None
         else Some (name, takeWhile (\<lambda>c. c \<noteq> CHR 0x0A) rest))"

text \<open>\<open>unordered_map::insert\<close> keeps the entry that is there.\<close>

definition insert_bus :: "string \<Rightarrow> NetworkImpl \<Rightarrow> (string \<rightharpoonup> NetworkImpl) \<Rightarrow> (string \<rightharpoonup> NetworkImpl)"
  where
  "insert_bus name net buses = (if buses name = None then buses(name \<mapsto> net) else buses)"

text \<open>The loop over the options: the message of an error, or the buses.\<close>

fun load_buses ::
    "(string \<Rightarrow> NetworkImpl option) \<Rightarrow> string list \<Rightarrow> (string \<rightharpoonup> NetworkImpl) \<Rightarrow>
     string + (string \<rightharpoonup> NetworkImpl)" where
  "load_buses load [] buses = Inr buses"
| "load_buses load (opt # opts) buses =
     (case parse_bus opt of
        None \<Rightarrow> Inl (''error: could parse bus parameter'' @ newline)
      | Some (name, file) \<Rightarrow>
          (case load file of
             None \<Rightarrow> Inl (''error: could not load DBC '' @ [CHR 0x27] @ file @ [CHR 0x27] @ newline)
           | Some net \<Rightarrow> load_buses load opts (insert_bus name net buses)))"

text \<open>The text the program writes for the lines of its input, and its exit code. The contents of the
  uninitialised array may differ from line to line.\<close>

fun decode_lines ::
    "Endian \<Rightarrow> (nat \<Rightarrow> u8 list) \<Rightarrow> (string \<rightharpoonup> NetworkImpl) \<Rightarrow> nat \<Rightarrow> string list \<Rightarrow> string option option"
  where
  "decode_lines native junk buses k [] = Some (Some [])"
| "decode_lines native junk buses k (line # lines) = do {
     out \<leftarrow> decode_line native (junk k) buses line;
     (case out of
        None \<Rightarrow> Some None
      | Some t \<Rightarrow> map_option (map_option (\<lambda>rest. t @ rest))
                   (decode_lines native junk buses (Suc k) lines)) }"

definition decode_main ::
    "Endian \<Rightarrow> (nat \<Rightarrow> u8 list) \<Rightarrow> (string \<Rightarrow> NetworkImpl option) \<Rightarrow> string list \<Rightarrow> string list \<Rightarrow>
     (string \<times> nat) option option" where
  "decode_main native junk load opt_buses lines =
     (case load_buses load opt_buses Map.empty of
        Inl message \<Rightarrow> Some (Some (message, 1))
      | Inr buses \<Rightarrow> map_option (map_option (\<lambda>t. (t, 0))) (decode_lines native junk buses 0 lines))"

end
