(* ===== verification/DecodeToolProps.thy ===== *)
theory DecodeToolProps
  imports DecodeTool NetworkProps
begin

text \<open>
  The decode program: how it reads the lines candump writes, when its search for the switches of
  extended multiplexing ends, and what its test of the switch ranges admits.
\<close>

section \<open>Extended multiplexing\<close>

lemma switch_in_message:
  "(s, r) \<in> set (switch_ranges msg sig) \<Longrightarrow> s \<in> set (msg_signals msg)"
  by (auto simp: switch_ranges_def find_Some_iff2 find_Some_iff split: option.splits)

lemma first_hit_in:
  "first_hit native data xs = Some (Some s) \<Longrightarrow> \<exists>r. (s, r) \<in> set xs"
  by (induction native data xs rule: first_hit.induct) (auto simp: bind_eq_Some_conv split: if_splits)

text \<open>A rank of the signals that decreases from a signal to its switches.\<close>

definition ranked :: "(SignalImpl \<Rightarrow> nat) \<Rightarrow> MessageImpl \<Rightarrow> bool" where
  "ranked rank msg \<longleftrightarrow>
     (\<forall>s \<in> set (msg_signals msg). \<forall>(s', r) \<in> set (switch_ranges msg s). rank s' < rank s)"

lemma check_returns:
  assumes "ranked rank msg"
  shows "sig \<in> set (msg_signals msg) \<Longrightarrow>
     check_signal_multiplexer_values native data msg sig \<noteq> None"
proof (induction "rank sig" arbitrary: sig rule: less_induct)
  case less
  show ?case
  proof (cases "first_hit native data (switch_ranges msg sig)")
    case None
    then show ?thesis by (simp add: check_signal_multiplexer_values.simps)
  next
    case (Some h)
    show ?thesis
    proof (cases h)
      case None
      then show ?thesis using Some by (simp add: check_signal_multiplexer_values.simps)
    next
      case (Some s)
      then obtain r where r: "(s, r) \<in> set (switch_ranges msg sig)"
        using first_hit_in \<open>first_hit native data (switch_ranges msg sig) = Some h\<close> by blast
      have "rank s < rank sig" using assms less.prems r by (auto simp: ranked_def)
      then have "check_signal_multiplexer_values native data msg s \<noteq> None"
        using less.hyps switch_in_message [OF r] by blast
      then show ?thesis
        using Some \<open>first_hit native data (switch_ranges msg sig) = Some h\<close>
        by (simp add: check_signal_multiplexer_values.simps [of native data msg sig])
    qed
  qed
qed

lemma signal_shown_returns:
  assumes "ranked rank msg" and "sig \<in> set (msg_signals msg)"
  shows "signal_shown native data msg sig \<noteq> None"
  using check_returns [OF assms, of native data]
  by (auto simp: signal_shown_def split: option.split)

lemma print_signal_values_returns:
  assumes "ranked rank msg" and "set sigs \<subseteq> set (msg_signals msg)"
  shows "print_signal_values native data msg sigs is_first \<noteq> None"
  using assms(2)
proof (induction sigs arbitrary: is_first)
  case (Cons sig sigs)
  then obtain shown where shown: "signal_shown native data msg sig = Some shown"
    using signal_shown_returns [OF assms(1), of sig native data] by auto
  show ?case
    using Cons by (cases shown; cases "the shown"; cases "print_signal_value native data sig is_first")
      (auto simp: shown)
qed simp

text \<open>C22. Printing the signals of a message ends whenever the switches of its extended multiplexing do
  not form a cycle: when the signals can be ranked so that every switch of a signal has a smaller
  rank.\<close>

theorem decode_frame_returns:
  assumes "ranked rank msg"
  shows "\<exists>r. decode_frame native line data msg = Some r"
  using print_signal_values_returns [OF assms, of "msg_signals msg" native data True]
  by (auto simp: decode_frame_def)

text \<open>A switch that is its own switch: the recursion calls itself on it forever.\<close>

lemma check_self:
  assumes "first_hit native data (switch_ranges msg sig) = Some (Some sig)"
    and "sig_signal_multiplexer_values sig \<noteq> []"
  shows "check_signal_multiplexer_values native data msg sig = None"
proof (rule ccontr)
  assume "check_signal_multiplexer_values native data msg sig \<noteq> None"
  then obtain r where ret: "check_signal_multiplexer_values native data msg sig = Some r" by blast
  have "(n, d, m, s) \<noteq> (native, data, msg, sig)"
    if "check_signal_multiplexer_values n d m s = Some r" for n d m s r
  proof (rule check_signal_multiplexer_values.raw_induct
      [where P = "\<lambda>n d m s r. (n, d, m, s) \<noteq> (native, data, msg, sig)", OF _ that])
    fix f n d m s r
    assume IH: "\<And>n d m s r. f n d m s = Some r \<Longrightarrow> (n, d, m, s) \<noteq> (native, data, msg, sig)"
      and eq: "(case first_hit n d (switch_ranges m s) of
        None \<Rightarrow> Some None
      | Some None \<Rightarrow> Some (Some False)
      | Some (Some s) \<Rightarrow> if sig_signal_multiplexer_values s \<noteq> [] then f n d m s else Some (Some True)) =
        Some r"
    show "(n, d, m, s) \<noteq> (native, data, msg, sig)"
    proof
      assume "(n, d, m, s) = (native, data, msg, sig)"
      then have "f native data msg sig = Some r" using eq assms by simp
      then show False using IH by blast
    qed
  qed
  then show False using ret by blast
qed

definition ex_extended :: "string \<Rightarrow> string \<Rightarrow> u64 \<Rightarrow> u64 \<Rightarrow> u64 \<Rightarrow> SignalImpl" where
  "ex_extended name switch from to start =
     ex_impl 8 ((ex_signal start 8 LittleEndian Unsigned)\<lparr>sig_name := name,
       sig_multiplexer_indicator := MuxValue,
       sig_signal_multiplexer_values :=
         [ISignalMultiplexerValue_Create switch [\<lparr>range_from = from, range_to = to\<rparr>]]\<rparr>)"

definition ex_plain :: SignalImpl where
  "ex_plain = ex_impl 8 (ex_signal 0 8 LittleEndian Unsigned)"

definition ex_mux_message :: "SignalImpl list \<Rightarrow> MessageImpl" where
  "ex_mux_message ss = IMessage_Create 291 ''M'' 8 [] [] ss [] [] []"

theorem decode_frame_returns_witness:
  "\<exists>r. decode_frame Little ''line'' (replicate 8 5)
     (ex_mux_message [ex_plain, ex_extended ''X'' ''S'' 5 5 8]) = Some r"
proof -
  have "switch_ranges (ex_mux_message [ex_plain, ex_extended ''X'' ''S'' 5 5 8]) ex_plain = []"
    "map (sig_name \<circ> fst) (switch_ranges (ex_mux_message [ex_plain, ex_extended ''X'' ''S'' 5 5 8])
       (ex_extended ''X'' ''S'' 5 5 8)) = [''S'']"
    "sig_name (ex_extended ''X'' ''S'' 5 5 8) = ''X''" "sig_name ex_plain = ''S''"
    by code_simp+
  then have "ranked (\<lambda>s. if sig_name s = ''S'' then 0 else 1)
      (ex_mux_message [ex_plain, ex_extended ''X'' ''S'' 5 5 8])"
    unfolding ranked_def ex_mux_message_def IMessage_Create_def by (auto simp: map_eq_Cons_conv)
  then show ?thesis by (rule decode_frame_returns)
qed

text \<open>With a signal that is its own switch, and a frame that selects it, the program never prints
  the line: the recursion does not return.\<close>

theorem decode_frame_hangs:
  "decode_frame Little line (replicate 8 5) (ex_mux_message [ex_extended ''X'' ''X'' 5 5 0]) = None"
proof -
  let ?x = "ex_extended ''X'' ''X'' 5 5 0"
  let ?m = "ex_mux_message [?x]"
  have "first_hit Little (replicate 8 5) (switch_ranges ?m ?x) = Some (Some ?x)"
    "sig_signal_multiplexer_values ?x \<noteq> []" by code_simp+
  then have c: "check_signal_multiplexer_values Little (replicate 8 5) ?m ?x = None"
    by (rule check_self)
  have "sig_multiplexer_indicator ?x = MuxValue" "sig_signal_multiplexer_values ?x \<noteq> []" by code_simp+
  then have "signal_shown Little (replicate 8 5) ?m ?x = None" by (simp add: signal_shown_def c)
  then have "print_signal_values Little (replicate 8 5) ?m [?x] True = None" by simp
  moreover have "msg_signals ?m = [?x]" by (simp add: ex_mux_message_def IMessage_Create_def)
  ultimately show ?thesis by (simp add: decode_frame_def)
qed

lemma first_hit_wide:
  "\<forall>(s, r) \<in> set xs. range_from r < range_to r \<Longrightarrow> first_hit native data xs \<in> {None, Some None}"
proof (induction native data xs rule: first_hit.induct)
  case (2 native data s r rest)
  show ?case
  proof (cases "Decode native s data")
    case (Some raw)
    have "range_from r < range_to r" using "2.prems" by simp
    then have "\<not> (range_from r \<ge> raw \<and> range_to r \<le> raw)" by (meson leD order_trans)
    then show ?thesis using 2 Some by simp
  qed simp
qed simp

text \<open>The test of the switch ranges compares in the wrong direction: a signal whose ranges all
  have a lower bound below their upper bound is never shown, whatever the switch decodes to.\<close>

theorem wide_ranges_never_shown:
  assumes "sig_multiplexer_indicator sig = MuxValue" and "sig_signal_multiplexer_values sig \<noteq> []"
    and "\<forall>smv \<in> set (sig_signal_multiplexer_values sig). \<forall>r \<in> set (smv_value_ranges smv).
           range_from r < range_to r"
  shows "signal_shown native data msg sig \<in> {Some None, Some (Some False)}"
proof -
  have "\<forall>(s, r) \<in> set (switch_ranges msg sig). range_from r < range_to r"
    using assms(3) by (auto simp: switch_ranges_def split: option.splits)
  from first_hit_wide [OF this, of native data] show ?thesis
    using assms(1,2) by (auto simp: signal_shown_def check_signal_multiplexer_values.simps)
qed

theorem wide_ranges_never_shown_witness:
  "signal_shown Little (replicate 8 5) (ex_mux_message [ex_plain, ex_extended ''X'' ''S'' 4 6 8])
     (ex_extended ''X'' ''S'' 4 6 8) \<noteq> Some (Some True)"
proof -
  let ?x = "ex_extended ''X'' ''S'' 4 6 8" and ?m = "ex_mux_message [ex_plain, ex_extended ''X'' ''S'' 4 6 8]"
  have "sig_multiplexer_indicator ?x = MuxValue"
    "sig_signal_multiplexer_values ?x = [ISignalMultiplexerValue_Create ''S'' [\<lparr>range_from = 4, range_to = 6\<rparr>]]"
    by code_simp+
  then have "signal_shown Little (replicate 8 5) ?m ?x \<in> {Some None, Some (Some False)}"
    by (intro wide_ranges_never_shown) (simp_all add: ISignalMultiplexerValue_Create_def)
  then show ?thesis by auto
qed

section \<open>Reading the lines of candump\<close>

text \<open>A line as candump writes it.\<close>

definition hex_char :: "nat \<Rightarrow> char" where
  "hex_char d = (if d < 10 then digit_char d else char_of (55 + d))"

definition hex2 :: "u8 \<Rightarrow> string" where
  "hex2 b = [hex_char (unat b div 16), hex_char (unat b mod 16)]"

definition hex3 :: "nat \<Rightarrow> string" where
  "hex3 n = [hex_char (n div 256), hex_char (n div 16 mod 16), hex_char (n mod 16)]"

definition candump_line :: "string \<Rightarrow> nat \<Rightarrow> u8 list \<Rightarrow> string" where
  "candump_line name i bytes =
     name @ ''  '' @ hex3 i @ ''   ['' @ show_nat (length bytes) @ '']  '' @ join '' '' (map hex2 bytes)"

abbreviation is_hex :: "char \<Rightarrow> bool" where
  "is_hex c \<equiv> is_digit c \<or> c \<in> set ''ABCDEF''"

lemma hex_char:
  assumes "d < 16"
  shows "is_hex (hex_char d)" and "hex_digit (hex_char d) = d" and "\<not> is_space (hex_char d)"
    and "hex_char d \<noteq> CHR 0x00"
proof -
  have "is_hex (hex_char d) \<and> hex_digit (hex_char d) = d \<and> \<not> is_space (hex_char d) \<and>
      hex_char d \<noteq> CHR 0x00"
  proof (cases "d < 10")
    case True
    then have c: "of_char (hex_char d) = 48 + d" by (simp add: hex_char_def of_char_digit)
    have "hex_char d \<noteq> CHR 0x00"
    proof
      assume "hex_char d = CHR 0x00"
      then have "of_char (hex_char d) = (0 :: nat)" by simp
      then show False using c by simp
    qed
    then show ?thesis using True c by (simp add: is_digit_def is_space_def hex_digit_def)
  next
    case False
    then have "d = 10 \<or> d = 11 \<or> d = 12 \<or> d = 13 \<or> d = 14 \<or> d = 15" using assms by arith
    then show ?thesis
      by (elim disjE) (simp_all add: hex_char_def hex_digit_def is_digit_def is_space_def
          char_of_def bit_0)
  qed
  then show "is_hex (hex_char d)" "hex_digit (hex_char d) = d" "\<not> is_space (hex_char d)"
    "hex_char d \<noteq> CHR 0x00" by blast+
qed

lemma unat_u8: "unat (b :: u8) < 256"
  using unsigned_less [of b] by simp

lemma strtol16_hex2: "strtol16 (hex2 b) = unat b"
  using unat_u8 [of b] by (simp add: strtol16_def hex2_def hex_char)

lemma strtol16_hex3: "i < 4096 \<Longrightarrow> strtol16 (hex3 i) = i"
proof -
  assume i: "i < 4096"
  have "i div 256 = i div 16 div 16" by (simp add: div_mult2_eq [symmetric])
  then have "16 * (i div 256) + i div 16 mod 16 = i div 16" by simp
  then have "16 * (16 * (i div 256) + i div 16 mod 16) + i mod 16 = i" by simp
  moreover have "i div 256 < 16" using i by simp
  ultimately show ?thesis by (simp add: strtol16_def hex3_def hex_char)
qed

section \<open>Greedy matching\<close>

lemma first_some_first: "f x = Some y \<Longrightarrow> first_some f (x # xs) = Some y"
  by simp

text \<open>An element that takes the longest run of its class, when the rest matches after that.\<close>

lemma rx_longest:
  assumes "rx_max r = None" and "list_all (rx_class r) p" and "u = [] \<or> \<not> rx_class r (hd u)"
    and "rx_min r \<le> length p" and "rx_match rs u = Some cs"
  shows "rx_match (r # rs) (p @ u) = Some (if rx_capture r then Some p # cs else cs)"
proof -
  have "takeWhile (rx_class r) (p @ u) = p"
    using assms(2,3) by (cases u) (auto simp: list_all_iff takeWhile_append2)
  then have "rx_lengths r (p @ u) = length p # rev [rx_min r..<length p]"
    using assms(1,4) by (simp add: rx_lengths_def Let_def)
  then show ?thesis using assms(5) by simp
qed

text \<open>An element of a fixed length.\<close>

lemma rx_exactly:
  assumes "rx_max r = Some n" and "rx_min r = n" and "list_all (rx_class r) p" and "length p = n"
    and "rx_match rs u = Some cs"
  shows "rx_match (r # rs) (p @ u) = Some (if rx_capture r then Some p # cs else cs)"
proof -
  have "takeWhile (rx_class r) (p @ u) = p @ takeWhile (rx_class r) u"
    using assms(3) by (simp add: list_all_iff takeWhile_append2)
  then have "rx_lengths r (p @ u) = [n]"
    using assms(1,2,4) by (simp add: rx_lengths_def Let_def)
  then show ?thesis using assms(4,5) by simp
qed

text \<open>An optional element that finds nothing.\<close>

lemma rx_absent:
  assumes "rx_optional r" and "length (takeWhile (rx_class r) t) < rx_min r" and "rx_match rs t = Some cs"
  shows "rx_match (r # rs) t = Some (if rx_capture r then None # cs else cs)"
proof -
  have "rx_lengths r t = []" using assms(2) by (simp add: rx_lengths_def Let_def split: option.split)
  then show ?thesis using assms(1,3) by simp
qed

declare rx_match.simps(2) [simp del]

lemma match_spaces:
  "list_all is_space sp \<Longrightarrow> u = [] \<or> \<not> is_space (hd u) \<Longrightarrow> rx_match rs u = Some cs \<Longrightarrow>
   rx_match (rx_spaces # rs) (sp @ u) = Some cs"
  using rx_longest [of rx_spaces sp u rs cs] by (simp add: rx_spaces_def)

lemma match_hex:
  "list_all is_hex p \<Longrightarrow> length p = n \<Longrightarrow> rx_match rs u = Some cs \<Longrightarrow>
   rx_match (rx_hex n opt # rs) (p @ u) = Some (Some p # cs)"
  using rx_exactly [of "rx_hex n opt" n p rs u cs] by (simp add: rx_hex_def)

lemma match_no_hex: "rx_match rs [] = Some cs \<Longrightarrow> 0 < n \<Longrightarrow> rx_match (rx_hex n True # rs) [] = Some (None # cs)"
  using rx_absent [of "rx_hex n True" "[]" rs cs] by (simp add: rx_hex_def)

lemma match_char: "rx_match rs u = Some cs \<Longrightarrow> rx_match (rx_char c # rs) (c # u) = Some cs"
  using rx_exactly [of "rx_char c" 1 "[c]" rs u cs] by (simp add: rx_char_def)

lemma match_some:
  "list_all P p \<Longrightarrow> p \<noteq> [] \<Longrightarrow> \<not> P (hd u) \<Longrightarrow> rx_match rs u = Some cs \<Longrightarrow>
   rx_match (rx_some P # rs) (p @ u) = Some (Some p # cs)"
  using rx_longest [of "rx_some P" p u rs cs] by (cases p) (simp_all add: rx_some_def)

definition data_rx :: "nat \<Rightarrow> rx list" where
  "data_rx k = concat (replicate k [rx_spaces, rx_hex 2 True])"

lemma data_rx_Suc: "data_rx (Suc k) = rx_spaces # rx_hex 2 True # data_rx k"
  by (simp add: data_rx_def)

lemma hex2_props: "list_all is_hex (hex2 b)" "\<not> is_space (hd (hex2 b))" "length (hex2 b) = 2"
  using unat_u8 [of b] hex_char(1,3) by (simp_all add: hex2_def)

text \<open>The data bytes: those that are there, and groups without a match.\<close>

lemma match_data:
  assumes "length bs \<le> k" and "list_all is_space sp" and "k = 0 \<Longrightarrow> sp = []"
  shows "rx_match (data_rx k) (sp @ join '' '' (map hex2 bs)) =
     Some (map (\<lambda>b. Some (hex2 b)) bs @ replicate (k - length bs) None)"
  using assms
proof (induction k arbitrary: bs sp)
  case 0
  then show ?case by (simp add: data_rx_def)
next
  case (Suc k)
  show ?case
  proof (cases bs)
    case Nil
    have "rx_match (data_rx k) [] = Some (replicate k None)"
      using Suc.IH [of "[]" "[]"] by simp
    then have "rx_match (rx_hex 2 True # data_rx k) [] = Some (None # replicate k None)"
      by (rule match_no_hex) simp
    then have "rx_match (rx_spaces # rx_hex 2 True # data_rx k) (sp @ []) = Some (None # replicate k None)"
      by (rule match_spaces [rotated 2]) (use Suc.prems in simp_all)
    then show ?thesis using Nil by (simp add: data_rx_Suc)
  next
    case (Cons b bs')
    let ?rest = "if bs' = [] then [] else '' '' @ join '' '' (map hex2 bs')"
    have str: "join '' '' (map hex2 bs) = hex2 b @ ?rest" using Cons by (cases bs') simp_all
    have "rx_match (data_rx k) ?rest = Some (map (\<lambda>b. Some (hex2 b)) bs' @ replicate (k - length bs') None)"
      using Suc.IH [of bs' "[]"] Suc.IH [of bs' "'' ''"] Suc.prems Cons
      by (cases bs') (auto simp: is_space_def)
    then have "rx_match (rx_hex 2 True # data_rx k) (hex2 b @ ?rest) =
        Some (Some (hex2 b) # map (\<lambda>b. Some (hex2 b)) bs' @ replicate (k - length bs') None)"
      by (rule match_hex [OF hex2_props(1,3)])
    then have "rx_match (rx_spaces # rx_hex 2 True # data_rx k) (sp @ (hex2 b @ ?rest)) =
        Some (Some (hex2 b) # map (\<lambda>b. Some (hex2 b)) bs' @ replicate (k - length bs') None)"
      by (rule match_spaces [rotated 2]) (use Suc.prems hex2_props [of b] in \<open>auto simp: hex2_def\<close>)
    then show ?thesis unfolding str data_rx_Suc using Cons by simp
  qed
qed

lemma match_candump_line:
  assumes "name \<noteq> []" and "\<forall>c \<in> set name. \<not> is_space c" and "i < 4096" and "length bytes \<le> 8"
  shows "rx_match regex_candump_line (candump_line name i bytes) =
     Some (Some name # Some (hex3 i) # Some (show_nat (length bytes)) #
           map (\<lambda>b. Some (hex2 b)) bytes @ replicate (8 - length bytes) None)"
proof -
  let ?cs = "map (\<lambda>b. Some (hex2 b)) bytes @ replicate (8 - length bytes) None"
  let ?n = "show_nat (length bytes)" and ?data = "join '' '' (map hex2 bytes)"
  have h3: "list_all is_hex (hex3 i)" "length (hex3 i) = 3" "\<not> is_space (hd (hex3 i))"
    using assms(3) hex_char(1,3) by (simp_all add: hex3_def)
  have nd: "list_all is_digit ?n" by (simp add: list_all_iff show_nat_digits)
  have "rx_match (data_rx 8) (''  '' @ ?data) = Some ?cs"
    by (rule match_data) (use assms in \<open>simp_all add: is_space_def\<close>)
  then have "rx_match (rx_char (CHR '']'') # data_rx 8) (CHR '']'' # ''  '' @ ?data) = Some ?cs"
    by (rule match_char)
  then have "rx_match (rx_some is_digit # rx_char (CHR '']'') # data_rx 8)
      (?n @ CHR '']'' # ''  '' @ ?data) = Some (Some ?n # ?cs)"
    by (rule match_some [rotated 3]) (use nd in \<open>simp_all add: is_digit_def\<close>)
  then have "rx_match (rx_char (CHR ''['') # rx_some is_digit # rx_char (CHR '']'') # data_rx 8)
      (CHR ''['' # ?n @ CHR '']'' # ''  '' @ ?data) = Some (Some ?n # ?cs)"
    by (rule match_char)
  then have "rx_match (rx_spaces # rx_char (CHR ''['') # rx_some is_digit # rx_char (CHR '']'') # data_rx 8)
      (''   '' @ CHR ''['' # ?n @ CHR '']'' # ''  '' @ ?data) = Some (Some ?n # ?cs)"
    by (rule match_spaces [rotated 2]) (simp_all add: is_space_def)
  then have "rx_match (rx_hex 3 False # rx_spaces # rx_char (CHR ''['') # rx_some is_digit #
      rx_char (CHR '']'') # data_rx 8)
      (hex3 i @ ''   '' @ CHR ''['' # ?n @ CHR '']'' # ''  '' @ ?data) =
      Some (Some (hex3 i) # Some ?n # ?cs)"
    by (rule match_hex [OF h3(1,2)])
  then have "rx_match (rx_spaces # rx_hex 3 False # rx_spaces # rx_char (CHR ''['') # rx_some is_digit #
      rx_char (CHR '']'') # data_rx 8)
      (''  '' @ hex3 i @ ''   '' @ CHR ''['' # ?n @ CHR '']'' # ''  '' @ ?data) =
      Some (Some (hex3 i) # Some ?n # ?cs)"
    by (rule match_spaces [rotated 2]) (use h3 in \<open>simp_all add: is_space_def hex3_def\<close>)
  then have "rx_match (rx_some (\<lambda>c. \<not> is_space c) # rx_spaces # rx_hex 3 False # rx_spaces #
      rx_char (CHR ''['') # rx_some is_digit # rx_char (CHR '']'') # data_rx 8)
      (name @ ''  '' @ hex3 i @ ''   '' @ CHR ''['' # ?n @ CHR '']'' # ''  '' @ ?data) =
      Some (Some name # Some (hex3 i) # Some ?n # ?cs)"
    by (rule match_some [rotated 3]) (use assms in \<open>simp_all add: is_space_def list_all_iff\<close>)
  then have "rx_match (rx_spaces # rx_some (\<lambda>c. \<not> is_space c) # rx_spaces # rx_hex 3 False # rx_spaces #
      rx_char (CHR ''['') # rx_some is_digit # rx_char (CHR '']'') # data_rx 8)
      ([] @ name @ ''  '' @ hex3 i @ ''   '' @ CHR ''['' # ?n @ CHR '']'' # ''  '' @ ?data) =
      Some (Some name # Some (hex3 i) # Some ?n # ?cs)"
    by (rule match_spaces [rotated 2]) (use assms in \<open>cases name; simp\<close>)+
  then show ?thesis by (simp add: candump_line_def regex_candump_line_def data_rx_def)
qed

lemma fill_data_bytes:
  assumes "length bs \<le> length data - i" and "i \<le> length data"
    and "\<And>k. k < length bs \<Longrightarrow> strtol16 (group cm (4 + (i + k))) = unat (bs ! k)"
  shows "fill_data cm i (length bs) data = Some (take i data @ bs @ drop (i + length bs) data)"
  using assms
proof (induction bs arbitrary: i data)
  case (Cons b bs)
  have i: "i < length data" using Cons.prems by simp
  have b: "strtol16 (group cm (4 + i)) = unat b" using Cons.prems(3) [of 0] by simp
  have "fill_data cm (Suc i) (length bs) (data[i := b]) =
      Some (take (Suc i) (data[i := b]) @ bs @ drop (Suc i + length bs) (data[i := b]))"
  proof (rule Cons.IH)
    show "strtol16 (group cm (4 + (Suc i + k))) = unat (bs ! k)" if "k < length bs" for k
      using Cons.prems(3) [of "Suc k"] that by simp
  qed (use Cons.prems in simp_all)
  moreover have "take (Suc i) (data[i := b]) = take i data @ [b]"
    using i by (simp add: take_Suc_conv_app_nth)
  ultimately show ?case using i b by simp
qed simp

lemma candump_read:
  assumes "name \<noteq> []" and "\<forall>c \<in> set name. \<not> is_space c" and "i < 4096" and "length bytes \<le> 8"
    and "length junk = 8"
  shows "\<exists>cm. rx_match regex_candump_line (candump_line name i bytes) = Some cm \<and>
     group (Some cm) 1 = name \<and> strtol16 (group (Some cm) 2) = i \<and>
     atoi (group (Some cm) 3) = Some (int (length bytes)) \<and>
     read_data junk (Some cm) (of_nat (length bytes)) = Some (bytes @ drop (length bytes) junk)"
proof -
  let ?cm = "Some name # Some (hex3 i) # Some (show_nat (length bytes)) #
           map (\<lambda>b. Some (hex2 b)) bytes @ replicate (8 - length bytes) None"
  have g: "group (Some ?cm) (4 + k) = hex2 (bytes ! k)" if "k < length bytes" for k
    using that by (simp add: group_def nth_append)
  have "fill_data (Some ?cm) 0 (length bytes) junk = Some (take 0 junk @ bytes @ drop (0 + length bytes) junk)"
    by (rule fill_data_bytes) (use assms g in \<open>simp_all add: strtol16_hex2\<close>)
  moreover have "unat (of_nat (length bytes) :: u64) = length bytes"
    using assms(4) by (simp add: unat_of_nat take_bit_eq_mod)
  ultimately have "read_data junk (Some ?cm) (of_nat (length bytes)) = Some (bytes @ drop (length bytes) junk)"
    using assms(4) by (simp add: read_data_def)
  moreover have "atoi (show_nat (length bytes)) = Some (int (length bytes))"
    using assms(4) by (intro atoi_show_nat) simp
  ultimately show ?thesis
    using match_candump_line [OF assms(1-4)] strtol16_hex3 [OF assms(3)] by (simp add: group_def)
qed

lemma candump_line_no_nul:
  assumes "CHR 0x00 \<notin> set name" and "i < 4096"
  shows "takeWhile (\<lambda>c. c \<noteq> CHR 0x00) (candump_line name i bytes) = candump_line name i bytes"
proof -
  have h2: "CHR 0x00 \<notin> set (hex2 b)" for b
  proof -
    have "unat b div 16 < 16" "unat b mod 16 < 16" using unat_u8 [of b] by simp_all
    then show ?thesis using hex_char(4) [of "unat b div 16"] hex_char(4) [of "unat b mod 16"]
      by (auto simp: hex2_def)
  qed
  have "i div 256 < 16" using assms(2) by simp
  then have h3: "CHR 0x00 \<notin> set (hex3 i)"
    using hex_char(4) [of "i div 256"] hex_char(4) [of "i div 16 mod 16"] hex_char(4) [of "i mod 16"]
    by (auto simp: hex3_def)
  have n: "CHR 0x00 \<notin> set (show_nat k)" for k
    using show_nat_digits [of "CHR 0x00" k] by (auto simp: is_digit_def)
  have j: "CHR 0x00 \<notin> set (join '' '' (map hex2 bytes))"
  proof (induction bytes)
    case (Cons b bs)
    then show ?case using h2 [of b] by (cases bs) auto
  qed simp
  show ?thesis
    by (rule takeWhile_eq_all_conv [THEN iffD2])
       (use assms(1) h3 n j in \<open>auto simp: candump_line_def\<close>)
qed

text \<open>C23. A line that candump wrote is decoded from the bytes it shows: for every bus name without
  blanks, every identifier of three hexadecimal digits and up to eight bytes, the program prints the
  message with that identifier in the network of that bus, decoded from an array that starts with
  the bytes of the line.\<close>

theorem candump_decode:
  assumes "name \<noteq> []" and "\<forall>c \<in> set name. \<not> is_space c" and "CHR 0x00 \<notin> set name"
    and "i < 4096" and "length bytes \<le> 8" and "length junk = 8"
    and "buses name = Some net" and "find (\<lambda>m. msg_id m = of_nat i) (net_messages net) = Some msg"
  shows "decode_line native junk buses (candump_line name i bytes) =
     decode_frame native (candump_line name i bytes) (bytes @ drop (length bytes) junk) msg"
proof -
  obtain cm where cm: "rx_match regex_candump_line (candump_line name i bytes) = Some cm"
    "group (Some cm) 1 = name" "strtol16 (group (Some cm) 2) = i"
    "atoi (group (Some cm) 3) = Some (int (length bytes))"
    "read_data junk (Some cm) (of_nat (length bytes)) = Some (bytes @ drop (length bytes) junk)"
    using candump_read [OF assms(1,2,4,5,6)] by blast
  show ?thesis
    unfolding decode_line_def Let_def candump_line_no_nul [OF assms(3,4)] cm(1)
    using cm assms(7,8) by simp
qed

text \<open>The line of the comment in the source.\<close>

lemma example_line:
  "candump_line ''vcan0'' 0x123 [0x11, 0x22, 0x33] = ''vcan0  123   [3]  11 22 33''"
  by (simp add: candump_line_def hex3_def hex2_def hex_char_def digit_char_def show_nat.simps
      char_of_def bit_0)

theorem candump_decode_witness:
  "decode_line Little (replicate 8 0)
     [''vcan0'' \<mapsto> ex_network [] [ex_mux_message [ex_plain]]] ''vcan0  123   [3]  11 22 33'' =
   decode_frame Little ''vcan0  123   [3]  11 22 33'' [0x11, 0x22, 0x33, 0, 0, 0, 0, 0]
     (ex_mux_message [ex_plain])"
proof -
  have "find (\<lambda>m. msg_id m = of_nat 0x123) (net_messages (ex_network [] [ex_mux_message [ex_plain]])) =
      Some (ex_mux_message [ex_plain])"
    by (simp add: ex_network_def INetwork_Create_def ex_mux_message_def IMessage_Create_def)
  then show ?thesis
    using candump_decode [of "''vcan0''" "0x123" "[0x11, 0x22, 0x33]" "replicate 8 0"
        "[''vcan0'' \<mapsto> ex_network [] [ex_mux_message [ex_plain]]]"
        "ex_network [] [ex_mux_message [ex_plain]]" "ex_mux_message [ex_plain]" Little]
    unfolding example_line by (simp add: is_space_def numeral_eq_Suc)
qed

end
