(* ===== verification/KCD2Network.thy ===== *)
theory KCD2Network
  imports Network Text "HOL-Library.List_Lexorder" "HOL-Library.Char_ord"
begin

text \<open>
  The reader of KCD files (\<open>src/src/KCD2Network.cpp\<close>): the class \<open>KCD\<close> walks an XML tree and
  creates one network for each bus. The XML library \<open>libxmlmm\<close> is a parameter: a record of the
  operations the class calls, on elements of any type. The member \<open>_node_id_to_node_name\<close> is
  passed along. \<open>parseAttribute\<close> is never called and left out.
\<close>

section \<open>The XML library\<close>

text \<open>A call ends in an exception of the library, in one of this class, or in undefined behaviour.\<close>

datatype kcd_error = XmlError string | KCDParserError string | UndefinedBehaviour

type_synonym 'a kcd = "kcd_error + 'a"

text \<open>\<open>get_attribute\<close> and its instances for the number types throw when there is no such attribute,
  or no such number in it. \<open>find_elements\<close> and \<open>find_element\<close> take an XPath.\<close>

record 'e xml =
  get_name :: "'e \<Rightarrow> string"
  has_attribute :: "'e \<Rightarrow> string \<Rightarrow> bool"
  get_attribute :: "'e \<Rightarrow> string \<Rightarrow> string kcd"
  get_attribute_u64 :: "'e \<Rightarrow> string \<Rightarrow> u64 kcd"
  get_attribute_i64 :: "'e \<Rightarrow> string \<Rightarrow> i64 kcd"
  get_attribute_double :: "'e \<Rightarrow> string \<Rightarrow> double kcd"
  find_elements :: "'e \<Rightarrow> string \<Rightarrow> 'e list"
  find_element :: "'e \<Rightarrow> string \<Rightarrow> 'e option"
  get_text :: "'e \<Rightarrow> string"

definition bnd :: "'a kcd \<Rightarrow> ('a \<Rightarrow> 'b kcd) \<Rightarrow> 'b kcd" where
  "bnd m f = (case m of Inl e \<Rightarrow> Inl e | Inr x \<Rightarrow> f x)"

lemma bnd_Inr [simp]: "bnd (Inr x) f = f x"
  by (simp add: bnd_def)

lemma bnd_Inl [simp]: "bnd (Inl e) f = Inl e"
  by (simp add: bnd_def)

lemma bnd_eq_Inr: "bnd m f = Inr y \<longleftrightarrow> (\<exists>x. m = Inr x \<and> f x = Inr y)"
  by (cases m) simp_all

text \<open>A loop that collects the result of each element.\<close>

primrec collect :: "('a \<Rightarrow> 'b kcd) \<Rightarrow> 'a list \<Rightarrow> 'b list kcd" where
  "collect f [] = Inr []"
| "collect f (x # xs) = bnd (f x) (\<lambda>y. bnd (collect f xs) (\<lambda>ys. Inr (y # ys)))"

text \<open>Dereferencing a null pointer or the end of a map.\<close>

definition deref :: "'a option \<Rightarrow> 'a kcd" where
  "deref p = (case p of Some x \<Rightarrow> Inr x | None \<Rightarrow> Inl UndefinedBehaviour)"

definition child :: "string \<Rightarrow> string" where
  "child n = ''*[local-name() = '' @ [CHR 0x27] @ n @ [CHR 0x27] @ '']''"

definition path1 :: "string \<Rightarrow> string" where
  "path1 n = ''./'' @ child n"

definition path2 :: "string \<Rightarrow> string \<Rightarrow> string" where
  "path2 m n = ''./'' @ child m @ ''/'' @ child n"

definition path_root :: "string \<Rightarrow> string" where
  "path_root n = ''/'' @ child ''NetworkDefinition'' @ ''/'' @ child n"

section \<open>Nodes\<close>

definition parseNetworkDefinition :: "'e xml \<Rightarrow> 'e \<Rightarrow> unit kcd" where
  "parseNetworkDefinition X net_def =
     (if get_name X net_def \<noteq> ''NetworkDefinition''
      then Inl (KCDParserError (''libdbcppp: could not find root node '' @ quoted ''NetworkDefinition''))
      else Inr ())"

definition parseNode :: "'e xml \<Rightarrow> 'e \<Rightarrow> (u64 \<rightharpoonup> string) \<Rightarrow> (NodeImpl \<times> (u64 \<rightharpoonup> string)) kcd" where
  "parseNode X node ids =
     bnd (if has_attribute X node ''name'' then get_attribute X node ''name'' else Inr []) (\<lambda>name.
       if \<not> has_attribute X node ''id'' then Inl (KCDParserError ''libdbcppp: '')
       else bnd (get_attribute_u64 X node ''id'') (\<lambda>i.
         Inr (INode_Create name [] [], ids(i \<mapsto> name))))"

fun parseNode_loop ::
    "'e xml \<Rightarrow> 'e list \<Rightarrow> (u64 \<rightharpoonup> string) \<Rightarrow> (NodeImpl list \<times> (u64 \<rightharpoonup> string)) kcd" where
  "parseNode_loop X [] ids = Inr ([], ids)"
| "parseNode_loop X (node # nodes) ids =
     bnd (parseNode X node ids) (\<lambda>(n, ids).
       bnd (parseNode_loop X nodes ids) (\<lambda>(ns, ids). Inr (n # ns, ids)))"

definition parseNodes :: "'e xml \<Rightarrow> 'e \<Rightarrow> (NodeImpl list \<times> (u64 \<rightharpoonup> string)) kcd" where
  "parseNodes X net_def =
     parseNode_loop X (find_elements X net_def (path_root ''Node'')) Map.empty"

section \<open>Signals\<close>

record Value =
  val_value_type :: EValueType
  val_extended_value_type :: EExtendedValueType
  val_factor :: double
  val_offset :: double
  val_unit :: string
  val_min :: double
  val_max :: double

definition default_Value :: Value where
  "default_Value =
     \<lparr>val_value_type = Unsigned, val_extended_value_type = EVT_Integer, val_factor = double_one,
      val_offset = 0, val_unit = [], val_min = 0, val_max = double_one\<rparr>"

text \<open>An optional attribute: \<open>d\<close> when it is absent.\<close>

definition get_or :: "'e xml \<Rightarrow> ('e \<Rightarrow> string \<Rightarrow> 'a kcd) \<Rightarrow> 'e \<Rightarrow> string \<Rightarrow> 'a \<Rightarrow> 'a kcd" where
  "get_or X get e name d = (if has_attribute X e name then get e name else Inr d)"

text \<open>The attribute \<open>max\<close> goes to \<open>result.min\<close>.\<close>

definition parseValue :: "'e xml \<Rightarrow> 'e \<Rightarrow> Value kcd" where
  "parseValue X e =
     bnd (get_or X (get_attribute X) e ''type'' []) (\<lambda>vt.
     bnd (get_or X (get_attribute_double X) e ''slope'' (val_factor default_Value)) (\<lambda>factor.
     bnd (get_or X (get_attribute_double X) e ''intercept'' (val_offset default_Value)) (\<lambda>offset.
     bnd (get_or X (get_attribute X) e ''unit'' (val_unit default_Value)) (\<lambda>unit.
     bnd (get_or X (get_attribute_double X) e ''min'' (val_min default_Value)) (\<lambda>min.
     bnd (get_or X (get_attribute_double X) e ''max'' min) (\<lambda>min.
     Inr (default_Value
       \<lparr>val_value_type := (if vt = ''signed'' then Signed else val_value_type default_Value),
        val_extended_value_type :=
          (if vt = ''single'' then EVT_Float else if vt = ''double'' then EVT_Double
           else val_extended_value_type default_Value),
        val_factor := factor, val_offset := offset, val_unit := unit, val_min := min\<rparr>)))))))"

definition parseComment :: "'e xml \<Rightarrow> 'e option \<Rightarrow> string" where
  "parseComment X note = (case note of Some e \<Rightarrow> get_text X e | None \<Rightarrow> [])"

definition parseReceivers :: "'e xml \<Rightarrow> (u64 \<rightharpoonup> string) \<Rightarrow> 'e \<Rightarrow> string list kcd" where
  "parseReceivers X ids signal =
     collect (\<lambda>node_ref. bnd (get_attribute_u64 X node_ref ''id'') (\<lambda>i. deref (ids i)))
       (find_elements X signal (path2 ''Consumer'' ''NodeRef''))"

definition parseLabel :: "'e xml \<Rightarrow> 'e \<Rightarrow> ValueEncodingDescriptionImpl kcd" where
  "parseLabel X e =
     bnd (get_attribute_i64 X e ''value'') (\<lambda>v.
     bnd (get_attribute X e ''name'') (\<lambda>name. Inr (IValueEncodingDescription_Create v name)))"

definition parseSignal ::
    "platform \<Rightarrow> 'e xml \<Rightarrow> (u64 \<rightharpoonup> string) \<Rightarrow> 'e \<Rightarrow> u64 \<Rightarrow> EMultiplexer \<Rightarrow> u64 \<Rightarrow> SignalImpl kcd" where
  "parseSignal pf X ids signal message_size mux multiplex_indicator =
     (let comment = parseComment X (find_element X signal ''Notes'') in
     bnd (parseReceivers X ids signal) (\<lambda>receivers.
     bnd (get_attribute X signal ''name'') (\<lambda>name.
     bnd (get_attribute_u64 X signal ''offset'') (\<lambda>start_bit.
     bnd (get_or X (get_attribute_u64 X) signal ''length'' 1) (\<lambda>bit_size.
     bnd (get_or X (get_attribute X) signal ''endianess'' []) (\<lambda>endianess.
     bnd (case find_element X signal (path1 ''Value'') of
            Some e \<Rightarrow> parseValue X e | None \<Rightarrow> Inr default_Value) (\<lambda>v.
     bnd (collect (parseLabel X) (find_elements X signal (path2 ''LabelSet'' ''Label''))) (\<lambda>veds.
     deref (SignalImpl_new pf message_size
       \<lparr>sig_name = name, sig_multiplexer_indicator = mux,
        sig_multiplexer_switch_value = multiplex_indicator, sig_start_bit = start_bit,
        sig_bit_size = bit_size,
        sig_byte_order = (if endianess = ''big'' then BigEndian else LittleEndian),
        sig_value_type = val_value_type v, sig_factor = val_factor v, sig_offset = val_offset v,
        sig_minimum = val_min v, sig_maximum = val_max v, sig_unit = val_unit v,
        sig_receivers = receivers, sig_attribute_values = [],
        sig_value_encoding_descriptions = veds, sig_comment = comment,
        sig_extended_value_type = val_extended_value_type v,
        sig_signal_multiplexer_values = []\<rparr>)))))))))"

section \<open>Messages\<close>

definition parseMuxGroup ::
    "platform \<Rightarrow> 'e xml \<Rightarrow> (u64 \<rightharpoonup> string) \<Rightarrow> u64 \<Rightarrow> 'e \<Rightarrow> SignalImpl list kcd" where
  "parseMuxGroup pf X ids message_size mux_group =
     bnd (get_attribute_u64 X mux_group ''count'') (\<lambda>multiplex_indicator.
       collect (\<lambda>signal. parseSignal pf X ids signal message_size MuxValue multiplex_indicator)
         (find_elements X mux_group (path1 ''Signal'')))"

definition parseSignals ::
    "platform \<Rightarrow> 'e xml \<Rightarrow> (u64 \<rightharpoonup> string) \<Rightarrow> 'e \<Rightarrow> u64 \<Rightarrow> SignalImpl list kcd" where
  "parseSignals pf X ids message message_size =
     bnd (case find_element X message (path1 ''Multiplex'') of
            None \<Rightarrow> Inr []
          | Some multiplex \<Rightarrow>
              bnd (parseSignal pf X ids multiplex message_size MuxSwitch 0) (\<lambda>mux_signal.
              bnd (collect (parseMuxGroup pf X ids message_size)
                    (find_elements X multiplex (path1 ''MuxGroup''))) (\<lambda>groups.
              Inr (mux_signal # concat groups)))) (\<lambda>sigs.
     bnd (collect (\<lambda>signal. parseSignal pf X ids signal message_size NoMux 0)
           (find_elements X message (path1 ''Signal''))) (\<lambda>plain.
     Inr (sigs @ plain)))"

text \<open>The sizes of the signals right below the message; the sum wraps around.\<close>

definition signal_end :: "'e xml \<Rightarrow> 'e \<Rightarrow> u64 kcd" where
  "signal_end X signal =
     bnd (get_attribute_u64 X signal ''offset'') (\<lambda>offset.
     bnd (get_or X (get_attribute_u64 X) signal ''length'' 1) (\<lambda>length.
     Inr (offset + length)))"

definition getMessageSize :: "'e xml \<Rightarrow> 'e \<Rightarrow> u64 kcd" where
  "getMessageSize X message =
     bnd (collect (signal_end X) (find_elements X message (path1 ''Signal''))) (\<lambda>ends.
       let max = foldl (\<lambda>max e. if max < e then e else max) 0 ends in Inr ((max + 7) div 8))"

definition parseTransmitter :: "'e xml \<Rightarrow> (u64 \<rightharpoonup> string) \<Rightarrow> 'e \<Rightarrow> string list kcd" where
  "parseTransmitter X ids message =
     collect (\<lambda>node_ref. bnd (get_attribute_u64 X node_ref ''id'') (\<lambda>i.
         case ids i of
           None \<Rightarrow> Inl (KCDParserError (''libdbcppp: could not find node with ID '' @ quoted (show_u64 i)))
         | Some name \<Rightarrow> Inr name))
       (find_elements X message (path2 ''Producer'' ''NodeRef''))"

text \<open>Reading a \<open>uint64_t\<close> from a stream in base 10 or 16: leading spaces, a sign that negates
  modulo \<open>2 ^ 64\<close>, digits; 0 without digits and the largest number on overflow.\<close>

definition base_digit :: "bool \<Rightarrow> char \<Rightarrow> nat option" where
  "base_digit hex c =
     (let n = of_char c
      in if 48 \<le> n \<and> n \<le> 57 then Some (n - 48)
         else if hex \<and> 65 \<le> n \<and> n \<le> 70 then Some (n - 55)
         else if hex \<and> 97 \<le> n \<and> n \<le> 102 then Some (n - 87) else None)"

definition stream_u64 :: "bool \<Rightarrow> string \<Rightarrow> u64" where
  "stream_u64 hex str =
     (let t = dropWhile is_space str;
          neg = (take 1 t = ''-'');
          t = (if neg \<or> take 1 t = ''+'' then drop 1 t else t);
          t = (if hex \<and> (take 2 t = ''0x'' \<or> take 2 t = ''0X'') then drop 2 t else t);
          ds = map the (takeWhile (\<lambda>d. d \<noteq> None) (map (base_digit hex) t));
          n = foldl (\<lambda>n d. (if hex then 16 else 10) * n + d) 0 ds
      in if n \<ge> 2 ^ 64 then - 1 else if neg then - of_nat n else of_nat n)"

text \<open>\<open>str_id[1]\<close> is the terminating zero when the length is one, and out of range when it is zero.\<close>

definition parse_id :: "string \<Rightarrow> u64 kcd" where
  "parse_id str_id =
     (if str_id = [] then Inl UndefinedBehaviour
      else if 1 < length str_id \<and> (str_id ! 1 = CHR ''x'' \<or> str_id ! 1 = CHR ''X'')
      then Inr (stream_u64 True str_id)
      else Inr (stream_u64 False str_id))"

definition message_length :: "'e xml \<Rightarrow> 'e \<Rightarrow> u64 kcd" where
  "message_length X message =
     bnd (get_or X (get_attribute X) message ''length'' ''auto'') (\<lambda>length.
       if length = ''auto'' then getMessageSize X message
       else get_attribute_u64 X message ''length'')"

text \<open>\<open>parseComment\<close> of the message itself is its comment; the text of the notes is not used.\<close>

definition parseMessage :: "platform \<Rightarrow> 'e xml \<Rightarrow> (u64 \<rightharpoonup> string) \<Rightarrow> 'e \<Rightarrow> MessageImpl kcd" where
  "parseMessage pf X ids message =
     bnd (get_attribute X message ''id'') (\<lambda>str_id.
     bnd (parse_id str_id) (\<lambda>i.
     bnd (get_attribute X message ''name'') (\<lambda>name.
     let comment = parseComment X (Some message) in
     bnd (deref (find_element X message (path2 ''Producer'' ''NodeRef''))) (\<lambda>node_ref.
     bnd (get_attribute_u64 X node_ref ''id'') (\<lambda>node_id.
     bnd (deref (ids node_id)) (\<lambda>producer.
     bnd (message_length X message) (\<lambda>message_size.
     bnd (parseTransmitter X ids message) (\<lambda>transmitter.
     bnd (parseSignals pf X ids message message_size) (\<lambda>signals.
     Inr (IMessage_Create i name message_size producer transmitter signals [] comment [])))))))))) "

section \<open>Networks\<close>

definition parseBitTiming :: "'e xml \<Rightarrow> 'e \<Rightarrow> BitTimingImpl kcd" where
  "parseBitTiming X bus =
     bnd (get_or X (get_attribute_u64 X) bus ''baudrate'' 500000) (\<lambda>baudrate.
       Inr (IBitTiming_Create baudrate 0 0))"

definition parseNetwork ::
    "platform \<Rightarrow> 'e xml \<Rightarrow> (u64 \<rightharpoonup> string) \<Rightarrow> NodeImpl list \<Rightarrow> 'e \<Rightarrow> (string \<times> NetworkImpl) kcd" where
  "parseNetwork pf X ids nodes bus =
     bnd (get_attribute X bus ''name'') (\<lambda>name.
     bnd (parseBitTiming X bus) (\<lambda>bit_timing.
     bnd (collect (parseMessage pf X ids) (find_elements X bus (path1 ''Message''))) (\<lambda>msgs.
     bnd (deref (INetwork_Create [] [] (Some bit_timing) nodes [] msgs [] [] [] [] [])) (\<lambda>net.
     Inr (name, net)))))"

text \<open>\<open>std::map\<close> is the list of its entries in the order of the keys; \<open>insert\<close> keeps an entry that
  is there.\<close>

fun map_insert :: "string \<times> 'v \<Rightarrow> (string \<times> 'v) list \<Rightarrow> (string \<times> 'v) list" where
  "map_insert e [] = [e]"
| "map_insert e (f # fs) =
     (if fst e = fst f then f # fs
      else if fst e < fst f then e # f # fs
      else f # map_insert e fs)"

definition parseNetworks ::
    "platform \<Rightarrow> 'e xml \<Rightarrow> (u64 \<rightharpoonup> string) \<Rightarrow> NodeImpl list \<Rightarrow> 'e \<Rightarrow> (string \<times> NetworkImpl) list kcd" where
  "parseNetworks pf X ids nodes net_def =
     bnd (collect (parseNetwork pf X ids nodes) (find_elements X net_def (path_root ''Bus''))) (\<lambda>nets.
       Inr (foldl (\<lambda>networks e. map_insert e networks) [] nets))"

definition KCD :: "platform \<Rightarrow> 'e xml \<Rightarrow> 'e \<Rightarrow> (string \<times> NetworkImpl) list kcd" where
  "KCD pf X root =
     bnd (parseNetworkDefinition X root) (\<lambda>_.
     bnd (parseNodes X root) (\<lambda>(nodes, ids). parseNetworks pf X ids nodes root))"

text \<open>\<open>read_document\<close> is the XML parser: the root element of the stream, or its exception.\<close>

definition LoadKCDFromIs ::
    "('is \<Rightarrow> 'e kcd) \<Rightarrow> platform \<Rightarrow> 'e xml \<Rightarrow> 'is \<Rightarrow> (string \<times> NetworkImpl) list kcd" where
  "LoadKCDFromIs read_document pf X is = bnd (read_document is) (KCD pf X)"

end
