(* ===== verification/KCDProps.thy ===== *)
theory KCDProps
  imports KCD2Network SignalErrors NetworkProps
begin

text \<open>
  Properties of the KCD reader: the networks it returns, message identifiers, and the size it
  computes for a message with length \<open>auto\<close>.
\<close>

section \<open>Loops\<close>

lemma collect_eq_Inr:
  "collect f xs = Inr ys \<longleftrightarrow> list_all2 (\<lambda>x y. f x = Inr y) xs ys"
proof (induction xs arbitrary: ys)
  case (Cons x xs)
  then show ?case
    by (cases ys) (auto simp: bnd_eq_Inr)
qed auto

lemma collect_mem:
  assumes "collect f xs = Inr ys" and "y \<in> set ys"
  obtains x where "x \<in> set xs" and "f x = Inr y"
proof -
  obtain i where "i < length ys" "y = ys ! i"
    using assms(2) by (auto simp: in_set_conv_nth)
  then show ?thesis
    using assms(1) that [of "xs ! i"] unfolding collect_eq_Inr
    by (simp add: list_all2_conv_all_nth)
qed

lemma collect_complete:
  assumes "collect f xs = Inr ys" and "x \<in> set xs"
  obtains y where "y \<in> set ys" and "f x = Inr y"
proof -
  obtain i where "i < length xs" "x = xs ! i"
    using assms(2) by (auto simp: in_set_conv_nth)
  then show ?thesis
    using assms(1) that [of "ys ! i"] unfolding collect_eq_Inr
    by (simp add: list_all2_conv_all_nth)
qed

lemma collect_all:
  assumes "collect f xs = Inr ys" and "\<And>x y. f x = Inr y \<Longrightarrow> P y"
  shows "list_all P ys"
  using assms by (auto simp: list_all_iff elim: collect_mem)

lemma deref_eq_Inr [simp]: "deref p = Inr x \<longleftrightarrow> p = Some x"
  by (auto simp: deref_def split: option.splits)

lemma list_all_subset: "list_all P xs \<Longrightarrow> set ys \<subseteq> set xs \<Longrightarrow> list_all P ys"
  by (auto simp: list_all_iff)

section \<open>The networks of a file\<close>

text \<open>A signal of this reader: made by the constructor, without attributes.\<close>

abbreviation kcd_signal :: "SignalImpl \<Rightarrow> bool" where
  "kcd_signal s \<equiv> constructed s \<and> sig_attribute_values s = [] \<and> sig_signal_multiplexer_values s = []"

lemma parseSignal_ok:
  assumes "parseSignal pf X ids e ms mux v = Inr s"
  shows "kcd_signal s" and "sig_multiplexer_indicator s = mux"
proof -
  obtain d where d: "SignalImpl_new pf ms d = Some s" "sig_attribute_values d = []"
    "sig_signal_multiplexer_values d = []" "sig_multiplexer_indicator d = mux"
    using assms unfolding parseSignal_def bnd_eq_Inr Let_def deref_eq_Inr by fastforce
  have "signal_data.truncate s = d"
    using d(1) by (rule SignalImpl_new_SomeD)
  from truncate_sel [OF this] show "kcd_signal s" "sig_multiplexer_indicator s = mux"
    using d constructedI by simp_all
qed

lemma parseSignals_ok:
  assumes "parseSignals pf X ids m ms = Inr ss"
  shows "list_all kcd_signal ss"
proof -
  have plain: "list_all kcd_signal sigs"
    if "collect (\<lambda>e. parseSignal pf X ids e ms mux v) es = Inr sigs" for mux v es sigs
    using that by (rule collect_all) (rule parseSignal_ok)
  have group: "list_all kcd_signal sigs" if "parseMuxGroup pf X ids ms e = Inr sigs" for e sigs
    using that plain unfolding parseMuxGroup_def bnd_eq_Inr by blast
  have groups: "list_all (list_all kcd_signal) gs"
    if "collect (parseMuxGroup pf X ids ms) es = Inr gs" for es gs
    using that by (rule collect_all) (rule group)
  show ?thesis
    using assms parseSignal_ok(1) [of pf X ids _ ms MuxSwitch 0] unfolding parseSignals_def bnd_eq_Inr
    by (auto simp: bnd_eq_Inr list_all_iff split: option.splits dest!: groups plain)
qed

abbreviation kcd_message :: "MessageImpl \<Rightarrow> bool" where
  "kcd_message m \<equiv> message_wf m \<and> msg_attribute_values m = [] \<and> list_all kcd_signal (msg_signals m)"

lemma parseMessage_ok:
  assumes "parseMessage pf X ids e = Inr m"
  shows "kcd_message m"
proof -
  obtain i n ms p t ss c where "m = IMessage_Create i n ms p t ss [] c []"
    and "parseSignals pf X ids e ms = Inr ss"
    using assms unfolding parseMessage_def bnd_eq_Inr Let_def by auto
  then show ?thesis
    using parseSignals_ok [of pf X ids e ms ss] by (simp add: IMessage_Create_def MessageImpl_new_wf)
qed

abbreviation kcd_network :: "NetworkImpl \<Rightarrow> bool" where
  "kcd_network n \<equiv> list_all kcd_message (net_messages n) \<and> net_attribute_defaults n = [] \<and>
     net_attribute_values n = [] \<and> net_environment_variables n = [] \<and>
     list_all (\<lambda>n. node_attribute_values n = []) (net_nodes n)"

lemma parseNodes_ok:
  assumes "parseNodes X e = Inr (nodes, ids)"
  shows "list_all (\<lambda>n. node_attribute_values n = []) nodes"
proof -
  have "list_all (\<lambda>n. node_attribute_values n = []) nodes"
    if "parseNode_loop X es ids0 = Inr (nodes, ids)" for es ids0 nodes ids
    using that by (induction X es ids0 arbitrary: nodes ids rule: parseNode_loop.induct)
      (auto simp: bnd_eq_Inr parseNode_def INode_Create_def split: if_splits)
  then show ?thesis
    using assms by (auto simp: parseNodes_def)
qed

lemma parseNetwork_ok:
  assumes "parseNetwork pf X ids nodes e = Inr p" and "list_all (\<lambda>n. node_attribute_values n = []) nodes"
  shows "kcd_network (snd p)"
  using assms unfolding parseNetwork_def bnd_eq_Inr
  by (auto simp: INetwork_Create_def intro: collect_all [OF _ parseMessage_ok])

section \<open>The map of the networks\<close>

lemma map_insert_keys: "fst ` set (map_insert e m) = insert (fst e) (fst ` set m)"
  by (induction e m rule: map_insert.induct) auto

lemma map_insert_sorted:
  "sorted_wrt (<) (map fst m) \<Longrightarrow> sorted_wrt (<) (map fst (map_insert e m))"
proof (induction e m rule: map_insert.induct)
  case (2 e f fs)
  have "fst f < k" if "k \<in> fst ` set (map_insert e fs)" "fst f < fst e" for k
    using 2 that unfolding map_insert_keys by auto
  then show ?case
    using 2 by (auto simp: not_less_iff_gr_or_eq)
qed simp

lemma map_insert_lookup:
  "sorted_wrt (<) (map fst m) \<Longrightarrow>
     map_of (map_insert e m) k =
       (if k = fst e \<and> map_of m k = None then Some (snd e) else map_of m k)"
proof (induction e m rule: map_insert.induct)
  case (2 e f fs)
  have "map_of fs (fst e) = None" if "fst e < fst f"
    using 2(2) that by (force simp: map_of_eq_None_iff)
  then show ?case
    using 2 by (cases e; cases f) auto
qed (cases e; simp)

text \<open>The first entry of a key wins.\<close>

lemma insert_all:
  assumes "sorted_wrt (<) (map fst m)"
  shows "sorted_wrt (<) (map fst (foldl (\<lambda>ns e. map_insert e ns) m nets)) \<and>
     set (foldl (\<lambda>ns e. map_insert e ns) m nets) \<subseteq> set m \<union> set nets \<and>
     map_of (foldl (\<lambda>ns e. map_insert e ns) m nets) = map_of nets ++ map_of m"
  using assms
proof (induction nets arbitrary: m)
  case (Cons e nets)
  have set: "set (map_insert e m) \<subseteq> insert e (set m)"
    by (induction e m rule: map_insert.induct) auto
  have "map_of nets ++ map_of (map_insert e m) = map_of (e # nets) ++ map_of m"
    using Cons.prems
    by (cases e) (auto simp: fun_eq_iff map_add_def map_insert_lookup split: option.splits)
  moreover note Cons.IH [OF map_insert_sorted [OF Cons.prems], of e]
  ultimately show ?case
    using set by (auto simp del: map_of.simps)
qed simp

lemma LoadKCDFromIs_parts:
  assumes "LoadKCDFromIs read_document pf X is = Inr nets"
  obtains root nodes ids all where "read_document is = Inr root"
    and "get_name X root = ''NetworkDefinition''" and "parseNodes X root = Inr (nodes, ids)"
    and "collect (parseNetwork pf X ids nodes) (find_elements X root (path_root ''Bus'')) = Inr all"
    and "nets = foldl (\<lambda>ns e. map_insert e ns) [] all"
  using assms unfolding LoadKCDFromIs_def KCD_def parseNetworks_def
  by (auto simp: bnd_eq_Inr parseNetworkDefinition_def split: if_splits)

lemma LoadKCDFromIs_networks:
  assumes "LoadKCDFromIs read_document pf X is = Inr nets"
  shows "list_all (\<lambda>p. kcd_network (snd p)) nets"
proof -
  obtain root nodes ids all where nodes: "parseNodes X root = Inr (nodes, ids)"
    and all: "collect (parseNetwork pf X ids nodes) (find_elements X root (path_root ''Bus'')) = Inr all"
    and nets: "nets = foldl (\<lambda>ns e. map_insert e ns) [] all"
    using assms by (rule LoadKCDFromIs_parts)
  have "list_all (\<lambda>p. kcd_network (snd p)) all"
    using all by (rule collect_all) (rule parseNetwork_ok [OF _ parseNodes_ok [OF nodes]])
  moreover have "set nets \<subseteq> set all"
    using insert_all [of "[]" all] unfolding nets by simp
  ultimately show ?thesis
    by (rule list_all_subset)
qed

text \<open>C24. The reader returns one network for each bus name, in the order of the names: of several
  buses with one name the first is kept. Every signal has come out of the constructor, every
  message has its switch and error set consistently, and nothing has attributes.\<close>

theorem kcd_networks:
  assumes "LoadKCDFromIs read_document pf X is = Inr nets"
  shows "sorted_wrt (<) (map fst nets) \<and> list_all (\<lambda>p. kcd_network (snd p)) nets \<and>
     (\<exists>root ids nodes all. read_document is = Inr root \<and> get_name X root = ''NetworkDefinition'' \<and>
        parseNodes X root = Inr (nodes, ids) \<and>
        collect (parseNetwork pf X ids nodes) (find_elements X root (path_root ''Bus'')) = Inr all \<and>
        map_of nets = map_of all)"
proof -
  obtain root nodes ids all where r: "read_document is = Inr root"
    "get_name X root = ''NetworkDefinition''" "parseNodes X root = Inr (nodes, ids)"
    "collect (parseNetwork pf X ids nodes) (find_elements X root (path_root ''Bus'')) = Inr all"
    "nets = foldl (\<lambda>ns e. map_insert e ns) [] all"
    using assms by (rule LoadKCDFromIs_parts)
  have "sorted_wrt (<) (map fst nets)" "map_of nets = map_of all"
    using insert_all [of "[]" all] unfolding r(5) by simp_all
  then show ?thesis
    using r(1-4) LoadKCDFromIs_networks [OF assms] by blast
qed

section \<open>A document\<close>

text \<open>A tree with the queries of the reader, for concrete instances.\<close>

datatype xml_tree = Elem (tag: string) (attributes: "(string \<times> string) list") (children: "xml_tree list")

definition tree_find :: "xml_tree \<Rightarrow> string \<Rightarrow> xml_tree list" where
  "tree_find e p =
     filter (\<lambda>c. p = tag c \<or> p = path1 (tag c) \<or> p = path_root (tag c)) (children e) @
     concat (map (\<lambda>c. filter (\<lambda>d. p = path2 (tag c) (tag d)) (children c)) (children e))"

definition tree_attribute :: "xml_tree \<Rightarrow> string \<Rightarrow> string kcd" where
  "tree_attribute e n =
     (case map_of (attributes e) n of Some v \<Rightarrow> Inr v | None \<Rightarrow> Inl (XmlError n))"

definition tree_xml :: "xml_tree xml" where
  "tree_xml =
     \<lparr>get_name = tag, has_attribute = (\<lambda>e n. map_of (attributes e) n \<noteq> None),
      get_attribute = tree_attribute,
      get_attribute_u64 = (\<lambda>e n. bnd (tree_attribute e n) (\<lambda>v. Inr (stream_u64 False v))),
      get_attribute_i64 = (\<lambda>e n. bnd (tree_attribute e n) (\<lambda>v. Inr (stream_u64 False v))),
      get_attribute_double = (\<lambda>e n. Inl (XmlError n)),
      find_elements = tree_find,
      find_element = (\<lambda>e p. case tree_find e p of [] \<Rightarrow> None | c # cs \<Rightarrow> Some c),
      get_text = (\<lambda>e. [])\<rparr>"

definition ex_kcd_signal :: xml_tree where
  "ex_kcd_signal = Elem ''Signal'' [(''name'', ''S''), (''offset'', ''60''), (''length'', ''8'')] []"

definition ex_kcd_message :: xml_tree where
  "ex_kcd_message = Elem ''Message'' [(''name'', ''M''), (''id'', ''0x1F'')]
     [Elem ''Producer'' [] [Elem ''NodeRef'' [(''id'', ''1'')] []], ex_kcd_signal]"

definition ex_kcd :: xml_tree where
  "ex_kcd = Elem ''NetworkDefinition'' []
     [Elem ''Node'' [(''id'', ''1''), (''name'', ''ECU'')] [],
      Elem ''Bus'' [(''name'', ''B'')] [ex_kcd_message]]"

lemmas document_simps = tree_find_def tree_attribute_def path1_def path2_def path_root_def child_def
  ex_kcd_def ex_kcd_message_def ex_kcd_signal_def tree_xml_def bnd_def get_or_def

lemmas stream_simps = stream_u64_def base_digit_def is_space_def Let_def

lemma ex_signal_parsed:
  "\<exists>s. parseSignal ieee tree_xml ids ex_kcd_signal ms mux v = Inr s \<and> sig_byte_order s = LittleEndian"
proof -
  obtain d where d: "parseSignal ieee tree_xml ids ex_kcd_signal ms mux v = deref (SignalImpl_new ieee ms d)"
    "sig_bit_size d = 8" "sig_byte_order d = LittleEndian"
    by (simp add: parseSignal_def parseReceivers_def document_simps stream_simps)
  obtain s where s: "SignalImpl_new ieee ms d = Some s"
    using SignalImpl_new_defined [of ieee ms d] d(2) by auto
  then have "signal_data.truncate s = d" by (rule SignalImpl_new_SomeD)
  from truncate_sel [OF this] show ?thesis
    using d s by (simp add: deref_def)
qed

lemma ex_message_parsed:
  assumes "ids 1 = Some n"
  shows "\<exists>m. parseMessage ieee tree_xml ids ex_kcd_message = Inr m"
proof -
  obtain s where s: "parseSignal ieee tree_xml ids ex_kcd_signal 9 NoMux 0 = Inr s"
    using ex_signal_parsed by blast
  have "parseSignals ieee tree_xml ids ex_kcd_message 9 = Inr [s]"
  proof -
    have "tree_find ex_kcd_message (path1 ''Signal'') = [ex_kcd_signal]"
      "tree_find ex_kcd_message (path1 ''Multiplex'') = []"
      by (simp_all add: document_simps)
    then show ?thesis
      using s by (simp add: parseSignals_def tree_xml_def)
  qed
  moreover have "message_length tree_xml ex_kcd_message = Inr 9"
    by (simp add: message_length_def getMessageSize_def signal_end_def document_simps stream_simps)
  moreover have "parse_id ''0x1F'' = Inr 31"
    by (simp add: parse_id_def stream_simps)
  moreover have "parseTransmitter tree_xml ids ex_kcd_message = Inr [n]"
    using assms by (simp add: parseTransmitter_def document_simps stream_simps)
  ultimately show ?thesis
    using assms by (simp add: parseMessage_def deref_def) (simp add: document_simps stream_simps)
qed

lemma ex_network_parsed:
  "\<exists>p. parseNetwork ieee tree_xml [1 \<mapsto> ''ECU''] nodes
     (Elem ''Bus'' [(''name'', ''B'')] [ex_kcd_message]) = Inr p"
proof -
  obtain m where "parseMessage ieee tree_xml [1 \<mapsto> ''ECU''] ex_kcd_message = Inr m"
    using ex_message_parsed [of "[1 \<mapsto> ''ECU'']" "''ECU''"] by auto
  moreover have "tree_find (Elem ''Bus'' [(''name'', ''B'')] [ex_kcd_message]) (path1 ''Message'') =
      [ex_kcd_message]"
    by (simp add: document_simps)
  ultimately show ?thesis
    by (simp add: parseNetwork_def parseBitTiming_def INetwork_Create_def deref_def tree_xml_def
        tree_attribute_def get_or_def)
qed

lemma ex_kcd_loads: "\<exists>nets. LoadKCDFromIs Inr ieee tree_xml ex_kcd = Inr nets"
proof -
  obtain p where "parseNetwork ieee tree_xml [1 \<mapsto> ''ECU''] [INode_Create ''ECU'' [] []]
      (Elem ''Bus'' [(''name'', ''B'')] [ex_kcd_message]) = Inr p"
    using ex_network_parsed by blast
  moreover have "parseNodes tree_xml ex_kcd = Inr ([INode_Create ''ECU'' [] []], [1 \<mapsto> ''ECU''])"
    by (simp add: parseNodes_def parseNode_def document_simps stream_simps)
  moreover have "tree_find ex_kcd (path_root ''Bus'') =
      [Elem ''Bus'' [(''name'', ''B'')] [ex_kcd_message]]" "tag ex_kcd = ''NetworkDefinition''"
    by (simp_all add: document_simps)
  ultimately show ?thesis
    by (simp add: LoadKCDFromIs_def KCD_def parseNetworkDefinition_def parseNetworks_def tree_xml_def)
qed

theorem kcd_networks_witness:
  "\<exists>nets. LoadKCDFromIs Inr ieee tree_xml ex_kcd = Inr nets \<and>
     list_all (\<lambda>p. list_all (\<lambda>m. msg_attribute_values m = []) (net_messages (snd p))) nets"
proof -
  obtain nets where nets: "LoadKCDFromIs Inr ieee tree_xml ex_kcd = Inr nets"
    using ex_kcd_loads by blast
  then show ?thesis
    using kcd_networks [OF nets] by (auto simp: list_all_iff)
qed

section \<open>Message identifiers\<close>

text \<open>Hexadecimal printing, in capitals.\<close>

definition hex_char :: "nat \<Rightarrow> char" where
  "hex_char d = (if d < 10 then char_of (48 + d) else char_of (55 + d))"

fun show_hex :: "nat \<Rightarrow> string" where
  "show_hex n = (if n < 16 then [hex_char n] else show_hex (n div 16) @ [hex_char (n mod 16)])"

declare show_hex.simps [simp del]

lemma base_digit_hex: "d < 16 \<Longrightarrow> base_digit True (hex_char d) = Some d"
  by (auto simp: base_digit_def hex_char_def)

lemma base_digit_dec: "d < 10 \<Longrightarrow> base_digit False (digit_char d) = Some d"
  by (auto simp: base_digit_def digit_char_def)

text \<open>The number a list of digits spells.\<close>

abbreviation spells :: "bool \<Rightarrow> nat \<Rightarrow> string \<Rightarrow> nat \<Rightarrow> bool" where
  "spells hex b t n \<equiv> t \<noteq> [] \<and> (\<forall>c \<in> set t. base_digit hex c \<noteq> None) \<and>
     foldl (\<lambda>n d. b * n + d) 0 (map (\<lambda>c. the (base_digit hex c)) t) = n"

lemma spells_hex: "spells True 16 (show_hex n) n"
proof (induction n rule: show_hex.induct)
  case (1 n)
  show ?case
  proof (cases "n < 16")
    case True
    then show ?thesis by (simp add: show_hex.simps [of n] base_digit_hex)
  next
    case False
    then show ?thesis
      using 1 by (simp add: show_hex.simps [of n] base_digit_hex ball_Un del: not_None_eq)
  qed
qed

lemma spells_dec: "spells False 10 (show_nat n) n"
proof (induction n rule: show_nat.induct)
  case (1 n)
  show ?case
  proof (cases "n < 10")
    case True
    then show ?thesis by (simp add: show_nat.simps [of n] base_digit_dec)
  next
    case False
    then show ?thesis
      using 1 by (simp add: show_nat.simps [of n] base_digit_dec ball_Un del: not_None_eq)
  qed
qed

lemma digits_read:
  assumes "\<forall>c \<in> set t. base_digit hex c \<noteq> None"
  shows "map the (takeWhile (\<lambda>d. d \<noteq> None) (map (base_digit hex) t)) =
    map (\<lambda>c. the (base_digit hex c)) t"
  using assms by (simp add: takeWhile_eq_all_conv [THEN iffD2] del: not_None_eq)

lemma base_digit_char:
  assumes "base_digit hex c \<noteq> None"
  shows "\<not> is_space c" and "c \<noteq> CHR ''-''" and "c \<noteq> CHR ''+''" and "c \<noteq> CHR ''x''" and "c \<noteq> CHR ''X''"
  using assms by (auto simp: base_digit_def is_space_def Let_def split: if_splits)

lemma stream_dec:
  assumes "spells False 10 t n" and "n < 2 ^ 64"
  shows "stream_u64 False t = of_nat n"
proof -
  obtain c cs where t: "t = c # cs" using assms(1) by (cases t) auto
  note c = base_digit_char [of False c]
  have "base_digit False c \<noteq> None" using assms(1) by (simp add: t)
  with c have "dropWhile is_space t = t" "take 1 t \<noteq> ''-''" "take 1 t \<noteq> ''+''"
    by (simp_all add: t)
  then show ?thesis
    using assms digits_read [of t False] unfolding stream_u64_def Let_def by simp
qed

lemma stream_hex:
  assumes "spells True 16 t n" and "n < 2 ^ 64"
  shows "stream_u64 True (''0x'' @ t) = of_nat n"
  using assms digits_read [of t True] unfolding stream_u64_def Let_def
  by (simp add: is_space_def)

text \<open>C33. Message identifiers are read as they are written, in decimal and, after \<open>0x\<close>, in
  hexadecimal, for every 64-bit number.\<close>

theorem kcd_message_ids:
  "parse_id (show_u64 i) = Inr i \<and> parse_id (''0x'' @ show_hex (unat i)) = Inr i"
proof
  have "show_nat (unat i) ! 1 \<noteq> CHR ''x'' \<and> show_nat (unat i) ! 1 \<noteq> CHR ''X''"
    if "1 < length (show_nat (unat i))"
    using show_nat_digits [OF nth_mem [OF that]] by (auto simp: is_digit_def)
  moreover have "stream_u64 False (show_nat (unat i)) = i"
    using stream_dec [OF spells_dec unat_lt64] by simp
  ultimately show "parse_id (show_u64 i) = Inr i"
    by (auto simp: parse_id_def show_u64_def)
  have "stream_u64 True (''0x'' @ show_hex (unat i)) = i"
    using stream_hex [OF spells_hex unat_lt64] by simp
  then show "parse_id (''0x'' @ show_hex (unat i)) = Inr i"
    by (simp add: parse_id_def)
qed

section \<open>Automatic message sizes\<close>

lemma foldl_max_ge:
  "e \<in> set es \<or> e \<le> m \<Longrightarrow> (e :: 'a :: linorder) \<le> foldl (\<lambda>max e. if max < e then e else max) m es"
proof (induction es arbitrary: m)
  case (Cons x es)
  then have "e \<in> set es \<or> e \<le> (if m < x then x else m)"
    by auto
  then show ?case unfolding foldl_Cons by (rule Cons.IH)
qed simp

lemma foldl_max_mem:
  "foldl (\<lambda>max e. if max < e then e else max) m es \<in> insert (m :: 'a :: linorder) (set es)"
proof (induction es arbitrary: m)
  case (Cons x es)
  show ?case
    by (cases "m < x") (use Cons.IH [of x] Cons.IH [of m] in simp_all, blast+)
qed simp

lemma parseSignal_place:
  assumes "parseSignal pf X ids e ms mux v = Inr s"
  shows "get_attribute_u64 X e ''offset'' = Inr (sig_start_bit s)"
    and "get_or X (get_attribute_u64 X) e ''length'' 1 = Inr (sig_bit_size s)"
    and "\<exists>d. SignalImpl_new pf ms d = Some s"
proof -
  obtain d where d: "SignalImpl_new pf ms d = Some s"
    "get_attribute_u64 X e ''offset'' = Inr (sig_start_bit d)"
    "get_or X (get_attribute_u64 X) e ''length'' 1 = Inr (sig_bit_size d)"
    using assms unfolding parseSignal_def bnd_eq_Inr Let_def deref_eq_Inr by fastforce
  have "signal_data.truncate s = d"
    using d(1) by (rule SignalImpl_new_SomeD)
  from truncate_sel [OF this] d
  show "get_attribute_u64 X e ''offset'' = Inr (sig_start_bit s)"
    "get_or X (get_attribute_u64 X) e ''length'' 1 = Inr (sig_bit_size s)"
    "\<exists>d. SignalImpl_new pf ms d = Some s" by auto
qed

lemma signal_end_small:
  assumes "signal_end X e = Inr n"
    and "\<forall>offset length. get_attribute_u64 X e ''offset'' = Inr offset \<and>
           get_or X (get_attribute_u64 X) e ''length'' 1 = Inr length \<longrightarrow>
           unat offset + unat length \<le> 2 ^ 62"
  shows "unat n \<le> 2 ^ 62"
proof -
  obtain offset length where "get_attribute_u64 X e ''offset'' = Inr offset"
    "get_or X (get_attribute_u64 X) e ''length'' 1 = Inr length" "n = offset + length"
    using assms(1) by (auto simp: signal_end_def bnd_eq_Inr)
  moreover from this have "unat offset + unat length \<le> 2 ^ 62"
    using assms(2) by blast
  ultimately show ?thesis
    by (simp add: unat_add64)
qed

lemma exceeds_flag:
  assumes "SignalImpl_new pf ms d = Some s"
  shows "Error s SignalExceedsMessageSize \<longleftrightarrow> exceeds_message_size ms d"
proof -
  have "sig_error s = constructor_error pf ms d"
    using assms by (auto elim: SignalImpl_new_SomeD)
  then show ?thesis
    by (cases "sig_extended_value_type d"; cases "exceeds_message_size ms d")
       (simp_all add: Error_def constructor_error_def SetError_def)
qed

text \<open>C25. A message with length \<open>auto\<close> has room for every little-endian signal right below it: the
  signal ends within the message and does not get \<open>SignalExceedsMessageSize\<close>, as long as no
  signal ends beyond bit \<open>2 ^ 62\<close>. Multiplexed signals are not counted.\<close>

theorem kcd_auto_size:
  assumes "getMessageSize X message = Inr ms"
    and small: "\<forall>e \<in> set (find_elements X message (path1 ''Signal'')). \<forall>offset length.
           get_attribute_u64 X e ''offset'' = Inr offset \<and>
           get_or X (get_attribute_u64 X) e ''length'' 1 = Inr length \<longrightarrow>
           unat offset + unat length \<le> 2 ^ 62"
    and e: "e \<in> set (find_elements X message (path1 ''Signal''))"
    and s: "parseSignal pf X ids e ms NoMux 0 = Inr s" and "sig_byte_order s = LittleEndian"
  shows "unat (sig_start_bit s) + unat (sig_bit_size s) \<le> 8 * unat ms \<and>
     \<not> Error s SignalExceedsMessageSize"
proof -
  note place = parseSignal_place [OF s]
  obtain ends where ends: "collect (signal_end X) (find_elements X message (path1 ''Signal'')) = Inr ends"
    and ms: "ms = (foldl (\<lambda>max e. if max < e then e else max) 0 ends + 7) div 8"
    using assms(1) unfolding getMessageSize_def Let_def bnd_eq_Inr by auto
  let ?max = "foldl (\<lambda>max e. if max < e then e else max) 0 ends"
  have sum: "unat (sig_start_bit s) + unat (sig_bit_size s) \<le> 2 ^ 62"
    using small e place(1,2) by blast
  have "sig_start_bit s + sig_bit_size s \<in> set ends"
    using collect_complete [OF ends e] place(1,2) by (auto simp: signal_end_def)
  then have "sig_start_bit s + sig_bit_size s \<le> ?max"
    by (intro foldl_max_ge) simp
  then have ge: "unat (sig_start_bit s) + unat (sig_bit_size s) \<le> unat ?max"
    using sum by (simp add: word_le_nat_alt unat_add64)
  have "unat x \<le> 2 ^ 62" if x: "x \<in> set ends" for x
  proof -
    obtain e' where e': "e' \<in> set (find_elements X message (path1 ''Signal''))" "signal_end X e' = Inr x"
      using collect_mem [OF ends x] .
    show ?thesis
      using signal_end_small [OF e'(2)] bspec [OF small e'(1)] by blast
  qed
  then have "unat ?max \<le> 2 ^ 62"
    using foldl_max_mem [of 0 ends] by auto
  then have ms8: "unat ms = (unat ?max + 7) div 8"
    by (simp add: ms unat_div8 unat_add64)
  then have room: "unat (sig_start_bit s) + unat (sig_bit_size s) \<le> 8 * unat ms"
    using ge by linarith
  obtain d where d: "SignalImpl_new pf ms d = Some s"
    using place(3) by blast
  have n: "unat (sig_bit_size d) \<le> 64" and tr: "signal_data.truncate s = d"
    using d by (auto elim: SignalImpl_new_SomeD)
  note sel = truncate_sel [OF tr]
  have "\<not> exceeds_message_size ms d"
    using assms(5) n sum room ms8 \<open>unat ?max \<le> 2 ^ 62\<close>
    by (subst exceeds_little) (auto simp: sel)
  then show ?thesis
    using room exceeds_flag [OF d] by simp
qed

theorem kcd_auto_size_witness:
  "\<exists>s. parseSignal ieee tree_xml Map.empty ex_kcd_signal 9 NoMux 0 = Inr s \<and>
     \<not> Error s SignalExceedsMessageSize"
proof -
  obtain s where s: "parseSignal ieee tree_xml Map.empty ex_kcd_signal 9 NoMux 0 = Inr s"
    "sig_byte_order s = LittleEndian"
    using ex_signal_parsed by blast
  moreover have "getMessageSize tree_xml ex_kcd_message = Inr 9"
    by (simp add: getMessageSize_def signal_end_def document_simps stream_simps)
  moreover have "find_elements tree_xml ex_kcd_message (path1 ''Signal'') = [ex_kcd_signal]"
    by (simp add: document_simps)
  moreover have "get_attribute_u64 tree_xml ex_kcd_signal ''offset'' = Inr 60"
    "get_or tree_xml (get_attribute_u64 tree_xml) ex_kcd_signal ''length'' 1 = Inr 8"
    by (simp_all add: document_simps stream_simps)
  ultimately show ?thesis
    using kcd_auto_size [of tree_xml ex_kcd_message 9 ex_kcd_signal ieee Map.empty s] by auto
qed

end
