(* ===== verification/Tool.thy ===== *)
theory Tool
  imports HumanProps PrintProps Network2CProps DecodeToolProps KCDProps
begin

text \<open>
  The command line program (\<open>src/tools/dbcppp/main.cpp\<close>): the sub program \<open>dbc2\<close>, which merges the
  networks of its files and writes them in one of three formats, and the choice between the sub
  programs. \<open>decode\<close> is the theory \<open>DecodeTool\<close>. The option parser \<open>cxxopts\<close> is a parameter; an
  option that is absent is \<open>None\<close>.
\<close>

record tool_options =
  opt_help :: bool
  opt_format :: "string option"
  opt_dbc :: "string list option"
  opt_bus :: "string list option"

section \<open>The sub program \<open>dbc2\<close>\<close>

definition empty_network :: "NetworkImpl option" where
  "empty_network = INetwork_Create [] [] (Some (IBitTiming_Create 0 0 0)) [] [] [] [] [] [] [] []"

text \<open>The loops over the files and over the networks of a file.\<close>

definition merge_files ::
    "(string \<Rightarrow> (string \<times> NetworkImpl) list option) \<Rightarrow> string list \<Rightarrow> NetworkImpl option" where
  "merge_files load dbcs =
     foldl (\<lambda>net dbc. do {
         net \<leftarrow> net; nets \<leftarrow> load dbc;
         Some (foldl (\<lambda>net other. Merge net (snd other)) net nets) })
       empty_network dbcs"

definition write_format :: "formatter \<Rightarrow> string \<Rightarrow> NetworkImpl \<Rightarrow> string option" where
  "write_format fmt format net =
     (if format = ''C'' then print_c_network fmt net
      else if format = ''DBC'' then print_network net
      else if format = ''human'' then print_human_network fmt net
      else Some [])"

definition dbc2_main ::
    "formatter \<Rightarrow> string \<Rightarrow> (string \<Rightarrow> (string \<times> NetworkImpl) list option) \<Rightarrow> tool_options \<Rightarrow>
     (string \<times> nat) option" where
  "dbc2_main fmt help load vm =
     (if opt_help vm then
        Some (''Usage:'' @ newline @
          ''dbcppp dbc2c [--help] --format=<format>... --dbc=<dbc filename>...'' @ newline @ help, 1)
      else
        (case opt_format vm of
           None \<Rightarrow> Some (''Argument error: Argument --format=<format> missing'' @ newline, 1)
         | Some format \<Rightarrow>
             (case opt_dbc vm of
                None \<Rightarrow>
                  Some (''Argument error: At least one --dbc=<dbc> argument required'' @ newline, 1)
              | Some dbcs \<Rightarrow> do {
                  net \<leftarrow> merge_files load dbcs;
                  t \<leftarrow> write_format fmt format net;
                  Some (t, 0) })))"

section \<open>The program\<close>

text \<open>Removing the name of the sub program from the arguments: \<open>argv[i] = argv[i + 1]\<close> for all but the
  last, which stays; \<open>dbc2\<close> parses one argument less, \<open>decode\<close> all of them.\<close>

definition shift_args :: "string list \<Rightarrow> string list" where
  "shift_args argv =
     foldl (\<lambda>av i. av[i := av ! (i + 1)]) argv [1..<length argv - 1]"

definition print_help :: string where
  "print_help = ''dbcppp v1.0.0'' @ newline @ ''For help type: dbcppp <subprogram> --help'' @ newline @
     ''Sub programs: dbc2, decode'' @ newline"

text \<open>The outer option is a program that does not end, the inner one undefined behaviour.\<close>

definition decode_command ::
    "Endian \<Rightarrow> (nat \<Rightarrow> u8 list) \<Rightarrow> string \<Rightarrow> (string \<Rightarrow> NetworkImpl option) \<Rightarrow> string list \<Rightarrow>
     tool_options \<Rightarrow> (string \<times> nat) option option" where
  "decode_command native junk help load_dbc input vm =
     (if opt_help vm then
        Some (Some (''Usage:'' @ newline @
          ''dbcppp decode [--help] --bus=<<bus name>:<DBC filename>>...'' @ newline @ help, 1))
      else
        (case opt_bus vm of
           None \<Rightarrow>
             Some (Some (''Argument error: At least one --bus=<<bus name>:<DBC filename>> argument required''
               @ newline, 1))
         | Some buses \<Rightarrow> decode_main native junk load_dbc buses input))"

definition tool_main ::
    "Endian \<Rightarrow> (nat \<Rightarrow> u8 list) \<Rightarrow> formatter \<Rightarrow> string \<Rightarrow> (string list \<Rightarrow> tool_options) \<Rightarrow>
     (string \<Rightarrow> (string \<times> NetworkImpl) list option) \<Rightarrow> (string \<Rightarrow> NetworkImpl option) \<Rightarrow>
     string list \<Rightarrow> string list \<Rightarrow> (string \<times> nat) option option" where
  "tool_main native junk fmt help parse load load_dbc argv input =
     (if length argv < 2 \<or> argv ! 1 = ''help'' then Some (Some (print_help, 1))
      else if argv ! 1 = ''dbc2'' then
        Some (dbc2_main fmt help load (parse (butlast (shift_args argv))))
      else if argv ! 1 = ''decode'' then
        decode_command native junk help load_dbc input (parse (shift_args argv))
      else Some (Some (print_help, 1)))"

section \<open>What loading and merging keep\<close>

definition loaded :: "NetworkImpl \<Rightarrow> bool" where
  "loaded net \<longleftrightarrow>
     typed_attrs OT_Network (net_attribute_defaults net) \<and>
     typed_attrs OT_Network (net_attribute_values net) \<and>
     list_all (\<lambda>n. typed_attrs OT_Node (node_attribute_values n)) (net_nodes net) \<and>
     list_all (\<lambda>m. typed_attrs OT_Message (msg_attribute_values m) \<and>
       list_all (\<lambda>s. typed_attrs OT_Signal (sig_attribute_values s)) (msg_signals m))
       (net_messages net) \<and>
     list_all (\<lambda>ev. typed_attrs OT_EnvironmentVariable (ev_attribute_values ev))
       (net_environment_variables net) \<and>
     network_wf net \<and> list_all (\<lambda>m. list_all constructed (msg_signals m)) (net_messages net)"

lemma Merge_loaded: "loaded a \<Longrightarrow> loaded b \<Longrightarrow> loaded (Merge a b)"
  by (simp add: loaded_def Merge_def network_wf_def)

lemma empty_network_loaded: "\<exists>net. empty_network = Some net \<and> loaded net"
  by (simp add: empty_network_def INetwork_Create_def loaded_def network_wf_def)

lemma merge_nets_loaded:
  "loaded net \<Longrightarrow> \<forall>n \<in> set nets. loaded (snd n) \<Longrightarrow>
     loaded (foldl (\<lambda>net other. Merge net (snd other)) net nets)"
  by (induction nets arbitrary: net) (auto simp: Merge_loaded)

lemma foldl_bind_None: "foldl (\<lambda>net dbc. do { n \<leftarrow> net; f n dbc }) None xs = None"
  by (induction xs) simp_all

lemma merge_files_loaded:
  assumes load: "\<And>dbc nets n. dbc \<in> set dbcs \<Longrightarrow> load dbc = Some nets \<Longrightarrow> n \<in> set nets \<Longrightarrow> loaded (snd n)"
    and "merge_files load dbcs = Some net"
  shows "loaded net"
proof -
  have "loaded net" if "foldl (\<lambda>net dbc. do {
         net \<leftarrow> net; nets \<leftarrow> load dbc;
         Some (foldl (\<lambda>net other. Merge net (snd other)) net nets) }) (Some n0) dbcs = Some net"
    "loaded n0" for n0
    using that load
  proof (induction dbcs arbitrary: n0)
    case Nil
    then show ?case by simp
  next
    case (Cons dbc dbcs)
    obtain nets where nets: "load dbc = Some nets"
      using Cons.prems(1) by (cases "load dbc") (simp_all add: foldl_bind_None)
    show ?case
    proof (rule Cons.IH)
      show "loaded (foldl (\<lambda>net other. Merge net (snd other)) n0 nets)"
        by (rule merge_nets_loaded) (use Cons.prems nets in auto)
    qed (use Cons.prems nets in auto)
  qed
  moreover obtain n0 where n0: "empty_network = Some n0" "loaded n0"
    using empty_network_loaded by blast
  ultimately show ?thesis
    using assms(2) unfolding merge_files_def n0(1) by blast
qed

lemma loaded_writes_DBC:
  assumes "loaded net"
  shows "print_network net \<noteq> None"
proof -
  have "print_attribute_section net \<noteq> None"
  proof
    assume "print_attribute_section net = None"
    then obtain p a where p: "stored_attr net p = Some a" "print_attribute net p a = None"
      unfolding print_attribute_section_None_iff by blast
    have "attr_object_type a = owner_type p"
      using assms p(1) unfolding loaded_def
      by (cases p) (auto simp: at_Some_iff bind_eq_Some_conv list_all_length)
    then show False
      using print_attribute_None_iff [OF p(1)] p(2) by (cases p) auto
  qed
  then show ?thesis by (auto simp: print_network_def)
qed

lemma decode_pieces_defined:
  assumes "constructed s"
  shows "decode_pieces s \<noteq> None"
proof -
  obtain pf ms where "SignalImpl_new pf ms (signal_data.truncate s) = Some s"
    using assms by (auto simp: constructed_def)
  then obtain l where l: "signal_layout (signal_data.truncate s)
      (mask (unat (sig_bit_size (signal_data.truncate s)))) = Some l"
    and n: "1 \<le> unat (sig_bit_size (signal_data.truncate s))"
      "unat (sig_bit_size (signal_data.truncate s)) \<le> 64"
    and f: "sig_fixed_start_bit_1 s = lay_fixed_start_bit_1 l"
    by (rule SignalImpl_new_SomeD)
  have nb: "signal_nbytes (signal_data.truncate s) = signal_nbytes s"
    by (simp add: signal_nbytes_def signal_data.defs)
  show ?thesis
  proof (cases "signal_nbytes s \<le> 8")
    case True
    then show ?thesis by (simp add: decode_pieces_def Let_def)
  next
    case False
    then have "wide_layout (signal_data.truncate s) l"
      using layout_conditions(3) [OF n(2)] by (intro layout_wide [OF n l]) (simp add: nb)
    then have "sig_fixed_start_bit_1 s \<noteq> None"
      by (auto simp: wide_layout_def Let_def f split: EByteOrder.splits)
    then show ?thesis by (auto simp: decode_pieces_def Let_def)
  qed
qed

lemma loaded_writes_C:
  assumes "loaded net"
  shows "print_c_network fmt net \<noteq> None"
proof -
  have "print_c_signal fmt m s \<noteq> None" if "m \<in> set (net_messages net)" "s \<in> set (msg_signals m)" for m s
  proof -
    have "constructed s"
      using assms that by (auto simp: loaded_def list_all_iff)
    then show ?thesis
      using decode_pieces_defined [of s] by (auto simp: print_c_signal_def)
  qed
  then have "None \<notin> set (concat (map (\<lambda>m. map (print_c_signal fmt m) (msg_signals m)) (net_messages net)))"
    by (auto simp del: not_None_eq) metis
  then show ?thesis
    by (auto simp: print_c_network_def bind_eq_None_conv those_None_iff simp del: not_None_eq)
qed

lemma loaded_writes_human:
  assumes "loaded net"
  shows "print_human_network fmt net = None \<longleftrightarrow>
     (\<exists>m \<in> set (net_messages net). msg_error m = MuxValeWithoutMuxSignal)"
proof -
  have "print_human_message fmt m = None \<longleftrightarrow> msg_error m = MuxValeWithoutMuxSignal"
    if "m \<in> set (net_messages net)" for m
  proof -
    have "message_wf m"
      using assms that by (auto simp: loaded_def network_wf_def list_all_iff)
    then show ?thesis
      using fst_scan_mux [of "msg_signals m"] snd_scan_mux_None [of "msg_signals m"]
      by (auto simp: print_human_message_None get_mux_values_Nil get_mux_signal_None message_wf_def)
  qed
  then show ?thesis
    by (force simp: print_human_network_def bind_eq_None_conv those_None_iff)
qed

lemma conversion_loaded:
  "DBCAST2Network pf gnet = Some (net, ws) \<Longrightarrow> loaded net"
  using conversion_typed [of pf gnet net ws] conversion_wf [of pf gnet net ws]
  by (simp add: loaded_def)

section \<open>From files to files\<close>

lemma kcd_loaded: "kcd_network net \<Longrightarrow> loaded net"
  by (auto simp: loaded_def network_wf_def list_all_iff)

text \<open>Loading with both readers; \<open>enable_kcd\<close> is the macro \<open>ENABLE_KCD\<close> of the build. An exception of
  the KCD reader ends the program and is \<open>None\<close>, too.\<close>

definition load_files ::
    "(string \<Rightarrow> G_Network option) \<Rightarrow> platform \<Rightarrow> (string \<Rightarrow> 'e kcd) \<Rightarrow> 'e xml \<Rightarrow> bool \<Rightarrow>
     (string \<Rightarrow> string option) \<Rightarrow> string \<Rightarrow> (string \<times> NetworkImpl) list option" where
  "load_files ParseFromMemory pf read_document X enable_kcd open_file =
     LoadNetworkFromFile enable_kcd open_file
       (\<lambda>str. map_option fst (LoadDBCFromIs ParseFromMemory pf str))
       (\<lambda>str. case LoadKCDFromIs read_document pf X str of Inr nets \<Rightarrow> Some nets | Inl _ \<Rightarrow> None)"

lemma load_files_loaded:
  assumes "load_files parse pf read_document X kcd open_file file = Some nets" and "n \<in> set nets"
  shows "loaded (snd n)"
proof -
  have "loaded (snd n)" if "LoadKCDFromIs read_document pf X str = Inr nets" for str
    using LoadKCDFromIs_networks [OF that] assms(2) kcd_loaded by (auto simp: list_all_iff)
  then show ?thesis
    using assms conversion_loaded [of pf _ "snd n"]
    by (auto simp: load_files_def LoadNetworkFromFile_def LoadDBCFromIs_def
        split: option.splits if_splits sum.splits)
qed

text \<open>C26. Whatever the parsers, the files and their number: when the networks of the files are loaded,
  from DBC or KCD files, merging them gives a network that \<open>dbc2\<close> can write as DBC and as C; it can
  be drawn unless some message uses multiplexed signals without a switch.\<close>

theorem dbc2_writes:
  assumes "merge_files (load_files parse pf read_document X kcd open_file) dbcs = Some net"
  shows "write_format fmt ''DBC'' net \<noteq> None \<and> write_format fmt ''C'' net \<noteq> None \<and>
     (write_format fmt ''human'' net = None \<longleftrightarrow>
        (\<exists>m \<in> set (net_messages net). msg_error m = MuxValeWithoutMuxSignal))"
proof -
  have "loaded net"
    using load_files_loaded assms by (rule merge_files_loaded)
  then show ?thesis
    using loaded_writes_DBC loaded_writes_C [of net fmt] loaded_writes_human [of net fmt]
    by (simp add: write_format_def)
qed

theorem dbc2_writes_witness:
  "\<exists>net. merge_files (load_files (\<lambda>_. Some (ex_gnet 8 [ex_gsignal])) ieee (\<lambda>_. Inr ex_kcd) tree_xml True Some)
       [''a.dbc'', ''b.kcd''] = Some net \<and>
     write_format (\<lambda>s _. s) ''DBC'' net \<noteq> None"
proof -
  let ?load = "load_files (\<lambda>_. Some (ex_gnet 8 [ex_gsignal])) ieee (\<lambda>_. Inr ex_kcd) tree_xml True Some"
  have "?load ''a.dbc'' \<noteq> None"
  proof -
    have "DBCAST2Network ieee (ex_gnet 8 [ex_gsignal]) \<noteq> None" by code_simp
    then show ?thesis
      by (auto simp: load_files_def LoadNetworkFromFile_def LoadDBCFromIs_def path_extension_def
          path_filename_def)
  qed
  moreover have "?load ''b.kcd'' \<noteq> None"
  proof -
    have "\<exists>nets. LoadKCDFromIs (\<lambda>_. Inr ex_kcd) ieee tree_xml str = Inr nets" for str :: string
      using ex_kcd_loads by (simp add: LoadKCDFromIs_def)
    from this [of "''b.kcd''"] show ?thesis
      by (auto simp: load_files_def LoadNetworkFromFile_def path_extension_def path_filename_def)
  qed
  ultimately obtain net where net: "merge_files ?load [''a.dbc'', ''b.kcd''] = Some net"
    by (auto simp: merge_files_def empty_network_def INetwork_Create_def)
  then show ?thesis
    using dbc2_writes [OF net, of "\<lambda>s _. s"] by blast
qed

section \<open>The arguments\<close>

text \<open>\<open>decode\<close> parses one argument too many: its last one is there twice.\<close>

lemma shift_args_loop:
  "k + 2 \<le> length argv \<Longrightarrow>
     foldl (\<lambda>av i. av[i := av ! (i + 1)]) argv [1..<k + 1] =
     take 1 argv @ take k (drop 2 argv) @ drop (k + 1) argv"
proof (induction k)
  case 0
  then show ?case by simp
next
  case (Suc k)
  let ?av = "take 1 argv @ take k (drop 2 argv) @ drop (k + 1) argv"
  have d: "drop (k + 1) argv = argv ! (k + 1) # argv ! (k + 2) # drop (k + 3) argv"
    using Suc.prems by (simp add: Cons_nth_drop_Suc eval_nat_numeral)
  have len: "length (take 1 argv @ take k (drop 2 argv)) = k + 1"
    using Suc.prems by simp
  have "?av ! (k + 2) = argv ! (k + 2)"
    using len unfolding d append_assoc [symmetric] by (simp add: nth_append)
  moreover have "?av[k + 1 := x] =
      (take 1 argv @ take k (drop 2 argv)) @ x # drop (k + 2) argv" for x
    using len Suc.prems Cons_nth_drop_Suc [of "k + 1" argv]
    unfolding append_assoc [symmetric] by (simp add: list_update_append del: append_assoc flip: Cons_nth_drop_Suc)
  moreover have "take (Suc k) (drop 2 argv) = take k (drop 2 argv) @ [argv ! (k + 2)]"
    using Suc.prems by (simp add: take_Suc_conv_app_nth)
  ultimately show ?case
    using Suc.IH Suc.prems by simp
qed

lemma shift_args_Cons: "shift_args (prog # sub # args) = prog # args @ [last (sub # args)]"
proof -
  have "shift_args (prog # sub # args) = prog # args @ drop (length args) (sub # args)"
    using shift_args_loop [of "length args" "prog # sub # args"] by (simp add: shift_args_def)
  also have "drop (length args) (sub # args) = [last (sub # args)]"
    by (cases args rule: rev_cases) simp_all
  finally show ?thesis .
qed

text \<open>The program takes the name of the sub program out of its arguments. \<open>dbc2\<close> parses the
  arguments that follow it; \<open>decode\<close> parses one too many, its last argument twice. The bus that is
  named twice changes nothing: the second load has the same result and the first entry is kept.\<close>

theorem tool_arguments:
  "tool_main native junk fmt help parse load load_dbc (prog # ''dbc2'' # args) input =
     Some (dbc2_main fmt help load (parse (prog # args))) \<and>
   tool_main native junk fmt help parse load load_dbc (prog # ''decode'' # args) input =
     decode_command native junk help load_dbc input
       (parse (prog # args @ [last (''decode'' # args)])) \<and>
   decode_main native junk load_dbc (buses @ [b, b]) input =
     decode_main native junk load_dbc (buses @ [b]) input"
proof -
  have twice: "load_buses load_dbc (buses @ [b, b]) m = load_buses load_dbc (buses @ [b]) m" for m
    by (induction load_dbc buses m rule: load_buses.induct)
       (auto simp: insert_bus_def split: option.splits)
  have "butlast (prog # args @ [x]) = prog # args" for x
    by (simp add: butlast_append)
  then show ?thesis
    by (simp add: tool_main_def shift_args_Cons decode_main_def twice)
qed

end
