(* ===== verification/Iterators.thy ===== *)
theory Iterators
  imports Prelude
begin

text \<open>
  Iterators (\<open>include/dbcppp/Iterator.h\<close>): an iterator is a function that returns an element by
  its index, and an index; a range-based \<open>for\<close> over an \<open>Iterable\<close> moves one from \<open>begin()\<close> until
  it equals \<open>end()\<close>. The locale \<open>collection\<close> says what a class promises with its pair of
  \<open>_Get\<close> and \<open>_Size\<close>; what a loop over such a collection does is proved once in it. Reading past
  a vector is \<open>None\<close>.
\<close>

section \<open>Vectors\<close>

text \<open>\<open>operator[]\<close> of a vector does not check the index.\<close>

definition vec_at :: "'a list \<Rightarrow> u64 \<Rightarrow> 'a option" where
  "vec_at xs i = (if unat i < length xs then Some (xs ! unat i) else None)"

definition vec_size :: "'a list \<Rightarrow> u64" where
  "vec_size xs = of_nat (length xs)"

text \<open>The number of elements of a vector is a \<open>std::size_t\<close>.\<close>

definition fits :: "'a list \<Rightarrow> bool" where
  "fits xs \<longleftrightarrow> length xs < 2 ^ 64"

lemma unat_vec_size: "fits xs \<Longrightarrow> unat (vec_size xs) = length xs"
  by (simp add: fits_def vec_size_def unat_of_nat take_bit_nat_eq_self_iff)

lemma vec_at_None: "vec_at xs i = None \<longleftrightarrow> length xs \<le> unat i"
  by (simp add: vec_at_def)

text \<open>The element n places before the end; further back the index wraps around.\<close>

lemma vec_at_back:
  assumes "fits xs" and "length xs + unat n < 2 ^ 64" and "0 < n"
  shows "vec_at xs (vec_size xs - n) =
     (if unat n \<le> length xs then Some (xs ! (length xs - unat n)) else None)"
proof (cases "unat n \<le> length xs")
  case True
  then have "unat (vec_size xs - n) = length xs - unat n"
    using unat_vec_size [OF assms(1)] by (simp add: unat_sub word_le_nat_alt)
  then show ?thesis using True assms(3) by (auto simp: vec_at_def word_less_nat_alt)
next
  case False
  have "unat (vec_size xs - n) = 2 ^ 64 + length xs - unat n"
    using False unat_vec_size [OF assms(1)] unsigned_less [of n, where 'a = nat]
    by (simp add: unat_sub_if_size word_size)
  then show ?thesis using False assms(2) by (simp add: vec_at_def)
qed

lemma double_not_zero:
  assumes "0 < n" and "n < 2 ^ 63"
  shows "n + n \<noteq> (0::u64)"
proof
  have b: "0 < unat n" "unat n < 2 ^ 63" using assms by (simp_all add: word_less_nat_alt)
  assume "n + n = 0"
  then have "unat (n + n) = 0" by simp
  moreover have "unat (n + n) = unat n + unat n" using b(2) by (simp add: unat_word_ariths)
  ultimately show False using b(1) by simp
qed

section \<open>\<open>Iterator\<close>\<close>

record 'a Iterator =
  itr_get :: "u64 \<Rightarrow> 'a option"
  itr_i :: u64

definition Iterator_new :: "(u64 \<Rightarrow> 'a option) \<Rightarrow> u64 \<Rightarrow> 'a Iterator" where
  "Iterator_new get i = \<lparr>itr_get = get, itr_i = i\<rparr>"

text \<open>\<open>operator*\<close> and \<open>operator->\<close> call the function, and may run into what is undefined there.\<close>

definition iter_deref :: "'a Iterator \<Rightarrow> 'a option" where
  "iter_deref it = itr_get it (itr_i it)"

definition iter_inc :: "'a Iterator \<Rightarrow> 'a Iterator" where
  "iter_inc it = it\<lparr>itr_i := itr_i it + 1\<rparr>"

definition iter_plus :: "'a Iterator \<Rightarrow> u64 \<Rightarrow> 'a Iterator" where
  "iter_plus it n = Iterator_new (itr_get it) (itr_i it + n)"

text \<open>The operator adds the offset.\<close>

definition iter_minus :: "'a Iterator \<Rightarrow> u64 \<Rightarrow> 'a Iterator" where
  "iter_minus it n = Iterator_new (itr_get it) (itr_i it + n)"

definition iter_diff :: "'a Iterator \<Rightarrow> 'a Iterator \<Rightarrow> i64" where
  "iter_diff it rhs = itr_i it - itr_i rhs"

definition iter_plus_assign :: "'a Iterator \<Rightarrow> u64 \<Rightarrow> 'a Iterator" where
  "iter_plus_assign it n = it\<lparr>itr_i := itr_i it + n\<rparr>"

definition iter_minus_assign :: "'a Iterator \<Rightarrow> u64 \<Rightarrow> 'a Iterator" where
  "iter_minus_assign it n = it\<lparr>itr_i := itr_i it - n\<rparr>"

text \<open>The functions are not compared.\<close>

definition iter_eq :: "'a Iterator \<Rightarrow> 'a Iterator \<Rightarrow> bool" where
  "iter_eq it rhs \<longleftrightarrow> itr_i it = itr_i rhs"

definition iter_neq :: "'a Iterator \<Rightarrow> 'a Iterator \<Rightarrow> bool" where
  "iter_neq it rhs \<longleftrightarrow> \<not> iter_eq it rhs"

named_theorems iterating \<comment> \<open>evaluation of the operators of an iterator\<close>

lemmas [iterating] = Iterator_new_def iter_deref_def iter_inc_def iter_plus_def iter_minus_def
  iter_diff_def iter_plus_assign_def iter_minus_assign_def iter_eq_def iter_neq_def

text \<open>Moving forth and back again: right for the assigning operators only.\<close>

lemma plus_minus_assign: "iter_minus_assign (iter_plus_assign it n) n = it"
  by (simp add: iterating)

lemma plus_minus: "iter_eq (iter_minus (iter_plus it n) n) it \<longleftrightarrow> n + n = 0"
  by (simp add: iterating add.assoc)

lemma plus_minus_eq: "iter_eq (iter_minus_assign (iter_plus it n) n) it"
  by (simp add: iterating)

section \<open>\<open>Iterable\<close> and the range-based \<open>for\<close>\<close>

record 'a Iterable =
  itb_begin :: "'a Iterator"
  itb_end :: "'a Iterator"

definition Iterable_new :: "'a Iterator \<Rightarrow> 'a Iterator \<Rightarrow> 'a Iterable" where
  "Iterable_new b e = \<lparr>itb_begin = b, itb_end = e\<rparr>"

text \<open>The macro \<open>DBCPPP_MAKE_ITERABLE\<close>, of the two functions it binds.\<close>

definition make_iterable :: "(u64 \<Rightarrow> 'a option) \<Rightarrow> u64 \<Rightarrow> 'a Iterable" where
  "make_iterable get n = Iterable_new (Iterator_new get 0) (Iterator_new get n)"

text \<open>The body of a loop takes an element and the state of the loop to the next state and
  whether it leaves the loop by \<open>break\<close>, or is undefined.\<close>

type_synonym ('a, 's) loop_body = "'a \<Rightarrow> 's \<Rightarrow> ('s \<times> bool) option"

partial_function (option) range_for ::
    "('a, 's) loop_body \<Rightarrow> 'a Iterator \<Rightarrow> 'a Iterator \<Rightarrow> 's \<Rightarrow> 's option" where
  "range_for body it stop s =
     (if iter_neq it stop then do {
        x \<leftarrow> iter_deref it;
        (s, break) \<leftarrow> body x s;
        if break then Some s else range_for body (iter_inc it) stop s }
      else Some s)"

definition for_each :: "'a Iterable \<Rightarrow> ('a, 's) loop_body \<Rightarrow> 's \<Rightarrow> 's option" where
  "for_each r body s = range_for body (itb_begin r) (itb_end r) s"

text \<open>The reference: the body for each element of a list, in its order.\<close>

primrec visit :: "('a, 's) loop_body \<Rightarrow> 'a list \<Rightarrow> 's \<Rightarrow> 's option" where
  "visit body [] s = Some s"
| "visit body (x # xs) s =
     do { (s, break) \<leftarrow> body x s; if break then Some s else visit body xs s }"

lemma visit_total:
  "(\<And>x s. x \<in> set xs \<Longrightarrow> body x s \<noteq> None) \<Longrightarrow> \<exists>s'. visit body xs s = Some s'"
proof (induction xs arbitrary: s)
  case (Cons x xs)
  obtain s1 b where "body x s = Some (s1, b)" using Cons.prems [of x s] by auto
  then show ?case using Cons.IH [of s1] Cons.prems by (cases b) auto
qed simp

lemma visit_fold: "visit (\<lambda>x s. Some (f x s, False)) xs s = Some (fold f xs s)"
  by (induction xs arbitrary: s) simp_all

lemma visit_all:
  "visit (\<lambda>x b. Some (b \<and> P x, False)) xs b = Some (b \<and> list_all P xs)"
  by (induction xs arbitrary: b) auto

lemma visit_concat:
  "visit (\<lambda>ys s. do { s \<leftarrow> visit (\<lambda>y s. Some (f y s, False)) ys s; Some (s, False) }) xss s =
     Some (fold f (concat xss) s)"
  by (induction xss arbitrary: s) (simp_all add: visit_fold)

section \<open>Collections\<close>

text \<open>What a class promises of a pair \<open>_Get\<close>, \<open>_Size\<close>: they read a vector of the object.\<close>

locale collection =
  fixes get :: "'c \<Rightarrow> u64 \<Rightarrow> 'a option" and size_of :: "'c \<Rightarrow> u64" and contents :: "'c \<Rightarrow> 'a list"
  assumes get_at: "get c i = vec_at (contents c) i"
    and size_is: "size_of c = vec_size (contents c)"
begin

lemma range_for_drop:
  assumes "fits (contents c)" and "n \<le> length (contents c)"
  shows "range_for body (Iterator_new (get c) (of_nat n)) (Iterator_new (get c) (size_of c)) s =
     visit body (drop n (contents c)) s"
  using assms(2)
proof (induction "length (contents c) - n" arbitrary: n s)
  case 0
  then have "n = length (contents c)" by simp
  then show ?case by (subst range_for.simps) (simp add: iterating size_is vec_size_def)
next
  case (Suc k)
  then have n: "n < length (contents c)" by simp
  with assms(1) have i: "unat (of_nat n :: u64) = n"
    by (simp add: fits_def unat_of_nat take_bit_nat_eq_self_iff)
  with n have ne: "of_nat n \<noteq> size_of c"
    using unat_vec_size [OF assms(1)] by (metis size_is less_irrefl)
  have d: "drop n (contents c) = contents c ! n # drop (Suc n) (contents c)"
    using n by (simp add: Cons_nth_drop_Suc)
  have x: "iter_deref (Iterator_new (get c) (of_nat n)) = Some (contents c ! n)"
    using n by (simp add: iterating get_at vec_at_def i)
  have inc: "iter_inc (Iterator_new (get c) (of_nat n)) = Iterator_new (get c) (of_nat (Suc n))"
    by (simp add: iterating add.commute)
  have IH: "range_for body (Iterator_new (get c) (of_nat (Suc n)))
      (Iterator_new (get c) (size_of c)) s' = visit body (drop (Suc n) (contents c)) s'" for s'
    using Suc.hyps(2) n by (intro Suc.hyps(1)) auto
  have "iter_neq (Iterator_new (get c) (of_nat n)) (Iterator_new (get c) (size_of c))"
    using ne by (simp add: iterating)
  then show ?case by (subst range_for.simps) (simp add: d x inc IH del: of_nat_Suc cong: if_cong)
qed

lemma for_each_visits:
  "fits (contents c) \<Longrightarrow>
     for_each (make_iterable (get c) (size_of c)) body s = visit body (contents c) s"
  using range_for_drop [of c 0 body s]
  by (simp add: for_each_def make_iterable_def Iterable_new_def)

text \<open>The loops of the comparison operators.\<close>

lemma for_each_contains:
  assumes "fits (contents c)"
  shows "for_each (make_iterable (get c) (size_of c))
     (\<lambda>r equal. Some (equal \<and> list_ex (\<lambda>l. eq l r) lhs, False)) equal =
     Some (equal \<and> contains_all eq lhs (contents c))"
  by (simp add: for_each_visits [OF assms] visit_all contains_all_def)

lemma begin_plus:
  "iter_deref (iter_plus (itb_begin (make_iterable (get c) (size_of c))) n) = vec_at (contents c) n"
  by (simp add: iterating make_iterable_def Iterable_new_def get_at)

lemma end_diff:
  "iter_diff (itb_end (make_iterable (get c) (size_of c)))
     (itb_begin (make_iterable (get c) (size_of c))) = vec_size (contents c)"
  by (simp add: iterating make_iterable_def Iterable_new_def size_is)

lemma end_minus_assign:
  "iter_deref (iter_minus_assign (itb_end (make_iterable (get c) (size_of c))) n) =
     vec_at (contents c) (vec_size (contents c) - n)"
  by (simp add: iterating make_iterable_def Iterable_new_def get_at size_is)

lemma end_minus:
  assumes "length (contents c) + unat n < 2 ^ 64"
  shows "iter_deref (iter_minus (itb_end (make_iterable (get c) (size_of c))) n) = None"
proof -
  have f: "fits (contents c)" using assms by (simp add: fits_def)
  have "unat (vec_size (contents c) + n) = length (contents c) + unat n"
    using assms by (simp add: unat_word_ariths unat_vec_size [OF f])
  then show ?thesis
    by (simp add: iterating make_iterable_def Iterable_new_def get_at size_is vec_at_None)
qed

end

end
