(* ===== verification/CMem.thy ===== *)
theory CMem
  imports Network Iterators
begin

text \<open>
  The memory a C program shares with the C interface (\<open>src/src/CApi.cpp\<close>): the objects behind the
  opaque handles, and the null-terminated arrays whose elements the \<open>Create\<close> functions take over.
  An object lives from the \<open>Create\<close> that returns its handle until a \<open>Free\<close>, or until another
  \<open>Create\<close> moves it into its own object. Addresses are not used twice, so every use after free is
  undefined here. Undefined behaviour is \<open>None\<close>.
\<close>

section \<open>Handles and memory\<close>

text \<open>A member of an object another handle refers to.\<close>

datatype step =
    BitTiming_of | Node_of u64 | ValueTable_of u64 | Message_of u64 | EnvironmentVariable_of u64
  | AttributeDefinition_of u64 | AttributeDefault_of u64 | AttributeValue_of u64 | Signal_of u64
  | ValueEncodingDescription_of u64 | SignalType_of | SignalMultiplexerValue_of u64 | ValueRange_of u64

datatype handle = Null | Root nat | Sub handle step

record 'o c_mem =
  mem_objs :: "nat \<Rightarrow> 'o option"
  mem_next :: nat
  mem_strs :: "nat \<Rightarrow> string option list option"
  mem_ptrs :: "nat \<Rightarrow> handle list option"

definition empty_mem :: "'o c_mem" where
  "empty_mem = \<lparr>mem_objs = (\<lambda>_. None), mem_next = 0, mem_strs = (\<lambda>_. None), mem_ptrs = (\<lambda>_. None)\<rparr>"

text \<open>\<open>release\<close> of a \<open>std::unique_ptr\<close>: the object is on the heap, and its handle goes to the caller.\<close>

definition alloc :: "'o \<Rightarrow> 'o c_mem \<Rightarrow> handle \<times> 'o c_mem" where
  "alloc x m =
     (Root (mem_next m),
      m\<lparr>mem_objs := (mem_objs m)(mem_next m \<mapsto> x), mem_next := Suc (mem_next m)\<rparr>)"

text \<open>
  A \<open>std::unique_ptr\<close> made from a handle deletes the object at its end; before that, its contents may
  have been moved elsewhere. \<open>get\<close> reads an object of the type the handle is cast to. Deleting an
  object a second time, or a part of another object, is undefined.
\<close>

definition take_over :: "('o \<Rightarrow> 'a option) \<Rightarrow> handle \<Rightarrow> 'o c_mem \<Rightarrow> ('a \<times> 'o c_mem) option" where
  "take_over get p m =
     (case p of
        Root a \<Rightarrow> do {
          x \<leftarrow> mem_objs m a;
          v \<leftarrow> get x;
          Some (v, m\<lparr>mem_objs := (mem_objs m)(a := None)\<rparr>) }
      | _ \<Rightarrow> None)"

text \<open>Deleting a null pointer does nothing.\<close>

definition take_over_or_null ::
    "('o \<Rightarrow> 'a option) \<Rightarrow> handle \<Rightarrow> 'o c_mem \<Rightarrow> ('a option \<times> 'o c_mem) option" where
  "take_over_or_null get p m =
     (if p = Null then Some (None, m) else map_option (map_prod Some id) (take_over get p m))"

definition delete :: "('o \<Rightarrow> 'a option) \<Rightarrow> handle \<Rightarrow> 'o c_mem \<Rightarrow> 'o c_mem option" where
  "delete get p m = map_option snd (take_over_or_null get p m)"

section \<open>C strings and arrays\<close>

text \<open>What a \<open>const char*\<close> to these characters stands for.\<close>

definition c_str :: "string \<Rightarrow> string" where
  "c_str s = takeWhile (\<lambda>c. c \<noteq> CHR 0x00) s"

lemma c_str_idem [simp]: "c_str (c_str s) = c_str s"
  by (simp add: c_str_def takeWhile_idem)

text \<open>
  The loops \<open>for (; *a; a++)\<close> over an array of strings: each element is copied and overwritten by
  null. Running past the end of the array is undefined.
\<close>

fun take_strings :: "string option list \<Rightarrow> (string list \<times> string option list) option" where
  "take_strings [] = None"
| "take_strings (None # cs) = Some ([], None # cs)"
| "take_strings (Some s # cs) = do {
     (ss, cs) \<leftarrow> take_strings cs;
     Some (c_str s # ss, None # cs) }"

definition take_string_array :: "nat \<Rightarrow> 'o c_mem \<Rightarrow> (string list \<times> 'o c_mem) option" where
  "take_string_array a m = do {
     cs \<leftarrow> mem_strs m a;
     (ss, cs) \<leftarrow> take_strings cs;
     Some (ss, m\<lparr>mem_strs := (mem_strs m)(a \<mapsto> cs)\<rparr>) }"

text \<open>The same loop over an array of handles, whose objects are taken over.\<close>

fun take_objects ::
    "('o \<Rightarrow> 'a option) \<Rightarrow> handle list \<Rightarrow> 'o c_mem \<Rightarrow> ('a list \<times> handle list \<times> 'o c_mem) option" where
  "take_objects get [] m = None"
| "take_objects get (p # ps) m =
     (if p = Null then Some ([], Null # ps, m)
      else do {
        (v, m) \<leftarrow> take_over get p m;
        (vs, ps, m) \<leftarrow> take_objects get ps m;
        Some (v # vs, Null # ps, m) })"

definition take_object_array ::
    "('o \<Rightarrow> 'a option) \<Rightarrow> nat \<Rightarrow> 'o c_mem \<Rightarrow> ('a list \<times> 'o c_mem) option" where
  "take_object_array get a m = do {
     ps \<leftarrow> mem_ptrs m a;
     (vs, ps, m) \<leftarrow> take_objects get ps m;
     Some (vs, m\<lparr>mem_ptrs := (mem_ptrs m)(a \<mapsto> ps)\<rparr>) }"

text \<open>The loop of \<open>dbcppp_ValueTableCreate\<close>, which leaves the array as it is.\<close>

definition take_kept_array ::
    "('o \<Rightarrow> 'a option) \<Rightarrow> nat \<Rightarrow> 'o c_mem \<Rightarrow> ('a list \<times> 'o c_mem) option" where
  "take_kept_array get a m = do {
     ps \<leftarrow> mem_ptrs m a;
     (vs, _, m) \<leftarrow> take_objects get ps m;
     Some (vs, m) }"

section \<open>Objects\<close>

datatype obj =
    AttributeObj AttributeImpl | AttributeDefinitionObj AttributeDefinitionImpl
  | BitTimingObj BitTimingImpl | EnvironmentVariableObj EnvironmentVariableImpl
  | MessageObj MessageImpl | NetworkObj NetworkImpl | NodeObj NodeImpl | SignalObj SignalImpl
  | SignalTypeObj SignalTypeImpl | ValueTableObj ValueTableImpl
  | ValueEncodingDescriptionObj ValueEncodingDescriptionImpl
  | SignalMultiplexerValueObj SignalMultiplexerValueImpl | ValueRangeObj Range

text \<open>A \<open>reinterpret_cast\<close> and a read through it: the object has to have that type.\<close>

definition as_attribute :: "obj \<Rightarrow> AttributeImpl option" where
  "as_attribute x = (case x of AttributeObj y \<Rightarrow> Some y | _ \<Rightarrow> None)"
definition as_attribute_definition :: "obj \<Rightarrow> AttributeDefinitionImpl option" where
  "as_attribute_definition x = (case x of AttributeDefinitionObj y \<Rightarrow> Some y | _ \<Rightarrow> None)"
definition as_bit_timing :: "obj \<Rightarrow> BitTimingImpl option" where
  "as_bit_timing x = (case x of BitTimingObj y \<Rightarrow> Some y | _ \<Rightarrow> None)"
definition as_environment_variable :: "obj \<Rightarrow> EnvironmentVariableImpl option" where
  "as_environment_variable x = (case x of EnvironmentVariableObj y \<Rightarrow> Some y | _ \<Rightarrow> None)"
definition as_message :: "obj \<Rightarrow> MessageImpl option" where
  "as_message x = (case x of MessageObj y \<Rightarrow> Some y | _ \<Rightarrow> None)"
definition as_network :: "obj \<Rightarrow> NetworkImpl option" where
  "as_network x = (case x of NetworkObj y \<Rightarrow> Some y | _ \<Rightarrow> None)"
definition as_node :: "obj \<Rightarrow> NodeImpl option" where
  "as_node x = (case x of NodeObj y \<Rightarrow> Some y | _ \<Rightarrow> None)"
definition as_signal :: "obj \<Rightarrow> SignalImpl option" where
  "as_signal x = (case x of SignalObj y \<Rightarrow> Some y | _ \<Rightarrow> None)"
definition as_signal_type :: "obj \<Rightarrow> SignalTypeImpl option" where
  "as_signal_type x = (case x of SignalTypeObj y \<Rightarrow> Some y | _ \<Rightarrow> None)"
definition as_value_table :: "obj \<Rightarrow> ValueTableImpl option" where
  "as_value_table x = (case x of ValueTableObj y \<Rightarrow> Some y | _ \<Rightarrow> None)"
definition as_value_encoding_description :: "obj \<Rightarrow> ValueEncodingDescriptionImpl option" where
  "as_value_encoding_description x = (case x of ValueEncodingDescriptionObj y \<Rightarrow> Some y | _ \<Rightarrow> None)"
definition as_signal_multiplexer_value :: "obj \<Rightarrow> SignalMultiplexerValueImpl option" where
  "as_signal_multiplexer_value x = (case x of SignalMultiplexerValueObj y \<Rightarrow> Some y | _ \<Rightarrow> None)"
definition as_value_range :: "obj \<Rightarrow> Range option" where
  "as_value_range x = (case x of ValueRangeObj y \<Rightarrow> Some y | _ \<Rightarrow> None)"

text \<open>The object a handle refers to. The parts of an object live as long as the object.\<close>

definition member :: "step \<Rightarrow> obj \<Rightarrow> obj option" where
  "member st x =
     (case x of
        NetworkObj net \<Rightarrow>
          (case st of
             BitTiming_of \<Rightarrow> Some (BitTimingObj (net_bit_timing net))
           | Node_of i \<Rightarrow> map_option NodeObj (vec_at (net_nodes net) i)
           | ValueTable_of i \<Rightarrow> map_option ValueTableObj (vec_at (net_value_tables net) i)
           | Message_of i \<Rightarrow> map_option MessageObj (vec_at (net_messages net) i)
           | EnvironmentVariable_of i \<Rightarrow>
               map_option EnvironmentVariableObj (vec_at (net_environment_variables net) i)
           | AttributeDefinition_of i \<Rightarrow>
               map_option AttributeDefinitionObj (vec_at (net_attribute_definitions net) i)
           | AttributeDefault_of i \<Rightarrow> map_option AttributeObj (vec_at (net_attribute_defaults net) i)
           | AttributeValue_of i \<Rightarrow> map_option AttributeObj (vec_at (net_attribute_values net) i)
           | _ \<Rightarrow> None)
      | MessageObj msg \<Rightarrow>
          (case st of
             Signal_of i \<Rightarrow> map_option SignalObj (vec_at (msg_signals msg) i)
           | AttributeValue_of i \<Rightarrow> map_option AttributeObj (vec_at (msg_attribute_values msg) i)
           | _ \<Rightarrow> None)
      | NodeObj node \<Rightarrow>
          (case st of
             AttributeValue_of i \<Rightarrow> map_option AttributeObj (vec_at (node_attribute_values node) i)
           | _ \<Rightarrow> None)
      | EnvironmentVariableObj ev \<Rightarrow>
          (case st of
             AttributeValue_of i \<Rightarrow> map_option AttributeObj (vec_at (ev_attribute_values ev) i)
           | _ \<Rightarrow> None)
      | SignalObj sig \<Rightarrow>
          (case st of
             AttributeValue_of i \<Rightarrow> map_option AttributeObj (vec_at (sig_attribute_values sig) i)
           | ValueEncodingDescription_of i \<Rightarrow>
               map_option ValueEncodingDescriptionObj (vec_at (sig_value_encoding_descriptions sig) i)
           | SignalMultiplexerValue_of i \<Rightarrow>
               map_option SignalMultiplexerValueObj (vec_at (sig_signal_multiplexer_values sig) i)
           | _ \<Rightarrow> None)
      | SignalMultiplexerValueObj smv \<Rightarrow>
          (case st of
             ValueRange_of i \<Rightarrow> map_option ValueRangeObj (vec_at (smv_value_ranges smv) i)
           | _ \<Rightarrow> None)
      | ValueTableObj vt \<Rightarrow>
          (case st of
             SignalType_of \<Rightarrow> map_option SignalTypeObj (vt_signal_type vt)
           | ValueEncodingDescription_of i \<Rightarrow>
               map_option ValueEncodingDescriptionObj (vec_at (vt_value_encoding_descriptions vt) i)
           | _ \<Rightarrow> None)
      | _ \<Rightarrow> None)"

fun deref :: "obj c_mem \<Rightarrow> handle \<Rightarrow> obj option" where
  "deref m Null = None"
| "deref m (Root a) = mem_objs m a"
| "deref m (Sub p st) = do { x \<leftarrow> deref m p; member st x }"

definition look_up :: "(obj \<Rightarrow> 'a option) \<Rightarrow> obj c_mem \<Rightarrow> handle \<Rightarrow> 'a option" where
  "look_up get m p = do { x \<leftarrow> deref m p; get x }"

text \<open>The handle of a part that exists.\<close>

definition sub_handle :: "'a list \<Rightarrow> u64 \<Rightarrow> handle \<Rightarrow> (u64 \<Rightarrow> step) \<Rightarrow> handle option" where
  "sub_handle xs i p st = (if unat i < length xs then Some (Sub p (st i)) else None)"

end
