(* ===== verification/X3.thy ===== *)
theory X3
  imports Text
begin

text \<open>
  The parser combinators of Boost.Spirit X3 that the DBC grammar uses, after their definitions in
  \<open>third-party/boost/boost/spirit/home/x3\<close>. A parser gets the skipper of its context and the text
  from the current position on. Parsers move the position even when they fail, and an exception
  leaves it where it was; every outcome therefore holds the text at the new position.
\<close>

section \<open>Outcomes\<close>

text \<open>Success with an attribute, failure, an \<open>expectation_failure\<close>, and a loop that does not end.\<close>

datatype 'a outcome = Ok 'a string | Fail string | Throw string | Hang

type_synonym skipper = "string \<Rightarrow> unit outcome"
type_synonym 'a px = "skipper \<Rightarrow> string \<Rightarrow> 'a outcome"

definition on_ok :: "'a outcome \<Rightarrow> ('a \<Rightarrow> string \<Rightarrow> 'b outcome) \<Rightarrow> (string \<Rightarrow> 'b outcome) \<Rightarrow> 'b outcome" where
  "on_ok out f g =
     (case out of Ok a r \<Rightarrow> f a r | Fail r \<Rightarrow> g r | Throw r \<Rightarrow> Throw r | Hang \<Rightarrow> Hang)"

text \<open>\<open>skip_over\<close>: a skipper that succeeds without moving would be called forever.\<close>

function skip_over :: "skipper \<Rightarrow> string \<Rightarrow> unit outcome" where
  "skip_over sk s =
     on_ok (sk s) (\<lambda>_ r. if length r < length s then skip_over sk r else Hang) (\<lambda>r. Ok () r)"
  by pat_completeness auto

termination
  by (relation "measure (\<lambda>(sk, s). length s)") auto

declare skip_over.simps [simp del]

text \<open>The skipper inside \<open>lexeme\<close>, and of a skipper itself.\<close>

definition no_skip :: skipper where
  "no_skip s = Fail s"

text \<open>A primitive skips first.\<close>

definition prim :: "(string \<Rightarrow> ('a \<times> string) option) \<Rightarrow> 'a px" where
  "prim f sk s = on_ok (skip_over sk s)
     (\<lambda>_ r. case f r of Some (a, r') \<Rightarrow> Ok a r' | None \<Rightarrow> Fail r) Fail"

section \<open>Primitives\<close>

definition char_if :: "(char \<Rightarrow> bool) \<Rightarrow> char px" where
  "char_if P = prim (\<lambda>s. case s of c # cs \<Rightarrow> if P c then Some (c, cs) else None | [] \<Rightarrow> None)"

definition lit :: "string \<Rightarrow> string px" where
  "lit t = prim (\<lambda>s. if take (length t) s = t then Some (t, drop (length t) s) else None)"

definition eol :: "unit px" where
  "eol = prim (\<lambda>s.
     case s of
       c # cs \<Rightarrow>
         if c = CHR 0x0D then Some ((), if take 1 cs = [CHR 0x0A] then drop 1 cs else cs)
         else if c = CHR 0x0A then Some ((), cs) else None
     | [] \<Rightarrow> None)"

definition eoi :: "unit px" where
  "eoi = prim (\<lambda>s. if s = [] then Some ((), s) else None)"

text \<open>\<open>uint64\<close> and \<open>int64\<close> fail on a number that does not fit.\<close>

definition uint64 :: "u64 px" where
  "uint64 = prim (\<lambda>s.
     let ds = takeWhile is_digit s; n = digits_value ds
     in if ds = [] \<or> n \<ge> 2 ^ 64 then None else Some (of_nat n, drop (length ds) s))"

definition int64 :: "i64 px" where
  "int64 = prim (\<lambda>s.
     let neg = (take 1 s = ''-''); t = (if neg \<or> take 1 s = ''+'' then drop 1 s else s);
         ds = takeWhile is_digit t; n = digits_value ds
     in if ds = [] \<or> n > (if neg then 2 ^ 63 else 2 ^ 63 - 1) then None
        else Some (if neg then - of_nat n else of_nat n, drop (length ds) t))"

section \<open>Operators\<close>

definition ret :: "'a \<Rightarrow> 'a px" where
  "ret x sk s = Ok x s"

definition map_px :: "('a \<Rightarrow> 'b) \<Rightarrow> 'a px \<Rightarrow> 'b px" where
  "map_px f p sk s = on_ok (p sk s) (\<lambda>a r. Ok (f a) r) Fail"

text \<open>\<open>p >> q\<close>: a failure of either goes back to the start.\<close>

definition seq :: "'a px \<Rightarrow> ('a \<Rightarrow> 'b px) \<Rightarrow> 'b px" where
  "seq p f sk s = on_ok (p sk s) (\<lambda>a r. on_ok (f a sk r) Ok (\<lambda>_. Fail s)) (\<lambda>_. Fail s)"

text \<open>\<open>p > q\<close> is \<open>p >> expect[q]\<close>.\<close>

definition expect :: "'a px \<Rightarrow> 'a px" where
  "expect p sk s = on_ok (p sk s) Ok Throw"

abbreviation must :: "'a px \<Rightarrow> ('a \<Rightarrow> 'b px) \<Rightarrow> 'b px" where
  "must p f \<equiv> seq (expect p) f"

text \<open>\<open>p | q\<close>: the second one starts where the first one has failed.\<close>

definition alt :: "'a px \<Rightarrow> 'a px \<Rightarrow> 'a px" where
  "alt p q sk s = on_ok (p sk s) Ok (\<lambda>r. q sk r)"

definition opt :: "'a px \<Rightarrow> 'a option px" where
  "opt p sk s = on_ok (p sk s) (\<lambda>a r. Ok (Some a) r) (\<lambda>r. Ok None r)"

text \<open>\<open>p - q\<close>.\<close>

definition except :: "'a px \<Rightarrow> 'b px \<Rightarrow> 'a px" where
  "except p q sk s = on_ok (q sk s) (\<lambda>_ _. Fail s) (\<lambda>r. p sk r)"

text \<open>\<open>*p\<close>.\<close>

function many :: "'a px \<Rightarrow> 'a list px" where
  "many p sk s =
     on_ok (p sk s)
       (\<lambda>a r. if length r < length s
              then on_ok (many p sk r) (\<lambda>as r. Ok (a # as) r) Fail else Hang)
       (\<lambda>r. Ok [] r)"
  by pat_completeness auto

termination
  by (relation "measure (\<lambda>(p, sk, s). length s)") auto

declare many.simps [simp del]

text \<open>\<open>p % q\<close>: after the first element the position moves only past a separator and an element.\<close>

function list_more :: "'a px \<Rightarrow> 'b px \<Rightarrow> 'a list px" where
  "list_more p sep sk s =
     (case sep sk s of
        Ok _ r \<Rightarrow>
          (case p sk r of
             Ok a r \<Rightarrow>
               if length r < length s
               then on_ok (list_more p sep sk r) (\<lambda>as r. Ok (a # as) r) Fail else Hang
           | Fail _ \<Rightarrow> Ok [] s
           | Throw _ \<Rightarrow> Throw s
           | Hang \<Rightarrow> Hang)
      | Fail _ \<Rightarrow> Ok [] s
      | Throw _ \<Rightarrow> Throw s
      | Hang \<Rightarrow> Hang)"
  by pat_completeness auto

termination
  by (relation "measure (\<lambda>(p, sep, sk, s). length s)") auto

declare list_more.simps [simp del]

definition list_of :: "'a px \<Rightarrow> 'b px \<Rightarrow> 'a list px" where
  "list_of p sep sk s =
     on_ok (p sk s) (\<lambda>a r. on_ok (list_more p sep sk r) (\<lambda>as r. Ok (a # as) r) Fail) Fail"

section \<open>Directives and rules\<close>

definition lexeme :: "'a px \<Rightarrow> 'a px" where
  "lexeme p sk s = on_ok (skip_over sk s) (\<lambda>_ r. p no_skip r) Fail"

definition skip_with :: "skipper \<Rightarrow> 'a px \<Rightarrow> 'a px" where
  "skip_with sk' p sk s = p sk' s"

definition omit :: "'a px \<Rightarrow> unit px" where
  "omit p = map_px (\<lambda>_. ()) p"

text \<open>A rule whose error handler returns \<open>fail\<close>: the position stays where the exception left it.\<close>

definition rule :: "'a px \<Rightarrow> 'a px" where
  "rule p sk s = (case p sk s of Throw r \<Rightarrow> Fail r | out \<Rightarrow> out)"

end
