(* ===== verification/DBCX3.thy ===== *)
theory DBCX3
  imports X3 Ast
begin

text \<open>
  The grammar of DBC files (\<open>src/src/DBCX3.cpp\<close>), rule by rule: \<open>message_rule\<close> is the rule
  \<open>message\<close> with its definition \<open>message_def\<close>. Attributes go into the fields of the syntax tree in
  the order of \<open>DBCX3AdaptStructs.inl\<close>. A rule catches expectation failures when its tag is
  declared as an \<open>error_handler\<close>; \<open>block_comment\<close>, \<open>message\<close> and \<open>signal_group\<close> have no such tag. The
  parser \<open>double_\<close> for floating-point numbers is the parameter \<open>dbl\<close>: the number and the rest of the
  text.
\<close>

section \<open>White space and comments\<close>

definition space :: "unit px" where
  "space = omit (char_if is_space)"

definition blank :: "unit px" where
  "blank = omit (char_if (\<lambda>c. c = CHR '' '' \<or> c = CHR 0x09))"

definition single_line_comment :: "unit px" where
  "single_line_comment =
     seq (lit ''//'') (\<lambda>_. seq (many (except (char_if (\<lambda>_. True)) eol)) (\<lambda>_. alt eol eoi))"

text \<open>Comments nest: the loops over the characters of \<open>d\<close> comments that have been opened. At the
  end of the text the expected end of the comment is missing.\<close>

fun comment_body :: "nat \<Rightarrow> string \<Rightarrow> unit outcome" where
  "comment_body d [] = Throw []"
| "comment_body d [c] = Throw []"
| "comment_body d (c1 # c2 # cs) =
     (if c1 = CHR ''/'' \<and> c2 = CHR ''*'' then comment_body (Suc d) cs
      else if c1 = CHR ''*'' \<and> c2 = CHR ''/''
        then (if d \<le> 1 then Ok () cs else comment_body (d - 1) cs)
      else comment_body d (c2 # cs))"

definition block_comment :: "unit px" where
  "block_comment sk s = on_ok (lit ''/*'' sk s) (\<lambda>_ r. comment_body 1 r) Fail"

definition skipper :: "unit px" where
  "skipper = alt space (alt single_line_comment block_comment)"

text \<open>Skippers run in a context without a skipper.\<close>

definition default_skipper :: skipper where
  "default_skipper = skipper no_skip"

definition blank_skipper :: skipper where
  "blank_skipper = blank no_skip"

text \<open>\<open>lexeme[lit(t) >> omit[p]]\<close>.\<close>

definition keyword :: "string \<Rightarrow> 'a px \<Rightarrow> unit px" where
  "keyword t p = lexeme (seq (lit t) (\<lambda>_. omit p))"

section \<open>Tokens\<close>

definition is_letter :: "char \<Rightarrow> bool" where
  "is_letter c \<longleftrightarrow>
     (let n = of_char c :: nat in 97 \<le> n \<and> n \<le> 122 \<or> 65 \<le> n \<and> n \<le> 90 \<or> n = 95)"

definition quoted_string_rule :: "string px" where
  "quoted_string_rule = rule (lexeme (
     seq (lit dquote) (\<lambda>_.
     seq (many (alt (seq (lit [CHR 0x5C]) (\<lambda>_. char_if (\<lambda>c. c = CHR 0x5C \<or> c = CHR 0x22)))
                    (char_if (\<lambda>c. c \<noteq> CHR 0x22)))) (\<lambda>cs.
     seq (lit dquote) (\<lambda>_. ret cs)))))"

definition C_identifier_rule :: "string px" where
  "C_identifier_rule = rule (lexeme (
     seq (char_if is_letter) (\<lambda>c.
     seq (many (char_if (\<lambda>c. is_letter c \<or> is_digit c))) (\<lambda>cs. ret (c # cs)))))"

text \<open>Rules that only name another parser.\<close>

definition number_rule :: "u64 px" where
  "number_rule = rule uint64"

definition name_rule :: "string px" where
  "name_rule = rule C_identifier_rule"

definition node_name_rule :: "string px" where
  "node_name_rule = name_rule"

definition node_ref_rule :: "string px" where
  "node_ref_rule = rule node_name_rule"

definition text_rule :: "string px" where
  "text_rule = rule quoted_string_rule"

definition double_rule :: "(string \<Rightarrow> (double \<times> string) option) \<Rightarrow> double px" where
  "double_rule dbl = rule (prim dbl)"

definition byte_order_rule :: "char px" where
  "byte_order_rule = rule (lexeme (alt (char_if (\<lambda>c. c = CHR ''0'')) (char_if (\<lambda>c. c = CHR ''1''))))"

definition value_type_rule :: "char px" where
  "value_type_rule = rule (lexeme (alt (char_if (\<lambda>c. c = CHR ''-'')) (char_if (\<lambda>c. c = CHR ''+''))))"

section \<open>The head of a file\<close>

definition version_rule :: "G_Version px" where
  "version_rule = rule (
     seq (lit ''VERSION'') (\<lambda>_. must quoted_string_rule (\<lambda>v. ret \<lparr>g_version = v\<rparr>)))"

definition new_symbol_names :: "string list" where
  "new_symbol_names =
     [''SIGTYPE_VALTYPE_'', ''BA_DEF_DEF_REL_'', ''BA_DEF_SGTYPE_'', ''SIG_TYPE_REF_'',
      ''ENVVAR_DATA_'', ''SIG_VALTYPE_'', ''SG_MUL_VAL_'', ''BA_DEF_DEF_'', ''ENVVAR_DTA_'',
      ''BA_DEF_REL_'', ''SGTYPE_VAL_'', ''VAL_TABLE_'', ''BA_SGTYPE_'', ''SIG_GROUP_'',
      ''BU_SG_REL_'', ''BU_EV_REL_'', ''BU_BO_REL_'', ''BO_TX_BU_'', ''NS_DESC_'', ''CAT_DEF_'',
      ''EV_DATA_'', ''BA_REL_'', ''SGTYPE_'', ''BA_DEF_'', ''FILTER'', ''DEF_'', ''VAL_'', ''CAT_'',
      ''BA_'', ''CM_'']"

fun strings :: "string list \<Rightarrow> string px" where
  "strings [] = (\<lambda>sk s. Fail s)"
| "strings [t] = lit t"
| "strings (t # ts) = alt (lit t) (strings ts)"

definition new_symbol_rule :: "string px" where
  "new_symbol_rule = rule (lexeme (strings new_symbol_names))"

definition new_symbols_rule :: "string list px" where
  "new_symbols_rule = rule (
     seq (seq (lit ''NS_'') (\<lambda>_. lit '':'')) (\<lambda>_. expect (many new_symbol_rule)))"

text \<open>The numbers are value-initialised when they are missing.\<close>

definition bit_timing_rule :: "G_BitTiming px" where
  "bit_timing_rule = rule (
     seq (lit ''BS_'') (\<lambda>_. seq (lit '':'') (\<lambda>_.
     map_px (\<lambda>bt. case bt of Some b \<Rightarrow> b | None \<Rightarrow> \<lparr>g_baudrate = 0, g_BTR1 = 0, g_BTR2 = 0\<rparr>)
       (opt (seq number_rule (\<lambda>b. seq (lit '':'') (\<lambda>_. seq number_rule (\<lambda>b1.
             seq (lit '','') (\<lambda>_. seq number_rule (\<lambda>b2.
             ret \<lparr>g_baudrate = b, g_BTR1 = b1, g_BTR2 = b2\<rparr>))))))))))"

definition node_rule :: "G_Node px" where
  "node_rule = rule (map_px (\<lambda>n. \<lparr>g_node_name = n\<rparr>) node_name_rule)"

definition nodes_rule :: "G_Node list px" where
  "nodes_rule = rule (
     seq (lit ''BU_'') (\<lambda>_. seq (lit '':'') (\<lambda>_. skip_with blank_skipper (many node_rule))))"

section \<open>Value tables\<close>

definition value_encoding_description_rule :: "G_ValueEncodingDescription px" where
  "value_encoding_description_rule = rule (
     seq int64 (\<lambda>v. must quoted_string_rule (\<lambda>d.
     ret \<lparr>g_ved_value = v, g_ved_description = d\<rparr>)))"

definition value_table_rule :: "G_ValueTable px" where
  "value_table_rule = rule (
     seq (keyword ''VAL_TABLE_'' skipper) (\<lambda>_. must name_rule (\<lambda>n.
     must (many value_encoding_description_rule) (\<lambda>veds. must (lit '';'') (\<lambda>_.
     ret \<lparr>g_vt_name = n, g_vt_value_encoding_descriptions = veds\<rparr>)))))"

section \<open>Messages\<close>

definition end_of_line :: "unit px" where
  "end_of_line = alt eol eoi"

text \<open>\<open>unit >> skip(blank)[(receiver % ',') > (eol | eoi)]\<close> binds tighter than \<open>>\<close>.\<close>

definition unit_receivers :: "(string \<times> string list) px" where
  "unit_receivers =
     seq text_rule (\<lambda>u. skip_with blank_skipper
       (seq (list_of node_ref_rule (lit '','')) (\<lambda>rs. must end_of_line (\<lambda>_. ret (u, rs)))))"

definition signal_rule :: "(string \<Rightarrow> (double \<times> string) option) \<Rightarrow> G_Signal px" where
  "signal_rule dbl = rule (
     seq (keyword ''SG_'' space) (\<lambda>_. must name_rule (\<lambda>n.
     must (rule (opt C_identifier_rule)) (\<lambda>mi. must (lit '':'') (\<lambda>_.
     must number_rule (\<lambda>start. must (lit ''|'') (\<lambda>_. must number_rule (\<lambda>size. must (lit ''@'') (\<lambda>_.
     must byte_order_rule (\<lambda>bo. must value_type_rule (\<lambda>vt. must (lit ''('') (\<lambda>_.
     must (double_rule dbl) (\<lambda>f. must (lit '','') (\<lambda>_. must (double_rule dbl) (\<lambda>o'.
     must (lit '')'') (\<lambda>_. must (lit ''['') (\<lambda>_. must (double_rule dbl) (\<lambda>mn. must (lit ''|'') (\<lambda>_.
     must (double_rule dbl) (\<lambda>mx. must (lit '']'') (\<lambda>_. must unit_receivers (\<lambda>ur.
     ret \<lparr>g_sig_name = n, g_sig_multiplexer_indicator = mi, g_sig_start_bit = start,
          g_sig_signal_size = size, g_sig_byte_order = bo, g_sig_value_type = vt,
          g_sig_factor = f, g_sig_offset = o', g_sig_minimum = mn, g_sig_maximum = mx,
          g_sig_unit = fst ur, g_sig_receivers = snd ur\<rparr>))))))))))))))))))))))"

definition message_rule :: "(string \<Rightarrow> (double \<times> string) option) \<Rightarrow> G_Message px" where
  "message_rule dbl =
     seq (keyword ''BO_'' skipper) (\<lambda>_. must number_rule (\<lambda>i. must name_rule (\<lambda>n.
     must (lit '':'') (\<lambda>_. must number_rule (\<lambda>size.
     must (skip_with blank_skipper (seq node_ref_rule (\<lambda>t. must end_of_line (\<lambda>_. ret t)))) (\<lambda>t.
     must (many (signal_rule dbl)) (\<lambda>sigs.
     ret \<lparr>g_msg_id = i, g_msg_name = n, g_msg_size = size, g_msg_transmitter = t,
          g_msg_signals = sigs\<rparr>)))))))"

definition message_transmitter_rule :: "G_MessageTransmitter px" where
  "message_transmitter_rule = rule (
     seq (keyword ''BO_TX_BU_'' space) (\<lambda>_. must number_rule (\<lambda>i. must (lit '':'') (\<lambda>_.
     must (list_of node_ref_rule (lit '','')) (\<lambda>ts. must (lit '';'') (\<lambda>_.
     ret \<lparr>g_mt_id = i, g_mt_transmitters = ts\<rparr>))))))"

section \<open>Environment variables and signal types\<close>

definition environment_variable_rule ::
    "(string \<Rightarrow> (double \<times> string) option) \<Rightarrow> G_EnvironmentVariable px" where
  "environment_variable_rule dbl = rule (
     seq (keyword ''EV_'' skipper) (\<lambda>_. must name_rule (\<lambda>n. must (lit '':'') (\<lambda>_.
     must number_rule (\<lambda>ty. must (lit ''['') (\<lambda>_. must (double_rule dbl) (\<lambda>mn. must (lit ''|'') (\<lambda>_.
     must (double_rule dbl) (\<lambda>mx. must (lit '']'') (\<lambda>_. must text_rule (\<lambda>u.
     must (double_rule dbl) (\<lambda>iv. must number_rule (\<lambda>i. must name_rule (\<lambda>acc.
     must (rule (list_of node_name_rule (lit '',''))) (\<lambda>ns. must (lit '';'') (\<lambda>_.
     ret \<lparr>g_ev_name = n, g_ev_var_type = ty, g_ev_minimum = mn, g_ev_maximum = mx, g_ev_unit = u,
          g_ev_initial_value = iv, g_ev_id = i, g_ev_access_type = acc,
          g_ev_access_nodes = ns\<rparr>))))))))))))))))"

definition environment_variable_data_rule :: "G_EnvironmentVariableData px" where
  "environment_variable_data_rule = rule (
     seq (keyword ''ENVVAR_DATA_'' space) (\<lambda>_. must name_rule (\<lambda>n. must (lit '':'') (\<lambda>_.
     must number_rule (\<lambda>size. must (lit '';'') (\<lambda>_.
     ret \<lparr>g_evd_name = n, g_evd_size = size\<rparr>))))))"

text \<open>\<open>unit >> default_value\<close> binds tighter than \<open>>\<close>.\<close>

definition signal_type_rule :: "(string \<Rightarrow> (double \<times> string) option) \<Rightarrow> G_SignalType px" where
  "signal_type_rule dbl = rule (
     seq (keyword ''SGTYPE_'' skipper) (\<lambda>_. must name_rule (\<lambda>n. must (lit '':'') (\<lambda>_.
     must number_rule (\<lambda>size. must (lit ''@'') (\<lambda>_. must byte_order_rule (\<lambda>bo.
     must value_type_rule (\<lambda>vt. must (lit ''('') (\<lambda>_. must (double_rule dbl) (\<lambda>f. must (lit '','') (\<lambda>_.
     must (double_rule dbl) (\<lambda>o'. must (lit '')'') (\<lambda>_. must (lit ''['') (\<lambda>_.
     must (double_rule dbl) (\<lambda>mn. must (lit ''|'') (\<lambda>_. must (double_rule dbl) (\<lambda>mx.
     must (lit '']'') (\<lambda>_.
     must (seq text_rule (\<lambda>u. seq (double_rule dbl) (\<lambda>d. ret (u, d)))) (\<lambda>ud. must (lit '','') (\<lambda>_.
     must name_rule (\<lambda>vtn. must (lit '';'') (\<lambda>_.
     ret \<lparr>g_st_name = n, g_st_size = size, g_st_byte_order = bo, g_st_value_type = vt,
          g_st_factor = f, g_st_offset = o', g_st_minimum = mn, g_st_maximum = mx,
          g_st_unit = fst ud, g_st_default_value = snd ud,
          g_st_value_table_name = vtn\<rparr>))))))))))))))))))))))"

section \<open>Comments\<close>

definition comment_network_rule :: "variant_comment_t px" where
  "comment_network_rule = rule (
     seq quoted_string_rule (\<lambda>c. must (lit '';'') (\<lambda>_. ret (G_CommentNetwork c))))"

definition comment_node_rule :: "variant_comment_t px" where
  "comment_node_rule = rule (
     seq (lit ''BU_'') (\<lambda>_. must node_name_rule (\<lambda>n. must quoted_string_rule (\<lambda>c.
     must (lit '';'') (\<lambda>_. ret (G_CommentNode n c)))))) "

definition comment_message_rule :: "variant_comment_t px" where
  "comment_message_rule = rule (
     seq (lit ''BO_'') (\<lambda>_. must number_rule (\<lambda>i. must quoted_string_rule (\<lambda>c.
     must (lit '';'') (\<lambda>_. ret (G_CommentMessage i c))))))"

definition comment_signal_rule :: "variant_comment_t px" where
  "comment_signal_rule = rule (
     seq (lit ''SG_'') (\<lambda>_. must number_rule (\<lambda>i. must name_rule (\<lambda>n. must quoted_string_rule (\<lambda>c.
     must (lit '';'') (\<lambda>_. ret (G_CommentSignal i n c)))))))"

definition comment_env_var_rule :: "variant_comment_t px" where
  "comment_env_var_rule = rule (
     seq (lit ''EV_'') (\<lambda>_. must name_rule (\<lambda>n. must quoted_string_rule (\<lambda>c.
     must (lit '';'') (\<lambda>_. ret (G_CommentEnvVar n c))))))"

definition comment_rule :: "variant_comment_t px" where
  "comment_rule = rule (
     seq (keyword ''CM_'' space) (\<lambda>_. expect
       (alt comment_node_rule (alt comment_message_rule (alt comment_signal_rule
         (alt comment_env_var_rule comment_network_rule))))))"

section \<open>Attributes\<close>

definition object_type_rule :: "string option px" where
  "object_type_rule = rule (opt (strings [''BU_'', ''BO_'', ''SG_'', ''EV_'']))"

definition attribute_value_type_int_rule :: "variant_attribute_value_t px" where
  "attribute_value_type_int_rule = rule (
     seq (lit ''INT'') (\<lambda>_. must int64 (\<lambda>a. must int64 (\<lambda>b. ret (G_AttributeValueTypeInt a b)))))"

definition attribute_value_type_hex_rule :: "variant_attribute_value_t px" where
  "attribute_value_type_hex_rule = rule (
     seq (lit ''HEX'') (\<lambda>_. must int64 (\<lambda>a. must int64 (\<lambda>b. ret (G_AttributeValueTypeHex a b)))))"

definition attribute_value_type_float_rule ::
    "(string \<Rightarrow> (double \<times> string) option) \<Rightarrow> variant_attribute_value_t px" where
  "attribute_value_type_float_rule dbl = rule (
     seq (lit ''FLOAT'') (\<lambda>_. must (prim dbl) (\<lambda>a. must (prim dbl) (\<lambda>b.
     ret (G_AttributeValueTypeFloat a b)))))"

definition attribute_value_type_string_rule :: "variant_attribute_value_t px" where
  "attribute_value_type_string_rule = rule (map_px (\<lambda>_. G_AttributeValueTypeString) (lit ''STRING''))"

definition attribute_value_type_enum_rule :: "variant_attribute_value_t px" where
  "attribute_value_type_enum_rule = rule (
     seq (lit ''ENUM'') (\<lambda>_. must (list_of quoted_string_rule (lit '','')) (\<lambda>vs.
     ret (G_AttributeValueTypeEnum vs))))"

definition attribute_value_type_rule ::
    "(string \<Rightarrow> (double \<times> string) option) \<Rightarrow> variant_attribute_value_t px" where
  "attribute_value_type_rule dbl = rule (
     alt attribute_value_type_int_rule (alt attribute_value_type_hex_rule
       (alt (attribute_value_type_float_rule dbl)
         (alt attribute_value_type_string_rule attribute_value_type_enum_rule))))"

definition attribute_definition_rule ::
    "(string \<Rightarrow> (double \<times> string) option) \<Rightarrow> G_AttributeDefinition px" where
  "attribute_definition_rule dbl = rule (
     seq (keyword ''BA_DEF_'' skipper) (\<lambda>_. must object_type_rule (\<lambda>ot. must text_rule (\<lambda>n.
     must (attribute_value_type_rule dbl) (\<lambda>v. must (lit '';'') (\<lambda>_.
     ret \<lparr>g_ad_object_type = ot, g_ad_name = n, g_ad_value_type = v\<rparr>))))))"

text \<open>\<open>double_\<close> is tried before the integers.\<close>

definition attribute_value_rule ::
    "(string \<Rightarrow> (double \<times> string) option) \<Rightarrow> variant_attr_value_t px" where
  "attribute_value_rule dbl = rule (
     alt (map_px AV_double (prim dbl)) (alt (map_px AV_int64 int64) (map_px AV_string quoted_string_rule)))"

definition attribute_default_rule :: "(string \<Rightarrow> (double \<times> string) option) \<Rightarrow> G_Attribute px" where
  "attribute_default_rule dbl = rule (
     seq (lexeme (seq (alt (lit ''BA_DEF_DEF_REL_'') (lit ''BA_DEF_DEF_'')) (\<lambda>_. space))) (\<lambda>_.
     must text_rule (\<lambda>n. must (attribute_value_rule dbl) (\<lambda>v. must (lit '';'') (\<lambda>_.
     ret \<lparr>g_attr_name = n, g_attr_value = v\<rparr>)))))"

definition attribute_value_ent_network_rule ::
    "(string \<Rightarrow> (double \<times> string) option) \<Rightarrow> variant_attribute_t px" where
  "attribute_value_ent_network_rule dbl = rule (
     seq text_rule (\<lambda>n. seq (attribute_value_rule dbl) (\<lambda>v. ret (G_AttributeNetwork n v))))"

definition attribute_value_ent_node_rule ::
    "(string \<Rightarrow> (double \<times> string) option) \<Rightarrow> variant_attribute_t px" where
  "attribute_value_ent_node_rule dbl = rule (
     seq text_rule (\<lambda>n. seq (lit ''BU_'') (\<lambda>_. must node_name_rule (\<lambda>k.
     must (attribute_value_rule dbl) (\<lambda>v. ret (G_AttributeNode n k v))))))"

definition attribute_value_ent_message_rule ::
    "(string \<Rightarrow> (double \<times> string) option) \<Rightarrow> variant_attribute_t px" where
  "attribute_value_ent_message_rule dbl = rule (
     seq text_rule (\<lambda>n. seq (lit ''BO_'') (\<lambda>_. must number_rule (\<lambda>i.
     must (attribute_value_rule dbl) (\<lambda>v. ret (G_AttributeMessage n i v))))))"

definition attribute_value_ent_signal_rule ::
    "(string \<Rightarrow> (double \<times> string) option) \<Rightarrow> variant_attribute_t px" where
  "attribute_value_ent_signal_rule dbl = rule (
     seq text_rule (\<lambda>n. seq (lit ''SG_'') (\<lambda>_. must number_rule (\<lambda>i. must name_rule (\<lambda>s.
     must (attribute_value_rule dbl) (\<lambda>v. ret (G_AttributeSignal n i s v)))))))"

definition attribute_value_ent_env_var_rule ::
    "(string \<Rightarrow> (double \<times> string) option) \<Rightarrow> variant_attribute_t px" where
  "attribute_value_ent_env_var_rule dbl = rule (
     seq text_rule (\<lambda>n. seq (lit ''EV_'') (\<lambda>_. must name_rule (\<lambda>e.
     must (attribute_value_rule dbl) (\<lambda>v. ret (G_AttributeEnvVar n e v))))))"

definition attribute_value_ent_rule ::
    "(string \<Rightarrow> (double \<times> string) option) \<Rightarrow> variant_attribute_t px" where
  "attribute_value_ent_rule dbl = rule (
     seq (keyword ''BA_'' skipper) (\<lambda>_. must
       (alt (attribute_value_ent_network_rule dbl) (alt (attribute_value_ent_node_rule dbl)
         (alt (attribute_value_ent_message_rule dbl) (alt (attribute_value_ent_signal_rule dbl)
           (attribute_value_ent_env_var_rule dbl))))) (\<lambda>a. must (lit '';'') (\<lambda>_. ret a))))"

section \<open>Value descriptions, groups and extended types\<close>

abbreviation g_descriptions :: "G_ValueEncodingDescription list \<Rightarrow> G_ValueDescription list" where
  "g_descriptions veds \<equiv>
     map (\<lambda>d. \<lparr>g_vd_value = g_ved_value d, g_vd_description = g_ved_description d\<rparr>) veds"

definition value_description_signal_rule :: "Description px" where
  "value_description_signal_rule = rule (
     seq (keyword ''VAL_'' skipper) (\<lambda>_. seq number_rule (\<lambda>i. must name_rule (\<lambda>n.
     must (many value_encoding_description_rule) (\<lambda>veds. must (lit '';'') (\<lambda>_.
     ret (G_ValueDescriptionSignal i n (g_descriptions veds))))))))"

definition value_description_env_var_rule :: "Description px" where
  "value_description_env_var_rule = rule (
     seq (keyword ''VAL_'' skipper) (\<lambda>_. seq name_rule (\<lambda>n.
     must (many value_encoding_description_rule) (\<lambda>veds. must (lit '';'') (\<lambda>_.
     ret (G_ValueDescriptionEnvVar n (g_descriptions veds)))))))"

definition value_description_sig_env_var_rule :: "Description px" where
  "value_description_sig_env_var_rule = rule (
     alt value_description_signal_rule value_description_env_var_rule)"

definition signal_extended_value_type_rule :: "G_SignalExtendedValueType px" where
  "signal_extended_value_type_rule = rule (
     seq (lexeme (seq (lit ''SIG_VALTYPE_'') (\<lambda>_. expect skipper))) (\<lambda>_. must number_rule (\<lambda>i.
     must name_rule (\<lambda>n. must (lit '':'') (\<lambda>_. must uint64 (\<lambda>v. must (lit '';'') (\<lambda>_.
     ret \<lparr>g_sev_message_id = i, g_sev_signal_name = n, g_sev_value = v\<rparr>)))))))"

definition range_rule :: "G_Range px" where
  "range_rule = rule (
     seq uint64 (\<lambda>a. must (lit ''-'') (\<lambda>_. must uint64 (\<lambda>b. ret \<lparr>g_range_from = a, g_range_to = b\<rparr>))))"

definition signal_multiplexer_value_rule :: "G_SignalMultiplexerValue px" where
  "signal_multiplexer_value_rule = rule (
     seq (keyword ''SG_MUL_VAL_'' skipper) (\<lambda>_. must uint64 (\<lambda>i. must C_identifier_rule (\<lambda>n.
     must C_identifier_rule (\<lambda>sw. must (list_of range_rule (lit '','')) (\<lambda>rs. must (lit '';'') (\<lambda>_.
     ret \<lparr>g_smv_message_id = i, g_smv_signal_name = n, g_smv_switch_name = sw,
          g_smv_value_ranges = rs\<rparr>)))))))"

definition signal_group_rule :: "G_SignalGroup px" where
  "signal_group_rule =
     seq (keyword ''SIG_GROUP_'' skipper) (\<lambda>_. must uint64 (\<lambda>i. must C_identifier_rule (\<lambda>n.
     must uint64 (\<lambda>r. must (lit '':'') (\<lambda>_. must (many C_identifier_rule) (\<lambda>ns. must (lit '';'') (\<lambda>_.
     ret \<lparr>g_sg_message_id = i, g_sg_signal_group_name = n, g_sg_repetitions = r,
          g_sg_signal_names = ns\<rparr>)))))))"

section \<open>The whole file\<close>

definition network_rule :: "(string \<Rightarrow> (double \<times> string) option) \<Rightarrow> G_Network px" where
  "network_rule dbl = rule (
     seq version_rule (\<lambda>v. must (opt new_symbols_rule) (\<lambda>ns. must bit_timing_rule (\<lambda>bt.
     must nodes_rule (\<lambda>nodes. must (many value_table_rule) (\<lambda>vts. must (many (message_rule dbl)) (\<lambda>msgs.
     must (many message_transmitter_rule) (\<lambda>mts. must (many (environment_variable_rule dbl)) (\<lambda>evs.
     must (many environment_variable_data_rule) (\<lambda>evds. must (many (signal_type_rule dbl)) (\<lambda>sts.
     must (many comment_rule) (\<lambda>cs. must (many (attribute_definition_rule dbl)) (\<lambda>ads.
     must (many (attribute_default_rule dbl)) (\<lambda>dfs. must (many (attribute_value_ent_rule dbl)) (\<lambda>avs.
     must (many value_description_sig_env_var_rule) (\<lambda>vds. must (many signal_group_rule) (\<lambda>sgs.
     must (many signal_extended_value_type_rule) (\<lambda>sevs.
     must (many signal_multiplexer_value_rule) (\<lambda>smvs. must eoi (\<lambda>_.
     ret \<lparr>g_net_version = v, g_net_new_symbols = (case ns of Some l \<Rightarrow> l | None \<Rightarrow> []),
          g_net_bit_timing = Some bt, g_net_nodes = nodes, g_net_value_tables = vts,
          g_net_messages = msgs, g_net_message_transmitters = mts,
          g_net_environment_variables = evs, g_net_environment_variable_datas = evds,
          g_net_signal_types = sts, g_net_comments = cs, g_net_attribute_definitions = ads,
          g_net_attribute_defaults = dfs, g_net_attribute_values = avs,
          g_net_value_descriptions_sig_env_var = vds, g_net_signal_groups = sgs,
          g_net_signal_extended_value_types = sevs,
          g_net_signal_multiplexer_values = smvs\<rparr>))))))))))))))))))))"

text \<open>\<open>phrase_parse\<close> skips once more at the end, outside every rule: an exception there leaves
  \<open>ParseFromMemory\<close>.\<close>

datatype parsed = Parsed G_Network | Rejected | Uncaught | Endless

definition ParseFromMemory :: "(string \<Rightarrow> (double \<times> string) option) \<Rightarrow> string \<Rightarrow> parsed" where
  "ParseFromMemory dbl t =
     (case network_rule dbl default_skipper t of
        Ok gnet r \<Rightarrow>
          (case skip_over default_skipper r of
             Ok _ r \<Rightarrow> if r = [] then Parsed gnet else Rejected
           | Fail _ \<Rightarrow> Rejected | Throw _ \<Rightarrow> Uncaught | Hang \<Rightarrow> Endless)
      | Fail r \<Rightarrow>
          (case skip_over default_skipper r of
             Ok _ _ \<Rightarrow> Rejected | Fail _ \<Rightarrow> Rejected | Throw _ \<Rightarrow> Uncaught | Hang \<Rightarrow> Endless)
      | Throw _ \<Rightarrow> Uncaught
      | Hang \<Rightarrow> Endless)"

end
