(* ===== verification/CApi.thy ===== *)
theory CApi
  imports CMem Ast2Network DBCX3 SignalPhys
begin

text \<open>
  The C interface (\<open>src/src/CApi.cpp\<close>, \<open>include/dbcppp/CApi.h\<close>, and the two loaders at the end of
  \<open>src/src/DBCAST2Network.cpp\<close>), function by function and under the same names. A function that
  changes the memory returns it updated. A C string that is returned is the text it holds at the
  time of the call. An exception that would leave a function (\<open>std::get\<close> of another alternative) is
  \<open>None\<close> like undefined behaviour: C code cannot catch it.
\<close>

section \<open>Enumerations\<close>

datatype dbcppp_EObjectType =
    dbcppp_ObjectType_Network | dbcppp_ObjectType_Node | dbcppp_ObjectType_Message
  | dbcppp_ObjectType_Signal | dbcppp_ObjectType_EnvironmentVariable

datatype dbcppp_EAttributeValueType =
    dbcppp_AttributeValueType_Int | dbcppp_AttributeValueType_Double
  | dbcppp_AttributeValueType_String

datatype dbcppp_EAttributeDefinitionValueType =
    dbcppp_AttributeDefinitionValueTypeInt | dbcppp_AttributeDefinitionValueTypeHex
  | dbcppp_AttributeDefinitionValueTypeFloat | dbcppp_AttributeDefinitionValueTypeString
  | dbcppp_AttributeDefinitionValueTypeEnum

datatype dbcppp_EEnvironmentVariableVarType =
    dbcppp_EnvironmentVariableVarTypeInteger | dbcppp_EnvironmentVariableVarTypeFloat
  | dbcppp_EnvironmentVariableVarTypeString | dbcppp_EnvironmentVariableVarTypeData

datatype dbcppp_EEnvironmentVariableAccessType =
    dbcppp_EnvironmentVariableAccessTypeUnrestricted | dbcppp_EnvironmentVariableAccessTypeRead
  | dbcppp_EnvironmentVariableAccessTypeWrite | dbcppp_EnvironmentVariableAccessTypeReadWrite

datatype dbcppp_ESignalMultiplexer =
    dbcppp_SignalMultiplexerNoMux | dbcppp_SignalMultiplexerMuxSwitch
  | dbcppp_SignalMultiplexerMuxValue

datatype dbcppp_ESignalByteOrder =
  dbcppp_SignalByteOrderLittleEndian | dbcppp_SignalByteOrderBigEndian

datatype dbcppp_ESignalValueType =
  dbcppp_SignalValueTypeSigned | dbcppp_SignalValueTypeUnsigned

datatype dbcppp_ESignalExtendedValueType =
    dbcppp_SignalExtendedValueTypeInteger | dbcppp_SignalExtendedValueTypeFloat
  | dbcppp_SignalExtendedValueTypeDouble

text \<open>The \<open>switch\<close> statements that convert the enumerations, in both directions. Only the last four
  access types of \<open>IEnvironmentVariable\<close> have no counterpart and end in the \<open>default\<close> case.\<close>

definition object_type_from_c :: "dbcppp_EObjectType \<Rightarrow> EObjectType" where
  "object_type_from_c t =
     (case t of
        dbcppp_ObjectType_Network \<Rightarrow> OT_Network
      | dbcppp_ObjectType_Node \<Rightarrow> OT_Node
      | dbcppp_ObjectType_Message \<Rightarrow> OT_Message
      | dbcppp_ObjectType_Signal \<Rightarrow> OT_Signal
      | _ \<Rightarrow> OT_EnvironmentVariable)"

definition object_type_to_c :: "EObjectType \<Rightarrow> dbcppp_EObjectType" where
  "object_type_to_c t =
     (case t of
        OT_Network \<Rightarrow> dbcppp_ObjectType_Network
      | OT_Node \<Rightarrow> dbcppp_ObjectType_Node
      | OT_Message \<Rightarrow> dbcppp_ObjectType_Message
      | OT_Signal \<Rightarrow> dbcppp_ObjectType_Signal
      | _ \<Rightarrow> dbcppp_ObjectType_EnvironmentVariable)"

definition var_type_from_c :: "dbcppp_EEnvironmentVariableVarType \<Rightarrow> EVarType" where
  "var_type_from_c t =
     (case t of
        dbcppp_EnvironmentVariableVarTypeInteger \<Rightarrow> VT_Integer
      | dbcppp_EnvironmentVariableVarTypeFloat \<Rightarrow> VT_Float
      | dbcppp_EnvironmentVariableVarTypeString \<Rightarrow> VT_String
      | _ \<Rightarrow> VT_Data)"

definition access_type_from_c :: "dbcppp_EEnvironmentVariableAccessType \<Rightarrow> EAccessType" where
  "access_type_from_c t =
     (case t of
        dbcppp_EnvironmentVariableAccessTypeUnrestricted \<Rightarrow> Unrestricted
      | dbcppp_EnvironmentVariableAccessTypeRead \<Rightarrow> Read
      | dbcppp_EnvironmentVariableAccessTypeWrite \<Rightarrow> Write
      | _ \<Rightarrow> ReadWrite)"

definition multiplexer_from_c :: "dbcppp_ESignalMultiplexer \<Rightarrow> EMultiplexer" where
  "multiplexer_from_c t =
     (case t of
        dbcppp_SignalMultiplexerNoMux \<Rightarrow> NoMux
      | dbcppp_SignalMultiplexerMuxSwitch \<Rightarrow> MuxSwitch
      | _ \<Rightarrow> MuxValue)"

definition byte_order_from_c :: "dbcppp_ESignalByteOrder \<Rightarrow> EByteOrder" where
  "byte_order_from_c t =
     (case t of dbcppp_SignalByteOrderLittleEndian \<Rightarrow> LittleEndian | _ \<Rightarrow> BigEndian)"

definition byte_order_to_c :: "EByteOrder \<Rightarrow> dbcppp_ESignalByteOrder" where
  "byte_order_to_c t =
     (case t of
        LittleEndian \<Rightarrow> dbcppp_SignalByteOrderLittleEndian | _ \<Rightarrow> dbcppp_SignalByteOrderBigEndian)"

definition value_type_from_c :: "dbcppp_ESignalValueType \<Rightarrow> EValueType" where
  "value_type_from_c t = (case t of dbcppp_SignalValueTypeSigned \<Rightarrow> Signed | _ \<Rightarrow> Unsigned)"

definition value_type_to_c :: "EValueType \<Rightarrow> dbcppp_ESignalValueType" where
  "value_type_to_c t =
     (case t of Signed \<Rightarrow> dbcppp_SignalValueTypeSigned | _ \<Rightarrow> dbcppp_SignalValueTypeUnsigned)"

definition extended_value_type_from_c :: "dbcppp_ESignalExtendedValueType \<Rightarrow> EExtendedValueType" where
  "extended_value_type_from_c t =
     (case t of
        dbcppp_SignalExtendedValueTypeInteger \<Rightarrow> EVT_Integer
      | dbcppp_SignalExtendedValueTypeFloat \<Rightarrow> EVT_Float
      | _ \<Rightarrow> EVT_Double)"

section \<open>Attributes\<close>

text \<open>What a \<open>const void*\<close> points to. \<open>int64_t\<close> and \<open>uint64_t\<close> may be read as each other.\<close>

datatype c_value =
    Int64s "i64 list" | UInt64s "u64 list" | DoubleValues "double list" | Chars string
  | Strings "string option list"

definition read_integer :: "c_value \<Rightarrow> u64 \<Rightarrow> u64 option" where
  "read_integer v i = (case v of Int64s xs \<Rightarrow> vec_at xs i | UInt64s xs \<Rightarrow> vec_at xs i | _ \<Rightarrow> None)"

definition read_double :: "c_value \<Rightarrow> u64 \<Rightarrow> double option" where
  "read_double v i = (case v of DoubleValues xs \<Rightarrow> vec_at xs i | _ \<Rightarrow> None)"

definition read_chars :: "c_value \<Rightarrow> string option" where
  "read_chars v = (case v of Chars s \<Rightarrow> Some (c_str s) | _ \<Rightarrow> None)"

definition read_strings :: "c_value \<Rightarrow> string list option" where
  "read_strings v = (case v of Strings cs \<Rightarrow> map_option fst (take_strings cs) | _ \<Rightarrow> None)"

definition dbcppp_AttributeCreate ::
    "string \<Rightarrow> dbcppp_EObjectType \<Rightarrow> dbcppp_EAttributeValueType \<Rightarrow> c_value \<Rightarrow> obj c_mem \<Rightarrow>
     (handle \<times> obj c_mem) option" where
  "dbcppp_AttributeCreate name object_type value_type value m = do {
     let ot = object_type_from_c object_type;
     v \<leftarrow> (case value_type of
             dbcppp_AttributeValueType_Int \<Rightarrow> map_option V_int64 (read_integer value 0)
           | dbcppp_AttributeValueType_Double \<Rightarrow> map_option V_double (read_double value 0)
           | dbcppp_AttributeValueType_String \<Rightarrow> map_option V_string (read_chars value));
     Some (alloc (AttributeObj (IAttribute_Create (c_str name) ot v)) m) }"

definition dbcppp_AttributeFree :: "handle \<Rightarrow> obj c_mem \<Rightarrow> obj c_mem option" where
  "dbcppp_AttributeFree attribute m = delete as_attribute attribute m"

definition dbcppp_AttributeName :: "obj c_mem \<Rightarrow> handle \<Rightarrow> string option" where
  "dbcppp_AttributeName m attribute = do {
     x \<leftarrow> look_up as_attribute m attribute;
     Some (c_str (attr_name x)) }"

definition dbcppp_AttributeObjectType :: "obj c_mem \<Rightarrow> handle \<Rightarrow> dbcppp_EObjectType option" where
  "dbcppp_AttributeObjectType m attribute = do {
     x \<leftarrow> look_up as_attribute m attribute;
     Some (object_type_to_c (attr_object_type x)) }"

definition dbcppp_AttributeValueType :: "obj c_mem \<Rightarrow> handle \<Rightarrow> dbcppp_EAttributeValueType option" where
  "dbcppp_AttributeValueType m attribute = do {
     x \<leftarrow> look_up as_attribute m attribute;
     Some (case attr_value x of
             V_int64 _ \<Rightarrow> dbcppp_AttributeValueType_Int
           | V_double _ \<Rightarrow> dbcppp_AttributeValueType_Double
           | _ \<Rightarrow> dbcppp_AttributeValueType_String) }"

definition dbcppp_AttributeValueAsInt :: "obj c_mem \<Rightarrow> handle \<Rightarrow> i64 option" where
  "dbcppp_AttributeValueAsInt m attribute = do {
     x \<leftarrow> look_up as_attribute m attribute;
     case attr_value x of V_int64 i \<Rightarrow> Some i | _ \<Rightarrow> None }"

definition dbcppp_AttributeValueAsDouble :: "obj c_mem \<Rightarrow> handle \<Rightarrow> double option" where
  "dbcppp_AttributeValueAsDouble m attribute = do {
     x \<leftarrow> look_up as_attribute m attribute;
     case attr_value x of V_double d \<Rightarrow> Some d | _ \<Rightarrow> None }"

definition dbcppp_AttributeValueAsString :: "obj c_mem \<Rightarrow> handle \<Rightarrow> string option" where
  "dbcppp_AttributeValueAsString m attribute = do {
     x \<leftarrow> look_up as_attribute m attribute;
     case attr_value x of V_string s \<Rightarrow> Some (c_str s) | _ \<Rightarrow> None }"

section \<open>Attribute definitions\<close>

definition dbcppp_AttributeDefinitionCreate ::
    "string \<Rightarrow> dbcppp_EObjectType \<Rightarrow> dbcppp_EAttributeDefinitionValueType \<Rightarrow> c_value \<Rightarrow>
     obj c_mem \<Rightarrow> (handle \<times> obj c_mem) option" where
  "dbcppp_AttributeDefinitionCreate name object_type value_type value m = do {
     let ot = object_type_from_c object_type;
     vt \<leftarrow> (case value_type of
              dbcppp_AttributeDefinitionValueTypeInt \<Rightarrow> do {
                minimum \<leftarrow> read_integer value 0;
                maximum \<leftarrow> read_integer value 1;
                Some (ValueTypeInt minimum maximum) }
            | dbcppp_AttributeDefinitionValueTypeHex \<Rightarrow> do {
                minimum \<leftarrow> read_integer value 0;
                maximum \<leftarrow> read_integer value 1;
                Some (ValueTypeHex minimum maximum) }
            | dbcppp_AttributeDefinitionValueTypeFloat \<Rightarrow> do {
                minimum \<leftarrow> read_double value 0;
                maximum \<leftarrow> read_double value 1;
                Some (ValueTypeFloat minimum maximum) }
            | dbcppp_AttributeDefinitionValueTypeString \<Rightarrow> Some ValueTypeString
            | dbcppp_AttributeDefinitionValueTypeEnum \<Rightarrow>
                map_option ValueTypeEnum (read_strings value));
     Some (alloc (AttributeDefinitionObj (IAttributeDefinition_Create (c_str name) ot vt)) m) }"

definition dbcppp_AttributeDefinitionFree :: "handle \<Rightarrow> obj c_mem \<Rightarrow> obj c_mem option" where
  "dbcppp_AttributeDefinitionFree attribute_definition m = delete as_attribute_definition attribute_definition m"

definition dbcppp_AttributeDefinitionObjectType :: "obj c_mem \<Rightarrow> handle \<Rightarrow> dbcppp_EObjectType option" where
  "dbcppp_AttributeDefinitionObjectType m attribute_definition = do {
     x \<leftarrow> look_up as_attribute_definition m attribute_definition;
     Some (object_type_to_c (ad_object_type x)) }"

definition dbcppp_AttributeDefinitionName :: "obj c_mem \<Rightarrow> handle \<Rightarrow> string option" where
  "dbcppp_AttributeDefinitionName m attribute_definition = do {
     x \<leftarrow> look_up as_attribute_definition m attribute_definition;
     Some (c_str (ad_name x)) }"

definition dbcppp_AttributeDefinitionValueType :: "obj c_mem \<Rightarrow> handle \<Rightarrow> dbcppp_EAttributeDefinitionValueType option" where
  "dbcppp_AttributeDefinitionValueType m attribute_definition = do {
     x \<leftarrow> look_up as_attribute_definition m attribute_definition;
     Some (case ad_value_type x of
             ValueTypeInt _ _ \<Rightarrow> dbcppp_AttributeDefinitionValueTypeInt
           | ValueTypeHex _ _ \<Rightarrow> dbcppp_AttributeDefinitionValueTypeHex
           | ValueTypeFloat _ _ \<Rightarrow> dbcppp_AttributeDefinitionValueTypeFloat
           | ValueTypeString \<Rightarrow> dbcppp_AttributeDefinitionValueTypeString
           | _ \<Rightarrow> dbcppp_AttributeDefinitionValueTypeEnum) }"

definition dbcppp_AttributeDefinitionValueTypeAsInt_Minimum :: "obj c_mem \<Rightarrow> handle \<Rightarrow> i64 option" where
  "dbcppp_AttributeDefinitionValueTypeAsInt_Minimum m attribute_definition = do {
     x \<leftarrow> look_up as_attribute_definition m attribute_definition;
     case ad_value_type x of ValueTypeInt a _ \<Rightarrow> Some a | _ \<Rightarrow> None }"

definition dbcppp_AttributeDefinitionValueTypeAsInt_Maximum :: "obj c_mem \<Rightarrow> handle \<Rightarrow> i64 option" where
  "dbcppp_AttributeDefinitionValueTypeAsInt_Maximum m attribute_definition = do {
     x \<leftarrow> look_up as_attribute_definition m attribute_definition;
     case ad_value_type x of ValueTypeInt _ b \<Rightarrow> Some b | _ \<Rightarrow> None }"

definition dbcppp_AttributeDefinitionValueTypeAsHex_Minimum :: "obj c_mem \<Rightarrow> handle \<Rightarrow> u64 option" where
  "dbcppp_AttributeDefinitionValueTypeAsHex_Minimum m attribute_definition = do {
     x \<leftarrow> look_up as_attribute_definition m attribute_definition;
     case ad_value_type x of ValueTypeHex a _ \<Rightarrow> Some a | _ \<Rightarrow> None }"

definition dbcppp_AttributeDefinitionValueTypeAsHex_Maximum :: "obj c_mem \<Rightarrow> handle \<Rightarrow> u64 option" where
  "dbcppp_AttributeDefinitionValueTypeAsHex_Maximum m attribute_definition = do {
     x \<leftarrow> look_up as_attribute_definition m attribute_definition;
     case ad_value_type x of ValueTypeHex _ b \<Rightarrow> Some b | _ \<Rightarrow> None }"

definition dbcppp_AttributeDefinitionValueTypeAsFloat_Minimum :: "obj c_mem \<Rightarrow> handle \<Rightarrow> double option" where
  "dbcppp_AttributeDefinitionValueTypeAsFloat_Minimum m attribute_definition = do {
     x \<leftarrow> look_up as_attribute_definition m attribute_definition;
     case ad_value_type x of ValueTypeFloat a _ \<Rightarrow> Some a | _ \<Rightarrow> None }"

definition dbcppp_AttributeDefinitionValueTypeAsFloat_Maximum :: "obj c_mem \<Rightarrow> handle \<Rightarrow> double option" where
  "dbcppp_AttributeDefinitionValueTypeAsFloat_Maximum m attribute_definition = do {
     x \<leftarrow> look_up as_attribute_definition m attribute_definition;
     case ad_value_type x of ValueTypeFloat _ b \<Rightarrow> Some b | _ \<Rightarrow> None }"

definition dbcppp_AttributeDefinitionValueTypeAsEnum_Get :: "obj c_mem \<Rightarrow> handle \<Rightarrow> u64 \<Rightarrow> string option" where
  "dbcppp_AttributeDefinitionValueTypeAsEnum_Get m attribute_definition i = do {
     x \<leftarrow> look_up as_attribute_definition m attribute_definition;
     case ad_value_type x of ValueTypeEnum vs \<Rightarrow> map_option c_str (vec_at vs i) | _ \<Rightarrow> None }"

definition dbcppp_AttributeDefinitionValueTypeAsEnum_Size :: "obj c_mem \<Rightarrow> handle \<Rightarrow> u64 option" where
  "dbcppp_AttributeDefinitionValueTypeAsEnum_Size m attribute_definition = do {
     x \<leftarrow> look_up as_attribute_definition m attribute_definition;
     case ad_value_type x of ValueTypeEnum vs \<Rightarrow> Some (vec_size vs) | _ \<Rightarrow> None }"

section \<open>Bit timing\<close>

definition dbcppp_BitTimingCreate ::
    "u64 \<Rightarrow> u64 \<Rightarrow> u64 \<Rightarrow> obj c_mem \<Rightarrow> (handle \<times> obj c_mem) option" where
  "dbcppp_BitTimingCreate baudrate btr1 btr2 m =
     Some (alloc (BitTimingObj (IBitTiming_Create baudrate btr1 btr2)) m)"

definition dbcppp_BitTimingFree :: "handle \<Rightarrow> obj c_mem \<Rightarrow> obj c_mem option" where
  "dbcppp_BitTimingFree bit_timing m = delete as_bit_timing bit_timing m"

definition dbcppp_BitTimingBaudrate :: "obj c_mem \<Rightarrow> handle \<Rightarrow> u64 option" where
  "dbcppp_BitTimingBaudrate m bit_timing = do {
     x \<leftarrow> look_up as_bit_timing m bit_timing;
     Some (bt_baudrate x) }"

definition dbcppp_BitTimingBTR1 :: "obj c_mem \<Rightarrow> handle \<Rightarrow> u64 option" where
  "dbcppp_BitTimingBTR1 m bit_timing = do {
     x \<leftarrow> look_up as_bit_timing m bit_timing;
     Some (bt_BTR1 x) }"

definition dbcppp_BitTimingBTR2 :: "obj c_mem \<Rightarrow> handle \<Rightarrow> u64 option" where
  "dbcppp_BitTimingBTR2 m bit_timing = do {
     x \<leftarrow> look_up as_bit_timing m bit_timing;
     Some (bt_BTR2 x) }"

section \<open>Environment variables\<close>

definition dbcppp_EnvironmentVariableCreate ::
    "string \<Rightarrow> dbcppp_EEnvironmentVariableVarType \<Rightarrow> double \<Rightarrow> double \<Rightarrow> string \<Rightarrow> double \<Rightarrow> u64 \<Rightarrow>
     dbcppp_EEnvironmentVariableAccessType \<Rightarrow> nat \<Rightarrow> nat \<Rightarrow> u64 \<Rightarrow> nat \<Rightarrow> string \<Rightarrow> obj c_mem \<Rightarrow>
     (handle \<times> obj c_mem) option" where
  "dbcppp_EnvironmentVariableCreate name var_type minimum maximum unit initial_value ev_id
     access_type access_nodes value_encoding_descriptions data_size attribute_values comment m = do {
     let vt = var_type_from_c var_type;
     let act = access_type_from_c access_type;
     (ans, m) \<leftarrow> take_string_array access_nodes m;
     (vds, m) \<leftarrow> take_object_array as_value_encoding_description value_encoding_descriptions m;
     (avs, m) \<leftarrow> take_object_array as_attribute attribute_values m;
     Some (alloc (EnvironmentVariableObj (IEnvironmentVariable_Create (c_str name) vt minimum maximum
       (c_str unit) initial_value ev_id act ans vds data_size avs (c_str comment))) m) }"

definition dbcppp_EnvironmentVariableFree :: "handle \<Rightarrow> obj c_mem \<Rightarrow> obj c_mem option" where
  "dbcppp_EnvironmentVariableFree env_var m = delete as_environment_variable env_var m"

definition dbcppp_EnvironmentVariableName :: "obj c_mem \<Rightarrow> handle \<Rightarrow> string option" where
  "dbcppp_EnvironmentVariableName m env_var = do {
     x \<leftarrow> look_up as_environment_variable m env_var;
     Some (c_str (ev_name x)) }"

definition dbcppp_EnvironmentVariableVarType :: "obj c_mem \<Rightarrow> handle \<Rightarrow> dbcppp_EEnvironmentVariableVarType option" where
  "dbcppp_EnvironmentVariableVarType m env_var = do {
     x \<leftarrow> look_up as_environment_variable m env_var;
     Some (case ev_var_type x of
             VT_Integer \<Rightarrow> dbcppp_EnvironmentVariableVarTypeInteger
           | VT_Float \<Rightarrow> dbcppp_EnvironmentVariableVarTypeFloat
           | VT_String \<Rightarrow> dbcppp_EnvironmentVariableVarTypeString
           | _ \<Rightarrow> dbcppp_EnvironmentVariableVarTypeData) }"

definition dbcppp_EnvironmentVariableMinimum :: "obj c_mem \<Rightarrow> handle \<Rightarrow> double option" where
  "dbcppp_EnvironmentVariableMinimum m env_var = do {
     x \<leftarrow> look_up as_environment_variable m env_var;
     Some (ev_minimum x) }"

definition dbcppp_EnvironmentVariableMaximum :: "obj c_mem \<Rightarrow> handle \<Rightarrow> double option" where
  "dbcppp_EnvironmentVariableMaximum m env_var = do {
     x \<leftarrow> look_up as_environment_variable m env_var;
     Some (ev_maximum x) }"

definition dbcppp_EnvironmentVariableUnit :: "obj c_mem \<Rightarrow> handle \<Rightarrow> string option" where
  "dbcppp_EnvironmentVariableUnit m env_var = do {
     x \<leftarrow> look_up as_environment_variable m env_var;
     Some (c_str (ev_unit x)) }"

definition dbcppp_EnvironmentVariableInitialValue :: "obj c_mem \<Rightarrow> handle \<Rightarrow> double option" where
  "dbcppp_EnvironmentVariableInitialValue m env_var = do {
     x \<leftarrow> look_up as_environment_variable m env_var;
     Some (ev_initial_value x) }"

definition dbcppp_EnvironmentVariableEvId :: "obj c_mem \<Rightarrow> handle \<Rightarrow> u64 option" where
  "dbcppp_EnvironmentVariableEvId m env_var = do {
     x \<leftarrow> look_up as_environment_variable m env_var;
     Some (ev_ev_id x) }"

definition dbcppp_EnvironmentVariableAccessType :: "obj c_mem \<Rightarrow> handle \<Rightarrow> dbcppp_EEnvironmentVariableAccessType option" where
  "dbcppp_EnvironmentVariableAccessType m env_var = do {
     x \<leftarrow> look_up as_environment_variable m env_var;
     Some (case ev_access_type x of
             Unrestricted \<Rightarrow> dbcppp_EnvironmentVariableAccessTypeUnrestricted
           | Read \<Rightarrow> dbcppp_EnvironmentVariableAccessTypeRead
           | Write \<Rightarrow> dbcppp_EnvironmentVariableAccessTypeWrite
           | _ \<Rightarrow> dbcppp_EnvironmentVariableAccessTypeReadWrite) }"

definition dbcppp_EnvironmentVariableAccessNodes_Get :: "obj c_mem \<Rightarrow> handle \<Rightarrow> u64 \<Rightarrow> string option" where
  "dbcppp_EnvironmentVariableAccessNodes_Get m env_var i = do {
     x \<leftarrow> look_up as_environment_variable m env_var;
     map_option c_str (vec_at (ev_access_nodes x) i) }"

definition dbcppp_EnvironmentVariableAccessNodes_Size :: "obj c_mem \<Rightarrow> handle \<Rightarrow> u64 option" where
  "dbcppp_EnvironmentVariableAccessNodes_Size m env_var = do {
     x \<leftarrow> look_up as_environment_variable m env_var;
     Some (vec_size (ev_access_nodes x)) }"

definition dbcppp_EnvironmentVariableValueEncodingDescriptions_GetValue :: "obj c_mem \<Rightarrow> handle \<Rightarrow> u64 \<Rightarrow> u64 option" where
  "dbcppp_EnvironmentVariableValueEncodingDescriptions_GetValue m env_var i = do {
     x \<leftarrow> look_up as_environment_variable m env_var;
     map_option ved_value (vec_at (ev_value_encoding_descriptions x) i) }"

definition dbcppp_EnvironmentVariableValueEncodingDescriptions_GetDescription :: "obj c_mem \<Rightarrow> handle \<Rightarrow> u64 \<Rightarrow> string option" where
  "dbcppp_EnvironmentVariableValueEncodingDescriptions_GetDescription m env_var i = do {
     x \<leftarrow> look_up as_environment_variable m env_var;
     map_option (\<lambda>ved. c_str (ved_description ved)) (vec_at (ev_value_encoding_descriptions x) i) }"

definition dbcppp_EnvironmentVariableValueEncodingDescriptions_Size :: "obj c_mem \<Rightarrow> handle \<Rightarrow> u64 option" where
  "dbcppp_EnvironmentVariableValueEncodingDescriptions_Size m env_var = do {
     x \<leftarrow> look_up as_environment_variable m env_var;
     Some (vec_size (ev_value_encoding_descriptions x)) }"

definition dbcppp_EnvironmentVariableDataSize :: "obj c_mem \<Rightarrow> handle \<Rightarrow> u64 option" where
  "dbcppp_EnvironmentVariableDataSize m env_var = do {
     x \<leftarrow> look_up as_environment_variable m env_var;
     Some (ev_data_size x) }"

definition dbcppp_EnvironmentVariableAttributeValues_Get :: "obj c_mem \<Rightarrow> handle \<Rightarrow> u64 \<Rightarrow> handle option" where
  "dbcppp_EnvironmentVariableAttributeValues_Get m env_var i = do {
     x \<leftarrow> look_up as_environment_variable m env_var;
     sub_handle (ev_attribute_values x) i env_var AttributeValue_of }"

definition dbcppp_EnvironmentVariableAttributeValues_Size :: "obj c_mem \<Rightarrow> handle \<Rightarrow> u64 option" where
  "dbcppp_EnvironmentVariableAttributeValues_Size m env_var = do {
     x \<leftarrow> look_up as_environment_variable m env_var;
     Some (vec_size (ev_attribute_values x)) }"

definition dbcppp_EnvironmentVariableComment :: "obj c_mem \<Rightarrow> handle \<Rightarrow> string option" where
  "dbcppp_EnvironmentVariableComment m env_var = do {
     x \<leftarrow> look_up as_environment_variable m env_var;
     Some (c_str (ev_comment x)) }"

section \<open>Messages\<close>

definition dbcppp_MessageCreate ::
    "u64 \<Rightarrow> string \<Rightarrow> u64 \<Rightarrow> string \<Rightarrow> nat \<Rightarrow> nat \<Rightarrow> nat \<Rightarrow> string \<Rightarrow> obj c_mem \<Rightarrow>
     (handle \<times> obj c_mem) option" where
  "dbcppp_MessageCreate id' name message_size transmitter message_transmitters signals
     attribute_values comment m = do {
     (msg_trans, m) \<leftarrow> take_string_array message_transmitters m;
     (sigs, m) \<leftarrow> take_object_array as_signal signals m;
     (attrs, m) \<leftarrow> take_object_array as_attribute attribute_values m;
     Some (alloc (MessageObj (IMessage_Create id' (c_str name) message_size (c_str transmitter)
       msg_trans sigs attrs (c_str comment) [])) m) }"

definition dbcppp_MessageFree :: "handle \<Rightarrow> obj c_mem \<Rightarrow> obj c_mem option" where
  "dbcppp_MessageFree msg m = delete as_message msg m"

definition dbcppp_MessageId :: "obj c_mem \<Rightarrow> handle \<Rightarrow> u64 option" where
  "dbcppp_MessageId m msg = do {
     x \<leftarrow> look_up as_message m msg;
     Some (msg_id x) }"

definition dbcppp_MessageName :: "obj c_mem \<Rightarrow> handle \<Rightarrow> string option" where
  "dbcppp_MessageName m msg = do {
     x \<leftarrow> look_up as_message m msg;
     Some (c_str (msg_name x)) }"

definition dbcppp_MessageMessageSize :: "obj c_mem \<Rightarrow> handle \<Rightarrow> u64 option" where
  "dbcppp_MessageMessageSize m msg = do {
     x \<leftarrow> look_up as_message m msg;
     Some (msg_message_size x) }"

definition dbcppp_MessageTransmitter :: "obj c_mem \<Rightarrow> handle \<Rightarrow> string option" where
  "dbcppp_MessageTransmitter m msg = do {
     x \<leftarrow> look_up as_message m msg;
     Some (c_str (msg_transmitter x)) }"

definition dbcppp_MessageTransmitters_Get :: "obj c_mem \<Rightarrow> handle \<Rightarrow> u64 \<Rightarrow> string option" where
  "dbcppp_MessageTransmitters_Get m msg i = do {
     x \<leftarrow> look_up as_message m msg;
     map_option c_str (vec_at (msg_message_transmitters x) i) }"

definition dbcppp_MessageTransmitters_Size :: "obj c_mem \<Rightarrow> handle \<Rightarrow> u64 option" where
  "dbcppp_MessageTransmitters_Size m msg = do {
     x \<leftarrow> look_up as_message m msg;
     Some (vec_size (msg_message_transmitters x)) }"

definition dbcppp_MessageSignals_Get :: "obj c_mem \<Rightarrow> handle \<Rightarrow> u64 \<Rightarrow> handle option" where
  "dbcppp_MessageSignals_Get m msg i = do {
     x \<leftarrow> look_up as_message m msg;
     sub_handle (msg_signals x) i msg Signal_of }"

definition dbcppp_MessageSignals_Size :: "obj c_mem \<Rightarrow> handle \<Rightarrow> u64 option" where
  "dbcppp_MessageSignals_Size m msg = do {
     x \<leftarrow> look_up as_message m msg;
     Some (vec_size (msg_signals x)) }"

definition dbcppp_MessageAttributeValues_Get :: "obj c_mem \<Rightarrow> handle \<Rightarrow> u64 \<Rightarrow> handle option" where
  "dbcppp_MessageAttributeValues_Get m msg i = do {
     x \<leftarrow> look_up as_message m msg;
     sub_handle (msg_attribute_values x) i msg AttributeValue_of }"

definition dbcppp_MessageAttributeValues_Size :: "obj c_mem \<Rightarrow> handle \<Rightarrow> u64 option" where
  "dbcppp_MessageAttributeValues_Size m msg = do {
     x \<leftarrow> look_up as_message m msg;
     Some (vec_size (msg_attribute_values x)) }"

definition dbcppp_MessageComment :: "obj c_mem \<Rightarrow> handle \<Rightarrow> string option" where
  "dbcppp_MessageComment m msg = do {
     x \<leftarrow> look_up as_message m msg;
     Some (c_str (msg_comment x)) }"

section \<open>Networks\<close>

text \<open>The last loop appends to the attribute defaults, not to the attribute values.\<close>

definition dbcppp_NetworkCreate ::
    "string \<Rightarrow> nat \<Rightarrow> handle \<Rightarrow> nat \<Rightarrow> nat \<Rightarrow> nat \<Rightarrow> nat \<Rightarrow> nat \<Rightarrow> nat \<Rightarrow> nat \<Rightarrow> string \<Rightarrow>
     obj c_mem \<Rightarrow> (handle \<times> obj c_mem) option" where
  "dbcppp_NetworkCreate version new_symbols bit_timing nodes value_tables messages
     environment_variables attribute_definitions attribute_defaults attribute_values comment m = do {
     let v = c_str version;
     (ns, m) \<leftarrow> take_string_array new_symbols m;
     (bt, m) \<leftarrow> take_over_or_null as_bit_timing bit_timing m;
     (n, m) \<leftarrow> take_object_array as_node nodes m;
     (vt, m) \<leftarrow> take_object_array as_value_table value_tables m;
     (ms, m) \<leftarrow> take_object_array as_message messages m;
     (ev, m) \<leftarrow> take_object_array as_environment_variable environment_variables m;
     (adef, m) \<leftarrow> take_object_array as_attribute_definition attribute_definitions m;
     (ad, m) \<leftarrow> take_object_array as_attribute attribute_defaults m;
     let av = [];
     (avs, m) \<leftarrow> take_object_array as_attribute attribute_values m;
     let ad = ad @ avs;
     let c = c_str comment;
     net \<leftarrow> INetwork_Create v ns bt n vt ms ev adef ad av c;
     Some (alloc (NetworkObj net) m) }"

definition dbcppp_NetworkFree :: "handle \<Rightarrow> obj c_mem \<Rightarrow> obj c_mem option" where
  "dbcppp_NetworkFree network m = delete as_network network m"

definition dbcppp_NetworkVersion :: "obj c_mem \<Rightarrow> handle \<Rightarrow> string option" where
  "dbcppp_NetworkVersion m net = do {
     x \<leftarrow> look_up as_network m net;
     Some (c_str (net_version x)) }"

definition dbcppp_NetworkNewSymbols_Get :: "obj c_mem \<Rightarrow> handle \<Rightarrow> u64 \<Rightarrow> string option" where
  "dbcppp_NetworkNewSymbols_Get m net i = do {
     x \<leftarrow> look_up as_network m net;
     map_option c_str (vec_at (net_new_symbols x) i) }"

definition dbcppp_NetworkNewSymbols_Size :: "obj c_mem \<Rightarrow> handle \<Rightarrow> u64 option" where
  "dbcppp_NetworkNewSymbols_Size m net = do {
     x \<leftarrow> look_up as_network m net;
     Some (vec_size (net_new_symbols x)) }"

definition dbcppp_NetworkBitTiming :: "obj c_mem \<Rightarrow> handle \<Rightarrow> handle option" where
  "dbcppp_NetworkBitTiming m net = do {
     x \<leftarrow> look_up as_network m net;
     Some (Sub net BitTiming_of) }"

definition dbcppp_NetworkNodes_Get :: "obj c_mem \<Rightarrow> handle \<Rightarrow> u64 \<Rightarrow> handle option" where
  "dbcppp_NetworkNodes_Get m net i = do {
     x \<leftarrow> look_up as_network m net;
     sub_handle (net_nodes x) i net Node_of }"

definition dbcppp_NetworkNodes_Size :: "obj c_mem \<Rightarrow> handle \<Rightarrow> u64 option" where
  "dbcppp_NetworkNodes_Size m net = do {
     x \<leftarrow> look_up as_network m net;
     Some (vec_size (net_nodes x)) }"

definition dbcppp_NetworkValueTables_Get :: "obj c_mem \<Rightarrow> handle \<Rightarrow> u64 \<Rightarrow> handle option" where
  "dbcppp_NetworkValueTables_Get m net i = do {
     x \<leftarrow> look_up as_network m net;
     sub_handle (net_value_tables x) i net ValueTable_of }"

definition dbcppp_NetworkValueTables_Size :: "obj c_mem \<Rightarrow> handle \<Rightarrow> u64 option" where
  "dbcppp_NetworkValueTables_Size m net = do {
     x \<leftarrow> look_up as_network m net;
     Some (vec_size (net_value_tables x)) }"

definition dbcppp_NetworkMessages_Get :: "obj c_mem \<Rightarrow> handle \<Rightarrow> u64 \<Rightarrow> handle option" where
  "dbcppp_NetworkMessages_Get m net i = do {
     x \<leftarrow> look_up as_network m net;
     sub_handle (net_messages x) i net Message_of }"

definition dbcppp_NetworkMessages_Size :: "obj c_mem \<Rightarrow> handle \<Rightarrow> u64 option" where
  "dbcppp_NetworkMessages_Size m net = do {
     x \<leftarrow> look_up as_network m net;
     Some (vec_size (net_messages x)) }"

definition dbcppp_NetworkEnvironmentVariables_Get :: "obj c_mem \<Rightarrow> handle \<Rightarrow> u64 \<Rightarrow> handle option" where
  "dbcppp_NetworkEnvironmentVariables_Get m net i = do {
     x \<leftarrow> look_up as_network m net;
     sub_handle (net_environment_variables x) i net EnvironmentVariable_of }"

definition dbcppp_NetworkEnvironmentVariables_Size :: "obj c_mem \<Rightarrow> handle \<Rightarrow> u64 option" where
  "dbcppp_NetworkEnvironmentVariables_Size m net = do {
     x \<leftarrow> look_up as_network m net;
     Some (vec_size (net_environment_variables x)) }"

definition dbcppp_NetworkAttributeDefinitions_Get :: "obj c_mem \<Rightarrow> handle \<Rightarrow> u64 \<Rightarrow> handle option" where
  "dbcppp_NetworkAttributeDefinitions_Get m net i = do {
     x \<leftarrow> look_up as_network m net;
     sub_handle (net_attribute_definitions x) i net AttributeDefinition_of }"

definition dbcppp_NetworkAttributeDefinitions_Size :: "obj c_mem \<Rightarrow> handle \<Rightarrow> u64 option" where
  "dbcppp_NetworkAttributeDefinitions_Size m net = do {
     x \<leftarrow> look_up as_network m net;
     Some (vec_size (net_attribute_definitions x)) }"

definition dbcppp_NetworkAttributeDefaults_Get :: "obj c_mem \<Rightarrow> handle \<Rightarrow> u64 \<Rightarrow> handle option" where
  "dbcppp_NetworkAttributeDefaults_Get m net i = do {
     x \<leftarrow> look_up as_network m net;
     sub_handle (net_attribute_defaults x) i net AttributeDefault_of }"

definition dbcppp_NetworkAttributeDefaults_Size :: "obj c_mem \<Rightarrow> handle \<Rightarrow> u64 option" where
  "dbcppp_NetworkAttributeDefaults_Size m net = do {
     x \<leftarrow> look_up as_network m net;
     Some (vec_size (net_attribute_defaults x)) }"

definition dbcppp_NetworkAttributeValues_Get :: "obj c_mem \<Rightarrow> handle \<Rightarrow> u64 \<Rightarrow> handle option" where
  "dbcppp_NetworkAttributeValues_Get m net i = do {
     x \<leftarrow> look_up as_network m net;
     sub_handle (net_attribute_values x) i net AttributeValue_of }"

definition dbcppp_NetworkAttributeValues_Size :: "obj c_mem \<Rightarrow> handle \<Rightarrow> u64 option" where
  "dbcppp_NetworkAttributeValues_Size m net = do {
     x \<leftarrow> look_up as_network m net;
     Some (vec_size (net_attribute_values x)) }"

definition dbcppp_NetworkComment :: "obj c_mem \<Rightarrow> handle \<Rightarrow> string option" where
  "dbcppp_NetworkComment m net = do {
     x \<leftarrow> look_up as_network m net;
     Some (c_str (net_comment x)) }"

section \<open>Nodes\<close>

definition dbcppp_NodeCreate ::
    "string \<Rightarrow> string \<Rightarrow> nat \<Rightarrow> obj c_mem \<Rightarrow> (handle \<times> obj c_mem) option" where
  "dbcppp_NodeCreate name comment attributes m = do {
     (attrs, m) \<leftarrow> take_object_array as_attribute attributes m;
     Some (alloc (NodeObj (INode_Create (c_str name) (c_str comment) attrs)) m) }"

definition dbcppp_NodeFree :: "handle \<Rightarrow> obj c_mem \<Rightarrow> obj c_mem option" where
  "dbcppp_NodeFree node m = delete as_node node m"

definition dbcppp_NodeName :: "obj c_mem \<Rightarrow> handle \<Rightarrow> string option" where
  "dbcppp_NodeName m node = do {
     x \<leftarrow> look_up as_node m node;
     Some (c_str (node_name x)) }"

definition dbcppp_NodeAttributeValues_Get :: "obj c_mem \<Rightarrow> handle \<Rightarrow> u64 \<Rightarrow> handle option" where
  "dbcppp_NodeAttributeValues_Get m net i = do {
     x \<leftarrow> look_up as_node m net;
     sub_handle (node_attribute_values x) i net AttributeValue_of }"

definition dbcppp_NodeAttributeValues_Size :: "obj c_mem \<Rightarrow> handle \<Rightarrow> u64 option" where
  "dbcppp_NodeAttributeValues_Size m net = do {
     x \<leftarrow> look_up as_node m net;
     Some (vec_size (node_attribute_values x)) }"

definition dbcppp_NodeComment :: "obj c_mem \<Rightarrow> handle \<Rightarrow> string option" where
  "dbcppp_NodeComment m node = do {
     x \<leftarrow> look_up as_node m node;
     Some (c_str (node_comment x)) }"

section \<open>Signals\<close>

definition dbcppp_SignalCreate ::
    "platform \<Rightarrow> u64 \<Rightarrow> string \<Rightarrow> dbcppp_ESignalMultiplexer \<Rightarrow> u64 \<Rightarrow> u64 \<Rightarrow> u64 \<Rightarrow>
     dbcppp_ESignalByteOrder \<Rightarrow> dbcppp_ESignalValueType \<Rightarrow> double \<Rightarrow> double \<Rightarrow> double \<Rightarrow> double \<Rightarrow>
     string \<Rightarrow> nat \<Rightarrow> nat \<Rightarrow> nat \<Rightarrow> string \<Rightarrow> dbcppp_ESignalExtendedValueType \<Rightarrow> obj c_mem \<Rightarrow>
     (handle \<times> obj c_mem) option" where
  "dbcppp_SignalCreate pf message_size name multiplexer_indicator multiplexer_switch_value start_bit
     bit_size byte_order value_type factor offset minimum maximum unit receivers attribute_values
     value_encoding_descriptions comment extended_value_type m = do {
     (rs, m) \<leftarrow> take_string_array receivers m;
     (avs, m) \<leftarrow> take_object_array as_attribute attribute_values m;
     (veds, m) \<leftarrow> take_object_array as_value_encoding_description value_encoding_descriptions m;
     result \<leftarrow> SignalImpl_new pf message_size
       \<lparr>sig_name = c_str name,
        sig_multiplexer_indicator = multiplexer_from_c multiplexer_indicator,
        sig_multiplexer_switch_value = multiplexer_switch_value,
        sig_start_bit = start_bit, sig_bit_size = bit_size,
        sig_byte_order = byte_order_from_c byte_order,
        sig_value_type = value_type_from_c value_type,
        sig_factor = factor, sig_offset = offset, sig_minimum = minimum, sig_maximum = maximum,
        sig_unit = c_str unit, sig_receivers = rs, sig_attribute_values = avs,
        sig_value_encoding_descriptions = veds, sig_comment = c_str comment,
        sig_extended_value_type = extended_value_type_from_c extended_value_type,
        sig_signal_multiplexer_values = []\<rparr>;
     Some (alloc (SignalObj result) m) }"

definition dbcppp_SignalName :: "obj c_mem \<Rightarrow> handle \<Rightarrow> string option" where
  "dbcppp_SignalName m sig = do {
     x \<leftarrow> look_up as_signal m sig;
     Some (c_str (sig_name x)) }"

definition dbcppp_SignalMultiplexerIndicator :: "obj c_mem \<Rightarrow> handle \<Rightarrow> dbcppp_ESignalMultiplexer option" where
  "dbcppp_SignalMultiplexerIndicator m sig = do {
     x \<leftarrow> look_up as_signal m sig;
     Some (case sig_multiplexer_indicator x of
             NoMux \<Rightarrow> dbcppp_SignalMultiplexerNoMux
           | MuxSwitch \<Rightarrow> dbcppp_SignalMultiplexerMuxSwitch
           | _ \<Rightarrow> dbcppp_SignalMultiplexerMuxValue) }"

definition dbcppp_SignalMultiplexerSwitchValue :: "obj c_mem \<Rightarrow> handle \<Rightarrow> u64 option" where
  "dbcppp_SignalMultiplexerSwitchValue m sig = do {
     x \<leftarrow> look_up as_signal m sig;
     Some (sig_multiplexer_switch_value x) }"

definition dbcppp_SignalMultiplexerValues_Size :: "obj c_mem \<Rightarrow> handle \<Rightarrow> u64 option" where
  "dbcppp_SignalMultiplexerValues_Size m sig = do {
     x \<leftarrow> look_up as_signal m sig;
     Some (vec_size (sig_signal_multiplexer_values x)) }"

definition dbcppp_SignalMultiplexerValues_Get :: "obj c_mem \<Rightarrow> handle \<Rightarrow> u64 \<Rightarrow> handle option" where
  "dbcppp_SignalMultiplexerValues_Get m sig i = do {
     x \<leftarrow> look_up as_signal m sig;
     sub_handle (sig_signal_multiplexer_values x) i sig SignalMultiplexerValue_of }"

definition dbcppp_SignalMultiplexerValue_SwitchName :: "obj c_mem \<Rightarrow> handle \<Rightarrow> string option" where
  "dbcppp_SignalMultiplexerValue_SwitchName m mux_val = do {
     x \<leftarrow> look_up as_signal_multiplexer_value m mux_val;
     Some (c_str (smv_switch_name x)) }"

definition dbcppp_SignalMultiplexerValue_ValueRanges_Size :: "obj c_mem \<Rightarrow> handle \<Rightarrow> u64 option" where
  "dbcppp_SignalMultiplexerValue_ValueRanges_Size m mux_val = do {
     x \<leftarrow> look_up as_signal_multiplexer_value m mux_val;
     Some (vec_size (smv_value_ranges x)) }"

definition dbcppp_SignalMultiplexerValue_ValueRanges_Get :: "obj c_mem \<Rightarrow> handle \<Rightarrow> u64 \<Rightarrow> handle option" where
  "dbcppp_SignalMultiplexerValue_ValueRanges_Get m mux_val i = do {
     x \<leftarrow> look_up as_signal_multiplexer_value m mux_val;
     sub_handle (smv_value_ranges x) i mux_val ValueRange_of }"

definition dbcppp_SignalStartBit :: "obj c_mem \<Rightarrow> handle \<Rightarrow> u64 option" where
  "dbcppp_SignalStartBit m sig = do {
     x \<leftarrow> look_up as_signal m sig;
     Some (sig_start_bit x) }"

definition dbcppp_SignalBitSize :: "obj c_mem \<Rightarrow> handle \<Rightarrow> u64 option" where
  "dbcppp_SignalBitSize m sig = do {
     x \<leftarrow> look_up as_signal m sig;
     Some (sig_bit_size x) }"

definition dbcppp_SignalByteOrder :: "obj c_mem \<Rightarrow> handle \<Rightarrow> dbcppp_ESignalByteOrder option" where
  "dbcppp_SignalByteOrder m sig = do {
     x \<leftarrow> look_up as_signal m sig;
     Some (byte_order_to_c (sig_byte_order x)) }"

definition dbcppp_SignalValueType :: "obj c_mem \<Rightarrow> handle \<Rightarrow> dbcppp_ESignalValueType option" where
  "dbcppp_SignalValueType m sig = do {
     x \<leftarrow> look_up as_signal m sig;
     Some (value_type_to_c (sig_value_type x)) }"

definition dbcppp_SignalFactor :: "obj c_mem \<Rightarrow> handle \<Rightarrow> double option" where
  "dbcppp_SignalFactor m sig = do {
     x \<leftarrow> look_up as_signal m sig;
     Some (sig_factor x) }"

definition dbcppp_SignalOffset :: "obj c_mem \<Rightarrow> handle \<Rightarrow> double option" where
  "dbcppp_SignalOffset m sig = do {
     x \<leftarrow> look_up as_signal m sig;
     Some (sig_offset x) }"

definition dbcppp_SignalMinimum :: "obj c_mem \<Rightarrow> handle \<Rightarrow> double option" where
  "dbcppp_SignalMinimum m sig = do {
     x \<leftarrow> look_up as_signal m sig;
     Some (sig_minimum x) }"

definition dbcppp_SignalMaximum :: "obj c_mem \<Rightarrow> handle \<Rightarrow> double option" where
  "dbcppp_SignalMaximum m sig = do {
     x \<leftarrow> look_up as_signal m sig;
     Some (sig_maximum x) }"

definition dbcppp_SignalUnit :: "obj c_mem \<Rightarrow> handle \<Rightarrow> string option" where
  "dbcppp_SignalUnit m sig = do {
     x \<leftarrow> look_up as_signal m sig;
     Some (c_str (sig_unit x)) }"

definition dbcppp_SignalReceivers_Get :: "obj c_mem \<Rightarrow> handle \<Rightarrow> u64 \<Rightarrow> string option" where
  "dbcppp_SignalReceivers_Get m signal i = do {
     x \<leftarrow> look_up as_signal m signal;
     map_option c_str (vec_at (sig_receivers x) i) }"

definition dbcppp_SignalReceivers_Size :: "obj c_mem \<Rightarrow> handle \<Rightarrow> u64 option" where
  "dbcppp_SignalReceivers_Size m signal = do {
     x \<leftarrow> look_up as_signal m signal;
     Some (vec_size (sig_receivers x)) }"

definition dbcppp_SignalValueEncodingDescriptions_Get :: "obj c_mem \<Rightarrow> handle \<Rightarrow> u64 \<Rightarrow> handle option" where
  "dbcppp_SignalValueEncodingDescriptions_Get m signal i = do {
     x \<leftarrow> look_up as_signal m signal;
     sub_handle (sig_value_encoding_descriptions x) i signal ValueEncodingDescription_of }"

definition dbcppp_SignalValueEncodingDescriptions_Size :: "obj c_mem \<Rightarrow> handle \<Rightarrow> u64 option" where
  "dbcppp_SignalValueEncodingDescriptions_Size m signal = do {
     x \<leftarrow> look_up as_signal m signal;
     Some (vec_size (sig_value_encoding_descriptions x)) }"

definition dbcppp_SignalAttributeValues_Get :: "obj c_mem \<Rightarrow> handle \<Rightarrow> u64 \<Rightarrow> handle option" where
  "dbcppp_SignalAttributeValues_Get m signal i = do {
     x \<leftarrow> look_up as_signal m signal;
     sub_handle (sig_attribute_values x) i signal AttributeValue_of }"

definition dbcppp_SignalAttributeValues_Size :: "obj c_mem \<Rightarrow> handle \<Rightarrow> u64 option" where
  "dbcppp_SignalAttributeValues_Size m signal = do {
     x \<leftarrow> look_up as_signal m signal;
     Some (vec_size (sig_attribute_values x)) }"

definition dbcppp_SignalComment :: "obj c_mem \<Rightarrow> handle \<Rightarrow> string option" where
  "dbcppp_SignalComment m sig = do {
     x \<leftarrow> look_up as_signal m sig;
     Some (c_str (sig_comment x)) }"

definition dbcppp_SignalExtended_ValueType :: "obj c_mem \<Rightarrow> handle \<Rightarrow> dbcppp_ESignalExtendedValueType option" where
  "dbcppp_SignalExtended_ValueType m sig = do {
     x \<leftarrow> look_up as_signal m sig;
     Some (case sig_extended_value_type x of
             EVT_Integer \<Rightarrow> dbcppp_SignalExtendedValueTypeInteger
           | EVT_Float \<Rightarrow> dbcppp_SignalExtendedValueTypeFloat
           | _ \<Rightarrow> dbcppp_SignalExtendedValueTypeDouble) }"

text \<open>\<open>native\<close> is the byte order of the machine, \<open>bytes\<close> the buffer the pointer leads to.\<close>

definition dbcppp_SignalDecode :: "Endian \<Rightarrow> obj c_mem \<Rightarrow> handle \<Rightarrow> u8 list \<Rightarrow> u64 option" where
  "dbcppp_SignalDecode native m sig bytes = do {
     sigi \<leftarrow> look_up as_signal m sig;
     Decode native sigi bytes }"

definition dbcppp_SignalEncode :: "obj c_mem \<Rightarrow> handle \<Rightarrow> u64 \<Rightarrow> u8 list \<Rightarrow> u8 list option" where
  "dbcppp_SignalEncode m sig raw buffer = do {
     sigi \<leftarrow> look_up as_signal m sig;
     Encode sigi raw buffer }"

definition dbcppp_SignalRawToPhys :: "Endian \<Rightarrow> obj c_mem \<Rightarrow> handle \<Rightarrow> u64 \<Rightarrow> double option" where
  "dbcppp_SignalRawToPhys native m sig raw = do {
     sigi \<leftarrow> look_up as_signal m sig;
     Some (RawToPhys native sigi raw) }"

definition dbcppp_SignalPhysToRaw :: "obj c_mem \<Rightarrow> handle \<Rightarrow> double \<Rightarrow> u64 option" where
  "dbcppp_SignalPhysToRaw m sig phys = do {
     sigi \<leftarrow> look_up as_signal m sig;
     PhysToRaw sigi phys }"

section \<open>Signal types\<close>

definition dbcppp_SignalTypeCreate ::
    "string \<Rightarrow> u64 \<Rightarrow> dbcppp_ESignalByteOrder \<Rightarrow> dbcppp_ESignalValueType \<Rightarrow> double \<Rightarrow> double \<Rightarrow>
     double \<Rightarrow> double \<Rightarrow> string \<Rightarrow> double \<Rightarrow> string \<Rightarrow> obj c_mem \<Rightarrow> (handle \<times> obj c_mem) option" where
  "dbcppp_SignalTypeCreate name signal_size byte_order value_type factor offset minimum maximum unit
     default_value value_table m =
     Some (alloc (SignalTypeObj (ISignalType_Create (c_str name) signal_size
       (byte_order_from_c byte_order) (value_type_from_c value_type) factor offset minimum maximum
       (c_str unit) default_value (c_str value_table))) m)"

definition dbcppp_SignalTypeName :: "obj c_mem \<Rightarrow> handle \<Rightarrow> string option" where
  "dbcppp_SignalTypeName m sig_type = do {
     x \<leftarrow> look_up as_signal_type m sig_type;
     Some (c_str (st_name x)) }"

definition dbcppp_SignalTypeSignalSize :: "obj c_mem \<Rightarrow> handle \<Rightarrow> u64 option" where
  "dbcppp_SignalTypeSignalSize m sig_type = do {
     x \<leftarrow> look_up as_signal_type m sig_type;
     Some (st_signal_size x) }"

definition dbcppp_SignalTypeByteOrder :: "obj c_mem \<Rightarrow> handle \<Rightarrow> dbcppp_ESignalByteOrder option" where
  "dbcppp_SignalTypeByteOrder m sig_type = do {
     x \<leftarrow> look_up as_signal_type m sig_type;
     Some (byte_order_to_c (st_byte_order x)) }"

definition dbcppp_SignalTypeValueType :: "obj c_mem \<Rightarrow> handle \<Rightarrow> dbcppp_ESignalValueType option" where
  "dbcppp_SignalTypeValueType m sig_type = do {
     x \<leftarrow> look_up as_signal_type m sig_type;
     Some (value_type_to_c (st_value_type x)) }"

definition dbcppp_SignalTypeFactor :: "obj c_mem \<Rightarrow> handle \<Rightarrow> double option" where
  "dbcppp_SignalTypeFactor m sig_type = do {
     x \<leftarrow> look_up as_signal_type m sig_type;
     Some (st_factor x) }"

definition dbcppp_SignalTypeOffset :: "obj c_mem \<Rightarrow> handle \<Rightarrow> double option" where
  "dbcppp_SignalTypeOffset m sig_type = do {
     x \<leftarrow> look_up as_signal_type m sig_type;
     Some (st_offset x) }"

definition dbcppp_SignalTypeMinimum :: "obj c_mem \<Rightarrow> handle \<Rightarrow> double option" where
  "dbcppp_SignalTypeMinimum m sig_type = do {
     x \<leftarrow> look_up as_signal_type m sig_type;
     Some (st_minimum x) }"

definition dbcppp_SignalTypeMaximum :: "obj c_mem \<Rightarrow> handle \<Rightarrow> double option" where
  "dbcppp_SignalTypeMaximum m sig_type = do {
     x \<leftarrow> look_up as_signal_type m sig_type;
     Some (st_maximum x) }"

definition dbcppp_SignalTypeUnit :: "obj c_mem \<Rightarrow> handle \<Rightarrow> string option" where
  "dbcppp_SignalTypeUnit m sig_type = do {
     x \<leftarrow> look_up as_signal_type m sig_type;
     Some (c_str (st_unit x)) }"

definition dbcppp_SignalTypeDefaultValue :: "obj c_mem \<Rightarrow> handle \<Rightarrow> double option" where
  "dbcppp_SignalTypeDefaultValue m sig_type = do {
     x \<leftarrow> look_up as_signal_type m sig_type;
     Some (st_default_value x) }"

definition dbcppp_SignalTypeValueTable :: "obj c_mem \<Rightarrow> handle \<Rightarrow> string option" where
  "dbcppp_SignalTypeValueTable m sig_type = do {
     x \<leftarrow> look_up as_signal_type m sig_type;
     Some (c_str (st_value_table x)) }"

section \<open>Value tables and value encoding descriptions\<close>

definition dbcppp_ValueTableCreate ::
    "string \<Rightarrow> handle \<Rightarrow> nat \<Rightarrow> obj c_mem \<Rightarrow> (handle \<times> obj c_mem) option" where
  "dbcppp_ValueTableCreate name signal_type value_encoding_descriptions m = do {
     (veds, m) \<leftarrow> take_kept_array as_value_encoding_description value_encoding_descriptions m;
     (st, m) \<leftarrow> take_over_or_null as_signal_type signal_type m;
     Some (alloc (ValueTableObj (IValueTable_Create (c_str name) st veds)) m) }"

definition dbcppp_ValueTableFree :: "handle \<Rightarrow> obj c_mem \<Rightarrow> obj c_mem option" where
  "dbcppp_ValueTableFree value_table m = delete as_value_table value_table m"

definition dbcppp_ValueTableName :: "obj c_mem \<Rightarrow> handle \<Rightarrow> string option" where
  "dbcppp_ValueTableName m value_table = do {
     x \<leftarrow> look_up as_value_table m value_table;
     Some (c_str (vt_name x)) }"

definition dbcppp_ValueTableSignalType :: "obj c_mem \<Rightarrow> handle \<Rightarrow> handle option" where
  "dbcppp_ValueTableSignalType m value_table = do {
     x \<leftarrow> look_up as_value_table m value_table;
     Some (if vt_signal_type x = None then Null else Sub value_table SignalType_of) }"

definition dbcppp_ValueTableValueEncodingDescription_Get :: "obj c_mem \<Rightarrow> handle \<Rightarrow> u64 \<Rightarrow> handle option" where
  "dbcppp_ValueTableValueEncodingDescription_Get m value_table i = do {
     x \<leftarrow> look_up as_value_table m value_table;
     sub_handle (vt_value_encoding_descriptions x) i value_table ValueEncodingDescription_of }"

definition dbcppp_ValueTableValueEncodingDescription_Size :: "obj c_mem \<Rightarrow> handle \<Rightarrow> u64 option" where
  "dbcppp_ValueTableValueEncodingDescription_Size m value_table = do {
     x \<leftarrow> look_up as_value_table m value_table;
     Some (vec_size (vt_value_encoding_descriptions x)) }"

definition dbcppp_ValueEncodingDescriptionCreate ::
    "u64 \<Rightarrow> string \<Rightarrow> obj c_mem \<Rightarrow> (handle \<times> obj c_mem) option" where
  "dbcppp_ValueEncodingDescriptionCreate value desc m =
     Some (alloc (ValueEncodingDescriptionObj (IValueEncodingDescription_Create value (c_str desc))) m)"

definition dbcppp_ValueEncodingDescriptionFree :: "handle \<Rightarrow> obj c_mem \<Rightarrow> obj c_mem option" where
  "dbcppp_ValueEncodingDescriptionFree cved m = delete as_value_encoding_description cved m"

definition dbcppp_ValueEncodingDescriptionValue :: "obj c_mem \<Rightarrow> handle \<Rightarrow> u64 option" where
  "dbcppp_ValueEncodingDescriptionValue m cved = do {
     x \<leftarrow> look_up as_value_encoding_description m cved;
     Some (ved_value x) }"

definition dbcppp_ValueEncodingDescriptionDescription :: "obj c_mem \<Rightarrow> handle \<Rightarrow> string option" where
  "dbcppp_ValueEncodingDescriptionDescription m cved = do {
     x \<leftarrow> look_up as_value_encoding_description m cved;
     Some (c_str (ved_description x)) }"

section \<open>Loading\<close>

text \<open>
  \<open>read_file\<close>: the contents of the file a name stands for; a stream on a file that does not exist
  reads as empty. An exception of the parser is not caught. A null network becomes a null handle.
\<close>

definition release_network ::
    "(NetworkImpl option \<times> warning list) option \<Rightarrow> obj c_mem \<Rightarrow> (handle \<times> obj c_mem) option" where
  "release_network loaded m = do {
     (net, _) \<leftarrow> loaded;
     Some (case net of Some n \<Rightarrow> alloc (NetworkObj n) m | None \<Rightarrow> (Null, m)) }"

definition parse_or_throw ::
    "(string \<Rightarrow> (double \<times> string) option) \<Rightarrow> platform \<Rightarrow> string \<Rightarrow>
     (NetworkImpl option \<times> warning list) option" where
  "parse_or_throw dbl pf str =
     (case ParseFromMemory dbl str of
        Parsed gnet \<Rightarrow> LoadDBCFromIs (\<lambda>_. Some gnet) pf str
      | Rejected \<Rightarrow> LoadDBCFromIs (\<lambda>_. None) pf str
      | _ \<Rightarrow> None)"

definition dbcppp_NetworkLoadDBCFromFile ::
    "(string \<Rightarrow> string option) \<Rightarrow> (string \<Rightarrow> (double \<times> string) option) \<Rightarrow> platform \<Rightarrow> string \<Rightarrow>
     obj c_mem \<Rightarrow> (handle \<times> obj c_mem) option" where
  "dbcppp_NetworkLoadDBCFromFile read_file dbl pf filename m =
     release_network (parse_or_throw dbl pf
       (case read_file (c_str filename) of Some str \<Rightarrow> str | None \<Rightarrow> [])) m"

definition dbcppp_NetworkLoadDBCFromMemory ::
    "(string \<Rightarrow> (double \<times> string) option) \<Rightarrow> platform \<Rightarrow> string \<Rightarrow> obj c_mem \<Rightarrow>
     (handle \<times> obj c_mem) option" where
  "dbcppp_NetworkLoadDBCFromMemory dbl pf data m = release_network (parse_or_throw dbl pf (c_str data)) m"

end
