(* ===== verification/CLedger.thy ===== *)
theory CLedger
  imports CApi SignalProps
begin

text \<open>
  Who owns which object of the C interface: a ledger that only knows the type of each live object and
  the caller's arrays, the demands every call makes of it, stated without the loops and the memory of
  the model, and the lemma that the calls of theory \<open>CApi\<close> do to the ledger what it demands
  (\<open>exec_ledger\<close>).
\<close>

section \<open>The ownership ledger\<close>

text \<open>The type of each live object is all a ledger knows of it.\<close>

datatype kind =
    K_Attribute | K_AttributeDefinition | K_BitTiming | K_EnvironmentVariable | K_Message
  | K_Network | K_Node | K_Signal | K_SignalType | K_ValueTable | K_ValueEncodingDescription
  | K_SignalMultiplexerValue | K_ValueRange

definition kind_of :: "obj \<Rightarrow> kind" where
  "kind_of x =
     (case x of
        AttributeObj _ \<Rightarrow> K_Attribute | AttributeDefinitionObj _ \<Rightarrow> K_AttributeDefinition
      | BitTimingObj _ \<Rightarrow> K_BitTiming | EnvironmentVariableObj _ \<Rightarrow> K_EnvironmentVariable
      | MessageObj _ \<Rightarrow> K_Message | NetworkObj _ \<Rightarrow> K_Network | NodeObj _ \<Rightarrow> K_Node
      | SignalObj _ \<Rightarrow> K_Signal | SignalTypeObj _ \<Rightarrow> K_SignalType
      | ValueTableObj _ \<Rightarrow> K_ValueTable
      | ValueEncodingDescriptionObj _ \<Rightarrow> K_ValueEncodingDescription
      | SignalMultiplexerValueObj _ \<Rightarrow> K_SignalMultiplexerValue | ValueRangeObj _ \<Rightarrow> K_ValueRange)"

record c_ledger =
  led_owned :: "nat \<Rightarrow> kind option"
  led_next :: nat
  led_strs :: "nat \<Rightarrow> string option list option"
  led_ptrs :: "nat \<Rightarrow> handle list option"

definition ledger :: "obj c_mem \<Rightarrow> c_ledger" where
  "ledger m = \<lparr>led_owned = (\<lambda>a. map_option kind_of (mem_objs m a)), led_next = mem_next m,
     led_strs = mem_strs m, led_ptrs = mem_ptrs m\<rparr>"

text \<open>
  The rules of ownership. A call may be given handles of different objects of the right type that
  the caller owns; afterwards the caller owns them no more. An array has to contain a null, and the
  handles of the array are those before its first null. Their cells are null afterwards.
\<close>

definition owns :: "kind \<Rightarrow> handle list \<Rightarrow> c_ledger \<Rightarrow> bool" where
  "owns k hs L \<longleftrightarrow> distinct hs \<and> (\<forall>h \<in> set hs. \<exists>a. h = Root a \<and> led_owned L a = Some k)"

definition give_up :: "handle list \<Rightarrow> c_ledger \<Rightarrow> c_ledger" where
  "give_up hs L = L\<lparr>led_owned := (\<lambda>a. if Root a \<in> set hs then None else led_owned L a)\<rparr>"

definition before :: "'c \<Rightarrow> 'c list \<Rightarrow> 'c list" where
  "before z cs = takeWhile (\<lambda>c. c \<noteq> z) cs"

definition wiped :: "'c \<Rightarrow> 'c list \<Rightarrow> 'c list" where
  "wiped z cs = replicate (length (before z cs)) z @ dropWhile (\<lambda>c. c \<noteq> z) cs"

definition array_handles :: "c_ledger \<Rightarrow> nat \<Rightarrow> handle list" where
  "array_handles L a = (case led_ptrs L a of Some hs \<Rightarrow> before Null hs | None \<Rightarrow> [])"

text \<open>What a call needs before it creates its object, and the handles it is given with that.\<close>

datatype demand =
    Strings_in nat | Objects_in kind nat | Kept_in kind nat | Object kind handle
  | Object_or_null kind handle

definition takes :: "demand \<Rightarrow> c_ledger \<Rightarrow> handle set" where
  "takes d L =
     (case d of
        Strings_in a \<Rightarrow> {} | Objects_in k a \<Rightarrow> set (array_handles L a)
      | Kept_in k a \<Rightarrow> set (array_handles L a) | Object k p \<Rightarrow> {p} | Object_or_null k p \<Rightarrow> {p})"

definition meet :: "demand \<Rightarrow> c_ledger \<Rightarrow> c_ledger option" where
  "meet d L =
     (case d of
        Strings_in a \<Rightarrow>
          (case led_strs L a of
             Some cs \<Rightarrow>
               if None \<in> set cs then Some (L\<lparr>led_strs := (led_strs L)(a \<mapsto> wiped None cs)\<rparr>) else None
           | None \<Rightarrow> None)
      | Objects_in k a \<Rightarrow>
          (case led_ptrs L a of
             Some hs \<Rightarrow>
               if Null \<in> set hs \<and> owns k (array_handles L a) L
               then Some ((give_up (array_handles L a) L)\<lparr>led_ptrs := (led_ptrs L)(a \<mapsto> wiped Null hs)\<rparr>)
               else None
           | None \<Rightarrow> None)
      | Kept_in k a \<Rightarrow>
          (case led_ptrs L a of
             Some hs \<Rightarrow>
               if Null \<in> set hs \<and> owns k (array_handles L a) L then Some (give_up (array_handles L a) L)
               else None
           | None \<Rightarrow> None)
      | Object k p \<Rightarrow> if owns k [p] L then Some (give_up [p] L) else None
      | Object_or_null k p \<Rightarrow>
          if p = Null then Some L else if owns k [p] L then Some (give_up [p] L) else None)"

fun meet_all :: "demand list \<Rightarrow> c_ledger \<Rightarrow> c_ledger option" where
  "meet_all [] L = Some L"
| "meet_all (d # ds) L = do { L \<leftarrow> meet d L; meet_all ds L }"

text \<open>The object a call creates, if any, gets an address that was not used before.\<close>

definition created :: "kind option \<Rightarrow> c_ledger \<Rightarrow> handle \<times> c_ledger" where
  "created ko L =
     (case ko of
        Some k \<Rightarrow>
          (Root (led_next L),
           L\<lparr>led_owned := (led_owned L)(led_next L \<mapsto> k), led_next := Suc (led_next L)\<rparr>)
      | None \<Rightarrow> (Null, L))"

section \<open>Steps of a call\<close>

text \<open>\<open>as_\<close> functions succeed on one kind of object.\<close>

definition reads_kind :: "kind \<Rightarrow> (obj \<Rightarrow> 'a option) \<Rightarrow> bool" where
  "reads_kind k get \<longleftrightarrow> (\<forall>x. (get x \<noteq> None) = (kind_of x = k))"

lemma reads_kinds:
  "reads_kind K_Attribute as_attribute"
  "reads_kind K_AttributeDefinition as_attribute_definition"
  "reads_kind K_BitTiming as_bit_timing"
  "reads_kind K_EnvironmentVariable as_environment_variable"
  "reads_kind K_Message as_message"
  "reads_kind K_Network as_network"
  "reads_kind K_Node as_node"
  "reads_kind K_Signal as_signal"
  "reads_kind K_SignalType as_signal_type"
  "reads_kind K_ValueTable as_value_table"
  "reads_kind K_ValueEncodingDescription as_value_encoding_description"
  by (simp_all add: reads_kind_def kind_of_def as_attribute_def as_attribute_definition_def
      as_bit_timing_def as_environment_variable_def as_message_def as_network_def as_node_def
      as_signal_def as_signal_type_def as_value_table_def as_value_encoding_description_def
      split: obj.split)

lemma ledger_sel [simp]:
  "led_owned (ledger m) a = map_option kind_of (mem_objs m a)"
  "led_next (ledger m) = mem_next m"
  "led_strs (ledger m) = mem_strs m"
  "led_ptrs (ledger m) = mem_ptrs m"
  by (simp_all add: ledger_def)

lemma ledger_update [simp]:
  "ledger (m\<lparr>mem_strs := ss\<rparr>) = (ledger m)\<lparr>led_strs := ss\<rparr>"
  "ledger (m\<lparr>mem_ptrs := ps\<rparr>) = (ledger m)\<lparr>led_ptrs := ps\<rparr>"
  by (simp_all add: ledger_def)

lemma ledger_alloc: "map_prod id ledger (alloc x m) = created (Some (kind_of x)) (ledger m)"
  by (auto simp: alloc_def created_def ledger_def)

lemma take_over_arrays: "take_over get p m = Some (v, m') \<Longrightarrow> mem_ptrs m' = mem_ptrs m"
  by (auto simp: take_over_def split: handle.splits Option.bind_splits)

lemma take_objects_arrays: "take_objects get ps m = Some (vs, qs, m') \<Longrightarrow> mem_ptrs m' = mem_ptrs m"
proof (induction ps arbitrary: m vs qs m')
  case (Cons p ps)
  then show ?case
    using take_over_arrays [of get p m]
    by (auto split: if_splits Option.bind_splits)
qed simp

text \<open>
  A step of a \<open>Create\<close> function: \<open>follows f d\<close> when \<open>f\<close> does to the ledger what the demand \<open>d\<close> asks for.
\<close>

definition follows :: "(obj c_mem \<Rightarrow> ('a \<times> obj c_mem) option) \<Rightarrow> demand \<Rightarrow> bool" where
  "follows f d \<longleftrightarrow> (\<forall>m. map_option (ledger \<circ> snd) (f m) = meet d (ledger m))"

lemma owns_Nil [simp]: "owns k [] L"
  by (simp add: owns_def)

lemma give_up_Nil [simp]: "give_up [] L = L"
  by (simp add: give_up_def)

lemma owns_Cons: "owns k (p # hs) L \<longleftrightarrow> owns k [p] L \<and> owns k hs (give_up [p] L)"
proof -
  have "(\<exists>a. h = Root a \<and> led_owned (give_up [p] L) a = Some k) \<longleftrightarrow>
      h \<noteq> p \<and> (\<exists>a. h = Root a \<and> led_owned L a = Some k)" for h
    by (auto simp: give_up_def)
  then show ?thesis by (auto simp: owns_def)
qed

lemma give_up_Cons: "give_up (p # hs) L = give_up hs (give_up [p] L)"
  by (simp add: give_up_def fun_eq_iff cong: if_cong)

lemma before_simps [simp]:
  "before z [] = []" "before z (c # cs) = (if c = z then [] else c # before z cs)"
  by (simp_all add: before_def)

lemma wiped_simps [simp]:
  "wiped z [] = []" "wiped z (c # cs) = (if c = z then c # cs else z # wiped z cs)"
  by (simp_all add: wiped_def)

lemma ledger_take_over:
  assumes "reads_kind k get"
  shows "map_option (ledger \<circ> snd) (take_over get p m) =
    (if owns k [p] (ledger m) then Some (give_up [p] (ledger m)) else None)"
proof (cases p)
  case (Root a)
  show ?thesis
  proof (cases "mem_objs m a")
    case (Some x)
    have "get x \<noteq> None \<longleftrightarrow> kind_of x = k" using assms by (simp add: reads_kind_def)
    then show ?thesis
      using Root Some
      by (cases "get x") (auto simp: take_over_def owns_def give_up_def ledger_def)
  qed (simp add: Root take_over_def owns_def)
qed (simp_all add: take_over_def owns_def)

lemma ledger_take_objects:
  assumes "reads_kind k get"
  shows "map_option (\<lambda>(_, qs, m). (qs, ledger m)) (take_objects get ps m) =
    (if Null \<in> set ps \<and> owns k (before Null ps) (ledger m)
     then Some (wiped Null ps, give_up (before Null ps) (ledger m)) else None)"
proof (induction ps arbitrary: m)
  case (Cons p ps)
  show ?case
  proof (cases "p = Null")
    case False
    show ?thesis
    proof (cases "take_over get p m")
      case None
      then have "\<not> owns k [p] (ledger m)"
        using ledger_take_over [OF assms, of p m] by (simp split: if_splits)
      then have "\<not> owns k (p # before Null ps) (ledger m)" by (subst owns_Cons) simp
      with None False show ?thesis by simp
    next
      case (Some r)
      then have o: "owns k [p] (ledger m)" and g: "ledger (snd r) = give_up [p] (ledger m)"
        using ledger_take_over [OF assms, of p m] by (auto split: if_splits)
      have "map_option (\<lambda>(_, qs, m). (qs, ledger m)) (take_objects get (p # ps) m) =
          map_option (\<lambda>(qs, L). (Null # qs, L))
            (map_option (\<lambda>(_, qs, m). (qs, ledger m)) (take_objects get ps (snd r)))"
        using Some False by (cases "take_objects get ps (snd r)") (auto simp: split_def)
      then show ?thesis
        using False o g Cons.IH [of "snd r"]
        owns_Cons [of k p "before Null ps" "ledger m"] give_up_Cons [of p "before Null ps" "ledger m"]
        by simp
    qed
  qed simp
qed simp

lemma follows_take_over: "reads_kind k get \<Longrightarrow> follows (take_over get p) (Object k p)"
  by (simp add: follows_def meet_def ledger_take_over)

lemma follows_or_null:
  "reads_kind k get \<Longrightarrow> follows (take_over_or_null get p) (Object_or_null k p)"
  using ledger_take_over [of k get p]
  by (auto simp: follows_def take_over_or_null_def meet_def option.map_comp comp_def)

lemma take_strings_wiped:
  "map_option snd (take_strings cs) = (if None \<in> set cs then Some (wiped None cs) else None)"
  by (induction cs rule: take_strings.induct) (auto split: Option.bind_splits if_splits)

lemma follows_strings: "follows (take_string_array a) (Strings_in a)"
proof -
  have "map_option (ledger \<circ> snd) (take_string_array a m) = meet (Strings_in a) (ledger m)" for m
  proof (cases "mem_strs m a")
    case (Some cs)
    then show ?thesis
      using take_strings_wiped [of cs]
      by (cases "take_strings cs") (auto simp: take_string_array_def meet_def split: if_splits)
  qed (simp add: take_string_array_def meet_def)
  then show ?thesis by (simp add: follows_def)
qed

lemma follows_objects:
  assumes "reads_kind k get"
  shows "follows (take_object_array get a) (Objects_in k a)"
proof -
  have "map_option (ledger \<circ> snd) (take_object_array get a m) = meet (Objects_in k a) (ledger m)" for m
  proof (cases "mem_ptrs m a")
    case (Some hs)
    have "mem_ptrs m' = mem_ptrs m" if "take_objects get hs m = Some (vs, qs, m')" for vs qs m'
      using that by (rule take_objects_arrays)
    then show ?thesis
      using Some ledger_take_objects [OF assms, of hs m]
      by (cases "take_objects get hs m")
        (auto simp: take_object_array_def meet_def array_handles_def split: if_splits)
  qed (simp add: take_object_array_def meet_def)
  then show ?thesis by (simp add: follows_def)
qed

lemma follows_kept:
  assumes "reads_kind k get"
  shows "follows (take_kept_array get a) (Kept_in k a)"
proof -
  have "map_option (ledger \<circ> snd) (take_kept_array get a m) = meet (Kept_in k a) (ledger m)" for m
  proof (cases "mem_ptrs m a")
    case (Some hs)
    then show ?thesis
      using ledger_take_objects [OF assms, of hs m]
      by (cases "take_objects get hs m")
        (auto simp: take_kept_array_def meet_def array_handles_def split: if_splits)
  qed (simp add: take_kept_array_def meet_def)
  then show ?thesis by (simp add: follows_def)
qed

lemmas following = follows_objects follows_kept follows_or_null follows_take_over

text \<open>A call up to its last step, one step at a time.\<close>

lemma follows_step:
  assumes "follows f d" and "\<And>v m. map_option (map_prod id ledger) (g v m) = do {
      m \<leftarrow> meet_all ds (ledger m); Some (created ko m) }"
  shows "map_option (map_prod id ledger) (do { (v, m) \<leftarrow> f m; g v m }) = do {
      m \<leftarrow> meet_all (d # ds) (ledger m); Some (created ko m) }"
proof (cases "f m")
  case None
  then have "meet d (ledger m) = None" using assms(1) by (metis follows_def map_option_is_None)
  with None show ?thesis by simp
next
  case (Some r)
  then have "meet d (ledger m) = Some (ledger (snd r))"
    using assms(1) by (metis follows_def comp_apply option.map(2))
  with Some show ?thesis by (simp add: assms(2) split: prod.split)
qed

lemma follows_end:
  "map_option (map_prod id ledger) (Some (alloc x m)) = do {
      m \<leftarrow> meet_all [] (ledger m); Some (created (Some (kind_of x)) m) }"
  by (simp add: ledger_alloc)

section \<open>Calls\<close>

text \<open>
  The calls that change the memory: those that create, take over, free or load objects, and the two
  ways in which the caller writes its arrays. The other functions of the interface only read, and
  are listed in theory \<open>CReadings\<close>.
\<close>

datatype c_call =
    AttributeCreate string dbcppp_EObjectType dbcppp_EAttributeValueType c_value
  | AttributeDefinitionCreate string dbcppp_EObjectType dbcppp_EAttributeDefinitionValueType c_value
  | BitTimingCreate u64 u64 u64
  | EnvironmentVariableCreate string dbcppp_EEnvironmentVariableVarType double double string double
      u64 dbcppp_EEnvironmentVariableAccessType nat nat u64 nat string
  | MessageCreate u64 string u64 string nat nat nat string
  | NetworkCreate string nat handle nat nat nat nat nat nat nat string
  | NodeCreate string string nat
  | SignalCreate u64 string dbcppp_ESignalMultiplexer u64 u64 u64 dbcppp_ESignalByteOrder
      dbcppp_ESignalValueType double double double double string nat nat nat string
      dbcppp_ESignalExtendedValueType
  | SignalTypeCreate string u64 dbcppp_ESignalByteOrder dbcppp_ESignalValueType double double double
      double string double string
  | ValueTableCreate string handle nat
  | ValueEncodingDescriptionCreate u64 string
  | LoadDBCFromFile string | LoadDBCFromMemory string
  | AttributeFree handle | AttributeDefinitionFree handle | BitTimingFree handle
  | EnvironmentVariableFree handle | MessageFree handle | NetworkFree handle | NodeFree handle
  | ValueTableFree handle | ValueEncodingDescriptionFree handle
  | WriteStrings nat "string option list" | WriteHandles nat "handle list"

definition no_handle :: "'m option \<Rightarrow> (handle \<times> 'm) option" where
  "no_handle r = map_option (\<lambda>m. (Null, m)) r"

definition exec ::
    "(string \<Rightarrow> string option) \<Rightarrow> (string \<Rightarrow> (double \<times> string) option) \<Rightarrow> platform \<Rightarrow>
     c_call \<Rightarrow> obj c_mem \<Rightarrow>
     (handle \<times> obj c_mem) option" where
  "exec rd dbl pf c m =
     (case c of
        AttributeCreate n t vt v \<Rightarrow> dbcppp_AttributeCreate n t vt v m
      | AttributeDefinitionCreate n t vt v \<Rightarrow> dbcppp_AttributeDefinitionCreate n t vt v m
      | BitTimingCreate b b0 b1 \<Rightarrow> dbcppp_BitTimingCreate b b0 b1 m
      | EnvironmentVariableCreate n vt mn mx u iv i t an veds ds av cm \<Rightarrow>
          dbcppp_EnvironmentVariableCreate n vt mn mx u iv i t an veds ds av cm m
      | MessageCreate i n sz tr mts sigs av cm \<Rightarrow> dbcppp_MessageCreate i n sz tr mts sigs av cm m
      | NetworkCreate v ns bt nodes vts ms evs adefs ads avs cm \<Rightarrow>
          dbcppp_NetworkCreate v ns bt nodes vts ms evs adefs ads avs cm m
      | NodeCreate n cm av \<Rightarrow> dbcppp_NodeCreate n cm av m
      | SignalCreate msz n mi mv sb bs bo vt f off mn mx u rs av veds cm evt \<Rightarrow>
          dbcppp_SignalCreate pf msz n mi mv sb bs bo vt f off mn mx u rs av veds cm evt m
      | SignalTypeCreate n sz bo vt f off mn mx u d t \<Rightarrow>
          dbcppp_SignalTypeCreate n sz bo vt f off mn mx u d t m
      | ValueTableCreate n st veds \<Rightarrow> dbcppp_ValueTableCreate n st veds m
      | ValueEncodingDescriptionCreate v d \<Rightarrow> dbcppp_ValueEncodingDescriptionCreate v d m
      | LoadDBCFromFile n \<Rightarrow> dbcppp_NetworkLoadDBCFromFile rd dbl pf n m
      | LoadDBCFromMemory t \<Rightarrow> dbcppp_NetworkLoadDBCFromMemory dbl pf t m
      | AttributeFree p \<Rightarrow> no_handle (dbcppp_AttributeFree p m)
      | AttributeDefinitionFree p \<Rightarrow> no_handle (dbcppp_AttributeDefinitionFree p m)
      | BitTimingFree p \<Rightarrow> no_handle (dbcppp_BitTimingFree p m)
      | EnvironmentVariableFree p \<Rightarrow> no_handle (dbcppp_EnvironmentVariableFree p m)
      | MessageFree p \<Rightarrow> no_handle (dbcppp_MessageFree p m)
      | NetworkFree p \<Rightarrow> no_handle (dbcppp_NetworkFree p m)
      | NodeFree p \<Rightarrow> no_handle (dbcppp_NodeFree p m)
      | ValueTableFree p \<Rightarrow> no_handle (dbcppp_ValueTableFree p m)
      | ValueEncodingDescriptionFree p \<Rightarrow> no_handle (dbcppp_ValueEncodingDescriptionFree p m)
      | WriteStrings a cs \<Rightarrow> Some (Null, m\<lparr>mem_strs := (mem_strs m)(a \<mapsto> cs)\<rparr>)
      | WriteHandles a ps \<Rightarrow> Some (Null, m\<lparr>mem_ptrs := (mem_ptrs m)(a \<mapsto> ps)\<rparr>))"

text \<open>
  The specification: \<open>None\<close> where the arguments themselves are not allowed, otherwise what the call
  demands of the ledger and the kind of object it creates, if any.
\<close>

definition value_given :: "dbcppp_EAttributeValueType \<Rightarrow> c_value \<Rightarrow> bool" where
  "value_given t v \<longleftrightarrow>
     (case t of
        dbcppp_AttributeValueType_Int \<Rightarrow> read_integer v 0 \<noteq> None
      | dbcppp_AttributeValueType_Double \<Rightarrow> read_double v 0 \<noteq> None
      | dbcppp_AttributeValueType_String \<Rightarrow> read_chars v \<noteq> None)"

definition range_given :: "dbcppp_EAttributeDefinitionValueType \<Rightarrow> c_value \<Rightarrow> bool" where
  "range_given t v \<longleftrightarrow>
     (case t of
        dbcppp_AttributeDefinitionValueTypeInt \<Rightarrow> read_integer v 0 \<noteq> None \<and> read_integer v 1 \<noteq> None
      | dbcppp_AttributeDefinitionValueTypeHex \<Rightarrow> read_integer v 0 \<noteq> None \<and> read_integer v 1 \<noteq> None
      | dbcppp_AttributeDefinitionValueTypeFloat \<Rightarrow> read_double v 0 \<noteq> None \<and> read_double v 1 \<noteq> None
      | dbcppp_AttributeDefinitionValueTypeString \<Rightarrow> True
      | dbcppp_AttributeDefinitionValueTypeEnum \<Rightarrow> read_strings v \<noteq> None)"

definition needs_load ::
    "(string \<Rightarrow> (double \<times> string) option) \<Rightarrow> platform \<Rightarrow> string \<Rightarrow>
     (demand list \<times> kind option) option" where
  "needs_load dbl pf text =
     map_option (\<lambda>(net, _). ([], map_option (\<lambda>_. K_Network) net)) (parse_or_throw dbl pf text)"

definition needs ::
    "(string \<Rightarrow> string option) \<Rightarrow> (string \<Rightarrow> (double \<times> string) option) \<Rightarrow> platform \<Rightarrow>
     c_call \<Rightarrow> (demand list \<times> kind option) option"
  where
  "needs rd dbl pf c =
     (case c of
        AttributeCreate n t vt v \<Rightarrow> if value_given vt v then Some ([], Some K_Attribute) else None
      | AttributeDefinitionCreate n t vt v \<Rightarrow>
          if range_given vt v then Some ([], Some K_AttributeDefinition) else None
      | BitTimingCreate b b0 b1 \<Rightarrow> Some ([], Some K_BitTiming)
      | EnvironmentVariableCreate n vt mn mx u iv i t an veds ds av cm \<Rightarrow>
          Some ([Strings_in an, Objects_in K_ValueEncodingDescription veds, Objects_in K_Attribute av],
            Some K_EnvironmentVariable)
      | MessageCreate i n sz tr mts sigs av cm \<Rightarrow>
          Some ([Strings_in mts, Objects_in K_Signal sigs, Objects_in K_Attribute av], Some K_Message)
      | NetworkCreate v ns bt nodes vts ms evs adefs ads avs cm \<Rightarrow>
          Some ([Strings_in ns, Object K_BitTiming bt, Objects_in K_Node nodes,
            Objects_in K_ValueTable vts, Objects_in K_Message ms,
            Objects_in K_EnvironmentVariable evs, Objects_in K_AttributeDefinition adefs,
            Objects_in K_Attribute ads, Objects_in K_Attribute avs], Some K_Network)
      | NodeCreate n cm av \<Rightarrow> Some ([Objects_in K_Attribute av], Some K_Node)
      | SignalCreate msz n mi mv sb bs bo vt f off mn mx u rs av veds cm evt \<Rightarrow>
          if 1 \<le> bs \<and> bs \<le> 64 then
            Some ([Strings_in rs, Objects_in K_Attribute av, Objects_in K_ValueEncodingDescription veds],
              Some K_Signal)
          else None
      | SignalTypeCreate n sz bo vt f off mn mx u d t \<Rightarrow> Some ([], Some K_SignalType)
      | ValueTableCreate n st veds \<Rightarrow>
          Some ([Kept_in K_ValueEncodingDescription veds, Object_or_null K_SignalType st],
            Some K_ValueTable)
      | ValueEncodingDescriptionCreate v d \<Rightarrow> Some ([], Some K_ValueEncodingDescription)
      | LoadDBCFromFile n \<Rightarrow> needs_load dbl pf (case rd (c_str n) of Some t \<Rightarrow> t | None \<Rightarrow> [])
      | LoadDBCFromMemory t \<Rightarrow> needs_load dbl pf (c_str t)
      | AttributeFree p \<Rightarrow> Some ([Object_or_null K_Attribute p], None)
      | AttributeDefinitionFree p \<Rightarrow> Some ([Object_or_null K_AttributeDefinition p], None)
      | BitTimingFree p \<Rightarrow> Some ([Object_or_null K_BitTiming p], None)
      | EnvironmentVariableFree p \<Rightarrow> Some ([Object_or_null K_EnvironmentVariable p], None)
      | MessageFree p \<Rightarrow> Some ([Object_or_null K_Message p], None)
      | NetworkFree p \<Rightarrow> Some ([Object_or_null K_Network p], None)
      | NodeFree p \<Rightarrow> Some ([Object_or_null K_Node p], None)
      | ValueTableFree p \<Rightarrow> Some ([Object_or_null K_ValueTable p], None)
      | ValueEncodingDescriptionFree p \<Rightarrow> Some ([Object_or_null K_ValueEncodingDescription p], None)
      | WriteStrings a cs \<Rightarrow> Some ([], None)
      | WriteHandles a ps \<Rightarrow> Some ([], None))"

text \<open>What the caller writes into its own arrays.\<close>

definition written :: "c_call \<Rightarrow> c_ledger \<Rightarrow> c_ledger" where
  "written c L =
     (case c of
        WriteStrings a cs \<Rightarrow> L\<lparr>led_strs := (led_strs L)(a \<mapsto> cs)\<rparr>
      | WriteHandles a ps \<Rightarrow> L\<lparr>led_ptrs := (led_ptrs L)(a \<mapsto> ps)\<rparr>
      | _ \<Rightarrow> L)"

definition ledger_exec ::
    "(string \<Rightarrow> string option) \<Rightarrow> (string \<Rightarrow> (double \<times> string) option) \<Rightarrow> platform \<Rightarrow>
     c_call \<Rightarrow> c_ledger \<Rightarrow>
     (handle \<times> c_ledger) option" where
  "ledger_exec rd dbl pf c L = do {
     (ds, ko) \<leftarrow> needs rd dbl pf c;
     L \<leftarrow> meet_all ds (written c L);
     Some (created ko L) }"

text \<open>The handles a call is given, with the objects it destroys or moves into another object.\<close>

definition given ::
    "(string \<Rightarrow> string option) \<Rightarrow> (string \<Rightarrow> (double \<times> string) option) \<Rightarrow> platform \<Rightarrow>
     c_call \<Rightarrow> c_ledger \<Rightarrow>
     handle set" where
  "given rd dbl pf c L =
     (case needs rd dbl pf c of Some (ds, _) \<Rightarrow> (\<Union>d \<in> set ds. takes d L) | None \<Rightarrow> {})"

section \<open>Every call follows the ledger\<close>

definition keeps_ledger ::
    "(string \<Rightarrow> string option) \<Rightarrow> (string \<Rightarrow> (double \<times> string) option) \<Rightarrow> platform \<Rightarrow> c_call \<Rightarrow> bool" where
  "keeps_ledger rd dbl pf c \<longleftrightarrow>
     (\<forall>m. map_option (map_prod id ledger) (exec rd dbl pf c m) = ledger_exec rd dbl pf c (ledger m))"

lemma keeps_ledgerI:
  assumes "needs rd dbl pf c = Some (ds, ko) \<and> (\<forall>L. written c L = L)"
    and "\<And>m. map_option (map_prod id ledger) (exec rd dbl pf c m) = do {
      m \<leftarrow> meet_all ds (ledger m); Some (created ko m) }"
  shows "keeps_ledger rd dbl pf c"
  using assms by (simp add: keeps_ledger_def ledger_exec_def)

lemma keeps_free:
  assumes "needs rd dbl pf c = Some ([Object_or_null k p], None) \<and> (\<forall>L. written c L = L)"
    and "reads_kind k get"
    and "\<And>m. exec rd dbl pf c m = no_handle (delete get p m)"
  shows "keeps_ledger rd dbl pf c"
proof (rule keeps_ledgerI [OF assms(1)])
  fix m
  have "meet (Object_or_null k p) (ledger m) = map_option ledger (delete get p m)"
    using follows_or_null [OF assms(2), of p] by (simp add: follows_def delete_def option.map_comp comp_def)
  then show "map_option (map_prod id ledger) (exec rd dbl pf c m) = do {
      m \<leftarrow> meet_all [Object_or_null k p] (ledger m); Some (created None m) }"
    by (cases "delete get p m") (simp_all add: assms(3) no_handle_def created_def)
qed

lemma keeps_frees:
  "keeps_ledger rd dbl pf (AttributeFree p)" "keeps_ledger rd dbl pf (AttributeDefinitionFree p)"
  "keeps_ledger rd dbl pf (BitTimingFree p)" "keeps_ledger rd dbl pf (EnvironmentVariableFree p)"
  "keeps_ledger rd dbl pf (MessageFree p)" "keeps_ledger rd dbl pf (NetworkFree p)"
  "keeps_ledger rd dbl pf (NodeFree p)" "keeps_ledger rd dbl pf (ValueTableFree p)"
  "keeps_ledger rd dbl pf (ValueEncodingDescriptionFree p)"
  by (rule keeps_free, simp add: needs_def written_def, rule reads_kinds, simp add: exec_def
      dbcppp_AttributeFree_def dbcppp_AttributeDefinitionFree_def dbcppp_BitTimingFree_def
      dbcppp_EnvironmentVariableFree_def dbcppp_MessageFree_def dbcppp_NetworkFree_def
      dbcppp_NodeFree_def dbcppp_ValueTableFree_def dbcppp_ValueEncodingDescriptionFree_def)+

lemma keeps_writes:
  "keeps_ledger rd dbl pf (WriteStrings a cs)" "keeps_ledger rd dbl pf (WriteHandles a ps)"
  by (simp_all add: keeps_ledger_def ledger_exec_def needs_def written_def exec_def created_def)

lemma keeps_values:
  "keeps_ledger rd dbl pf (BitTimingCreate b b0 b1)"
  "keeps_ledger rd dbl pf (SignalTypeCreate n sz bo vt f off mn mx u d t)"
  "keeps_ledger rd dbl pf (ValueEncodingDescriptionCreate v desc)"
  by (rule keeps_ledgerI, simp add: needs_def written_def, simp add: exec_def kind_of_def ledger_alloc
      dbcppp_BitTimingCreate_def dbcppp_SignalTypeCreate_def dbcppp_ValueEncodingDescriptionCreate_def)+

lemma keeps_attribute: "keeps_ledger rd dbl pf (AttributeCreate n t vt v)"
  by (cases vt) (auto simp: keeps_ledger_def ledger_exec_def needs_def exec_def created_def
      written_def kind_of_def alloc_def ledger_def value_given_def dbcppp_AttributeCreate_def split: Option.bind_splits)

lemma keeps_attribute_definition: "keeps_ledger rd dbl pf (AttributeDefinitionCreate n t vt v)"
  by (cases vt) (auto simp: keeps_ledger_def ledger_exec_def needs_def exec_def created_def
      written_def kind_of_def alloc_def ledger_def range_given_def dbcppp_AttributeDefinitionCreate_def
      split: Option.bind_splits)

lemmas call_steps = follows_step follows_strings following reads_kinds

lemma keeps_environment_variable:
  "keeps_ledger rd dbl pf (EnvironmentVariableCreate n vt mn mx u iv i t an veds ds av cm)"
  by (rule keeps_ledgerI, simp add: needs_def written_def,
      simp only: exec_def c_call.case dbcppp_EnvironmentVariableCreate_def Let_def, intro call_steps)
    (simp add: ledger_alloc kind_of_def)

lemma keeps_message: "keeps_ledger rd dbl pf (MessageCreate i n sz tr mts sigs av cm)"
  by (rule keeps_ledgerI, simp add: needs_def written_def,
      simp only: exec_def c_call.case dbcppp_MessageCreate_def Let_def, intro call_steps)
    (simp add: ledger_alloc kind_of_def)

lemma keeps_node: "keeps_ledger rd dbl pf (NodeCreate n cm av)"
  by (rule keeps_ledgerI, simp add: needs_def written_def,
      simp only: exec_def c_call.case dbcppp_NodeCreate_def Let_def, intro call_steps)
    (simp add: ledger_alloc kind_of_def)

lemma keeps_value_table: "keeps_ledger rd dbl pf (ValueTableCreate n st veds)"
  by (rule keeps_ledgerI, simp add: needs_def written_def,
      simp only: exec_def c_call.case dbcppp_ValueTableCreate_def Let_def, intro call_steps)
    (simp add: ledger_alloc kind_of_def)

lemma follows_last:
  assumes "\<And>m. map_option (map_prod id ledger) (g m) = do {
      m \<leftarrow> meet_all ds (ledger m); Some (created ko m) }" and "follows f d"
  shows "map_option (map_prod id ledger) (do { (_, m) \<leftarrow> f m; g m }) = do {
      m \<leftarrow> meet_all (d # ds) (ledger m); Some (created ko m) }"
  by (rule follows_step [OF assms(2)]) (rule assms(1))

lemma keeps_signal:
  "keeps_ledger rd dbl pf (SignalCreate msz n mi mv sb bs bo vt f off mn mx u rs av veds cm evt)"
proof (cases "1 \<le> bs \<and> bs \<le> 64")
  case True
  show ?thesis
  proof (rule keeps_ledgerI)
    fix m
    show "map_option (map_prod id ledger)
       (exec rd dbl pf (SignalCreate msz n mi mv sb bs bo vt f off mn mx u rs av veds cm evt) m) = do {
        m \<leftarrow> meet_all [Strings_in rs, Objects_in K_Attribute av,
          Objects_in K_ValueEncodingDescription veds] (ledger m);
        Some (created (Some K_Signal) m) }"
      unfolding exec_def c_call.case dbcppp_SignalCreate_def
    proof (intro call_steps)
      fix rs avs veds m
      let ?d = "\<lparr>sig_name = c_str n, sig_multiplexer_indicator = multiplexer_from_c mi,
        sig_multiplexer_switch_value = mv, sig_start_bit = sb, sig_bit_size = bs,
        sig_byte_order = byte_order_from_c bo, sig_value_type = value_type_from_c vt,
        sig_factor = f, sig_offset = off, sig_minimum = mn, sig_maximum = mx,
        sig_unit = c_str u, sig_receivers = rs, sig_attribute_values = avs,
        sig_value_encoding_descriptions = veds, sig_comment = c_str cm,
        sig_extended_value_type = extended_value_type_from_c evt,
        sig_signal_multiplexer_values = []\<rparr>"
      have "SignalImpl_new pf msz ?d \<noteq> None"
        using True by (subst SignalImpl_new_defined) (simp add: well_sized_def word_le_nat_alt)
      then obtain sig where "SignalImpl_new pf msz ?d = Some sig" by blast
      then show "map_option (map_prod id ledger) (do {
          result \<leftarrow> SignalImpl_new pf msz ?d; Some (alloc (SignalObj result) m) }) = do {
          m \<leftarrow> meet_all [] (ledger m); Some (created (Some K_Signal) m) }"
        using follows_end [of "SignalObj sig" m] by (simp add: kind_of_def)
    qed
  qed (simp add: needs_def written_def True)
next
  case False
  have "SignalImpl_new pf msz d = None" if "sig_bit_size d = bs" for d
    using False that SignalImpl_new_defined [of pf msz d] by (auto simp: well_sized_def word_le_nat_alt)
  then show ?thesis
    using False by (auto simp: keeps_ledger_def ledger_exec_def needs_def exec_def
        dbcppp_SignalCreate_def split: Option.bind_splits)
qed

text \<open>A null bit timing is taken for a missing one only until \<open>INetwork::Create\<close> reads it.\<close>

lemma NetworkCreate_bit_timing:
  "dbcppp_NetworkCreate v ns bt nodes vts ms evs adefs ads avs cm m = do {
     (ns, m) \<leftarrow> take_string_array ns m;
     (b, m) \<leftarrow> take_over as_bit_timing bt m;
     (n, m) \<leftarrow> take_object_array as_node nodes m;
     (vt, m) \<leftarrow> take_object_array as_value_table vts m;
     (ms, m) \<leftarrow> take_object_array as_message ms m;
     (ev, m) \<leftarrow> take_object_array as_environment_variable evs m;
     (adef, m) \<leftarrow> take_object_array as_attribute_definition adefs m;
     (ad, m) \<leftarrow> take_object_array as_attribute ads m;
     (avs, m) \<leftarrow> take_object_array as_attribute avs m;
     Some (alloc (NetworkObj
       \<lparr>net_version = c_str v, net_new_symbols = ns, net_bit_timing = b, net_nodes = n,
        net_value_tables = vt, net_messages = ms, net_environment_variables = ev,
        net_attribute_definitions = adef, net_attribute_defaults = ad @ avs,
        net_attribute_values = [], net_comment = c_str cm\<rparr>) m) }"
proof -
  have "take_over as_bit_timing Null m = None" for m :: "obj c_mem"
    by (simp add: take_over_def)
  then show ?thesis
    by (auto simp: dbcppp_NetworkCreate_def INetwork_Create_def take_over_or_null_def Let_def
        split: Option.bind_splits intro!: Option.bind_cong)
qed

lemma keeps_network:
  "keeps_ledger rd dbl pf (NetworkCreate v ns bt nodes vts ms evs adefs ads avs cm)"
  by (rule keeps_ledgerI, simp add: needs_def written_def,
      simp only: exec_def c_call.case NetworkCreate_bit_timing, intro call_steps)
    (simp add: ledger_alloc kind_of_def)

lemma keeps_loads:
  "keeps_ledger rd dbl pf (LoadDBCFromFile n)" "keeps_ledger rd dbl pf (LoadDBCFromMemory t)"
  by (auto simp: keeps_ledger_def ledger_exec_def needs_def needs_load_def exec_def created_def written_def
      dbcppp_NetworkLoadDBCFromFile_def dbcppp_NetworkLoadDBCFromMemory_def release_network_def alloc_def ledger_def kind_of_def
      split: Option.bind_splits option.split)

lemma exec_ledger:
  "map_option (map_prod id ledger) (exec rd dbl pf c m) = ledger_exec rd dbl pf c (ledger m)"
proof -
  have "keeps_ledger rd dbl pf c"
    by (cases c) (simp_all add: keeps_attribute keeps_attribute_definition keeps_values
        keeps_environment_variable keeps_message keeps_network keeps_node keeps_signal
        keeps_value_table keeps_loads keeps_frees keeps_writes)
  then show ?thesis by (simp add: keeps_ledger_def)
qed

end
