(* ===== verification/CReadings.thy ===== *)
theory CReadings
  imports CLedger
begin

text \<open>
  The functions of the C interface that only read: all getters and the calls of the codec, as one
  list, with the type of object each of them reads. Whether they are defined depends on their handle
  only through the object it leads to.
\<close>

section \<open>Reading calls\<close>

datatype c_result =
    R_string string | R_integer "64 word" | R_double double | R_handle handle | R_bytes "u8 list"
  | R_object_type dbcppp_EObjectType | R_attribute_value_type dbcppp_EAttributeValueType
  | R_attribute_definition_value_type dbcppp_EAttributeDefinitionValueType
  | R_var_type dbcppp_EEnvironmentVariableVarType
  | R_access_type dbcppp_EEnvironmentVariableAccessType
  | R_multiplexer dbcppp_ESignalMultiplexer | R_byte_order dbcppp_ESignalByteOrder
  | R_value_type dbcppp_ESignalValueType
  | R_extended_value_type dbcppp_ESignalExtendedValueType

text \<open>
  The type of the object, whether the call is allowed for every such object, and the call. Calls that
  are not take an index, read one alternative of a variant, or run the codec on a buffer.
\<close>

type_synonym c_reading = "kind \<times> bool \<times> (obj c_mem \<Rightarrow> handle \<Rightarrow> c_result option)"

definition reads_always ::
    "kind \<Rightarrow> ('a \<Rightarrow> c_result) \<Rightarrow> (obj c_mem \<Rightarrow> handle \<Rightarrow> 'a option) \<Rightarrow> c_reading" where
  "reads_always k r f = (k, True, \<lambda>m p. map_option r (f m p))"

definition reads_maybe ::
    "kind \<Rightarrow> ('a \<Rightarrow> c_result) \<Rightarrow> (obj c_mem \<Rightarrow> handle \<Rightarrow> 'a option) \<Rightarrow> c_reading" where
  "reads_maybe k r f = (k, False, \<lambda>m p. map_option r (f m p))"

definition attribute_readings :: "c_reading list" where
  "attribute_readings =
     [reads_always K_Attribute R_string dbcppp_AttributeName,
      reads_always K_Attribute R_object_type dbcppp_AttributeObjectType,
      reads_always K_Attribute R_attribute_value_type dbcppp_AttributeValueType,
      reads_maybe K_Attribute R_integer dbcppp_AttributeValueAsInt,
      reads_maybe K_Attribute R_double dbcppp_AttributeValueAsDouble,
      reads_maybe K_Attribute R_string dbcppp_AttributeValueAsString]"

definition attribute_definition_readings :: "u64 \<Rightarrow> c_reading list" where
  "attribute_definition_readings i =
     [reads_always K_AttributeDefinition R_object_type dbcppp_AttributeDefinitionObjectType,
      reads_always K_AttributeDefinition R_string dbcppp_AttributeDefinitionName,
      reads_always K_AttributeDefinition R_attribute_definition_value_type
        dbcppp_AttributeDefinitionValueType,
      reads_maybe K_AttributeDefinition R_integer
        dbcppp_AttributeDefinitionValueTypeAsInt_Minimum,
      reads_maybe K_AttributeDefinition R_integer
        dbcppp_AttributeDefinitionValueTypeAsInt_Maximum,
      reads_maybe K_AttributeDefinition R_integer
        dbcppp_AttributeDefinitionValueTypeAsHex_Minimum,
      reads_maybe K_AttributeDefinition R_integer
        dbcppp_AttributeDefinitionValueTypeAsHex_Maximum,
      reads_maybe K_AttributeDefinition R_double
        dbcppp_AttributeDefinitionValueTypeAsFloat_Minimum,
      reads_maybe K_AttributeDefinition R_double
        dbcppp_AttributeDefinitionValueTypeAsFloat_Maximum,
      reads_maybe K_AttributeDefinition R_string
        (\<lambda>m p. dbcppp_AttributeDefinitionValueTypeAsEnum_Get m p i),
      reads_maybe K_AttributeDefinition R_integer dbcppp_AttributeDefinitionValueTypeAsEnum_Size]"

definition bit_timing_readings :: "c_reading list" where
  "bit_timing_readings =
     [reads_always K_BitTiming R_integer dbcppp_BitTimingBaudrate,
      reads_always K_BitTiming R_integer dbcppp_BitTimingBTR1,
      reads_always K_BitTiming R_integer dbcppp_BitTimingBTR2]"

definition environment_variable_readings :: "u64 \<Rightarrow> c_reading list" where
  "environment_variable_readings i =
     [reads_always K_EnvironmentVariable R_string dbcppp_EnvironmentVariableName,
      reads_always K_EnvironmentVariable R_var_type dbcppp_EnvironmentVariableVarType,
      reads_always K_EnvironmentVariable R_double dbcppp_EnvironmentVariableMinimum,
      reads_always K_EnvironmentVariable R_double dbcppp_EnvironmentVariableMaximum,
      reads_always K_EnvironmentVariable R_string dbcppp_EnvironmentVariableUnit,
      reads_always K_EnvironmentVariable R_double dbcppp_EnvironmentVariableInitialValue,
      reads_always K_EnvironmentVariable R_integer dbcppp_EnvironmentVariableEvId,
      reads_always K_EnvironmentVariable R_access_type dbcppp_EnvironmentVariableAccessType,
      reads_maybe K_EnvironmentVariable R_string
        (\<lambda>m p. dbcppp_EnvironmentVariableAccessNodes_Get m p i),
      reads_always K_EnvironmentVariable R_integer dbcppp_EnvironmentVariableAccessNodes_Size,
      reads_maybe K_EnvironmentVariable R_integer
        (\<lambda>m p. dbcppp_EnvironmentVariableValueEncodingDescriptions_GetValue m p i),
      reads_maybe K_EnvironmentVariable R_string
        (\<lambda>m p. dbcppp_EnvironmentVariableValueEncodingDescriptions_GetDescription m p i),
      reads_always K_EnvironmentVariable R_integer
        dbcppp_EnvironmentVariableValueEncodingDescriptions_Size,
      reads_always K_EnvironmentVariable R_integer dbcppp_EnvironmentVariableDataSize,
      reads_maybe K_EnvironmentVariable R_handle
        (\<lambda>m p. dbcppp_EnvironmentVariableAttributeValues_Get m p i),
      reads_always K_EnvironmentVariable R_integer
        dbcppp_EnvironmentVariableAttributeValues_Size,
      reads_always K_EnvironmentVariable R_string dbcppp_EnvironmentVariableComment]"

definition message_readings :: "u64 \<Rightarrow> c_reading list" where
  "message_readings i =
     [reads_always K_Message R_integer dbcppp_MessageId,
      reads_always K_Message R_string dbcppp_MessageName,
      reads_always K_Message R_integer dbcppp_MessageMessageSize,
      reads_always K_Message R_string dbcppp_MessageTransmitter,
      reads_maybe K_Message R_string (\<lambda>m p. dbcppp_MessageTransmitters_Get m p i),
      reads_always K_Message R_integer dbcppp_MessageTransmitters_Size,
      reads_maybe K_Message R_handle (\<lambda>m p. dbcppp_MessageSignals_Get m p i),
      reads_always K_Message R_integer dbcppp_MessageSignals_Size,
      reads_maybe K_Message R_handle (\<lambda>m p. dbcppp_MessageAttributeValues_Get m p i),
      reads_always K_Message R_integer dbcppp_MessageAttributeValues_Size,
      reads_always K_Message R_string dbcppp_MessageComment]"

definition network_readings :: "u64 \<Rightarrow> c_reading list" where
  "network_readings i =
     [reads_always K_Network R_string dbcppp_NetworkVersion,
      reads_maybe K_Network R_string (\<lambda>m p. dbcppp_NetworkNewSymbols_Get m p i),
      reads_always K_Network R_integer dbcppp_NetworkNewSymbols_Size,
      reads_always K_Network R_handle dbcppp_NetworkBitTiming,
      reads_maybe K_Network R_handle (\<lambda>m p. dbcppp_NetworkNodes_Get m p i),
      reads_always K_Network R_integer dbcppp_NetworkNodes_Size,
      reads_maybe K_Network R_handle (\<lambda>m p. dbcppp_NetworkValueTables_Get m p i),
      reads_always K_Network R_integer dbcppp_NetworkValueTables_Size,
      reads_maybe K_Network R_handle (\<lambda>m p. dbcppp_NetworkMessages_Get m p i),
      reads_always K_Network R_integer dbcppp_NetworkMessages_Size,
      reads_maybe K_Network R_handle (\<lambda>m p. dbcppp_NetworkEnvironmentVariables_Get m p i),
      reads_always K_Network R_integer dbcppp_NetworkEnvironmentVariables_Size,
      reads_maybe K_Network R_handle (\<lambda>m p. dbcppp_NetworkAttributeDefinitions_Get m p i),
      reads_always K_Network R_integer dbcppp_NetworkAttributeDefinitions_Size,
      reads_maybe K_Network R_handle (\<lambda>m p. dbcppp_NetworkAttributeDefaults_Get m p i),
      reads_always K_Network R_integer dbcppp_NetworkAttributeDefaults_Size,
      reads_maybe K_Network R_handle (\<lambda>m p. dbcppp_NetworkAttributeValues_Get m p i),
      reads_always K_Network R_integer dbcppp_NetworkAttributeValues_Size,
      reads_always K_Network R_string dbcppp_NetworkComment]"

definition node_readings :: "u64 \<Rightarrow> c_reading list" where
  "node_readings i =
     [reads_always K_Node R_string dbcppp_NodeName,
      reads_maybe K_Node R_handle (\<lambda>m p. dbcppp_NodeAttributeValues_Get m p i),
      reads_always K_Node R_integer dbcppp_NodeAttributeValues_Size,
      reads_always K_Node R_string dbcppp_NodeComment]"

definition signal_readings :: "Endian \<Rightarrow> u64 \<Rightarrow> u8 list \<Rightarrow> u64 \<Rightarrow> double \<Rightarrow> c_reading list" where
  "signal_readings native i bytes raw phys =
     [reads_always K_Signal R_string dbcppp_SignalName,
      reads_always K_Signal R_multiplexer dbcppp_SignalMultiplexerIndicator,
      reads_always K_Signal R_integer dbcppp_SignalMultiplexerSwitchValue,
      reads_always K_Signal R_integer dbcppp_SignalMultiplexerValues_Size,
      reads_maybe K_Signal R_handle (\<lambda>m p. dbcppp_SignalMultiplexerValues_Get m p i),
      reads_always K_Signal R_integer dbcppp_SignalStartBit,
      reads_always K_Signal R_integer dbcppp_SignalBitSize,
      reads_always K_Signal R_byte_order dbcppp_SignalByteOrder,
      reads_always K_Signal R_value_type dbcppp_SignalValueType,
      reads_always K_Signal R_double dbcppp_SignalFactor,
      reads_always K_Signal R_double dbcppp_SignalOffset,
      reads_always K_Signal R_double dbcppp_SignalMinimum,
      reads_always K_Signal R_double dbcppp_SignalMaximum,
      reads_always K_Signal R_string dbcppp_SignalUnit,
      reads_maybe K_Signal R_string (\<lambda>m p. dbcppp_SignalReceivers_Get m p i),
      reads_always K_Signal R_integer dbcppp_SignalReceivers_Size,
      reads_maybe K_Signal R_handle (\<lambda>m p. dbcppp_SignalValueEncodingDescriptions_Get m p i),
      reads_always K_Signal R_integer dbcppp_SignalValueEncodingDescriptions_Size,
      reads_maybe K_Signal R_handle (\<lambda>m p. dbcppp_SignalAttributeValues_Get m p i),
      reads_always K_Signal R_integer dbcppp_SignalAttributeValues_Size,
      reads_always K_Signal R_string dbcppp_SignalComment,
      reads_always K_Signal R_extended_value_type dbcppp_SignalExtended_ValueType,
      reads_maybe K_Signal R_integer (\<lambda>m p. dbcppp_SignalDecode native m p bytes),
      reads_maybe K_Signal R_bytes (\<lambda>m p. dbcppp_SignalEncode m p raw bytes),
      reads_always K_Signal R_double (\<lambda>m p. dbcppp_SignalRawToPhys native m p raw),
      reads_maybe K_Signal R_integer (\<lambda>m p. dbcppp_SignalPhysToRaw m p phys)]"

definition signal_multiplexer_value_readings :: "u64 \<Rightarrow> c_reading list" where
  "signal_multiplexer_value_readings i =
     [reads_always K_SignalMultiplexerValue R_string dbcppp_SignalMultiplexerValue_SwitchName,
      reads_always K_SignalMultiplexerValue R_integer
        dbcppp_SignalMultiplexerValue_ValueRanges_Size,
      reads_maybe K_SignalMultiplexerValue R_handle
        (\<lambda>m p. dbcppp_SignalMultiplexerValue_ValueRanges_Get m p i)]"

definition signal_type_readings :: "c_reading list" where
  "signal_type_readings =
     [reads_always K_SignalType R_string dbcppp_SignalTypeName,
      reads_always K_SignalType R_integer dbcppp_SignalTypeSignalSize,
      reads_always K_SignalType R_byte_order dbcppp_SignalTypeByteOrder,
      reads_always K_SignalType R_value_type dbcppp_SignalTypeValueType,
      reads_always K_SignalType R_double dbcppp_SignalTypeFactor,
      reads_always K_SignalType R_double dbcppp_SignalTypeOffset,
      reads_always K_SignalType R_double dbcppp_SignalTypeMinimum,
      reads_always K_SignalType R_double dbcppp_SignalTypeMaximum,
      reads_always K_SignalType R_string dbcppp_SignalTypeUnit,
      reads_always K_SignalType R_double dbcppp_SignalTypeDefaultValue,
      reads_always K_SignalType R_string dbcppp_SignalTypeValueTable]"

definition value_table_readings :: "u64 \<Rightarrow> c_reading list" where
  "value_table_readings i =
     [reads_always K_ValueTable R_string dbcppp_ValueTableName,
      reads_always K_ValueTable R_handle dbcppp_ValueTableSignalType,
      reads_maybe K_ValueTable R_handle
        (\<lambda>m p. dbcppp_ValueTableValueEncodingDescription_Get m p i),
      reads_always K_ValueTable R_integer dbcppp_ValueTableValueEncodingDescription_Size]"

definition value_encoding_description_readings :: "c_reading list" where
  "value_encoding_description_readings =
     [reads_always K_ValueEncodingDescription R_integer dbcppp_ValueEncodingDescriptionValue,
      reads_always K_ValueEncodingDescription R_string
        dbcppp_ValueEncodingDescriptionDescription]"

definition readings :: "Endian \<Rightarrow> u64 \<Rightarrow> u8 list \<Rightarrow> u64 \<Rightarrow> double \<Rightarrow> c_reading list" where
  "readings native i bytes raw phys =
     attribute_readings @
     attribute_definition_readings i @
     bit_timing_readings @
     environment_variable_readings i @
     message_readings i @
     network_readings i @
     node_readings i @
     signal_readings native i bytes raw phys @
     signal_multiplexer_value_readings i @
     signal_type_readings @
     value_table_readings i @
     value_encoding_description_readings"

section \<open>What they depend on\<close>

definition reads_object :: "c_reading \<Rightarrow> bool" where
  "reads_object r \<longleftrightarrow>
     (case r of (k, always, f) \<Rightarrow>
        (\<forall>m m' p. deref m' p = deref m p \<longrightarrow> f m' p = f m p) \<and>
        (\<forall>m p. f m p \<noteq> None \<longrightarrow> map_option kind_of (deref m p) = Some k) \<and>
        (always \<longrightarrow> (\<forall>m p. map_option kind_of (deref m p) = Some k \<longrightarrow> f m p \<noteq> None)))"

lemma look_up_kind:
  "reads_kind k get \<Longrightarrow> look_up get m p \<noteq> None \<longleftrightarrow> map_option kind_of (deref m p) = Some k"
  by (cases "deref m p") (auto simp: look_up_def reads_kind_def)

lemma reads_multiplexer_value: "reads_kind K_SignalMultiplexerValue as_signal_multiplexer_value"
  by (simp add: reads_kind_def kind_of_def as_signal_multiplexer_value_def split: obj.split)

lemma reads_maybe_object:
  assumes "\<And>m p. f m p = do { x \<leftarrow> look_up get m p; h p x }" and "reads_kind k get"
  shows "reads_object (reads_maybe k r f)"
  unfolding reads_object_def reads_maybe_def prod.case
proof (intro conjI allI impI)
  show "map_option r (f m' p) = map_option r (f m p)" if "deref m' p = deref m p" for m m' p
    using that by (simp only: assms(1) look_up_def)
  show "map_option kind_of (deref m p) = Some k" if "map_option r (f m p) \<noteq> None" for m p
  proof -
    have "look_up get m p \<noteq> None" using that unfolding assms(1) by (cases "look_up get m p") simp_all
    then show ?thesis using look_up_kind [OF assms(2)] by simp
  qed
qed simp_all

lemma reads_always_object:
  assumes "\<And>m p. f m p = do { x \<leftarrow> look_up get m p; Some (h p x) }" and "reads_kind k get"
  shows "reads_object (reads_always k r f)"
proof -
  have "reads_object (reads_maybe k r f)"
    using assms by (rule reads_maybe_object)
  moreover have "map_option r (f m p) \<noteq> None" if "map_option kind_of (deref m p) = Some k" for m p
  proof -
    have "look_up get m p \<noteq> None" using that look_up_kind [OF assms(2)] by simp
    then show ?thesis unfolding assms(1) by (cases "look_up get m p") simp_all
  qed
  ultimately show ?thesis
    unfolding reads_always_def reads_maybe_def reads_object_def prod.case by blast
qed

lemma attribute_readings_ok: "list_all reads_object attribute_readings"
  unfolding attribute_readings_def list.pred_inject(2)
  by (intro conjI list.pred_inject(1); (rule reads_always_object | rule reads_maybe_object),
      rule dbcppp_AttributeName_def dbcppp_AttributeObjectType_def dbcppp_AttributeValueType_def
      dbcppp_AttributeValueAsInt_def dbcppp_AttributeValueAsDouble_def
      dbcppp_AttributeValueAsString_def, rule reads_kinds reads_multiplexer_value)

lemma attribute_definition_readings_ok: "list_all reads_object (attribute_definition_readings i)"
  unfolding attribute_definition_readings_def list.pred_inject(2)
  by (intro conjI list.pred_inject(1); (rule reads_always_object | rule reads_maybe_object),
      rule dbcppp_AttributeDefinitionObjectType_def dbcppp_AttributeDefinitionName_def
      dbcppp_AttributeDefinitionValueType_def
      dbcppp_AttributeDefinitionValueTypeAsInt_Minimum_def
      dbcppp_AttributeDefinitionValueTypeAsInt_Maximum_def
      dbcppp_AttributeDefinitionValueTypeAsHex_Minimum_def
      dbcppp_AttributeDefinitionValueTypeAsHex_Maximum_def
      dbcppp_AttributeDefinitionValueTypeAsFloat_Minimum_def
      dbcppp_AttributeDefinitionValueTypeAsFloat_Maximum_def
      dbcppp_AttributeDefinitionValueTypeAsEnum_Get_def
      dbcppp_AttributeDefinitionValueTypeAsEnum_Size_def, rule reads_kinds
      reads_multiplexer_value)

lemma bit_timing_readings_ok: "list_all reads_object bit_timing_readings"
  unfolding bit_timing_readings_def list.pred_inject(2)
  by (intro conjI list.pred_inject(1); (rule reads_always_object | rule reads_maybe_object),
      rule dbcppp_BitTimingBaudrate_def dbcppp_BitTimingBTR1_def dbcppp_BitTimingBTR2_def, rule
      reads_kinds reads_multiplexer_value)

lemma environment_variable_readings_ok: "list_all reads_object (environment_variable_readings i)"
  unfolding environment_variable_readings_def list.pred_inject(2)
  by (intro conjI list.pred_inject(1); (rule reads_always_object | rule reads_maybe_object),
      rule dbcppp_EnvironmentVariableName_def dbcppp_EnvironmentVariableVarType_def
      dbcppp_EnvironmentVariableMinimum_def dbcppp_EnvironmentVariableMaximum_def
      dbcppp_EnvironmentVariableUnit_def dbcppp_EnvironmentVariableInitialValue_def
      dbcppp_EnvironmentVariableEvId_def dbcppp_EnvironmentVariableAccessType_def
      dbcppp_EnvironmentVariableAccessNodes_Get_def
      dbcppp_EnvironmentVariableAccessNodes_Size_def
      dbcppp_EnvironmentVariableValueEncodingDescriptions_GetValue_def
      dbcppp_EnvironmentVariableValueEncodingDescriptions_GetDescription_def
      dbcppp_EnvironmentVariableValueEncodingDescriptions_Size_def
      dbcppp_EnvironmentVariableDataSize_def dbcppp_EnvironmentVariableAttributeValues_Get_def
      dbcppp_EnvironmentVariableAttributeValues_Size_def dbcppp_EnvironmentVariableComment_def,
      rule reads_kinds reads_multiplexer_value)

lemma message_readings_ok: "list_all reads_object (message_readings i)"
  unfolding message_readings_def list.pred_inject(2)
  by (intro conjI list.pred_inject(1); (rule reads_always_object | rule reads_maybe_object),
      rule dbcppp_MessageId_def dbcppp_MessageName_def dbcppp_MessageMessageSize_def
      dbcppp_MessageTransmitter_def dbcppp_MessageTransmitters_Get_def
      dbcppp_MessageTransmitters_Size_def dbcppp_MessageSignals_Get_def
      dbcppp_MessageSignals_Size_def dbcppp_MessageAttributeValues_Get_def
      dbcppp_MessageAttributeValues_Size_def dbcppp_MessageComment_def, rule reads_kinds
      reads_multiplexer_value)

lemma network_readings_ok: "list_all reads_object (network_readings i)"
  unfolding network_readings_def list.pred_inject(2)
  by (intro conjI list.pred_inject(1); (rule reads_always_object | rule reads_maybe_object),
      rule dbcppp_NetworkVersion_def dbcppp_NetworkNewSymbols_Get_def
      dbcppp_NetworkNewSymbols_Size_def dbcppp_NetworkBitTiming_def dbcppp_NetworkNodes_Get_def
      dbcppp_NetworkNodes_Size_def dbcppp_NetworkValueTables_Get_def
      dbcppp_NetworkValueTables_Size_def dbcppp_NetworkMessages_Get_def
      dbcppp_NetworkMessages_Size_def dbcppp_NetworkEnvironmentVariables_Get_def
      dbcppp_NetworkEnvironmentVariables_Size_def dbcppp_NetworkAttributeDefinitions_Get_def
      dbcppp_NetworkAttributeDefinitions_Size_def dbcppp_NetworkAttributeDefaults_Get_def
      dbcppp_NetworkAttributeDefaults_Size_def dbcppp_NetworkAttributeValues_Get_def
      dbcppp_NetworkAttributeValues_Size_def dbcppp_NetworkComment_def, rule reads_kinds
      reads_multiplexer_value)

lemma node_readings_ok: "list_all reads_object (node_readings i)"
  unfolding node_readings_def list.pred_inject(2)
  by (intro conjI list.pred_inject(1); (rule reads_always_object | rule reads_maybe_object),
      rule dbcppp_NodeName_def dbcppp_NodeAttributeValues_Get_def
      dbcppp_NodeAttributeValues_Size_def dbcppp_NodeComment_def, rule reads_kinds
      reads_multiplexer_value)

lemma signal_readings_ok: "list_all reads_object (signal_readings native i bytes raw phys)"
  unfolding signal_readings_def list.pred_inject(2)
  by (intro conjI list.pred_inject(1); (rule reads_always_object | rule reads_maybe_object),
      rule dbcppp_SignalName_def dbcppp_SignalMultiplexerIndicator_def
      dbcppp_SignalMultiplexerSwitchValue_def dbcppp_SignalMultiplexerValues_Size_def
      dbcppp_SignalMultiplexerValues_Get_def dbcppp_SignalStartBit_def dbcppp_SignalBitSize_def
      dbcppp_SignalByteOrder_def dbcppp_SignalValueType_def dbcppp_SignalFactor_def
      dbcppp_SignalOffset_def dbcppp_SignalMinimum_def dbcppp_SignalMaximum_def
      dbcppp_SignalUnit_def dbcppp_SignalReceivers_Get_def dbcppp_SignalReceivers_Size_def
      dbcppp_SignalValueEncodingDescriptions_Get_def
      dbcppp_SignalValueEncodingDescriptions_Size_def dbcppp_SignalAttributeValues_Get_def
      dbcppp_SignalAttributeValues_Size_def dbcppp_SignalComment_def
      dbcppp_SignalExtended_ValueType_def dbcppp_SignalDecode_def dbcppp_SignalEncode_def
      dbcppp_SignalRawToPhys_def dbcppp_SignalPhysToRaw_def, rule reads_kinds
      reads_multiplexer_value)

lemma signal_multiplexer_value_readings_ok: "list_all reads_object (signal_multiplexer_value_readings i)"
  unfolding signal_multiplexer_value_readings_def list.pred_inject(2)
  by (intro conjI list.pred_inject(1); (rule reads_always_object | rule reads_maybe_object),
      rule dbcppp_SignalMultiplexerValue_SwitchName_def
      dbcppp_SignalMultiplexerValue_ValueRanges_Size_def
      dbcppp_SignalMultiplexerValue_ValueRanges_Get_def, rule reads_kinds
      reads_multiplexer_value)

lemma signal_type_readings_ok: "list_all reads_object signal_type_readings"
  unfolding signal_type_readings_def list.pred_inject(2)
  by (intro conjI list.pred_inject(1); (rule reads_always_object | rule reads_maybe_object),
      rule dbcppp_SignalTypeName_def dbcppp_SignalTypeSignalSize_def
      dbcppp_SignalTypeByteOrder_def dbcppp_SignalTypeValueType_def dbcppp_SignalTypeFactor_def
      dbcppp_SignalTypeOffset_def dbcppp_SignalTypeMinimum_def dbcppp_SignalTypeMaximum_def
      dbcppp_SignalTypeUnit_def dbcppp_SignalTypeDefaultValue_def
      dbcppp_SignalTypeValueTable_def, rule reads_kinds reads_multiplexer_value)

lemma value_table_readings_ok: "list_all reads_object (value_table_readings i)"
  unfolding value_table_readings_def list.pred_inject(2)
  by (intro conjI list.pred_inject(1); (rule reads_always_object | rule reads_maybe_object),
      rule dbcppp_ValueTableName_def dbcppp_ValueTableSignalType_def
      dbcppp_ValueTableValueEncodingDescription_Get_def
      dbcppp_ValueTableValueEncodingDescription_Size_def, rule reads_kinds
      reads_multiplexer_value)

lemma value_encoding_description_readings_ok:
  "list_all reads_object value_encoding_description_readings"
  unfolding value_encoding_description_readings_def list.pred_inject(2)
  by (intro conjI list.pred_inject(1); (rule reads_always_object | rule reads_maybe_object),
      rule dbcppp_ValueEncodingDescriptionValue_def
      dbcppp_ValueEncodingDescriptionDescription_def, rule reads_kinds reads_multiplexer_value)

lemma readings_read: "list_all reads_object (readings native i bytes raw phys)"
  by (simp add: readings_def attribute_readings_ok attribute_definition_readings_ok
      bit_timing_readings_ok environment_variable_readings_ok message_readings_ok
      network_readings_ok node_readings_ok signal_readings_ok
      signal_multiplexer_value_readings_ok signal_type_readings_ok value_table_readings_ok
      value_encoding_description_readings_ok)

lemma readings_of:
  assumes "(k, always, f) \<in> set (readings native i bytes raw phys)"
  shows "deref m' p = deref m p \<Longrightarrow> f m' p = f m p"
    and "deref m p = None \<Longrightarrow> f m p = None"
    and "f m p \<noteq> None \<Longrightarrow> map_option kind_of (deref m p) = Some k"
    and "always \<Longrightarrow> map_option kind_of (deref m p) = Some k \<Longrightarrow> f m p \<noteq> None"
proof -
  have "reads_object (k, always, f)"
    using readings_read [of native i bytes raw phys] assms unfolding list_all_iff by blast
  note r = this [unfolded reads_object_def prod.case]
  show "f m' p = f m p" if "deref m' p = deref m p" using r that by blast
  show k: "map_option kind_of (deref m p) = Some k" if "f m p \<noteq> None" using r that by blast
  show "f m p = None" if "deref m p = None"
    using k that by (metis option.distinct(1) option.map(1))
  show "f m p \<noteq> None" if "always" "map_option kind_of (deref m p) = Some k" using r that by blast
qed

end
