(* ===== verification/CApiProps.thy ===== *)
theory CApiProps
  imports CReadings
begin

text \<open>
  Properties of the C interface: a sequence of calls is defined exactly when the ledger of owned
  objects allows it, a handle leads to the same object until that is taken over or freed, and what
  networks and signals created through the interface consist of.
\<close>

section \<open>Sequences of calls\<close>

fun run ::
    "(string \<Rightarrow> string option) \<Rightarrow> (string \<Rightarrow> (double \<times> string) option) \<Rightarrow> platform \<Rightarrow>
     c_call list \<Rightarrow> obj c_mem \<Rightarrow> (handle list \<times> obj c_mem) option" where
  "run rd dbl pf [] m = Some ([], m)"
| "run rd dbl pf (c # cs) m = do {
     (p, m) \<leftarrow> exec rd dbl pf c m;
     (ps, m) \<leftarrow> run rd dbl pf cs m;
     Some (p # ps, m) }"

fun ledger_run ::
    "(string \<Rightarrow> string option) \<Rightarrow> (string \<Rightarrow> (double \<times> string) option) \<Rightarrow> platform \<Rightarrow>
     c_call list \<Rightarrow> c_ledger \<Rightarrow> (handle list \<times> c_ledger) option" where
  "ledger_run rd dbl pf [] L = Some ([], L)"
| "ledger_run rd dbl pf (c # cs) L = do {
     (p, L) \<leftarrow> ledger_exec rd dbl pf c L;
     (ps, L) \<leftarrow> ledger_run rd dbl pf cs L;
     Some (p # ps, L) }"

lemma run_ledger:
  "map_option (map_prod id ledger) (run rd dbl pf cs m) = ledger_run rd dbl pf cs (ledger m)"
proof (induction cs arbitrary: m)
  case (Cons c cs)
  show ?case
  proof (cases "exec rd dbl pf c m")
    case None
    then have "ledger_exec rd dbl pf c (ledger m) = None"
      using exec_ledger [of rd dbl pf c m] by simp
    with None show ?thesis by simp
  next
    case (Some r)
    then have "ledger_exec rd dbl pf c (ledger m) = Some (fst r, ledger (snd r))"
      using exec_ledger [of rd dbl pf c m] by (simp add: map_prod_def split_beta)
    moreover have "ledger_run rd dbl pf cs (ledger (snd r)) =
        map_option (map_prod id ledger) (run rd dbl pf cs (snd r))"
      by (simp add: Cons.IH)
    ultimately show ?thesis
      using Some by (cases "run rd dbl pf cs (snd r)") (auto simp: split_beta)
  qed
qed simp

lemma ledger_run_Some:
  assumes "ledger_run rd dbl pf cs (ledger m) = Some (ps, L)"
  obtains m' where "run rd dbl pf cs m = Some (ps, m')" and "ledger m' = L"
  using assms run_ledger [of rd dbl pf cs m] by (cases "run rd dbl pf cs m") auto

lemma reading_root:
  assumes "(k, always, f) \<in> set (readings native i bytes raw phys)"
  shows "f m (Root a) \<noteq> None \<Longrightarrow> led_owned (ledger m) a = Some k"
    and "always \<Longrightarrow> led_owned (ledger m) a = Some k \<Longrightarrow> f m (Root a) \<noteq> None"
  using readings_of(3) [OF assms, of m "Root a"] readings_of(4) [OF assms, of m "Root a"]
  by simp_all

text \<open>C29. The calls of the C interface that change memory follow the rules of ownership, which the
  ledger states without the memory: each handle a \<open>Create\<close> or \<open>Free\<close> is given, in an argument or in an
  array before its first null, has to be a different object of the right type that the caller owns
  (\<open>Free\<close> and the signal type of a value table may be null), the caller does not own it afterwards,
  and the cells of the array are null then (\<open>ValueTableCreate\<close> leaves them); the new object is owned.
  Besides, values have to be of the type that is stated for them and signals of 1 to 64 bits. A sequence of calls, loading from files and from memory
  included, is free of undefined behaviour exactly when the ledger allows it, returns the handles
  the ledger gives and leaves what the ledger says. After it, all 117 calls that read, getters and
  codec, fail on objects that are not owned or have another type, and those that depend on nothing
  else succeed on all owned objects of their type.\<close>

theorem capi_refines:
  "map_option (map_prod id ledger) (run rd dbl pf cs m) = ledger_run rd dbl pf cs (ledger m) \<and>
   (\<forall>ps L. ledger_run rd dbl pf cs (ledger m) = Some (ps, L) \<longrightarrow>
      (\<exists>m'. run rd dbl pf cs m = Some (ps, m') \<and>
         (\<forall>(k, always, f) \<in> set (readings native i bytes raw phys). \<forall>a.
            (f m' (Root a) \<noteq> None \<longrightarrow> led_owned L a = Some k) \<and>
            (always \<and> led_owned L a = Some k \<longrightarrow> f m' (Root a) \<noteq> None))))"
proof (intro conjI allI impI)
  fix ps L
  assume "ledger_run rd dbl pf cs (ledger m) = Some (ps, L)"
  then obtain m' where m': "run rd dbl pf cs m = Some (ps, m')" "ledger m' = L"
    by (rule ledger_run_Some)
  have "(f m' (Root a) \<noteq> None \<longrightarrow> led_owned L a = Some k) \<and>
      (always \<and> led_owned L a = Some k \<longrightarrow> f m' (Root a) \<noteq> None)"
    if "(k, always, f) \<in> set (readings native i bytes raw phys)" for k always f a
    using reading_root [OF that, of m' a] m'(2) by simp
  with m'(1) show "\<exists>m'. run rd dbl pf cs m = Some (ps, m') \<and>
      (\<forall>(k, always, f) \<in> set (readings native i bytes raw phys). \<forall>a.
         (f m' (Root a) \<noteq> None \<longrightarrow> led_owned L a = Some k) \<and>
         (always \<and> led_owned L a = Some k \<longrightarrow> f m' (Root a) \<noteq> None))"
    by blast
qed (rule run_ledger)

section \<open>What a handle refers to\<close>

text \<open>The objects of \<open>m\<close> are unchanged or gone in \<open>m'\<close>, and addresses are not used again.\<close>

definition kept :: "obj c_mem \<Rightarrow> obj c_mem \<Rightarrow> bool" where
  "kept m m' \<longleftrightarrow>
     mem_next m \<le> mem_next m' \<and>
     (\<forall>a < mem_next m. mem_objs m' a = mem_objs m a \<or> mem_objs m' a = None)"

definition framed :: "(obj c_mem \<Rightarrow> ('a \<times> obj c_mem) option) \<Rightarrow> bool" where
  "framed f \<longleftrightarrow> (\<forall>m v m'. f m = Some (v, m') \<longrightarrow> kept m m')"

lemma kept_refl: "kept m m"
  by (simp add: kept_def)

lemma kept_trans: "kept m m' \<Longrightarrow> kept m' m'' \<Longrightarrow> kept m m''"
  unfolding kept_def by (metis le_trans order.strict_trans2)

lemma framed_bind:
  assumes "framed f" and "\<And>v. framed (g v)"
  shows "framed (\<lambda>m. do { (v, m) \<leftarrow> f m; g v m })"
  using assms kept_trans unfolding framed_def by (auto split: Option.bind_splits) blast

lemma framed_value: "(\<And>x. framed (g x)) \<Longrightarrow> framed (\<lambda>m. do { x \<leftarrow> v; g x m })"
  by (cases v) (auto simp: framed_def)

lemma framed_alloc: "framed (\<lambda>m. Some (alloc x m))"
  by (auto simp: framed_def alloc_def kept_def)

lemma framed_take_over: "framed (take_over get p)"
  by (auto simp: framed_def take_over_def kept_def split: handle.splits Option.bind_splits)

lemma framed_or_null: "framed (take_over_or_null get p)"
  using framed_take_over [of get p]
  by (auto simp: framed_def take_over_or_null_def kept_refl split: if_splits)

lemma framed_free: "framed (\<lambda>m. no_handle (delete get p m))"
  using framed_or_null [of get p] by (auto simp: framed_def delete_def no_handle_def)

lemma take_objects_kept: "take_objects get ps m = Some (vs, qs, m') \<Longrightarrow> kept m m'"
proof (induction ps arbitrary: m vs qs m')
  case (Cons p ps)
  then show ?case
    using framed_take_over [of get p] kept_trans
    by (auto simp: framed_def kept_refl split: if_splits Option.bind_splits) blast
qed simp

lemma kept_arrays [simp]:
  "kept m (m'\<lparr>mem_ptrs := ps\<rparr>) = kept m m'" "kept m (m'\<lparr>mem_strs := ss\<rparr>) = kept m m'"
  by (simp_all add: kept_def)

lemma framed_arrays:
  "framed (take_object_array get a)" "framed (take_kept_array get a)" "framed (take_string_array a)"
  by (auto simp: framed_def take_object_array_def take_kept_array_def take_string_array_def
      kept_refl dest!: take_objects_kept split: Option.bind_splits)

lemma framed_writes:
  "framed (\<lambda>m. Some (Null, m\<lparr>mem_strs := f m\<rparr>))" "framed (\<lambda>m. Some (Null, m\<lparr>mem_ptrs := g m\<rparr>))"
  by (auto simp: framed_def kept_def)

lemma framed_load: "framed (release_network loaded)"
  unfolding framed_def release_network_def
  by (auto simp: alloc_def kept_def split: Option.bind_splits option.splits)

lemmas framing = framed_bind framed_value framed_alloc framed_or_null framed_take_over framed_free
  framed_arrays framed_writes framed_load

lemma framed_exec: "framed (exec rd dbl pf c)"
  unfolding exec_def
  by (cases c) (simp_all only: c_call.case dbcppp_AttributeCreate_def
      dbcppp_AttributeDefinitionCreate_def dbcppp_BitTimingCreate_def
      dbcppp_EnvironmentVariableCreate_def dbcppp_MessageCreate_def NetworkCreate_bit_timing
      dbcppp_NodeCreate_def dbcppp_SignalCreate_def dbcppp_SignalTypeCreate_def
      dbcppp_ValueTableCreate_def dbcppp_ValueEncodingDescriptionCreate_def Let_def
      dbcppp_NetworkLoadDBCFromFile_def dbcppp_NetworkLoadDBCFromMemory_def dbcppp_AttributeFree_def
      dbcppp_AttributeDefinitionFree_def dbcppp_BitTimingFree_def dbcppp_EnvironmentVariableFree_def
      dbcppp_MessageFree_def dbcppp_NetworkFree_def dbcppp_NodeFree_def dbcppp_ValueTableFree_def
      dbcppp_ValueEncodingDescriptionFree_def, (intro framing)+)

lemma kept_run: "run rd dbl pf cs m = Some (ps, m') \<Longrightarrow> kept m m'"
proof (induction cs arbitrary: m ps)
  case (Cons c cs)
  then show ?case
    using framed_exec [of rd dbl pf c] kept_trans
    by (auto simp: framed_def split: Option.bind_splits) blast
qed (simp add: kept_refl)

fun root_of :: "handle \<Rightarrow> nat option" where
  "root_of Null = None"
| "root_of (Root a) = Some a"
| "root_of (Sub p _) = root_of p"

lemma deref_root:
  assumes "root_of p = Some a"
  shows "mem_objs m a = None \<Longrightarrow> deref m p = None"
    and "mem_objs m' a = mem_objs m a \<Longrightarrow> deref m' p = deref m p"
  using assms by (induction p) auto

text \<open>The handles a sequence of calls is given with their objects, as the ledger sees it.\<close>

fun given_run ::
    "(string \<Rightarrow> string option) \<Rightarrow> (string \<Rightarrow> (double \<times> string) option) \<Rightarrow> platform \<Rightarrow>
     c_call list \<Rightarrow> c_ledger \<Rightarrow> handle set" where
  "given_run rd dbl pf [] L = {}"
| "given_run rd dbl pf (c # cs) L =
     given rd dbl pf c L \<union>
     (case ledger_exec rd dbl pf c L of Some (_, L) \<Rightarrow> given_run rd dbl pf cs L | None \<Rightarrow> {})"

lemma before_wiped: "before z (wiped z cs) = []"
  by (induction cs) auto

lemma meet_gives_up:
  assumes "meet d L = Some L'"
  shows "led_next L' = led_next L"
    and "led_owned L' a = (if Root a \<in> takes d L then None else led_owned L a)"
    and "takes d' L' = takes d' L \<or> takes d' L' = {} \<and> takes d' L \<subseteq> takes d L"
  using assms
  by (cases d; force simp: meet_def takes_def give_up_def array_handles_def before_wiped
      split: option.splits if_splits demand.splits)+

lemma meet_all_gives_up:
  assumes "meet_all ds L = Some L'"
  shows "led_next L' = led_next L \<and>
    led_owned L' a = (if Root a \<in> (\<Union>d \<in> set ds. takes d L) then None else led_owned L a)"
  using assms
proof (induction ds arbitrary: L)
  case (Cons d ds)
  then obtain L1 where L1: "meet d L = Some L1" "meet_all ds L1 = Some L'"
    by (auto split: Option.bind_splits)
  have "takes d L \<union> (\<Union>d \<in> set ds. takes d L1) = takes d L \<union> (\<Union>d \<in> set ds. takes d L)"
    using meet_gives_up(3) [OF L1(1)] by fast
  moreover have "Root a \<in> takes d L \<or> Root a \<in> (\<Union>d \<in> set ds. takes d L1) \<longleftrightarrow>
      Root a \<in> takes d L \<union> (\<Union>d \<in> set ds. takes d L1)" by simp
  ultimately have u: "Root a \<in> takes d L \<or> Root a \<in> (\<Union>d \<in> set ds. takes d L1) \<longleftrightarrow>
      Root a \<in> (\<Union>d \<in> set (d # ds). takes d L)" by (metis UN_insert list.simps(15))
  show ?case
    using Cons.IH [OF L1(2)] meet_gives_up(1,2) [OF L1(1)] by (simp only: flip: u) simp
qed simp

lemma ledger_exec_gives_up:
  assumes "ledger_exec rd dbl pf c L = Some (p, L')" and "a < led_next L"
  shows "a < led_next L'"
    and "led_owned L' a = (if Root a \<in> given rd dbl pf c L then None else led_owned L a)"
proof -
  obtain ds ko L1 where n: "needs rd dbl pf c = Some (ds, ko)"
    and m: "meet_all ds (written c L) = Some L1" and L': "(p, L') = created ko L1"
    using assms(1) by (auto simp: ledger_exec_def split: Option.bind_splits)
  have "ds = [] \<or> written c L = L"
    using n by (cases c) (simp_all add: needs_def written_def)
  then have g: "(\<Union>d \<in> set ds. takes d (written c L)) = given rd dbl pf c L"
    using n by (auto simp: given_def)
  have w: "led_owned (written c L) = led_owned L" "led_next (written c L) = led_next L"
    by (cases c; simp add: written_def)+
  note L1 = meet_all_gives_up [OF m, unfolded g w]
  show "a < led_next L'"
    and "led_owned L' a = (if Root a \<in> given rd dbl pf c L then None else led_owned L a)"
    using L' L1 assms(2) by (cases ko; simp add: created_def)+
qed

lemma ledger_run_gives_up:
  assumes "ledger_run rd dbl pf cs L = Some (ps, L')" and "a < led_next L"
  shows "led_owned L' a = (if Root a \<in> given_run rd dbl pf cs L then None else led_owned L a)"
  using assms
proof (induction cs arbitrary: L ps)
  case (Cons c cs)
  then obtain p L1 ps' where L1: "ledger_exec rd dbl pf c L = Some (p, L1)"
    and r: "ledger_run rd dbl pf cs L1 = Some (ps', L')"
    by (auto split: Option.bind_splits)
  show ?case
    using Cons.IH [OF r] ledger_exec_gives_up [OF L1 Cons.prems(2)] L1 by simp
qed simp

text \<open>C30. Which handles a sequence of calls makes useless. A handle of an object, or of a part of one,
  leads to the same object as before unless the object it belongs to was given to a call: freed,
  passed to a \<open>Create\<close>, or in an array passed to one. Then it leads nowhere. So every call that reads, through
  any handle from before, returns what it returned before or is undefined, and it is undefined
  exactly when it was before or the object was given away. No other object is destroyed, whatever is
  called. (That addresses of destroyed objects are not used again is a convention of the model:
  in the program the handle would dangle, so its use is undefined.)\<close>

theorem capi_handles:
  assumes "run rd dbl pf cs m = Some (ps, m')" and "root_of p = Some a" and "a < mem_next m"
  shows "deref m' p = (if Root a \<in> given_run rd dbl pf cs (ledger m) then None else deref m p) \<and>
    (\<forall>(k, always, f) \<in> set (readings native i bytes raw phys).
       f m' p = (if Root a \<in> given_run rd dbl pf cs (ledger m) then None else f m p))"
proof -
  let ?gone = "Root a \<in> given_run rd dbl pf cs (ledger m)"
  have "ledger_run rd dbl pf cs (ledger m) = Some (ps, ledger m')"
    using run_ledger [of rd dbl pf cs m] assms(1) by simp
  from ledger_run_gives_up [OF this, of a]
  have l: "map_option kind_of (mem_objs m' a) =
      (if ?gone then None else map_option kind_of (mem_objs m a))"
    using assms(3) by simp
  have d: "deref m' p = (if ?gone then None else deref m p)"
  proof (cases ?gone)
    case True
    then show ?thesis using l deref_root(1) [OF assms(2), of m'] by simp
  next
    case False
    then have "mem_objs m' a = mem_objs m a"
      using l kept_run [OF assms(1)] assms(3) by (auto simp: kept_def)
    then show ?thesis using deref_root(2) [OF assms(2), of m' m] False by simp
  qed
  have "f m' p = (if ?gone then None else f m p)"
    if "(k, always, f) \<in> set (readings native i bytes raw phys)" for k always f
  proof (cases ?gone)
    case True
    then show ?thesis using readings_of(2) [OF that, of m' p] d by simp
  next
    case False
    then show ?thesis using readings_of(1) [OF that, of m' p m] d by simp
  qed
  then show ?thesis using d by blast
qed

section \<open>Reading objects\<close>

lemma look_up_obj:
  "look_up as_network m p = Some net \<longleftrightarrow> deref m p = Some (NetworkObj net)"
  "look_up as_message m p = Some msg \<longleftrightarrow> deref m p = Some (MessageObj msg)"
  "look_up as_signal m p = Some sig \<longleftrightarrow> deref m p = Some (SignalObj sig)"
  by (auto simp: look_up_def as_network_def as_message_def as_signal_def
      split: Option.bind_splits obj.splits)

text \<open>The strings and the handles in an array, up to the null that ends it.\<close>

definition strings_in :: "'o c_mem \<Rightarrow> nat \<Rightarrow> string list" where
  "strings_in m a =
     (case mem_strs m a of
        Some cs \<Rightarrow> map (\<lambda>s. c_str (the s)) (takeWhile (\<lambda>s. s \<noteq> None) cs) | None \<Rightarrow> [])"

definition handles_in :: "'o c_mem \<Rightarrow> nat \<Rightarrow> handle list" where
  "handles_in m a = (case mem_ptrs m a of Some ps \<Rightarrow> takeWhile (\<lambda>p. p \<noteq> Null) ps | None \<Rightarrow> [])"

text \<open>\<open>m'\<close> is \<open>m\<close> after the arrays \<open>as\<close> have been taken over: objects may be gone, other arrays are as
  they were.\<close>

definition taken :: "nat list \<Rightarrow> obj c_mem \<Rightarrow> obj c_mem \<Rightarrow> bool" where
  "taken as m m' \<longleftrightarrow>
     mem_objs m' \<subseteq>\<^sub>m mem_objs m \<and> (\<forall>b. b \<notin> set as \<longrightarrow> mem_ptrs m' b = mem_ptrs m b)"

lemma taken_over:
  "take_over get p m = Some (v, m') \<Longrightarrow>
     look_up get m p = Some v \<and> taken [] m m' \<and> mem_ptrs m' = mem_ptrs m"
  by (auto simp: take_over_def look_up_def taken_def map_le_def
      split: handle.splits Option.bind_splits if_splits)

lemma look_up_taken: "taken as m m' \<Longrightarrow> look_up get m' (Root a) = Some v \<Longrightarrow> look_up get m (Root a) = Some v"
  by (auto simp: look_up_def taken_def map_le_def dom_def split: Option.bind_splits)

lemma take_over_root: "take_over get p m = Some (v, m') \<Longrightarrow> \<exists>a. p = Root a"
  by (auto simp: take_over_def split: handle.splits)

lemma take_objects_read:
  "take_objects get ps m = Some (vs, qs, m') \<Longrightarrow>
   taken [] m m' \<and> (\<forall>p \<in> set (takeWhile (\<lambda>p. p \<noteq> Null) ps). \<exists>a. p = Root a) \<and>
   map Some vs = map (look_up get m) (takeWhile (\<lambda>p. p \<noteq> Null) ps)"
proof (induction ps arbitrary: m vs qs m')
  case (Cons p ps)
  show ?case
  proof (cases "p = Null")
    case False
    then obtain v m1 ws qs' where v: "take_over get p m = Some (v, m1)"
      and ws: "take_objects get ps m1 = Some (ws, qs', m')" and "vs = v # ws"
      using Cons.prems by (auto split: Option.bind_splits)
    have t: "taken [] m m1" using taken_over [OF v] by simp
    note IH = Cons.IH [OF ws]
    have "look_up get m1 q = look_up get m q" if q: "q \<in> set (takeWhile (\<lambda>p. p \<noteq> Null) ps)" for q
    proof -
      have "look_up get m1 q \<in> set (map (look_up get m1) (takeWhile (\<lambda>p. p \<noteq> Null) ps))" using q by simp
      then have "look_up get m1 q \<in> set (map Some ws)" using IH by metis
      then obtain w where "look_up get m1 q = Some w" by auto
      then show ?thesis using look_up_taken [OF t, of get] IH q by force
    qed
    then show ?thesis
      using IH taken_over [OF v] take_over_root [OF v] False \<open>vs = v # ws\<close>
      by (auto simp: taken_def intro: map_le_trans)
  qed (use Cons.prems in \<open>auto simp: taken_def\<close>)
qed simp

lemma take_array_read:
  assumes "take_object_array get a m = Some (vs, m')"
  shows "taken [a] m m'" and "map Some vs = map (look_up get m) (handles_in m a)"
    and "\<forall>p \<in> set (handles_in m a). \<exists>b. p = Root b"
  using assms take_objects_read
  by (auto simp: take_object_array_def taken_def handles_in_def split: Option.bind_splits) blast+

lemma take_strings_read:
  "take_strings cs = Some (ss, cs') \<Longrightarrow> ss = map (\<lambda>s. c_str (the s)) (takeWhile (\<lambda>s. s \<noteq> None) cs)"
  by (induction cs arbitrary: ss cs' rule: take_strings.induct) (auto split: Option.bind_splits)

text \<open>Taking over one more array after others.\<close>

lemma take_array_after:
  assumes "taken as m0 m" and "take_object_array get a m = Some (vs, m')" and "a \<notin> set as"
  shows "taken (a # as) m0 m' \<and> map Some vs = map (look_up get m0) (handles_in m0 a)"
proof -
  have h: "handles_in m a = handles_in m0 a"
    using assms(1,3) by (simp add: taken_def handles_in_def)
  have "look_up get m p = look_up get m0 p" if p: "p \<in> set (handles_in m a)" for p
  proof -
    have "look_up get m p \<in> set (map Some vs)"
      using take_array_read(2) [OF assms(2)] p by simp
    then obtain v where "look_up get m p = Some v" by auto
    then show ?thesis
      using take_array_read(3) [OF assms(2)] p look_up_taken [OF assms(1), of get] by force
  qed
  then show ?thesis
    using assms(1) take_array_read [OF assms(2)] h by (auto simp: taken_def intro: map_le_trans)
qed

section \<open>Networks\<close>

text \<open>C31. A network the C interface creates holds the objects and strings of the arrays, in their
  order, with one exception: it has no attribute values. Those the caller passes become attribute
  defaults.\<close>

theorem capi_network_create:
  assumes "dbcppp_NetworkCreate v ns bt nodes vts ms evs adefs ads avs cm m = Some (p, m')"
    and "distinct [nodes, vts, ms, evs, adefs, ads, avs]"
  shows "\<exists>net. look_up as_network m' p = Some net \<and>
    net_version net = c_str v \<and> net_comment net = c_str cm \<and>
    net_new_symbols net = strings_in m ns \<and>
    Some (net_bit_timing net) = look_up as_bit_timing m bt \<and>
    map Some (net_nodes net) = map (look_up as_node m) (handles_in m nodes) \<and>
    map Some (net_value_tables net) = map (look_up as_value_table m) (handles_in m vts) \<and>
    map Some (net_messages net) = map (look_up as_message m) (handles_in m ms) \<and>
    map Some (net_environment_variables net) =
      map (look_up as_environment_variable m) (handles_in m evs) \<and>
    map Some (net_attribute_definitions net) =
      map (look_up as_attribute_definition m) (handles_in m adefs) \<and>
    map Some (net_attribute_defaults net) =
      map (look_up as_attribute m) (handles_in m ads @ handles_in m avs) \<and>
    net_attribute_values net = []"
proof -
  obtain nss m0 b m1 n m2 vt m3 mm m4 ev m5 adef m6 ad m7 av m8 where
    s: "take_string_array ns m = Some (nss, m0)" and
    b: "take_over as_bit_timing bt m0 = Some (b, m1)" and
    t: "take_object_array as_node nodes m1 = Some (n, m2)"
      "take_object_array as_value_table vts m2 = Some (vt, m3)"
      "take_object_array as_message ms m3 = Some (mm, m4)"
      "take_object_array as_environment_variable evs m4 = Some (ev, m5)"
      "take_object_array as_attribute_definition adefs m5 = Some (adef, m6)"
      "take_object_array as_attribute ads m6 = Some (ad, m7)"
      "take_object_array as_attribute avs m7 = Some (av, m8)" and
    r: "(p, m') = alloc (NetworkObj
       \<lparr>net_version = c_str v, net_new_symbols = nss, net_bit_timing = b, net_nodes = n,
        net_value_tables = vt, net_messages = mm, net_environment_variables = ev,
        net_attribute_definitions = adef, net_attribute_defaults = ad @ av,
        net_attribute_values = [], net_comment = c_str cm\<rparr>) m8"
    using assms(1) unfolding NetworkCreate_bit_timing by (auto split: Option.bind_splits)
  have m0: "mem_objs m0 = mem_objs m" "mem_ptrs m0 = mem_ptrs m"
    using s by (auto simp: take_string_array_def split: Option.bind_splits)
  have nss: "nss = strings_in m ns"
    using s by (auto simp: take_string_array_def strings_in_def dest!: take_strings_read
        split: Option.bind_splits)
  have bt: "look_up as_bit_timing m0 bt = Some b" "taken [] m0 m1"
    using taken_over [OF b] by simp_all
  have k1: "taken [nodes] m0 m2" "map Some n = map (look_up as_node m0) (handles_in m0 nodes)"
    using take_array_after [OF bt(2) t(1)] by simp_all
  have k2: "taken [vts, nodes] m0 m3"
    "map Some vt = map (look_up as_value_table m0) (handles_in m0 vts)"
    using take_array_after [OF k1(1) t(2)] assms(2) by auto
  have k3: "taken [ms, vts, nodes] m0 m4"
    "map Some mm = map (look_up as_message m0) (handles_in m0 ms)"
    using take_array_after [OF k2(1) t(3)] assms(2) by auto
  have k4: "taken [evs, ms, vts, nodes] m0 m5"
    "map Some ev = map (look_up as_environment_variable m0) (handles_in m0 evs)"
    using take_array_after [OF k3(1) t(4)] assms(2) by auto
  have k5: "taken [adefs, evs, ms, vts, nodes] m0 m6"
    "map Some adef = map (look_up as_attribute_definition m0) (handles_in m0 adefs)"
    using take_array_after [OF k4(1) t(5)] assms(2) by auto
  have k6: "taken [ads, adefs, evs, ms, vts, nodes] m0 m7"
    "map Some ad = map (look_up as_attribute m0) (handles_in m0 ads)"
    using take_array_after [OF k5(1) t(6)] assms(2) by auto
  have k7: "map Some av = map (look_up as_attribute m0) (handles_in m0 avs)"
    using take_array_after [OF k6(1) t(7)] assms(2) by auto
  have "deref m0 = deref m"
  proof
    fix q show "deref m0 q = deref m q" by (induction q) (simp_all add: m0)
  qed
  moreover have "handles_in m0 = handles_in m" by (simp add: fun_eq_iff handles_in_def m0)
  ultimately show ?thesis
    using r bt(1) k1(2) k2(2) k3(2) k4(2) k5(2) k6(2) k7 nss
    by (intro exI [of _ "the (look_up as_network m' p)"])
      (simp add: alloc_def look_up_def as_network_def)
qed

section \<open>Signals\<close>

lemma signal_created:
  assumes "dbcppp_SignalCreate pf msz n mi mv sb bs bo vt f off mn mx u rs av veds cm evt m = Some (p, m')"
  obtains sig d where "look_up as_signal m' p = Some sig" "SignalImpl_new pf msz d = Some sig"
    "signal_data.truncate sig = d" "sig_name d = c_str n"
    "sig_multiplexer_indicator d = multiplexer_from_c mi" "sig_multiplexer_switch_value d = mv"
    "sig_start_bit d = sb" "sig_bit_size d = bs" "sig_byte_order d = byte_order_from_c bo"
    "sig_value_type d = value_type_from_c vt" "sig_factor d = f" "sig_offset d = off"
    "sig_minimum d = mn" "sig_maximum d = mx" "sig_unit d = c_str u" "sig_comment d = c_str cm"
    "sig_extended_value_type d = extended_value_type_from_c evt"
    "sig_signal_multiplexer_values d = []"
proof -
  obtain rs avs veds m1 sig where
    new: "SignalImpl_new pf msz
       \<lparr>sig_name = c_str n, sig_multiplexer_indicator = multiplexer_from_c mi,
        sig_multiplexer_switch_value = mv, sig_start_bit = sb, sig_bit_size = bs,
        sig_byte_order = byte_order_from_c bo, sig_value_type = value_type_from_c vt,
        sig_factor = f, sig_offset = off, sig_minimum = mn, sig_maximum = mx,
        sig_unit = c_str u, sig_receivers = rs, sig_attribute_values = avs,
        sig_value_encoding_descriptions = veds, sig_comment = c_str cm,
        sig_extended_value_type = extended_value_type_from_c evt,
        sig_signal_multiplexer_values = []\<rparr> = Some sig"
    and p: "alloc (SignalObj sig) m1 = (p, m')"
    using assms by (auto simp: dbcppp_SignalCreate_def split: Option.bind_splits)
  have "look_up as_signal m' p = Some sig" using p by (auto simp: look_up_obj alloc_def)
  from that [OF this new SignalImpl_new_SomeD [OF new]] show thesis by simp
qed

lemma signal_fields:
  "sig_name sig = sig_name (signal_data.truncate sig)"
  "sig_multiplexer_indicator sig = sig_multiplexer_indicator (signal_data.truncate sig)"
  "sig_multiplexer_switch_value sig = sig_multiplexer_switch_value (signal_data.truncate sig)"
  "sig_start_bit sig = sig_start_bit (signal_data.truncate sig)"
  "sig_bit_size sig = sig_bit_size (signal_data.truncate sig)"
  "sig_byte_order sig = sig_byte_order (signal_data.truncate sig)"
  "sig_value_type sig = sig_value_type (signal_data.truncate sig)"
  "sig_factor sig = sig_factor (signal_data.truncate sig)"
  "sig_offset sig = sig_offset (signal_data.truncate sig)"
  "sig_minimum sig = sig_minimum (signal_data.truncate sig)"
  "sig_maximum sig = sig_maximum (signal_data.truncate sig)"
  "sig_unit sig = sig_unit (signal_data.truncate sig)"
  "sig_comment sig = sig_comment (signal_data.truncate sig)"
  "sig_extended_value_type sig = sig_extended_value_type (signal_data.truncate sig)"
  "sig_signal_multiplexer_values sig = sig_signal_multiplexer_values (signal_data.truncate sig)"
  by (simp_all add: signal_data.defs)

text \<open>The getters return what \<open>dbcppp_SignalCreate\<close> was given, through the conversions of the
  enumerations in both directions; strings are cut at their first NUL.\<close>

theorem capi_signal_fields:
  assumes "dbcppp_SignalCreate pf msz n mi mv sb bs bo vt f off mn mx u rs av veds cm evt m = Some (p, m')"
  shows "dbcppp_SignalName m' p = Some (c_str n) \<and>
    dbcppp_SignalMultiplexerIndicator m' p = Some mi \<and>
    dbcppp_SignalMultiplexerSwitchValue m' p = Some mv \<and>
    dbcppp_SignalStartBit m' p = Some sb \<and> dbcppp_SignalBitSize m' p = Some bs \<and>
    dbcppp_SignalByteOrder m' p = Some bo \<and> dbcppp_SignalValueType m' p = Some vt \<and>
    dbcppp_SignalFactor m' p = Some f \<and> dbcppp_SignalOffset m' p = Some off \<and>
    dbcppp_SignalMinimum m' p = Some mn \<and> dbcppp_SignalMaximum m' p = Some mx \<and>
    dbcppp_SignalUnit m' p = Some (c_str u) \<and> dbcppp_SignalComment m' p = Some (c_str cm) \<and>
    dbcppp_SignalExtended_ValueType m' p = Some evt \<and>
    dbcppp_SignalMultiplexerValues_Size m' p = Some 0"
proof -
  obtain sig d where "look_up as_signal m' p = Some sig" "signal_data.truncate sig = d"
    "sig_name d = c_str n"
    "sig_multiplexer_indicator d = multiplexer_from_c mi" "sig_multiplexer_switch_value d = mv"
    "sig_start_bit d = sb" "sig_bit_size d = bs" "sig_byte_order d = byte_order_from_c bo"
    "sig_value_type d = value_type_from_c vt" "sig_factor d = f" "sig_offset d = off"
    "sig_minimum d = mn" "sig_maximum d = mx" "sig_unit d = c_str u" "sig_comment d = c_str cm"
    "sig_extended_value_type d = extended_value_type_from_c evt"
    "sig_signal_multiplexer_values d = []"
    using signal_created [OF assms] by metis
  note * = this
  have enums: "byte_order_to_c (byte_order_from_c bo) = bo" "value_type_to_c (value_type_from_c vt) = vt"
    by (cases bo; simp add: byte_order_to_c_def byte_order_from_c_def)
      (cases vt; simp add: value_type_to_c_def value_type_from_c_def)
  show ?thesis
    using * by (cases mi; cases evt)
      (simp_all add: dbcppp_SignalName_def dbcppp_SignalMultiplexerIndicator_def
        dbcppp_SignalMultiplexerSwitchValue_def dbcppp_SignalStartBit_def dbcppp_SignalBitSize_def
        dbcppp_SignalByteOrder_def dbcppp_SignalValueType_def dbcppp_SignalFactor_def
        dbcppp_SignalOffset_def dbcppp_SignalMinimum_def dbcppp_SignalMaximum_def
        dbcppp_SignalUnit_def dbcppp_SignalComment_def dbcppp_SignalExtended_ValueType_def
        dbcppp_SignalMultiplexerValues_Size_def enums multiplexer_from_c_def
        extended_value_type_from_c_def vec_size_def signal_fields [of sig])
qed

section \<open>Concrete instances\<close>

definition ex_mem :: "obj c_mem" where
  "ex_mem =
     \<lparr>mem_objs = [0 \<mapsto> AttributeObj (IAttribute_Create ''A'' OT_Network (V_int64 1)),
        1 \<mapsto> AttributeObj (IAttribute_Create ''B'' OT_Network (V_int64 2)),
        2 \<mapsto> BitTimingObj (IBitTiming_Create 1 2 3),
        3 \<mapsto> SignalObj (ex_impl 8 (ex_signal 3 12 BigEndian Signed)),
        4 \<mapsto> SignalObj (ex_impl 8 (ex_signal 16 8 LittleEndian Unsigned))],
      mem_next = 5, mem_strs = [0 \<mapsto> [None]],
      mem_ptrs = [0 \<mapsto> [Null], 1 \<mapsto> [Null], 2 \<mapsto> [Null], 3 \<mapsto> [Null], 4 \<mapsto> [Null],
        5 \<mapsto> [Root 0, Null], 6 \<mapsto> [Root 1, Null]]\<rparr>"

text \<open>An attribute is passed to a node in an array; freeing it then is freeing it twice.\<close>

definition ex_calls :: "c_call list" where
  "ex_calls =
     [AttributeCreate ''A'' dbcppp_ObjectType_Node dbcppp_AttributeValueType_Int (Int64s [1]),
      WriteHandles 5 [Root 0, Null], NodeCreate ''N'' [] 5]"

lemma capi_refines_witness:
  "run (\<lambda>_. None) (\<lambda>_. None) ieee (ex_calls @ [AttributeFree (Root 0)]) empty_mem = None \<and>
   (\<exists>m'. run (\<lambda>_. None) (\<lambda>_. None) ieee ex_calls empty_mem = Some ([Root 0, Null, Root 1], m') \<and>
      dbcppp_NodeName m' (Root 1) \<noteq> None \<and> dbcppp_AttributeName m' (Root 0) = None)"
proof
  note evaluate = ex_calls_def ledger_exec_def needs_def written_def meet_def created_def
    value_given_def read_integer_def vec_at_def array_handles_def owns_def give_up_def wiped_def
    before_def empty_mem_def
  have "ledger_run (\<lambda>_. None) (\<lambda>_. None) ieee (ex_calls @ [AttributeFree (Root 0)])
      (ledger empty_mem) = None"
    by (simp add: evaluate)
  then show "run (\<lambda>_. None) (\<lambda>_. None) ieee (ex_calls @ [AttributeFree (Root 0)]) empty_mem = None"
    using capi_refines [of "\<lambda>_. None" "\<lambda>_. None" ieee "ex_calls @ [AttributeFree (Root 0)]" empty_mem]
    by simp
  have "\<exists>L. ledger_run (\<lambda>_. None) (\<lambda>_. None) ieee ex_calls (ledger empty_mem) =
      Some ([Root 0, Null, Root 1], L) \<and> led_owned L 1 = Some K_Node \<and> led_owned L 0 = None"
    by (simp add: evaluate)
  then obtain L where L: "ledger_run (\<lambda>_. None) (\<lambda>_. None) ieee ex_calls (ledger empty_mem) =
      Some ([Root 0, Null, Root 1], L)" "led_owned L 1 = Some K_Node" "led_owned L 0 = None"
    by blast
  let ?node = "reads_always K_Node R_string dbcppp_NodeName"
    and ?attribute = "reads_always K_Attribute R_string dbcppp_AttributeName"
  have "?node \<in> set (readings Little 0 [] 0 0)" "?attribute \<in> set (readings Little 0 [] 0 0)"
    by (simp_all add: readings_def node_readings_def attribute_readings_def)
  moreover obtain m' where m': "run (\<lambda>_. None) (\<lambda>_. None) ieee ex_calls empty_mem =
      Some ([Root 0, Null, Root 1], m')"
    and all: "\<forall>(k, always, f) \<in> set (readings Little 0 [] 0 0). \<forall>a.
        (f m' (Root a) \<noteq> None \<longrightarrow> led_owned L a = Some k) \<and>
        (always \<and> led_owned L a = Some k \<longrightarrow> f m' (Root a) \<noteq> None)"
    using capi_refines [of "\<lambda>_. None" "\<lambda>_. None" ieee ex_calls empty_mem Little 0 "[]" 0 0] L(1)
    by blast
  ultimately have "map_option R_string (dbcppp_NodeName m' (Root 1)) \<noteq> None"
    "map_option R_string (dbcppp_AttributeName m' (Root 0)) = None"
    using L(2,3) bspec [OF all, of ?node] bspec [OF all, of ?attribute]
    unfolding reads_always_def prod.case by (metis, metis option.distinct(1))
  then show "\<exists>m'. run (\<lambda>_. None) (\<lambda>_. None) ieee ex_calls empty_mem =
      Some ([Root 0, Null, Root 1], m') \<and>
      dbcppp_NodeName m' (Root 1) \<noteq> None \<and> dbcppp_AttributeName m' (Root 0) = None"
    using m' by auto
qed

lemma capi_handles_witness:
  "\<exists>m'. run (\<lambda>_. None) (\<lambda>_. None) ieee [BitTimingFree (Root 2)] ex_mem = Some ([Null], m') \<and>
     deref m' (Root 2) = None \<and> deref m' (Root 3) = deref ex_mem (Root 3)"
proof -
  have r: "run (\<lambda>_. None) (\<lambda>_. None) ieee [BitTimingFree (Root 2)] ex_mem =
      Some ([Null], ex_mem\<lparr>mem_objs := (mem_objs ex_mem)(2 := None)\<rparr>)"
    by (simp add: exec_def no_handle_def dbcppp_BitTimingFree_def delete_def take_over_or_null_def
        take_over_def as_bit_timing_def ex_mem_def)
  have n: "2 < mem_next ex_mem" "3 < mem_next ex_mem" by (simp_all add: ex_mem_def)
  have g: "given_run (\<lambda>_. None) (\<lambda>_. None) ieee [BitTimingFree (Root 2)] (ledger ex_mem) = {Root 2}"
    by (simp add: given_def needs_def takes_def split: option.split)
  show ?thesis
    using r capi_handles [OF r _ n(1), of "Root 2"] capi_handles [OF r _ n(2), of "Root 3"]
    unfolding g by auto
qed

lemma capi_network_create_witness:
  "\<exists>net :: NetworkImpl. map Some (net_attribute_defaults net) =
       map (look_up as_attribute ex_mem) [Root 0, Root 1] \<and> net_attribute_values net = []"
proof -
  have "dbcppp_NetworkCreate [] 0 (Root 2) 0 1 2 3 4 5 6 [] ex_mem \<noteq> None"
    by (simp add: NetworkCreate_bit_timing take_string_array_def take_over_def as_bit_timing_def
        take_object_array_def ex_mem_def as_attribute_def)
  then obtain p m' where c: "dbcppp_NetworkCreate [] 0 (Root 2) 0 1 2 3 4 5 6 [] ex_mem = Some (p, m')"
    by auto
  have h: "handles_in ex_mem 5 @ handles_in ex_mem 6 = [Root 0, Root 1]"
    by (simp add: handles_in_def ex_mem_def)
  have "distinct [0 :: nat, 1, 2, 3, 4, 5, 6]" by simp
  from capi_network_create [OF c this, unfolded h] show ?thesis by blast
qed

lemma capi_signal_fields_witness:
  "\<exists>p m'. dbcppp_SignalByteOrder m' p = Some dbcppp_SignalByteOrderBigEndian"
proof -
  let ?c = "dbcppp_SignalCreate ieee 8 ''S'' dbcppp_SignalMultiplexerNoMux 0 3 12
    dbcppp_SignalByteOrderBigEndian dbcppp_SignalValueTypeSigned 1 0 0 0 [] 0 0 1 []
    dbcppp_SignalExtendedValueTypeInteger ex_mem"
  have "exec (\<lambda>_. None) (\<lambda>_. None) ieee (SignalCreate 8 ''S'' dbcppp_SignalMultiplexerNoMux 0 3 12
    dbcppp_SignalByteOrderBigEndian dbcppp_SignalValueTypeSigned 1 0 0 0 [] 0 0 1 []
    dbcppp_SignalExtendedValueTypeInteger) ex_mem \<noteq> None"
    using exec_ledger [of "\<lambda>_. None" "\<lambda>_. None" ieee "SignalCreate 8 ''S'' dbcppp_SignalMultiplexerNoMux 0 3 12
    dbcppp_SignalByteOrderBigEndian dbcppp_SignalValueTypeSigned 1 0 0 0 [] 0 0 1 []
    dbcppp_SignalExtendedValueTypeInteger" ex_mem]
    by (auto simp: ledger_exec_def needs_def written_def meet_def array_handles_def ex_mem_def)
  then obtain p m' where "?c = Some (p, m')" by (auto simp: exec_def)
  from capi_signal_fields [OF this] show ?thesis by blast
qed

end
