(* ===== verification/X3Laws.thy ===== *)
theory X3Laws
  imports DBCX3
begin

text \<open>
  When parsers end. \<open>takes k p\<close>: \<open>p\<close> never loops, never moves backwards, and its successes consume
  at least \<open>k\<close> characters. Every combinator keeps it; a loop needs a subject that consumes.
\<close>

section \<open>Consuming parsers\<close>

definition consumes :: "nat \<Rightarrow> string \<Rightarrow> 'a outcome \<Rightarrow> bool" where
  "consumes k s out \<longleftrightarrow>
     (case out of Ok _ r \<Rightarrow> length r + k \<le> length s | Fail r \<Rightarrow> length r \<le> length s
      | Throw r \<Rightarrow> length r \<le> length s | Hang \<Rightarrow> False)"

definition moving :: "skipper \<Rightarrow> bool" where
  "moving sk \<longleftrightarrow> (\<forall>s. consumes 1 s (sk s))"

definition takes :: "nat \<Rightarrow> 'a px \<Rightarrow> bool" where
  "takes k p \<longleftrightarrow> (\<forall>sk s. moving sk \<longrightarrow> consumes k s (p sk s))"

named_theorems taking \<open>rules that show what a parser takes\<close>

lemma takesI: "(\<And>sk s. moving sk \<Longrightarrow> consumes k s (p sk s)) \<Longrightarrow> takes k p"
  by (simp add: takes_def)

lemma takesD: "takes k p \<Longrightarrow> moving sk \<Longrightarrow> consumes k s (p sk s)"
  by (simp add: takes_def)

lemma consumes_on_ok:
  assumes "consumes j s out"
    and "\<And>a r. out = Ok a r \<Longrightarrow> length r + j \<le> length s \<Longrightarrow> consumes k s (f a r)"
    and "\<And>r. length r \<le> length s \<Longrightarrow> consumes k s (g r)"
  shows "consumes k s (on_ok out f g)"
  using assms by (cases out) (auto simp: consumes_def on_ok_def)

lemma consumes_from:
  "consumes k r out \<Longrightarrow> length r + j \<le> length s \<Longrightarrow> consumes (k + j) s out"
  by (auto simp: consumes_def split: outcome.splits)

lemma consumes_simps [simp]:
  "consumes k s (Ok a r) \<longleftrightarrow> length r + k \<le> length s"
  "consumes k s (Fail r) \<longleftrightarrow> length r \<le> length s"
  "consumes k s (Throw r) \<longleftrightarrow> length r \<le> length s"
  "\<not> consumes k s Hang"
  by (simp_all add: consumes_def)

lemma moving_no_skip: "moving no_skip"
  by (simp add: moving_def no_skip_def)

lemma skip_over_consumes:
  assumes "moving sk"
  shows "consumes 0 s (skip_over sk s)"
proof (induction "length s" arbitrary: s rule: less_induct)
  case less
  have sk: "consumes 1 s (sk s)"
    using assms by (simp add: moving_def)
  show ?case
    unfolding skip_over.simps [of sk s]
  proof (rule consumes_on_ok [OF sk])
    fix a :: unit and r :: string assume r: "length r + 1 \<le> length s"
    then show "consumes 0 s (if length r < length s then skip_over sk r else Hang)"
      using consumes_from [OF less, of r 1 s] by (auto simp: consumes_def split: outcome.splits)
  qed simp
qed

section \<open>The combinators\<close>

lemma takes_prim:
  assumes "\<And>s a r. f s = Some (a, r) \<Longrightarrow> length r + k \<le> length s"
  shows "takes k (prim f)"
proof (rule takesI)
  fix sk :: skipper and s assume "moving sk"
  then show "consumes k s (prim f sk s)"
    unfolding prim_def
    by (intro consumes_on_ok [OF skip_over_consumes]) (auto split: option.splits dest: assms)
qed

lemma takes_char_if [taking]: "k \<le> 1 \<Longrightarrow> takes k (char_if P)"
  unfolding char_if_def by (rule takes_prim) (auto split: list.splits if_splits)

lemma takes_lit [taking]: "t \<noteq> [] \<Longrightarrow> k \<le> 1 \<Longrightarrow> takes k (lit t)"
  unfolding lit_def
proof (rule takes_prim)
  fix s a r assume t: "t \<noteq> []" and k: "k \<le> 1"
    and r: "(if take (length t) s = t then Some (t, drop (length t) s) else None) = Some (a, r)"
  then have "take (length t) s = t" "r = drop (length t) s" by (auto split: if_splits)
  moreover from this have "length t \<le> length s" by (metis length_take min.absorb_iff2 min.commute)
  ultimately show "length r + k \<le> length s"
    using t k by (cases t) auto
qed

lemma takes_eol [taking]: "k \<le> 1 \<Longrightarrow> takes k eol"
  unfolding eol_def by (rule takes_prim) (auto split: list.splits if_splits)

lemma takes_eoi [taking]: "takes 0 eoi"
  unfolding eoi_def by (rule takes_prim) (auto split: if_splits)

lemma digits_taken: "takeWhile P s \<noteq> [] \<Longrightarrow> length (drop (length (takeWhile P s)) s) < length s"
  by (cases s) (auto split: if_splits)

lemma takes_uint64 [taking]: "k \<le> 1 \<Longrightarrow> takes k uint64"
  unfolding uint64_def Let_def
  by (rule takes_prim) (use digits_taken [of is_digit] in \<open>fastforce split: if_splits\<close>)

lemma takes_int64 [taking]: "k \<le> 1 \<Longrightarrow> takes k int64"
  unfolding int64_def
proof (rule takes_prim)
  fix s a r assume k: "k \<le> 1"
    and r: "(let neg = (take 1 s = ''-''); t = (if neg \<or> take 1 s = ''+'' then drop 1 s else s);
         ds = takeWhile is_digit t; n = digits_value ds
     in if ds = [] \<or> n > (if neg then 2 ^ 63 else 2 ^ 63 - 1) then None
        else Some (if neg then - of_nat n else of_nat n, drop (length ds) t)) = Some (a :: i64, r)"
  define t where "t = (if take 1 s = ''-'' \<or> take 1 s = ''+'' then drop 1 s else s)"
  have "takeWhile is_digit t \<noteq> []" "r = drop (length (takeWhile is_digit t)) t"
    using r unfolding Let_def t_def [symmetric] by (auto split: if_splits)
  then have "length r < length t"
    using digits_taken by blast
  also have "length t \<le> length s"
    by (simp add: t_def)
  finally show "length r + k \<le> length s"
    using k by simp
qed

lemma takes_ret [taking]: "takes 0 (ret x)"
  by (rule takesI) (simp add: ret_def)

lemma takes_map_px [taking]: "takes k p \<Longrightarrow> takes k (map_px f p)"
  by (rule takesI) (auto simp: map_px_def intro!: consumes_on_ok [OF takesD])

lemma takes_seq [taking]: "takes k p \<Longrightarrow> (\<And>a. takes 0 (f a)) \<Longrightarrow> takes k (seq p f)"
proof (rule takesI)
  fix sk :: skipper and s assume p: "takes k p" and f: "\<And>a. takes 0 (f a)" and sk: "moving sk"
  show "consumes k s (seq p f sk s)"
    unfolding seq_def
  proof (rule consumes_on_ok [OF takesD [OF p sk]])
    fix a and r :: string assume "length r + k \<le> length s"
    then show "consumes k s (on_ok (f a sk r) Ok (\<lambda>_. Fail s))"
      using takesD [OF f [of a] sk, of r] by (cases "f a sk r") (auto simp: on_ok_def)
  qed simp
qed

lemma takes_expect [taking]: "takes k p \<Longrightarrow> takes k (expect p)"
  by (rule takesI) (auto simp: expect_def intro!: consumes_on_ok [OF takesD])

lemma takes_alt [taking]: "takes k p \<Longrightarrow> takes k q \<Longrightarrow> takes k (alt p q)"
proof (rule takesI)
  fix sk :: skipper and s assume p: "takes k p" and q: "takes k q" and sk: "moving sk"
  show "consumes k s (alt p q sk s)"
    unfolding alt_def
  proof (rule consumes_on_ok [OF takesD [OF p sk]])
    fix r :: string assume "length r \<le> length s"
    then show "consumes k s (q sk r)"
      using takesD [OF q sk, of r] by (cases "q sk r") auto
  qed simp
qed

lemma takes_opt [taking]: "takes 0 p \<Longrightarrow> takes 0 (opt p)"
  by (rule takesI) (auto simp: opt_def intro!: consumes_on_ok [OF takesD])

lemma takes_except [taking]: "takes k p \<Longrightarrow> takes 0 q \<Longrightarrow> takes k (except p q)"
proof (rule takesI)
  fix sk :: skipper and s assume p: "takes k p" and q: "takes 0 q" and sk: "moving sk"
  show "consumes k s (except p q sk s)"
    unfolding except_def
  proof (rule consumes_on_ok [OF takesD [OF q sk]])
    fix r :: string assume "length r \<le> length s"
    then show "consumes k s (p sk r)"
      using takesD [OF p sk, of r] by (cases "p sk r") auto
  qed simp
qed

lemma takes_many [taking]: "takes 1 p \<Longrightarrow> takes 0 (many p)"
proof (rule takesI)
  fix sk :: skipper and s assume p: "takes 1 p" and sk: "moving sk"
  show "consumes 0 s (many p sk s)"
  proof (induction "length s" arbitrary: s rule: less_induct)
    case less
    show ?case
      unfolding many.simps [of p sk s]
    proof (rule consumes_on_ok [OF takesD [OF p sk]])
      fix a and r :: string assume r: "length r + 1 \<le> length s"
      show "consumes 0 s (if length r < length s
          then on_ok (many p sk r) (\<lambda>as r. Ok (a # as) r) Fail else Hang)"
        using less [of r] r by (cases "many p sk r") (auto simp: on_ok_def)
    qed simp
  qed
qed

lemma takes_list_more: "takes 0 p \<Longrightarrow> takes 1 sep \<Longrightarrow> takes 0 (list_more p sep)"
proof (rule takesI)
  fix sk :: skipper and s assume p: "takes 0 p" and sep: "takes 1 sep" and sk: "moving sk"
  show "consumes 0 s (list_more p sep sk s)"
  proof (induction "length s" arbitrary: s rule: less_induct)
    case less
    show ?case
    proof (cases "sep sk s")
      case (Ok b r)
      then have r: "length r < length s" using takesD [OF sep sk, of s] by simp
      show ?thesis
      proof (cases "p sk r")
        case (Ok a r')
        then have "length r' < length s" using takesD [OF p sk, of r] r by simp
        then show ?thesis
          using \<open>sep sk s = _\<close> Ok less [of r']
          by (subst list_more.simps) (cases "list_more p sep sk r'"; simp add: on_ok_def)
      qed (use \<open>sep sk s = _\<close> takesD [OF p sk, of r] r in
          \<open>subst list_more.simps, simp add: on_ok_def\<close>)+
    qed (use takesD [OF sep sk, of s] in \<open>subst list_more.simps, simp add: on_ok_def\<close>)+
  qed
qed

lemma takes_list_of [taking]:
  "takes k p \<Longrightarrow> takes 0 p \<Longrightarrow> takes 1 sep \<Longrightarrow> takes k (list_of p sep)"
proof (rule takesI)
  fix sk :: skipper and s assume p: "takes k p" "takes 0 p" and sep: "takes 1 sep" and sk: "moving sk"
  show "consumes k s (list_of p sep sk s)"
    unfolding list_of_def
  proof (rule consumes_on_ok [OF takesD [OF p(1) sk]])
    fix a and r :: string assume "length r + k \<le> length s"
    then show "consumes k s (on_ok (list_more p sep sk r) (\<lambda>as r. Ok (a # as) r) Fail)"
      using takesD [OF takes_list_more [OF p(2) sep] sk, of r]
      by (cases "list_more p sep sk r") (auto simp: on_ok_def)
  qed simp
qed

lemma takes_lexeme [taking]: "takes k p \<Longrightarrow> takes k (lexeme p)"
proof (rule takesI)
  fix sk :: skipper and s assume p: "takes k p" and sk: "moving sk"
  show "consumes k s (lexeme p sk s)"
    unfolding lexeme_def
  proof (rule consumes_on_ok [OF skip_over_consumes [OF sk]])
    fix r :: string assume "length r + 0 \<le> length s"
    then show "consumes k s (p no_skip r)"
      using takesD [OF p moving_no_skip, of r] by (cases "p no_skip r") auto
  qed simp
qed

lemma takes_skip_with [taking]: "moving sk' \<Longrightarrow> takes k p \<Longrightarrow> takes k (skip_with sk' p)"
  by (rule takesI) (simp add: skip_with_def takesD)

lemma takes_omit [taking]: "takes k p \<Longrightarrow> takes k (omit p)"
  unfolding omit_def by (rule takes_map_px)

lemma takes_rule [taking]: "takes k p \<Longrightarrow> takes k (rule p)"
proof (rule takesI)
  fix sk :: skipper and s assume "takes k p" and "moving sk"
  then show "consumes k s (rule p sk s)"
    using takesD [of k p sk s] by (cases "p sk s") (auto simp: rule_def)
qed

end
