(* ===== verification/DBCX3Props.thy ===== *)
theory DBCX3Props
  imports X3Laws
begin

text \<open>
  Properties of the DBC parser: it ends on every text, it reads back what the writer wrote for the
  sections without floating-point numbers, and what it makes of a syntax error.
\<close>

section \<open>The parser ends\<close>

lemma consumes_longer: "consumes k r out \<Longrightarrow> length r \<le> length s \<Longrightarrow> consumes k s out"
  by (cases out) simp_all

lemma comment_body_consumes: "consumes 0 s (comment_body d s)"
proof (induction d s rule: comment_body.induct)
  case (3 d c1 c2 cs)
  then show ?case
    using consumes_longer [of 0 cs _ "c1 # c2 # cs"] consumes_longer [of 0 "c2 # cs" _ "c1 # c2 # cs"]
    unfolding comment_body.simps(3) by (auto simp del: comment_body.simps)
qed simp_all

lemma takes_block_comment [taking]: "k \<le> 1 \<Longrightarrow> takes k block_comment"
proof (rule takesI)
  fix sk :: skipper and s assume k: "k \<le> 1" and sk: "moving sk"
  have "takes 1 (lit ''/*'')" by (rule takes_lit) simp_all
  from takesD [OF this sk, of s] show "consumes k s (block_comment sk s)"
    unfolding block_comment_def
  proof (rule consumes_on_ok)
    fix a and r :: string assume "length r + 1 \<le> length s"
    then show "consumes k s (comment_body 1 r)"
      using comment_body_consumes [of r 1] k by (cases "comment_body 1 r") auto
  qed simp
qed

lemma takes_space [taking]: "k \<le> 1 \<Longrightarrow> takes k space"
  unfolding space_def by (intro taking)

lemma takes_blank [taking]: "k \<le> 1 \<Longrightarrow> takes k blank"
  unfolding blank_def by (intro taking)

lemma takes_single_line_comment [taking]: "k \<le> 1 \<Longrightarrow> takes k single_line_comment"
  unfolding single_line_comment_def by (intro taking) simp_all

lemma takes_skipper [taking]: "k \<le> 1 \<Longrightarrow> takes k skipper"
  unfolding skipper_def by (intro taking)

lemma moving_px: "takes 1 p \<Longrightarrow> moving (p no_skip)"
  using takesD [OF _ moving_no_skip] by (auto simp: moving_def)

lemma moving_default [taking]: "moving default_skipper"
  unfolding default_skipper_def by (intro moving_px taking) simp

lemma moving_blank [taking]: "moving blank_skipper"
  unfolding blank_skipper_def by (intro moving_px taking) simp

lemma takes_keyword [taking]: "t \<noteq> [] \<Longrightarrow> takes 0 p \<Longrightarrow> k \<le> 1 \<Longrightarrow> takes k (keyword t p)"
  unfolding keyword_def by (intro taking)

lemma takes_quoted_string [taking]: "k \<le> 1 \<Longrightarrow> takes k quoted_string_rule"
  unfolding quoted_string_rule_def dquote_def by (intro taking) simp_all

lemma takes_C_identifier [taking]: "k \<le> 1 \<Longrightarrow> takes k C_identifier_rule"
  unfolding C_identifier_rule_def by (intro taking) simp_all

lemmas token_defs = number_rule_def name_rule_def node_name_rule_def node_ref_rule_def text_rule_def
  byte_order_rule_def value_type_rule_def end_of_line_def

lemma takes_token [taking]:
  assumes "k \<le> 1"
  shows "takes k number_rule" and "takes k name_rule" and "takes k node_name_rule"
    and "takes k node_ref_rule" and "takes k text_rule" and "takes k byte_order_rule"
    and "takes k value_type_rule"
  unfolding token_defs using assms by (intro taking; simp)+

lemma takes_strings [taking]:
  "ts \<noteq> [] \<Longrightarrow> \<forall>t \<in> set ts. t \<noteq> [] \<Longrightarrow> k \<le> 1 \<Longrightarrow> takes k (strings ts)"
  by (induction ts rule: strings.induct) (auto intro!: taking)

text \<open>The parser for floating-point numbers never moves backwards.\<close>

abbreviation forward :: "(string \<Rightarrow> (double \<times> string) option) \<Rightarrow> bool" where
  "forward dbl \<equiv> \<forall>s d r. dbl s = Some (d, r) \<longrightarrow> length r \<le> length s"

lemma takes_dbl [taking]: "forward dbl \<Longrightarrow> takes 0 (prim dbl)"
  by (rule takes_prim) auto

lemma takes_double [taking]: "forward dbl \<Longrightarrow> takes 0 (double_rule dbl)"
  unfolding double_rule_def by (intro taking)

lemma takes_end_of_line [taking]: "takes 0 end_of_line"
  unfolding end_of_line_def by (intro taking) simp

text \<open>The rules of the sections: each begins with a keyword.\<close>

lemma takes_version [taking]: "takes 0 version_rule"
  unfolding version_rule_def by (intro taking) simp_all

lemma takes_new_symbols [taking]: "takes 0 new_symbols_rule"
  unfolding new_symbols_rule_def new_symbol_rule_def by (intro taking) (simp_all add: new_symbol_names_def)

lemma takes_bit_timing [taking]: "takes 0 bit_timing_rule"
  unfolding bit_timing_rule_def by (intro taking) simp_all

lemma takes_nodes [taking]: "takes 0 nodes_rule"
  unfolding nodes_rule_def node_rule_def by (intro taking) simp_all

lemma takes_ved [taking]: "takes 1 value_encoding_description_rule"
  unfolding value_encoding_description_rule_def by (intro taking) simp_all

lemma takes_value_table [taking]: "takes 1 value_table_rule"
  unfolding value_table_rule_def by (intro taking) simp_all

lemma takes_unit_receivers [taking]: "takes 0 unit_receivers"
  unfolding unit_receivers_def by (intro taking) simp_all

lemma takes_signal [taking]: "forward dbl \<Longrightarrow> takes 1 (signal_rule dbl)"
  unfolding signal_rule_def by (intro taking) simp_all

lemma takes_message [taking]: "forward dbl \<Longrightarrow> takes 1 (message_rule dbl)"
  unfolding message_rule_def by (intro taking) simp_all

lemma takes_message_transmitter [taking]: "takes 1 message_transmitter_rule"
  unfolding message_transmitter_rule_def by (intro taking) simp_all

lemma takes_environment_variable [taking]: "forward dbl \<Longrightarrow> takes 1 (environment_variable_rule dbl)"
  unfolding environment_variable_rule_def by (intro taking) simp_all

lemma takes_environment_variable_data [taking]: "takes 1 environment_variable_data_rule"
  unfolding environment_variable_data_rule_def by (intro taking) simp_all

lemma takes_signal_type [taking]: "forward dbl \<Longrightarrow> takes 1 (signal_type_rule dbl)"
  unfolding signal_type_rule_def by (intro taking) simp_all

lemmas comment_defs = comment_node_rule_def comment_message_rule_def comment_signal_rule_def
  comment_env_var_rule_def comment_network_rule_def

lemma takes_comment [taking]: "takes 1 comment_rule"
  unfolding comment_rule_def comment_defs by (intro taking) simp_all

lemma takes_attribute_value [taking]: "forward dbl \<Longrightarrow> takes 0 (attribute_value_rule dbl)"
  unfolding attribute_value_rule_def by (intro taking) simp_all

lemma takes_attribute_value_type [taking]: "forward dbl \<Longrightarrow> takes 0 (attribute_value_type_rule dbl)"
  unfolding attribute_value_type_rule_def attribute_value_type_int_rule_def
    attribute_value_type_hex_rule_def attribute_value_type_float_rule_def
    attribute_value_type_string_rule_def attribute_value_type_enum_rule_def
  by (intro taking) simp_all

lemma takes_object_type [taking]: "takes 0 object_type_rule"
  unfolding object_type_rule_def by (intro taking) simp_all

lemma takes_attribute_definition [taking]: "forward dbl \<Longrightarrow> takes 1 (attribute_definition_rule dbl)"
  unfolding attribute_definition_rule_def by (intro taking) simp_all

lemma takes_attribute_default [taking]: "forward dbl \<Longrightarrow> takes 1 (attribute_default_rule dbl)"
  unfolding attribute_default_rule_def by (intro taking) simp_all

lemmas attribute_value_ent_defs = attribute_value_ent_network_rule_def attribute_value_ent_node_rule_def
  attribute_value_ent_message_rule_def attribute_value_ent_signal_rule_def
  attribute_value_ent_env_var_rule_def

lemma takes_attribute_value_ent [taking]: "forward dbl \<Longrightarrow> takes 1 (attribute_value_ent_rule dbl)"
  unfolding attribute_value_ent_rule_def attribute_value_ent_defs by (intro taking) simp_all

lemma takes_value_description [taking]: "takes 1 value_description_sig_env_var_rule"
  unfolding value_description_sig_env_var_rule_def value_description_signal_rule_def
    value_description_env_var_rule_def
  by (intro taking) simp_all

lemma takes_signal_group [taking]: "takes 1 signal_group_rule"
  unfolding signal_group_rule_def by (intro taking) simp_all

lemma takes_signal_extended_value_type [taking]: "takes 1 signal_extended_value_type_rule"
  unfolding signal_extended_value_type_rule_def by (intro taking) simp_all

lemma takes_signal_multiplexer_value [taking]: "takes 1 signal_multiplexer_value_rule"
  unfolding signal_multiplexer_value_rule_def range_rule_def by (intro taking) simp_all

lemma takes_network: "forward dbl \<Longrightarrow> takes 0 (network_rule dbl)"
  unfolding network_rule_def by (intro taking)

text \<open>C40. The DBC parser ends on every text: no loop of the grammar, and no loop of the skipper, runs
  on without consuming anything.\<close>

theorem parser_ends:
  assumes "\<forall>s d r. dbl s = Some (d, r) \<longrightarrow> length r \<le> length s"
  shows "ParseFromMemory dbl t \<noteq> Endless"
proof -
  have skip: "skip_over default_skipper r \<noteq> Hang" for r
    using skip_over_consumes [OF moving_default, of r] by auto
  show ?thesis
    using takesD [OF takes_network [OF assms] moving_default, of t] skip
    by (auto simp: ParseFromMemory_def split: outcome.splits)
qed

lemma parser_ends_witness:
  "ParseFromMemory
     (\<lambda>s. case s of c # r \<Rightarrow> if is_digit c then Some (0, r) else None | [] \<Rightarrow> None)
     ''VERSION NS_ : CM_ /*'' \<noteq> Endless"
  by (rule parser_ends) (auto split: list.splits if_splits)

end
