(* ===== verification/Tokens.thy ===== *)
theory Tokens
  imports DBCX3Props Network2DBC
begin

text \<open>
  How the tokens of the DBC grammar read the pieces of text the DBC writer is made of: each lemma of
  the collection \<open>reading\<close> evaluates a parser on such a piece, followed by any text that does not
  prolong it.
\<close>

section \<open>Evaluating parsers\<close>

named_theorems reading \<open>equations that evaluate parsers on printed text\<close>

lemma on_ok_simps [simp]:
  "on_ok (Ok a r) f g = f a r"
  "on_ok (Fail r) f g = g r"
  "on_ok (Throw r) f g = Throw r"
  "on_ok Hang f g = Hang"
  by (simp_all add: on_ok_def)

text \<open>Evaluate a parser before what follows it.\<close>

lemma on_ok_weak: "out = out' \<Longrightarrow> on_ok out f g = on_ok out' f g"
  by simp

lemmas px_simps = seq_def expect_def ret_def map_px_def skip_with_def alt_def opt_def

lemma rule_simps [simp]:
  "p sk s = Ok a r \<Longrightarrow> rule p sk s = Ok a r"
  "p sk s = Fail r \<Longrightarrow> rule p sk s = Fail r"
  by (simp_all add: rule_def)

section \<open>White space\<close>

lemma is_space_simps [simp]:
  "is_space (CHR '' '')" "is_space (CHR 0x0A)" "is_space (CHR 0x09)"
  by (simp_all add: is_space_def)

lemma default_space: "is_space c \<Longrightarrow> default_skipper (c # s) = Ok () s"
  by (simp add: default_skipper_def skipper_def space_def omit_def px_simps char_if_def prim_def
      skip_over.simps [of no_skip] no_skip_def)

definition solid :: "string \<Rightarrow> bool" where
  "solid s \<longleftrightarrow> s = [] \<or> \<not> is_space (hd s) \<and> hd s \<noteq> CHR ''/''"

lemma solid_simps [simp]:
  "solid []" "solid (c # s) \<longleftrightarrow> \<not> is_space c \<and> c \<noteq> CHR ''/''"
  by (simp_all add: solid_def)

lemma default_solid: "solid s \<Longrightarrow> default_skipper s = Fail s"
  by (cases s) (auto simp: default_skipper_def skipper_def space_def omit_def px_simps char_if_def
      prim_def skip_over.simps [of no_skip] no_skip_def lit_def single_line_comment_def block_comment_def)

lemma skip_space [simp]: "is_space c \<Longrightarrow> skip_over default_skipper (c # s) = skip_over default_skipper s"
  by (subst skip_over.simps) (simp add: default_space)

lemma skip_solid [simp]: "solid s \<Longrightarrow> skip_over default_skipper s = Ok () s"
  by (subst skip_over.simps) (simp add: default_solid)

lemma no_skip_over [simp]: "skip_over no_skip s = Ok () s"
  by (subst skip_over.simps) (simp add: no_skip_def)

lemma blank_skips: "blank_skipper s =
    (case s of c # r \<Rightarrow> if c = CHR '' '' \<or> c = CHR 0x09 then Ok () r else Fail s | [] \<Rightarrow> Fail s)"
  by (auto simp: blank_skipper_def blank_def omit_def px_simps char_if_def prim_def
      split: list.split)

lemma skip_blank [simp]:
  "skip_over blank_skipper (CHR '' '' # s) = skip_over blank_skipper s"
  "skip_over blank_skipper [] = Ok () []"
  "c \<noteq> CHR '' '' \<Longrightarrow> c \<noteq> CHR 0x09 \<Longrightarrow> skip_over blank_skipper (c # s) = Ok () (c # s)"
  by (subst skip_over.simps, simp add: blank_skips)+

section \<open>Words and keywords\<close>

lemma char_if_read:
  "char_if P no_skip (c # s) = (if P c then Ok c s else Fail (c # s))"
  "char_if P no_skip [] = Fail []"
  by (simp_all add: char_if_def prim_def)

text \<open>A run of characters of a class.\<close>

lemma many_char_if:
  assumes "list_all P t" and "r = [] \<or> \<not> P (hd r)"
  shows "many (char_if P) no_skip (t @ r) = Ok t r"
  using assms
proof (induction t)
  case Nil
  then show ?case
    by (cases r) (simp_all add: many.simps [of "char_if P"] char_if_read)
next
  case (Cons c t)
  then show ?case
    by (simp add: many.simps [of "char_if P" no_skip "c # t @ r"] char_if_read)
qed

definition word_char :: "char \<Rightarrow> bool" where
  "word_char c \<longleftrightarrow> is_letter c \<or> is_digit c"

definition is_identifier :: "string \<Rightarrow> bool" where
  "is_identifier n \<longleftrightarrow> n \<noteq> [] \<and> is_letter (hd n) \<and> list_all word_char n"

definition ends_word :: "string \<Rightarrow> bool" where
  "ends_word r \<longleftrightarrow> r = [] \<or> \<not> word_char (hd r)"

lemma ends_word_simps [simp]: "ends_word []" "ends_word (c # r) \<longleftrightarrow> \<not> word_char c"
  by (simp_all add: ends_word_def)

lemma word_char_simps [simp]:
  "\<not> word_char (CHR '' '')" "\<not> word_char (CHR 0x0A)" "\<not> word_char (CHR 0x09)"
  "\<not> word_char (CHR '':'')" "\<not> word_char (CHR '';'')" "\<not> word_char (CHR '','')"
  by (simp_all add: word_char_def is_letter_def is_digit_def)

lemma word_char_solid:
  "word_char c \<Longrightarrow> \<not> is_space c \<and> c \<noteq> CHR ''/'' \<and> c \<noteq> CHR '' '' \<and> c \<noteq> CHR 0x09 \<and> c \<noteq> CHR 0x0A \<and> c \<noteq> CHR 0x0D"
  by (auto simp: word_char_def is_letter_def is_digit_def is_space_def Let_def)

lemma solid_identifier [simp]: "is_identifier n \<Longrightarrow> solid (n @ r)"
  using word_char_solid [of "hd n"] by (cases n) (auto simp: is_identifier_def)

lemma identifier_no_skip:
  assumes "is_identifier n" and "ends_word r"
  shows "seq (char_if is_letter) (\<lambda>c. seq (many (char_if (\<lambda>c. is_letter c \<or> is_digit c)))
     (\<lambda>cs. ret (c # cs))) no_skip (n @ r) = Ok n r"
proof -
  obtain c cs where n: "n = c # cs" using assms(1) by (cases n) (auto simp: is_identifier_def)
  have "many (char_if (\<lambda>c. is_letter c \<or> is_digit c)) no_skip (cs @ r) = Ok cs r"
    by (rule many_char_if) (use assms n in \<open>auto simp: is_identifier_def ends_word_def word_char_def list_all_iff\<close>)
  then show ?thesis
    using assms by (simp add: n px_simps char_if_def prim_def is_identifier_def)
qed

lemma C_identifier_read [reading]:
  assumes "is_identifier n" and "ends_word r"
  shows "C_identifier_rule default_skipper (n @ r) = Ok n r"
    and "C_identifier_rule blank_skipper (n @ r) = Ok n r"
proof -
  have "skip_over blank_skipper (n @ r) = Ok () (n @ r)"
    using assms(1) word_char_solid [of "hd n"] by (cases n) (auto simp: is_identifier_def)
  then show "C_identifier_rule blank_skipper (n @ r) = Ok n r"
    using identifier_no_skip [OF assms] by (simp add: C_identifier_rule_def lexeme_def)
  show "C_identifier_rule default_skipper (n @ r) = Ok n r"
    using identifier_no_skip [OF assms] assms(1) by (simp add: C_identifier_rule_def lexeme_def)
qed

lemma C_identifier_space [reading]:
  "is_space c \<Longrightarrow> C_identifier_rule default_skipper (c # s) = C_identifier_rule default_skipper s"
  "C_identifier_rule blank_skipper (CHR '' '' # s) = C_identifier_rule blank_skipper s"
  by (simp_all add: C_identifier_rule_def rule_def lexeme_def)

text \<open>No identifier begins here.\<close>

lemma C_identifier_Fail [reading]:
  "\<not> is_space c \<Longrightarrow> c \<noteq> CHR ''/'' \<Longrightarrow> \<not> is_letter c \<Longrightarrow> C_identifier_rule default_skipper (c # s) = Fail (c # s)"
  "C_identifier_rule blank_skipper (CHR 0x0A # s) = Fail (CHR 0x0A # s)"
  by (simp_all add: C_identifier_rule_def lexeme_def px_simps char_if_def prim_def is_letter_def)

lemma names_read [reading]:
  "C_identifier_rule sk s = Ok n r \<Longrightarrow> name_rule sk s = Ok n r"
  "C_identifier_rule sk s = Ok n r \<Longrightarrow> node_name_rule sk s = Ok n r"
  "C_identifier_rule sk s = Ok n r \<Longrightarrow> node_ref_rule sk s = Ok n r"
  "C_identifier_rule sk s = Fail r \<Longrightarrow> name_rule sk s = Fail r"
  "C_identifier_rule sk s = Fail r \<Longrightarrow> node_name_rule sk s = Fail r"
  "C_identifier_rule sk s = Fail r \<Longrightarrow> node_ref_rule sk s = Fail r"
  by (simp_all add: name_rule_def node_name_rule_def node_ref_rule_def)

lemma lit_read [reading]:
  "is_space c \<Longrightarrow> lit t default_skipper (c # s) = lit t default_skipper s"
  "solid s \<Longrightarrow> take (length t) s = t \<Longrightarrow> lit t default_skipper s = Ok t (drop (length t) s)"
  "solid s \<Longrightarrow> take (length t) s \<noteq> t \<Longrightarrow> lit t default_skipper s = Fail s"
  "take (length t) s = t \<Longrightarrow> lit t no_skip s = Ok t (drop (length t) s)"
  "take (length t) s \<noteq> t \<Longrightarrow> lit t no_skip s = Fail s"
  by (simp_all add: lit_def prim_def)

text \<open>A keyword and the space behind it.\<close>

lemma space_read:
  "is_space c \<Longrightarrow> space no_skip (c # s) = Ok () s"
  "solid s \<Longrightarrow> space no_skip s = Fail s"
  by (cases s; simp add: space_def omit_def map_px_def char_if_def prim_def)+

lemma skipper_read:
  "is_space c \<Longrightarrow> skipper no_skip (c # s) = Ok () s"
  "solid s \<Longrightarrow> skipper no_skip s = Fail s"
  using default_space [of c s] default_solid [of s] by (simp_all add: default_skipper_def)

lemma keyword_read [reading]:
  assumes "solid s" and "take (length t) s = t" and "drop (length t) s = CHR '' '' # r"
  shows "keyword t space default_skipper s = Ok () r" "keyword t skipper default_skipper s = Ok () r"
  using assms by (simp_all add: keyword_def lexeme_def seq_def lit_read omit_def map_px_def
      space_read skipper_read)

lemma keyword_space [reading]:
  "is_space c \<Longrightarrow> keyword t p default_skipper (c # s) = keyword t p default_skipper s"
  by (simp add: keyword_def lexeme_def)

text \<open>The word a text begins with, behind white space: no other keyword is read there.\<close>

definition first_word :: "string \<Rightarrow> string" where
  "first_word s = takeWhile word_char (dropWhile is_space s)"

definition no_slash :: "string \<Rightarrow> bool" where
  "no_slash s \<longleftrightarrow> solid (dropWhile is_space s)"

lemma skip_all: "no_slash s \<Longrightarrow> skip_over default_skipper s = Ok () (dropWhile is_space s)"
  by (induction s) (auto simp: no_slash_def)

text \<open>Behind the characters of another word the word goes on.\<close>

lemma lit_other_word:
  assumes "first_word s \<noteq> t" and "list_all word_char t"
  shows "lit t no_skip (dropWhile is_space s) = Fail (dropWhile is_space s) \<or>
    (\<exists>c r. lit t no_skip (dropWhile is_space s) = Ok t (c # r) \<and> word_char c)"
proof (cases "take (length t) (dropWhile is_space s) = t")
  case True
  let ?r = "drop (length t) (dropWhile is_space s)"
  have s: "dropWhile is_space s = t @ ?r" using True by (metis append_take_drop_id)
  have "?r \<noteq> [] \<and> word_char (hd ?r)"
  proof (rule ccontr)
    assume "\<not> (?r \<noteq> [] \<and> word_char (hd ?r))"
    then have "takeWhile word_char (t @ ?r) = t"
      using assms(2) by (cases ?r) (auto simp: list_all_iff takeWhile_append)
    then show False using assms(1) s by (simp add: first_word_def)
  qed
  then show ?thesis using True by (cases ?r) (auto simp: lit_read)
qed (simp add: lit_read)

lemma space_word: "word_char c \<Longrightarrow> space no_skip (c # r) = Fail (c # r)"
  using word_char_solid by (simp add: space_read)

lemma keyword_other:
  assumes "first_word s \<noteq> t" and "no_slash s" and "list_all word_char t"
  shows "keyword t space default_skipper s = Fail (dropWhile is_space s)"
    and "keyword t skipper default_skipper s = Fail (dropWhile is_space s)"
  using lit_other_word [OF assms(1,3)] skip_all [OF assms(2)] word_char_solid
  by (auto simp: keyword_def lexeme_def seq_def omit_def map_px_def space_read skipper_read)

section \<open>Numbers\<close>

definition ends_digits :: "string \<Rightarrow> bool" where
  "ends_digits r \<longleftrightarrow> r = [] \<or> \<not> is_digit (hd r)"

lemma ends_digits_simps [simp]: "ends_digits []" "ends_digits (c # r) \<longleftrightarrow> \<not> is_digit c"
  by (simp_all add: ends_digits_def)

lemma is_digit_simps [simp]:
  "\<not> is_digit (CHR '' '')" "\<not> is_digit (CHR 0x0A)" "\<not> is_digit (CHR '':'')" "\<not> is_digit (CHR '';'')"
  "\<not> is_digit (CHR '','')" "\<not> is_digit (CHR ''|'')" "\<not> is_digit (CHR ''@'')" "\<not> is_digit (CHR ''-'')"
  by (simp_all add: is_digit_def)

lemma takeWhile_digits:
  assumes "ends_digits r"
  shows "takeWhile is_digit (show_nat n @ r) = show_nat n"
proof -
  have "takeWhile is_digit (show_nat n) = show_nat n"
    by (rule takeWhile_eq_all_conv [THEN iffD2]) (auto simp: show_nat_digits)
  moreover have "takeWhile is_digit r = []"
    using assms by (cases r) auto
  ultimately show ?thesis
    by (simp add: takeWhile_append show_nat_digits)
qed

lemma show_nat_Cons: "\<exists>c cs. show_nat n = c # cs \<and> is_digit c"
  using show_nat_digits [of "hd (show_nat n)" n] by (cases "show_nat n") auto

lemma digit_solid: "is_digit c \<Longrightarrow> \<not> is_space c \<and> c \<noteq> CHR ''/'' \<and> c \<noteq> CHR ''-'' \<and> c \<noteq> CHR ''+''"
  by (auto simp: is_digit_def is_space_def)

lemma solid_show [simp]: "solid (show_u64 w @ r)" "solid (show_i64 i @ r)"
  using show_nat_Cons [of "unat w"] show_nat_Cons [of "nat (sint i)"] show_nat_Cons [of "nat (- sint i)"]
    digit_solid
  by (auto simp: show_u64_def show_i64_def show_int_def is_space_def)

lemma uint64_read [reading]:
  "is_space c \<Longrightarrow> uint64 default_skipper (c # s) = uint64 default_skipper s"
  "ends_digits r \<Longrightarrow> uint64 default_skipper (show_u64 w @ r) = Ok w r"
  "solid s \<Longrightarrow> ends_digits s \<Longrightarrow> uint64 default_skipper s = Fail s"
proof -
  assume "ends_digits r"
  then show "uint64 default_skipper (show_u64 w @ r) = Ok w r"
    using takeWhile_digits [of r "unat w"] unat_lt64 [of w]
    by (simp add: uint64_def prim_def show_u64_def [symmetric] Let_def)
      (simp add: show_u64_def)
next
  assume "solid s" "ends_digits s"
  then have "takeWhile is_digit s = []" by (cases s) auto
  then show "uint64 default_skipper s = Fail s"
    using \<open>solid s\<close> by (simp add: uint64_def prim_def)
qed (simp add: uint64_def prim_def)

lemma number_read [reading]:
  "is_space c \<Longrightarrow> number_rule default_skipper (c # s) = number_rule default_skipper s"
  "ends_digits r \<Longrightarrow> number_rule default_skipper (show_u64 w @ r) = Ok w r"
  "solid s \<Longrightarrow> ends_digits s \<Longrightarrow> number_rule default_skipper s = Fail s"
  by (simp_all add: number_rule_def rule_def uint64_read)

lemma int64_read [reading]:
  "is_space c \<Longrightarrow> int64 default_skipper (c # s) = int64 default_skipper s"
  "ends_digits r \<Longrightarrow> int64 default_skipper (show_i64 i @ r) = Ok i r"
  "solid (c # s) \<Longrightarrow> c \<noteq> CHR ''-'' \<Longrightarrow> c \<noteq> CHR ''+'' \<Longrightarrow> \<not> is_digit c \<Longrightarrow>
   int64 default_skipper (c # s) = Fail (c # s)"
proof -
  assume r: "ends_digits r"
  have b: "- (2 ^ 63) \<le> sint i" "sint i < 2 ^ 63"
    using sint_ge [of i] sint_lt [of i] by simp_all
  show "int64 default_skipper (show_i64 i @ r) = Ok i r"
  proof (cases "sint i < 0")
    case True
    then have "show_i64 i @ r = CHR ''-'' # show_nat (nat (- sint i)) @ r"
      by (simp add: show_i64_def show_int_def)
    moreover have "- word_of_nat (nat (- sint i)) = i"
      using True by (simp add: of_nat_nat)
    moreover have "nat (- sint i) \<le> 2 ^ 63" using b by simp
    moreover have "solid (show_i64 i @ r)" by simp
    ultimately show ?thesis
      using takeWhile_digits [OF r, of "nat (- sint i)"]
      by (simp add: int64_def prim_def Let_def del: solid_simps)
  next
    case False
    then have s: "show_i64 i @ r = show_nat (nat (sint i)) @ r"
      by (simp add: show_i64_def show_int_def)
    obtain c cs where c: "show_nat (nat (sint i)) = c # cs" "is_digit c" using show_nat_Cons by blast
    have "word_of_nat (nat (sint i)) = i"
      using False by (simp add: of_nat_nat)
    moreover have "nat (sint i) \<le> 2 ^ 63 - 1" using b by simp
    moreover have "solid (show_i64 i @ r)" by simp
    moreover have "take 1 (show_nat (nat (sint i)) @ r) \<noteq> ''-''" "take 1 (show_nat (nat (sint i)) @ r) \<noteq> ''+''"
      using c digit_solid [of c] by auto
    ultimately show ?thesis
      using takeWhile_digits [OF r, of "nat (sint i)"]
      by (simp add: int64_def prim_def Let_def s del: solid_simps)
  qed
qed (simp_all add: int64_def prim_def)

section \<open>Strings\<close>

text \<open>The writer does not escape quotes and backslashes.\<close>

definition plain :: "string \<Rightarrow> bool" where
  "plain s \<longleftrightarrow> list_all (\<lambda>c. c \<noteq> CHR 0x22 \<and> c \<noteq> CHR 0x5C) s"

lemma quoted_chars:
  assumes "plain t"
  shows "many (alt (seq (lit [CHR 0x5C]) (\<lambda>_. char_if (\<lambda>c. c = CHR 0x5C \<or> c = CHR 0x22)))
     (char_if (\<lambda>c. c \<noteq> CHR 0x22))) no_skip (t @ CHR 0x22 # r) = Ok t (CHR 0x22 # r)"
  using assms
proof (induction t)
  case Nil
  show ?case
    by (simp add: many.simps [of _ no_skip "CHR 0x22 # r"] alt_def seq_def lit_read char_if_read)
next
  case (Cons c t)
  then show ?case
    by (simp add: many.simps [of _ no_skip "c # t @ CHR 0x22 # r"] alt_def seq_def lit_read
        char_if_read plain_def)
qed

lemma dquote_Cons: "dquote = [CHR 0x22]"
  unfolding dquote_def by code_simp

lemma newline_Cons: "newline = [CHR 0x0A]"
  unfolding newline_def by code_simp

lemma tab_Cons: "tab = [CHR 0x09]"
  unfolding tab_def by code_simp

lemma quoted_string_read [reading]:
  "is_space c \<Longrightarrow> quoted_string_rule default_skipper (c # s) = quoted_string_rule default_skipper s"
  "plain t \<Longrightarrow> quoted_string_rule default_skipper (quoted t @ r) = Ok t r"
  "solid s \<Longrightarrow> take 1 s \<noteq> dquote \<Longrightarrow> quoted_string_rule default_skipper s = Fail s"
proof -
  assume "plain t"
  then show "quoted_string_rule default_skipper (quoted t @ r) = Ok t r"
    using quoted_chars [of t r]
    by (simp add: quoted_string_rule_def lexeme_def quoted_def dquote_Cons seq_def ret_def lit_read
        is_space_def)
qed (simp_all add: quoted_string_rule_def rule_def lexeme_def seq_def lit_read dquote_Cons)

lemma text_read [reading]:
  "quoted_string_rule sk s = Ok t r \<Longrightarrow> text_rule sk s = Ok t r"
  "quoted_string_rule sk s = Fail r \<Longrightarrow> text_rule sk s = Fail r"
  by (simp_all add: text_rule_def)

lemma solid_quoted [simp]: "solid (quoted t @ r)"
  by (simp add: quoted_def dquote_Cons is_space_def)

section \<open>Floating-point numbers and single characters\<close>

text \<open>
  What the writer relies on: \<open>double_\<close> reads a number it has written, up to the separator behind it.
  The number that is read, \<open>read_back dbl t\<close>, is not the one that was written, as only six digits
  are written. No number begins with a quote or with one of the letters B, E and S.
\<close>

definition ends_number :: "string \<Rightarrow> bool" where
  "ends_number r \<longleftrightarrow> r \<noteq> [] \<and> hd r \<in> set '' ,;|)]''"

definition read_back :: "(string \<Rightarrow> (double \<times> string) option) \<Rightarrow> string \<Rightarrow> double" where
  "read_back dbl t = (case dbl (t @ '' '') of Some (d, _) \<Rightarrow> d | None \<Rightarrow> 0)"

definition readable :: "(string \<Rightarrow> (double \<times> string) option) \<Rightarrow> string \<Rightarrow> bool" where
  "readable dbl t \<longleftrightarrow> (\<forall>r. ends_number r \<longrightarrow> dbl (t @ r) = Some (read_back dbl t, r))"

definition no_number :: "(string \<Rightarrow> (double \<times> string) option) \<Rightarrow> bool" where
  "no_number dbl \<longleftrightarrow> (\<forall>c s. c \<in> {CHR 0x22, CHR ''B'', CHR ''E'', CHR ''S''} \<longrightarrow> dbl (c # s) = None)"

lemma ends_number_simps [simp]:
  "ends_number (CHR '' '' # r)" "ends_number (CHR '','' # r)" "ends_number (CHR '';'' # r)"
  "ends_number (CHR ''|'' # r)" "ends_number (CHR '')'' # r)" "ends_number (CHR '']'' # r)"
  by (simp_all add: ends_number_def)

lemma show_positive_Cons: "\<exists>c cs. show_positive p q = c # cs \<and> is_digit c"
proof -
  obtain n x where nx: "six_digits p q = (n, x)" by fastforce
  obtain c cs where c: "show_nat n = c # cs" "is_digit c" using show_nat_Cons by blast
  have "is_digit (CHR ''0'')" by (simp add: is_digit_def)
  then show ?thesis
    using c by (auto simp: show_positive_def nx with_fraction_def Let_def)
qed

lemma solid_show_double [simp]: "solid (show_double d @ r)"
proof -
  define body where "body = (case fp_of_double d of NaN \<Rightarrow> ''nan'' | Inf _ \<Rightarrow> ''inf''
     | Fin _ m e \<Rightarrow> if m = 0 then ''0'' else show_positive (m * 2 ^ nat e) (2 ^ nat (- e)))"
  have "\<exists>c cs. body = c # cs \<and> \<not> is_space c \<and> c \<noteq> CHR ''/''"
  proof (cases "fp_of_double d")
    case (Fin sg m e)
    obtain c cs where "show_positive (m * 2 ^ nat e) (2 ^ nat (- e)) = c # cs" "is_digit c"
      using show_positive_Cons by blast
    then show ?thesis using digit_solid [of c] Fin by (simp add: body_def is_space_def)
  qed (simp_all add: body_def is_space_def)
  moreover have "show_double d = (if bit d 63 then ''-'' else []) @ body"
    unfolding show_double_def body_def Let_def by (cases "fp_of_double d") simp_all
  ultimately show ?thesis by (auto simp: is_space_def)
qed

lemma dbl_read [reading]:
  "is_space c \<Longrightarrow> prim dbl default_skipper (c # s) = prim dbl default_skipper s"
  "readable dbl (show_double d) \<Longrightarrow> ends_number r \<Longrightarrow>
   prim dbl default_skipper (show_double d @ r) = Ok (read_back dbl (show_double d)) r"
  "readable dbl (show_i64 i) \<Longrightarrow> ends_number r \<Longrightarrow>
   prim dbl default_skipper (show_i64 i @ r) = Ok (read_back dbl (show_i64 i)) r"
  by (simp_all add: prim_def readable_def)

lemma no_number_read [reading]:
  assumes "no_number dbl"
  shows "prim dbl default_skipper (CHR 0x22 # s) = Fail (CHR 0x22 # s)"
    and "prim dbl default_skipper (CHR ''B'' # s) = Fail (CHR ''B'' # s)"
    and "prim dbl default_skipper (CHR ''E'' # s) = Fail (CHR ''E'' # s)"
    and "prim dbl default_skipper (CHR ''S'' # s) = Fail (CHR ''S'' # s)"
  using assms by (simp_all add: no_number_def prim_def is_space_def)

lemma double_read [reading]:
  "is_space c \<Longrightarrow> double_rule dbl default_skipper (c # s) = double_rule dbl default_skipper s"
  "readable dbl (show_double d) \<Longrightarrow> ends_number r \<Longrightarrow>
   double_rule dbl default_skipper (show_double d @ r) = Ok (read_back dbl (show_double d)) r"
  by (simp_all add: double_rule_def rule_def dbl_read)

lemma sign_read [reading]:
  "byte_order_rule default_skipper (print_byte_order bo @ r) = Ok (hd (print_byte_order bo)) r"
  "value_type_rule default_skipper (print_value_type_sign vt @ r) =
     Ok (hd (print_value_type_sign vt)) (CHR '' '' # r)"
  by (cases bo; cases vt; simp add: byte_order_rule_def value_type_rule_def lexeme_def alt_def
      char_if_read print_byte_order_def print_value_type_sign_def is_space_def)+

lemma end_of_line_read [reading]:
  "end_of_line blank_skipper (CHR 0x0A # r) = Ok () r"
  by (simp add: end_of_line_def alt_def eol_def prim_def)

end
