(* ===== verification/Reread.thy ===== *)
theory Reread
  imports Tokens PrintProps
begin

text \<open>
  Reading back the sections of a file the DBC writer has written. \<open>reads p t a\<close>: where the text goes
  on with \<open>t\<close>, the parser \<open>p\<close> reads \<open>t\<close>, delivers \<open>a\<close> and stops behind it, white space aside.
\<close>

section \<open>Positions up to white space\<close>

definition same :: "string \<Rightarrow> string \<Rightarrow> bool" where
  "same s t \<longleftrightarrow> dropWhile is_space s = dropWhile is_space t"

definition yields :: "'a px \<Rightarrow> string \<Rightarrow> 'a \<Rightarrow> string \<Rightarrow> bool" where
  "yields p s a r \<longleftrightarrow> (\<exists>r'. p default_skipper s = Ok a r' \<and> same r' r)"

text \<open>\<open>Q\<close>: what the text behind has to be like for the item to end there.\<close>

definition reads_before :: "(string \<Rightarrow> bool) \<Rightarrow> 'a px \<Rightarrow> string \<Rightarrow> 'a \<Rightarrow> bool" where
  "reads_before Q p t a \<longleftrightarrow> (\<forall>s r. Q r \<longrightarrow> same s (t @ r) \<longrightarrow> yields p s a r)"

abbreviation reads :: "'a px \<Rightarrow> string \<Rightarrow> 'a \<Rightarrow> bool" where
  "reads \<equiv> reads_before (\<lambda>_. True)"

text \<open>\<open>p\<close> fails on \<open>r\<close> and leaves the position at \<open>e\<close>, or where it was.\<close>

definition fails :: "'a px \<Rightarrow> string \<Rightarrow> string \<Rightarrow> bool" where
  "fails p r e \<longleftrightarrow> (\<forall>s. same s r \<longrightarrow> (\<exists>q. p default_skipper s = Fail q \<and> same q e))"

abbreviation stops :: "'a px \<Rightarrow> string \<Rightarrow> bool" where
  "stops p r \<equiv> fails p r r"

lemma same_refl [simp]: "same s s"
  by (simp add: same_def)

lemma same_trans: "same r s \<Longrightarrow> same s t \<Longrightarrow> same r t"
  by (simp add: same_def)

lemma same_space [simp]: "is_space c \<Longrightarrow> same (c # s) t \<longleftrightarrow> same s t" "is_space c \<Longrightarrow> same s (c # t) \<longleftrightarrow> same s t"
  by (simp_all add: same_def)

lemma same_drop [simp]: "same (dropWhile is_space s) t \<longleftrightarrow> same s t"
  by (simp add: same_def)

lemma same_words: "same s t \<Longrightarrow> first_word s = first_word t" "same s t \<Longrightarrow> no_slash s = no_slash t"
  by (simp_all add: same_def first_word_def no_slash_def)

text \<open>White space in front of a parser does not matter where it succeeds.\<close>

definition skipping :: "'a px \<Rightarrow> bool" where
  "skipping p \<longleftrightarrow> (\<forall>c s a r. is_space c \<longrightarrow> p default_skipper s = Ok a r \<longrightarrow> p default_skipper (c # s) = Ok a r)"

named_theorems skips \<open>parsers that skip white space first\<close>

lemma skipping_prim [skips]: "skipping (prim f)"
  by (simp add: skipping_def prim_def)

lemma skipping_lit [skips]: "skipping (lit t)"
  by (simp add: lit_def skipping_prim)

lemma skipping_keyword [skips]: "skipping (keyword t p)"
  by (simp add: skipping_def keyword_space)

lemma skipping_lexeme [skips]: "skipping (lexeme p)"
  by (simp add: skipping_def lexeme_def)

lemma skipping_seq [skips]: "skipping p \<Longrightarrow> skipping (seq p f)"
  unfolding skipping_def seq_def
proof (intro allI impI)
  fix c s a r
  assume p: "\<forall>c s a r. is_space c \<longrightarrow> p default_skipper s = Ok a r \<longrightarrow> p default_skipper (c # s) = Ok a r"
    and c: "is_space c"
    and s: "on_ok (p default_skipper s) (\<lambda>a r. on_ok (f a default_skipper r) Ok (\<lambda>_. Fail s)) (\<lambda>_. Fail s) = Ok a r"
  obtain b q where "p default_skipper s = Ok b q" "f b default_skipper q = Ok a r"
    using s by (auto simp: on_ok_def split: outcome.splits)
  then show "on_ok (p default_skipper (c # s)) (\<lambda>a r. on_ok (f a default_skipper r) Ok (\<lambda>_. Fail (c # s)))
      (\<lambda>_. Fail (c # s)) = Ok a r"
    using p c by simp
qed

lemma skipping_rule [skips]: "skipping p \<Longrightarrow> skipping (rule p)"
  unfolding skipping_def rule_def by (auto split: outcome.splits)

lemma skipping_white:
  "skipping p \<Longrightarrow> list_all is_space w \<Longrightarrow> p default_skipper s = Ok a r \<Longrightarrow> p default_skipper (w @ s) = Ok a r"
  by (induction w) (auto simp: skipping_def)

lemma readsI:
  assumes "skipping p" and "dropWhile is_space t \<noteq> []"
    and "\<And>r. Q r \<Longrightarrow> yields p (dropWhile is_space t @ r) a r"
  shows "reads_before Q p t a"
  unfolding reads_before_def
proof (intro allI impI)
  fix s r assume "Q r" and "same s (t @ r)"
  have "\<exists>c\<in>set t. \<not> is_space c"
    using assms(2) by (auto simp: dropWhile_eq_Nil_conv)
  with \<open>same s (t @ r)\<close> have "dropWhile is_space s = dropWhile is_space t @ r"
    by (auto simp: same_def dropWhile_append)
  then have s: "s = takeWhile is_space s @ dropWhile is_space t @ r"
    using takeWhile_dropWhile_id [of is_space s] by simp
  obtain r' where "p default_skipper (dropWhile is_space t @ r) = Ok a r'" "same r' r"
    using assms(3) [OF \<open>Q r\<close>] by (auto simp: yields_def)
  moreover have "list_all is_space (takeWhile is_space s)"
    by (auto simp: list_all_iff dest: set_takeWhileD)
  ultimately have "p default_skipper s = Ok a r'"
    using skipping_white [OF assms(1)] s by metis
  then show "yields p s a r" using \<open>same r' r\<close> by (auto simp: yields_def)
qed

section \<open>Repetition and sequence\<close>

text \<open>A text made of items \<open>p\<close> reads, each of them possibly empty.\<close>

inductive items :: "(string \<Rightarrow> bool) \<Rightarrow> 'a px \<Rightarrow> string \<Rightarrow> 'a list \<Rightarrow> bool" for Q p where
  items_Nil: "items Q p [] []"
| items_Cons: "reads_before Q p t a \<Longrightarrow> (\<And>r. Q r \<Longrightarrow> Q (t @ r)) \<Longrightarrow> items Q p t' as \<Longrightarrow>
    items Q p (t @ t') (a # as)"

lemma items_behind: "items Q p t as \<Longrightarrow> Q r \<Longrightarrow> Q (t @ r)"
  by (induction rule: items.induct) auto

lemma items_append: "items Q p t as \<Longrightarrow> items Q p t' as' \<Longrightarrow> items Q p (t @ t') (as @ as')"
  by (induction rule: items.induct) (auto intro: items_Cons)

lemma items_one: "reads_before Q p t a \<Longrightarrow> (\<And>r. Q r \<Longrightarrow> Q (t @ r)) \<Longrightarrow> items Q p t [a]"
  using items_Cons [OF _ _ items_Nil, of Q p t a] by simp

lemma items_concat:
  "(\<And>x. x \<in> set xs \<Longrightarrow> items Q p (t x) (f x)) \<Longrightarrow>
   items Q p (concat (map t xs)) (concat (map f xs))"
  by (induction xs) (auto intro: items_Nil items_append)

lemma items_map:
  assumes "\<And>x. x \<in> set xs \<Longrightarrow> reads p (t x) (f x)"
  shows "items (\<lambda>_. True) p (concat (map t xs)) (map f xs)"
  using items_concat [of xs _ p t "\<lambda>x. [f x]"] assms by (simp add: items_one)

lemma many_then:
  assumes "items Q p t as" and "takes 1 p" and "\<And>s. same s r \<Longrightarrow> yields (many p) s bs e" and "Q r"
    and "same s (t @ r)"
  shows "yields (many p) s (as @ bs) e"
  using assms(1,5)
proof (induction arbitrary: s)
  case items_Nil
  then show ?case using assms(3) by simp
next
  case (items_Cons t a t' as)
  have "Q (t' @ r)" by (rule items_behind [OF items_Cons.hyps(3) assms(4)])
  then obtain q where q: "p default_skipper s = Ok a q" "same q (t' @ r)"
    using items_Cons.hyps(1) items_Cons.prems by (auto simp: reads_before_def yields_def)
  from items_Cons.IH [OF q(2)]
  obtain q' where "many p default_skipper q = Ok (as @ bs) q'" "same q' e"
    by (auto simp: yields_def)
  moreover have "length q < length s"
    using takesD [OF assms(2) moving_default, of s] q(1) by simp
  ultimately show ?case
    using q(1) by (simp add: yields_def many.simps [of p _ s])
qed

lemma many_none: "fails p r e \<Longrightarrow> same s r \<Longrightarrow> yields (many p) s [] e"
  by (auto simp: yields_def fails_def many.simps [of p _ s])

lemma many_yields_until:
  assumes "items Q p t as" and "takes 1 p" and "fails p r e" and "Q r" and "same s (t @ r)"
  shows "yields (many p) s as e"
  using many_then [OF assms(1,2) many_none [OF assms(3)] assms(4,5)] by simp

lemmas many_yields = many_yields_until [where e = r and r = r for r]

lemma must_yields:
  assumes "yields p s a r" and "\<And>s'. same s' r \<Longrightarrow> yields (f a) s' b q"
  shows "yields (seq (expect p) f) s b q"
  using assms by (fastforce simp: yields_def seq_def expect_def)

lemma seq_yields:
  assumes "yields p s a r" and "\<And>s'. same s' r \<Longrightarrow> yields (f a) s' b q"
  shows "yields (seq p f) s b q"
  using assms by (fastforce simp: yields_def seq_def)

lemma rule_yields: "yields p s a r \<Longrightarrow> yields (rule p) s a r"
  by (auto simp: yields_def)

lemma ret_yields: "same s r \<Longrightarrow> yields (ret x) s x r"
  by (simp add: yields_def ret_def)

text \<open>A statement does not begin where another word is.\<close>

lemma stops_keyword:
  assumes "first_word r \<noteq> t" and "no_slash r" and "list_all word_char t"
  shows "stops (seq (keyword t space) f) r" and "stops (seq (keyword t skipper) f) r"
proof -
  have "seq (keyword t space) f default_skipper s = Fail s \<and>
      seq (keyword t skipper) f default_skipper s = Fail s" if "same s r" for s
    using keyword_other [of s t] same_words [OF that] assms by (simp add: seq_def)
  then show "stops (seq (keyword t space) f) r" "stops (seq (keyword t skipper) f) r"
    by (auto simp: fails_def)
qed

lemma stops_rule: "stops p r \<Longrightarrow> stops (rule p) r"
  by (fastforce simp: fails_def)

section \<open>Value tables\<close>

definition veds_ast :: "ValueEncodingDescriptionImpl list \<Rightarrow> G_ValueEncodingDescription list" where
  "veds_ast veds = map (\<lambda>v. \<lparr>g_ved_value = ved_value v, g_ved_description = ved_description v\<rparr>) veds"

definition printable_veds :: "ValueEncodingDescriptionImpl list \<Rightarrow> bool" where
  "printable_veds veds \<longleftrightarrow> list_all (\<lambda>v. plain (ved_description v)) veds"

lemma ved_read:
  "plain (ved_description v) \<Longrightarrow>
   value_encoding_description_rule default_skipper
     (CHR '' '' # show_i64 (ved_value v) @ CHR '' '' # quoted (ved_description v) @ r) =
   Ok \<lparr>g_ved_value = ved_value v, g_ved_description = ved_description v\<rparr> r"
  by (simp add: value_encoding_description_rule_def px_simps reading cong: on_ok_weak)

lemma veds_read:
  "printable_veds veds \<Longrightarrow>
   many value_encoding_description_rule default_skipper (print_veds veds @ CHR '';'' # r) =
   Ok (veds_ast veds) (CHR '';'' # r)"
proof (induction veds)
  case Nil
  show ?case
    by (simp add: print_veds_def veds_ast_def many.simps [of _ _ "CHR '';'' # r"]
        value_encoding_description_rule_def px_simps reading is_digit_def is_space_def)
next
  case (Cons v veds)
  then show ?case
    by (subst many.simps) (simp add: print_veds_def veds_ast_def printable_veds_def ved_read)
qed

lemma ends_word_veds [simp]: "ends_word (print_veds veds @ CHR '';'' # r)"
  by (cases veds) (simp_all add: print_veds_def)

definition value_table_ast :: "ValueTableImpl \<Rightarrow> G_ValueTable" where
  "value_table_ast vt =
     \<lparr>g_vt_name = vt_name vt,
      g_vt_value_encoding_descriptions = veds_ast (vt_value_encoding_descriptions vt)\<rparr>"

definition printable_value_table :: "ValueTableImpl \<Rightarrow> bool" where
  "printable_value_table vt \<longleftrightarrow>
     is_identifier (vt_name vt) \<and> printable_veds (vt_value_encoding_descriptions vt)"

lemma value_table_reads:
  assumes "printable_value_table vt" and "vt_value_encoding_descriptions vt \<noteq> []"
  shows "reads value_table_rule (print_value_table vt) (value_table_ast vt)"
proof (rule readsI)
  fix r
  show "yields value_table_rule (dropWhile is_space (print_value_table vt) @ r) (value_table_ast vt) r"
    using assms
    by (simp add: yields_def value_table_rule_def px_simps print_value_table_def newline_Cons
        printable_value_table_def value_table_ast_def reading veds_read is_space_def cong: on_ok_weak)
qed (use assms in \<open>auto simp: value_table_rule_def print_value_table_def is_space_def intro!: skips\<close>)

section \<open>Lists of names\<close>

text \<open>\<open>is_blank\<close>: the skipper that stops at the end of a line, or the other one.\<close>

lemma list_more_read:
  assumes "list_all is_identifier ns" and "ends_word r" and "sk = default_skipper \<or> sk = blank_skipper"
    and "lit '','' sk r = Fail r"
  shows "list_more node_ref_rule (lit '','') sk (concat (map (\<lambda>n. CHR '','' # CHR '' '' # n) ns) @ r) = Ok ns r"
  using assms(1)
proof (induction ns)
  case Nil
  then show ?case by (simp add: list_more.simps [of _ _ _ r] assms(4))
next
  case (Cons n ns)
  let ?r = "concat (map (\<lambda>n. CHR '','' # CHR '' '' # n) ns) @ r"
  have e: "ends_word ?r" using assms(2) by (cases ns) simp_all
  have "lit '','' sk (CHR '','' # CHR '' '' # n @ ?r) = Ok '','' (CHR '' '' # n @ ?r)"
    using assms(3) by (auto simp: lit_def prim_def is_space_def)
  moreover have "node_ref_rule sk (CHR '' '' # n @ ?r) = Ok n ?r"
    using assms(3) Cons.prems e by (auto simp: reading)
  ultimately show ?case
    using Cons by (simp add: list_more.simps [of _ _ _ "CHR '','' # _"] on_ok_def)
qed

lemma join_commas: "join '', '' (n # ns) = n @ concat (map (\<lambda>n. CHR '','' # CHR '' '' # n) ns)"
  by (induction ns arbitrary: n) simp_all

lemma names_list_read:
  assumes "ns \<noteq> []" "list_all is_identifier ns" and "ends_word r" and "sk = default_skipper \<or> sk = blank_skipper"
    and "lit '','' sk r = Fail r"
  shows "list_of node_ref_rule (lit '','') sk (join '', '' ns @ r) = Ok ns r"
    and "list_of node_ref_rule (lit '','') sk (CHR '' '' # join '', '' ns @ r) = Ok ns r"
proof -
  obtain n ns' where ns: "ns = n # ns'" using assms(1) by (cases ns) auto
  let ?r = "concat (map (\<lambda>n. CHR '','' # CHR '' '' # n) ns') @ r"
  have "ends_word ?r" using assms(3) by (cases ns') simp_all
  then have "node_ref_rule sk (n @ ?r) = Ok n ?r" "node_ref_rule sk (CHR '' '' # n @ ?r) = Ok n ?r"
    using assms(2,4) ns by (auto simp: reading)
  then show "list_of node_ref_rule (lit '','') sk (join '', '' ns @ r) = Ok ns r"
    "list_of node_ref_rule (lit '','') sk (CHR '' '' # join '', '' ns @ r) = Ok ns r"
    using list_more_read [OF _ assms(3,4,5), of ns'] assms(2) ns
    by (simp_all add: list_of_def join_commas)
qed

text \<open>\<open>node_name\<close> and \<open>transmitter\<close> read the same.\<close>

lemma node_rules_eq: "node_ref_rule = node_name_rule"
  by (rule ext, rule ext) (auto simp: node_ref_rule_def node_name_rule_def name_rule_def rule_def split: outcome.split)

lemma blank_comma: "lit '','' blank_skipper (CHR 0x0A # r) = Fail (CHR 0x0A # r)"
  by (simp add: lit_def prim_def)

lemma default_comma: "lit '','' default_skipper (CHR '';'' # r) = Fail (CHR '';'' # r)"
  by (simp add: lit_def prim_def is_space_def)

section \<open>Signals and messages\<close>

definition multiplexer_ast :: "SignalImpl \<Rightarrow> string option" where
  "multiplexer_ast s =
     (case sig_multiplexer_indicator s of
        MuxSwitch \<Rightarrow> Some ''M''
      | MuxValue \<Rightarrow> Some (CHR ''m'' # show_u64 (sig_multiplexer_switch_value s))
      | NoMux \<Rightarrow> None)"

definition signal_ast :: "(string \<Rightarrow> (double \<times> string) option) \<Rightarrow> SignalImpl \<Rightarrow> G_Signal" where
  "signal_ast dbl s =
     \<lparr>g_sig_name = sig_name s, g_sig_multiplexer_indicator = multiplexer_ast s,
      g_sig_start_bit = sig_start_bit s, g_sig_signal_size = sig_bit_size s,
      g_sig_byte_order = hd (print_byte_order (sig_byte_order s)),
      g_sig_value_type = hd (print_value_type_sign (sig_value_type s)),
      g_sig_factor = read_back dbl (show_double (sig_factor s)), g_sig_offset = read_back dbl (show_double (sig_offset s)),
      g_sig_minimum = read_back dbl (show_double (sig_minimum s)), g_sig_maximum = read_back dbl (show_double (sig_maximum s)),
      g_sig_unit = sig_unit s, g_sig_receivers = sig_receivers s\<rparr>"

text \<open>A signal without receivers cannot be read back.\<close>

definition printable_signal ::
    "(string \<Rightarrow> (double \<times> string) option) \<Rightarrow> SignalImpl \<Rightarrow> bool" where
  "printable_signal dbl s \<longleftrightarrow>
     is_identifier (sig_name s) \<and> plain (sig_unit s) \<and> plain (sig_comment s) \<and>
     sig_receivers s \<noteq> [] \<and> list_all is_identifier (sig_receivers s) \<and>
     list_all (\<lambda>d. readable dbl (show_double d)) [sig_factor s, sig_offset s, sig_minimum s, sig_maximum s] \<and>
     printable_veds (sig_value_encoding_descriptions s)"

lemma receivers_join: "rs \<noteq> [] \<Longrightarrow> butlast (butlast (concat (map (\<lambda>n. n @ '', '') rs))) = join '', '' rs"
proof (induction rs)
  case (Cons n rs)
  then show ?case
    by (cases rs) (auto simp: butlast_append)
qed simp

lemma multiplexer_read:
  "rule (opt C_identifier_rule) default_skipper (CHR '' '' # print_multiplexer s @ CHR '':'' # r) =
     Ok (multiplexer_ast s)
       (if sig_multiplexer_indicator s = NoMux then CHR '':'' # r else CHR '' '' # CHR '':'' # r)"
proof -
  have "is_identifier (CHR ''m'' # show_u64 w)" for w
    using show_nat_digits by (auto simp: is_identifier_def show_u64_def word_char_def is_letter_def list_all_iff)
  moreover have "is_identifier ''M''"
    by (simp add: is_identifier_def word_char_def is_letter_def)
  ultimately have
    "C_identifier_rule default_skipper (''M'' @ CHR '' '' # r) = Ok ''M'' (CHR '' '' # r)"
    and "C_identifier_rule default_skipper ((CHR ''m'' # show_u64 w) @ CHR '' '' # r) =
       Ok (CHR ''m'' # show_u64 w) (CHR '' '' # r)" for w r
    using C_identifier_read(1) [of "''M''" "CHR '' '' # r"]
      C_identifier_read(1) [of "CHR ''m'' # show_u64 w" "CHR '' '' # r"] by simp_all
  moreover have "C_identifier_rule default_skipper (CHR '':'' # r) = Fail (CHR '':'' # r)"
    by (rule C_identifier_Fail) (simp_all add: is_space_def is_letter_def)
  ultimately show ?thesis
    by (cases "sig_multiplexer_indicator s")
      (simp_all add: opt_def C_identifier_space print_multiplexer_def multiplexer_ast_def)
qed

end
