(* ===== verification/Statements.thy ===== *)
theory Statements
  imports Reread
begin

text \<open>
  Each statement of a DBC file is read back as the writer has written it.
\<close>

section \<open>Signals and messages\<close>

lemma is_letter_simps [simp]: "\<not> is_letter (CHR '':'')" "\<not> is_letter (CHR '';'')"
  by (simp_all add: is_letter_def)

lemma unit_receivers_read [reading]:
  assumes "plain u" and "rs \<noteq> []" and "list_all is_identifier rs"
  shows "unit_receivers default_skipper
    (CHR '' '' # quoted u @ CHR '' '' # join '', '' rs @ CHR 0x0A # r) = Ok (u, rs) r"
  using assms
  by (simp add: unit_receivers_def px_simps reading names_list_read blank_comma cong: on_ok_weak)

lemma colon_read [reading]:
  "lit '':'' default_skipper (if b then CHR '':'' # r else CHR '' '' # CHR '':'' # r) = Ok '':'' r"
  by (simp add: reading is_space_def)

lemma signal_reads:
  assumes "printable_signal dbl s"
  shows "reads (signal_rule dbl) (print_signal s) (signal_ast dbl s)"
proof (rule readsI)
  fix r
  show "yields (signal_rule dbl) (dropWhile is_space (print_signal s) @ r) (signal_ast dbl s) r"
    using assms
    by (simp add: yields_def signal_rule_def px_simps print_signal_def newline_Cons tab_Cons
        printable_signal_def signal_ast_def reading receivers_join is_space_def
        multiplexer_read cong: on_ok_weak)
qed (use assms in \<open>auto simp: signal_rule_def print_signal_def tab_Cons is_space_def intro!: skips\<close>)

text \<open>No statement with the keyword \<open>w\<close> begins here.\<close>

definition no_statement :: "string \<Rightarrow> string \<Rightarrow> bool" where
  "no_statement w r \<longleftrightarrow> first_word r \<noteq> w \<and> no_slash r"

definition message_ast :: "(string \<Rightarrow> (double \<times> string) option) \<Rightarrow> MessageImpl \<Rightarrow> G_Message" where
  "message_ast dbl m =
     \<lparr>g_msg_id = msg_id m, g_msg_name = msg_name m, g_msg_size = msg_message_size m,
      g_msg_transmitter = msg_transmitter m, g_msg_signals = map (signal_ast dbl) (msg_signals m)\<rparr>"

definition printable_message :: "(string \<Rightarrow> (double \<times> string) option) \<Rightarrow> MessageImpl \<Rightarrow> bool" where
  "printable_message dbl m \<longleftrightarrow>
     is_identifier (msg_name m) \<and> is_identifier (msg_transmitter m) \<and>
     list_all (printable_signal dbl) (msg_signals m)"

lemma signals_read:
  assumes "list_all (printable_signal dbl) sigs" and "forward dbl" and "no_statement ''SG_'' r"
  shows "\<exists>r'. many (signal_rule dbl) default_skipper (concat (map print_signal sigs) @ r) =
     Ok (map (signal_ast dbl) sigs) r' \<and> same r' r"
proof -
  have "stops (signal_rule dbl) r"
    unfolding signal_rule_def using assms(3)
    by (intro stops_rule stops_keyword) (simp_all add: no_statement_def word_char_def is_letter_def is_digit_def)
  then have "yields (many (signal_rule dbl)) (concat (map print_signal sigs) @ r)
      (map (signal_ast dbl) sigs) r"
    using assms by (intro many_yields [OF items_map] taking)
      (auto simp: list_all_iff intro: signal_reads)
  then show ?thesis by (simp add: yields_def)
qed

lemma message_reads:
  assumes "printable_message dbl m" and "forward dbl"
  shows "reads_before (no_statement ''SG_'') (message_rule dbl) (print_message m) (message_ast dbl m)"
proof (rule readsI)
  fix r assume "no_statement ''SG_'' r"
  then obtain r' where "many (signal_rule dbl) default_skipper
      (concat (map print_signal (msg_signals m)) @ r) = Ok (map (signal_ast dbl) (msg_signals m)) r'"
    and "same r' r"
    using signals_read assms by (metis printable_message_def)
  then show "yields (message_rule dbl) (dropWhile is_space (print_message m) @ r) (message_ast dbl m) r"
    using assms(1)
    by (simp add: yields_def message_rule_def px_simps print_message_def newline_Cons
        printable_message_def message_ast_def reading is_space_def cong: on_ok_weak)
qed (auto simp: message_rule_def print_message_def is_space_def intro!: skips)

section \<open>Message transmitters\<close>

text \<open>A message without further transmitters has no statement.\<close>

definition message_transmitter_asts :: "MessageImpl \<Rightarrow> G_MessageTransmitter list" where
  "message_transmitter_asts m =
     (if msg_message_transmitters m = [] then []
      else [\<lparr>g_mt_id = msg_id m, g_mt_transmitters = msg_message_transmitters m\<rparr>])"

lemma message_transmitter_reads:
  assumes "list_all is_identifier (msg_message_transmitters m)" and ne: "msg_message_transmitters m \<noteq> []"
  shows "reads message_transmitter_rule (print_message_transmitters m)
     \<lparr>g_mt_id = msg_id m, g_mt_transmitters = msg_message_transmitters m\<rparr>"
proof -
  obtain n ns where ns: "msg_message_transmitters m = n # ns"
    using ne by (cases "msg_message_transmitters m") auto
  have "(@) '', '' = (\<lambda>n. CHR '','' # CHR '' '' # n)" by (rule ext) simp
  then show ?thesis
    using assms(1) names_list_read(2) [of "n # ns" "CHR '';'' # CHR 0x0A # _" default_skipper]
    unfolding ns
    by (intro readsI) (auto simp: yields_def message_transmitter_rule_def px_simps
        print_message_transmitters_def newline_Cons ns join_commas reading is_space_def default_comma
        intro!: skips cong: on_ok_weak)
qed

section \<open>Environment variables\<close>

definition environment_variable_ast ::
    "(string \<Rightarrow> (double \<times> string) option) \<Rightarrow> EnvironmentVariableImpl \<Rightarrow> G_EnvironmentVariable" where
  "environment_variable_ast dbl ev =
     \<lparr>g_ev_name = ev_name ev,
      g_ev_var_type = (case ev_var_type ev of VT_Integer \<Rightarrow> 0 | VT_Float \<Rightarrow> 1 | VT_String \<Rightarrow> 2 | VT_Data \<Rightarrow> 0),
      g_ev_minimum = read_back dbl (show_double (ev_minimum ev)),
      g_ev_maximum = read_back dbl (show_double (ev_maximum ev)),
      g_ev_unit = ev_unit ev,
      g_ev_initial_value = read_back dbl (show_double (ev_initial_value ev)),
      g_ev_id = ev_ev_id ev, g_ev_access_type = print_access_type (ev_access_type ev),
      g_ev_access_nodes = ev_access_nodes ev\<rparr>"

text \<open>An environment variable without access nodes cannot be read back.\<close>

definition printable_environment_variable ::
    "(string \<Rightarrow> (double \<times> string) option) \<Rightarrow> EnvironmentVariableImpl \<Rightarrow> bool" where
  "printable_environment_variable dbl ev \<longleftrightarrow>
     is_identifier (ev_name ev) \<and> plain (ev_unit ev) \<and> plain (ev_comment ev) \<and>
     ev_access_nodes ev \<noteq> [] \<and> list_all is_identifier (ev_access_nodes ev) \<and>
     list_all (\<lambda>d. readable dbl (show_double d)) [ev_minimum ev, ev_maximum ev, ev_initial_value ev] \<and>
     printable_veds (ev_value_encoding_descriptions ev)"

lemma var_type_read:
  "number_rule default_skipper
     ((case t of VT_Integer \<Rightarrow> ''0'' | VT_Float \<Rightarrow> ''1'' | VT_String \<Rightarrow> ''2'' | VT_Data \<Rightarrow> ''0'') @ CHR '' '' # r) =
   Ok (case t of VT_Integer \<Rightarrow> 0 | VT_Float \<Rightarrow> 1 | VT_String \<Rightarrow> 2 | VT_Data \<Rightarrow> 0) (CHR '' '' # r)"
  using number_read(2) [of "CHR '' '' # r" 0] number_read(2) [of "CHR '' '' # r" 1]
    number_read(2) [of "CHR '' '' # r" 2]
  by (cases t) (simp_all add: show_u64_def show_nat.simps digit_char_def char_of_def bit_0)

lemma access_type_identifier: "is_identifier (print_access_type a)"
  by (cases a) (simp_all add: print_access_type_def is_identifier_def word_char_def is_letter_def is_digit_def)

lemma environment_variable_reads:
  assumes "printable_environment_variable dbl ev"
  shows "reads (environment_variable_rule dbl) (print_environment_variable ev) (environment_variable_ast dbl ev)"
proof (rule readsI)
  fix r
  show "yields (environment_variable_rule dbl) (dropWhile is_space (print_environment_variable ev) @ r)
      (environment_variable_ast dbl ev) r"
    using assms
    by (simp add: yields_def environment_variable_rule_def px_simps print_environment_variable_def
        newline_Cons printable_environment_variable_def environment_variable_ast_def reading is_space_def
        var_type_read access_type_identifier names_list_read [unfolded node_rules_eq] default_comma
        cong: on_ok_weak)
qed (auto simp: environment_variable_rule_def print_environment_variable_def is_space_def intro!: skips)

text \<open>Only variables of type \<open>Data\<close> have a size.\<close>

definition environment_variable_data_asts :: "EnvironmentVariableImpl \<Rightarrow> G_EnvironmentVariableData list" where
  "environment_variable_data_asts ev =
     (if ev_var_type ev = VT_Data then [\<lparr>g_evd_name = ev_name ev, g_evd_size = ev_data_size ev\<rparr>] else [])"

lemma environment_variable_data_reads:
  assumes "is_identifier (ev_name ev)" and "ev_var_type ev = VT_Data"
  shows "reads environment_variable_data_rule (print_environment_variable_data ev)
     \<lparr>g_evd_name = ev_name ev, g_evd_size = ev_data_size ev\<rparr>"
proof (rule readsI)
  fix r
  show "yields environment_variable_data_rule (dropWhile is_space (print_environment_variable_data ev) @ r)
      \<lparr>g_evd_name = ev_name ev, g_evd_size = ev_data_size ev\<rparr> r"
    using assms
    by (simp add: yields_def environment_variable_data_rule_def px_simps
        print_environment_variable_data_def newline_Cons reading is_space_def cong: on_ok_weak)
qed (use assms in \<open>auto simp: environment_variable_data_rule_def print_environment_variable_data_def
    is_space_def intro!: skips\<close>)

end
