(* ===== verification/Lines.thy ===== *)
theory Lines
  imports Statements
begin

text \<open>
  The statements about objects declared before are read back: comments, attributes, value
  descriptions, signal groups, extended value types and multiplexer values.
\<close>

section \<open>Comments\<close>

lemma lit_quoted [reading]:
  "c \<noteq> CHR 0x22 \<Longrightarrow> lit (c # t) default_skipper (quoted s @ r) = Fail (quoted s @ r)"
  by (simp add: quoted_def dquote_Cons reading is_space_def)

lemmas comment_rules = comment_rule_def comment_node_rule_def comment_message_rule_def
  comment_signal_rule_def comment_env_var_rule_def comment_network_rule_def

lemma comment_evaluates:
  assumes "plain c"
  shows "yields comment_rule (''CM_ '' @ quoted c @ '';'' @ newline @ r) (G_CommentNetwork c) r"
    and "is_identifier n \<Longrightarrow>
      yields comment_rule (''CM_ BU_ '' @ n @ '' '' @ quoted c @ '';'' @ newline @ r) (G_CommentNode n c) r"
    and "yields comment_rule (''CM_ BO_ '' @ show_u64 i @ '' '' @ quoted c @ '';'' @ newline @ r)
      (G_CommentMessage i c) r"
    and "is_identifier n \<Longrightarrow>
      yields comment_rule (''CM_ SG_ '' @ show_u64 i @ '' '' @ n @ '' '' @ quoted c @ '';'' @ newline @ r)
        (G_CommentSignal i n c) r"
    and "is_identifier n \<Longrightarrow>
      yields comment_rule (''CM_ EV_ '' @ n @ '' '' @ quoted c @ '';'' @ newline @ r) (G_CommentEnvVar n c) r"
  using assms
  by (simp_all add: yields_def comment_rules px_simps newline_Cons reading is_space_def cong: on_ok_weak)

lemma comment_reads:
  assumes "\<And>r. yields comment_rule (''CM_ '' @ subject @ quoted c @ '';'' @ newline @ r) a r"
  shows "reads comment_rule (''CM_ '' @ subject @ quoted c @ '';'' @ newline) a"
  using assms by (intro readsI) (auto simp: is_space_def comment_rule_def intro!: skips)

section \<open>Values of attributes\<close>

text \<open>Integers are read back as floating-point numbers.\<close>

fun value_ast :: "(string \<Rightarrow> (double \<times> string) option) \<Rightarrow> value_t \<Rightarrow> variant_attr_value_t" where
  "value_ast dbl (V_int64 i) = AV_double (read_back dbl (show_i64 i))"
| "value_ast dbl (V_double d) = AV_double (read_back dbl (show_double d))"
| "value_ast dbl (V_string s) = AV_string s"

fun printable_value :: "(string \<Rightarrow> (double \<times> string) option) \<Rightarrow> value_t \<Rightarrow> bool" where
  "printable_value dbl (V_int64 i) \<longleftrightarrow> readable dbl (show_i64 i)"
| "printable_value dbl (V_double d) \<longleftrightarrow> readable dbl (show_double d)"
| "printable_value dbl (V_string s) \<longleftrightarrow> plain s"

lemma quoted_other [reading]:
  "no_number dbl \<Longrightarrow> prim dbl default_skipper (quoted s @ r) = Fail (quoted s @ r)"
  "int64 default_skipper (quoted s @ r) = Fail (quoted s @ r)"
  by (simp_all add: quoted_def dquote_Cons reading is_space_def is_digit_def)

lemma ends_print_value [simp]: "ends_word (print_value v @ r)" "ends_digits (print_value v @ r)"
  by (cases v; simp)+

lemma attribute_value_read:
  "printable_value dbl v \<Longrightarrow> no_number dbl \<Longrightarrow>
   attribute_value_rule dbl default_skipper (print_value v @ CHR '';'' # r) = Ok (value_ast dbl v) (CHR '';'' # r)"
  by (cases v) (simp_all add: attribute_value_rule_def px_simps reading cong: on_ok_weak)

section \<open>Definitions of attributes\<close>

fun value_type_ast :: "(string \<Rightarrow> (double \<times> string) option) \<Rightarrow> value_type_t \<Rightarrow> variant_attribute_value_t" where
  "value_type_ast dbl (ValueTypeInt a b) = G_AttributeValueTypeInt a b"
| "value_type_ast dbl (ValueTypeHex a b) = G_AttributeValueTypeHex a b"
| "value_type_ast dbl (ValueTypeFloat a b) =
     G_AttributeValueTypeFloat (read_back dbl (show_double a)) (read_back dbl (show_double b))"
| "value_type_ast dbl ValueTypeString = G_AttributeValueTypeString"
| "value_type_ast dbl (ValueTypeEnum vs) = G_AttributeValueTypeEnum vs"

text \<open>An enumeration without values cannot be read back.\<close>

fun printable_value_type :: "(string \<Rightarrow> (double \<times> string) option) \<Rightarrow> value_type_t \<Rightarrow> bool" where
  "printable_value_type dbl (ValueTypeFloat a b) \<longleftrightarrow> readable dbl (show_double a) \<and> readable dbl (show_double b)"
| "printable_value_type dbl (ValueTypeEnum vs) \<longleftrightarrow> vs \<noteq> [] \<and> list_all plain vs"
| "printable_value_type dbl _ \<longleftrightarrow> True"

definition attribute_definition_ast ::
    "(string \<Rightarrow> (double \<times> string) option) \<Rightarrow> AttributeDefinitionImpl \<Rightarrow> G_AttributeDefinition" where
  "attribute_definition_ast dbl ad =
     \<lparr>g_ad_object_type = (if ad_object_type ad = OT_Network then None
                          else Some (print_object_type (ad_object_type ad))),
      g_ad_name = ad_name ad, g_ad_value_type = value_type_ast dbl (ad_value_type ad)\<rparr>"

definition printable_attribute_definition ::
    "(string \<Rightarrow> (double \<times> string) option) \<Rightarrow> AttributeDefinitionImpl \<Rightarrow> bool" where
  "printable_attribute_definition dbl ad \<longleftrightarrow>
     plain (ad_name ad) \<and> printable_value_type dbl (ad_value_type ad)"

lemma quoted_more_read:
  assumes "list_all plain vs"
  shows "list_more quoted_string_rule (lit '','') default_skipper
     (concat (map (\<lambda>v. CHR '','' # CHR '' '' # quoted v) vs) @ CHR '';'' # r) = Ok vs (CHR '';'' # r)"
  using assms
proof (induction vs)
  case Nil
  then show ?case by (simp add: list_more.simps [of _ _ _ "CHR '';'' # r"] default_comma)
next
  case (Cons v vs)
  then show ?case
    by (simp add: list_more.simps [of _ _ _ "CHR '','' # _"] reading is_space_def)
qed

lemma quoted_list_read:
  assumes "list_all plain vs" and "vs \<noteq> []"
  shows "list_of quoted_string_rule (lit '','') default_skipper
     (CHR '' '' # join '', '' (map quoted vs) @ CHR '';'' # r) = Ok vs (CHR '';'' # r)"
  using assms quoted_more_read [of "tl vs" r]
  by (cases vs) (simp_all add: list_of_def join_commas reading comp_def cong: on_ok_weak)

lemmas value_type_rules = attribute_value_type_rule_def attribute_value_type_int_rule_def
  attribute_value_type_hex_rule_def attribute_value_type_float_rule_def
  attribute_value_type_string_rule_def attribute_value_type_enum_rule_def

lemma value_type_read:
  assumes "printable_value_type dbl vt"
  shows "attribute_value_type_rule dbl default_skipper (print_value_type vt @ CHR '';'' # r) =
     Ok (value_type_ast dbl vt) (CHR '';'' # r)"
  using assms
  by (cases vt) (simp_all add: value_type_rules px_simps reading is_space_def quoted_list_read cong: on_ok_weak)

lemma object_type_read:
  assumes "plain n"
  shows "object_type_rule default_skipper
     (if print_object_type ot \<noteq> [] then print_object_type ot @ CHR '' '' # quoted n @ r else quoted n @ r) =
     Ok (if ot = OT_Network then None else Some (print_object_type ot))
       (if ot = OT_Network then quoted n @ r else CHR '' '' # quoted n @ r)"
  by (cases ot) (simp_all add: object_type_rule_def print_object_type_def px_simps reading is_space_def
      cong: on_ok_weak)

lemma attribute_definition_reads:
  assumes "printable_attribute_definition dbl ad"
  shows "reads (attribute_definition_rule dbl) (newline @ print_attribute_definition ad)
     (attribute_definition_ast dbl ad)"
proof (rule readsI)
  fix r
  have "ad_object_type ad = OT_Network \<longleftrightarrow> print_object_type (ad_object_type ad) = []"
    by (cases "ad_object_type ad") (simp_all add: print_object_type_def)
  then show "yields (attribute_definition_rule dbl)
      (dropWhile is_space (newline @ print_attribute_definition ad) @ r) (attribute_definition_ast dbl ad) r"
    using assms object_type_read [of "ad_name ad" "ad_object_type ad"
        "print_value_type (ad_value_type ad) @ CHR '';'' # CHR 0x0A # r"]
    by (cases "ad_object_type ad = OT_Network")
      (simp_all add: yields_def attribute_definition_rule_def px_simps print_attribute_definition_def
        newline_Cons printable_attribute_definition_def attribute_definition_ast_def Let_def reading
        is_space_def value_type_read cong: on_ok_weak)
qed (auto simp: attribute_definition_rule_def print_attribute_definition_def Let_def is_space_def intro!: skips)

section \<open>Attributes\<close>

definition attribute_default_ast :: "(string \<Rightarrow> (double \<times> string) option) \<Rightarrow> AttributeImpl \<Rightarrow> G_Attribute" where
  "attribute_default_ast dbl a = \<lparr>g_attr_name = attr_name a, g_attr_value = value_ast dbl (attr_value a)\<rparr>"

definition printable_attribute :: "(string \<Rightarrow> (double \<times> string) option) \<Rightarrow> AttributeImpl \<Rightarrow> bool" where
  "printable_attribute dbl a \<longleftrightarrow> plain (attr_name a) \<and> printable_value dbl (attr_value a)"

text \<open>\<open>subject\<close>: the object that holds the attribute.\<close>

definition attribute_line :: "string \<Rightarrow> string \<Rightarrow> AttributeImpl \<Rightarrow> string" where
  "attribute_line cmd subject a =
     newline @ cmd @ '' '' @ quoted (attr_name a) @ subject @ print_value (attr_value a) @ '';'' @ newline"

lemma attribute_default_reads:
  assumes "printable_attribute dbl a" and "no_number dbl"
  shows "reads (attribute_default_rule dbl) (attribute_line ''BA_DEF_DEF_'' [] a) (attribute_default_ast dbl a)"
proof (rule readsI)
  fix r
  show "yields (attribute_default_rule dbl) (dropWhile is_space (attribute_line ''BA_DEF_DEF_'' [] a) @ r)
      (attribute_default_ast dbl a) r"
    using assms
    by (simp add: yields_def attribute_default_rule_def px_simps attribute_line_def newline_Cons
        printable_attribute_def attribute_default_ast_def reading is_space_def lexeme_def space_read
        attribute_value_read cong: on_ok_weak)
qed (auto simp: attribute_default_rule_def attribute_line_def is_space_def intro!: skips)

lemmas attribute_rules = attribute_value_ent_rule_def attribute_value_ent_network_rule_def
  attribute_value_ent_node_rule_def attribute_value_ent_message_rule_def
  attribute_value_ent_signal_rule_def attribute_value_ent_env_var_rule_def

text \<open>No value of an attribute begins with the keyword of an object.\<close>

lemma attribute_value_other [reading]:
  assumes "no_number dbl" and "c \<in> {CHR ''B'', CHR ''E'', CHR ''S''}"
  shows "attribute_value_rule dbl default_skipper (CHR '' '' # c # r) = Fail (c # r)"
proof -
  have "prim dbl default_skipper (CHR '' '' # c # r) = Fail (c # r)"
    using assms by (auto simp: reading)
  moreover have "int64 default_skipper (c # r) = Fail (c # r)"
    using assms(2) by (intro int64_read) (auto simp: is_space_def is_digit_def)
  moreover have "quoted_string_rule default_skipper (c # r) = Fail (c # r)"
    using assms(2) by (intro quoted_string_read) (auto simp: is_space_def dquote_Cons)
  ultimately show ?thesis
    by (simp add: attribute_value_rule_def px_simps)
qed

lemma attribute_evaluates:
  assumes "printable_attribute dbl a" and "no_number dbl"
  shows "yields (attribute_value_ent_rule dbl) (dropWhile is_space (attribute_line ''BA_'' [] a) @ r)
      (G_AttributeNetwork (attr_name a) (value_ast dbl (attr_value a))) r"
    and "is_identifier n \<Longrightarrow>
      yields (attribute_value_ent_rule dbl) (dropWhile is_space (attribute_line ''BA_'' ('' BU_ '' @ n) a) @ r)
        (G_AttributeNode (attr_name a) n (value_ast dbl (attr_value a))) r"
    and "yields (attribute_value_ent_rule dbl)
      (dropWhile is_space (attribute_line ''BA_'' ('' BO_ '' @ show_u64 m) a) @ r)
      (G_AttributeMessage (attr_name a) m (value_ast dbl (attr_value a))) r"
    and "is_identifier n \<Longrightarrow>
      yields (attribute_value_ent_rule dbl)
        (dropWhile is_space (attribute_line ''BA_'' ('' SG_ '' @ show_u64 m @ '' '' @ n) a) @ r)
        (G_AttributeSignal (attr_name a) m n (value_ast dbl (attr_value a))) r"
    and "is_identifier n \<Longrightarrow>
      yields (attribute_value_ent_rule dbl) (dropWhile is_space (attribute_line ''BA_'' ('' EV_ '' @ n) a) @ r)
        (G_AttributeEnvVar (attr_name a) n (value_ast dbl (attr_value a))) r"
  using assms
  by (simp_all add: yields_def attribute_rules px_simps attribute_line_def newline_Cons
      printable_attribute_def reading is_space_def attribute_value_read cong: on_ok_weak)

lemma attribute_reads:
  assumes "\<And>r. yields (attribute_value_ent_rule dbl)
     (dropWhile is_space (attribute_line ''BA_'' subject a) @ r) v r"
  shows "reads (attribute_value_ent_rule dbl) (attribute_line ''BA_'' subject a) v"
  using assms by (intro readsI) (auto simp: attribute_value_ent_rule_def attribute_line_def is_space_def intro!: skips)

section \<open>Value descriptions\<close>

lemma ends_veds [simp]: "ends_digits (print_veds veds @ CHR '';'' # r)"
  by (cases veds) (simp_all add: print_veds_def)

lemma identifier_no_number [reading]:
  assumes "is_identifier n"
  shows "number_rule default_skipper (n @ r) = Fail (n @ r)"
proof -
  have "ends_digits (n @ r)"
    using assms by (cases n) (auto simp: is_identifier_def is_letter_def is_digit_def Let_def)
  then show ?thesis using assms by (simp add: reading)
qed

lemma skipping_alt_keyword [skips]:
  assumes "skipping q"
  shows "skipping (alt (rule (seq (keyword t p) f)) q)"
  unfolding skipping_def
proof (intro allI impI)
  fix c s a r
  assume c: "is_space c" and s: "alt (rule (seq (keyword t p) f)) q default_skipper s = Ok a r"
  have q: "q default_skipper s = Ok a r \<Longrightarrow> q default_skipper (c # s) = Ok a r"
    using assms c by (simp add: skipping_def)
  show "alt (rule (seq (keyword t p) f)) q default_skipper (c # s) = Ok a r"
    using s q c
    by (auto simp: alt_def rule_def seq_def on_ok_def keyword_space split: outcome.splits)
qed

lemmas description_rules = value_description_sig_env_var_rule_def value_description_signal_rule_def
  value_description_env_var_rule_def

lemma signal_description_reads:
  assumes "is_identifier n" and "printable_veds veds" and "veds \<noteq> []"
  shows "reads value_description_sig_env_var_rule
     (print_value_descriptions (show_u64 i @ '' '' @ n) veds)
     (G_ValueDescriptionSignal i n (g_descriptions (veds_ast veds)))"
proof (rule readsI)
  fix r
  show "yields value_description_sig_env_var_rule
      (dropWhile is_space (print_value_descriptions (show_u64 i @ '' '' @ n) veds) @ r)
      (G_ValueDescriptionSignal i n (g_descriptions (veds_ast veds))) r"
    using assms
    by (simp add: yields_def description_rules px_simps print_value_descriptions_def newline_Cons
        reading is_space_def veds_read cong: on_ok_weak)
qed (use assms in \<open>auto simp: description_rules print_value_descriptions_def is_space_def
    intro!: skips\<close>)

lemma env_var_description_reads:
  assumes "is_identifier n" and "printable_veds veds" and "veds \<noteq> []"
  shows "reads value_description_sig_env_var_rule (print_value_descriptions n veds)
     (G_ValueDescriptionEnvVar n (g_descriptions (veds_ast veds)))"
proof (rule readsI)
  fix r
  show "yields value_description_sig_env_var_rule
      (dropWhile is_space (print_value_descriptions n veds) @ r)
      (G_ValueDescriptionEnvVar n (g_descriptions (veds_ast veds))) r"
    using assms
    by (simp add: yields_def description_rules px_simps print_value_descriptions_def newline_Cons
        reading is_space_def veds_read cong: on_ok_weak)
qed (use assms in \<open>auto simp: description_rules print_value_descriptions_def is_space_def
    intro!: skips\<close>)

section \<open>Signal groups, extended value types and multiplexer values\<close>

definition signal_group_ast :: "SignalGroupImpl \<Rightarrow> G_SignalGroup" where
  "signal_group_ast sg =
     \<lparr>g_sg_message_id = sg_message_id sg, g_sg_signal_group_name = sg_name sg,
      g_sg_repetitions = sg_repetitions sg, g_sg_signal_names = sg_signal_names sg\<rparr>"

definition printable_signal_group :: "SignalGroupImpl \<Rightarrow> bool" where
  "printable_signal_group sg \<longleftrightarrow> is_identifier (sg_name sg) \<and> list_all is_identifier (sg_signal_names sg)"

lemma group_names_read:
  assumes "list_all is_identifier ns"
  shows "many C_identifier_rule default_skipper (concat (map (\<lambda>n. CHR '' '' # n) ns) @ CHR '';'' # r) =
     Ok ns (CHR '';'' # r)"
  using assms
proof (induction ns)
  case Nil
  then show ?case
    by (simp add: many.simps [of _ _ "CHR '';'' # r"] reading is_space_def is_letter_def)
next
  case (Cons n ns)
  moreover have "ends_word (concat (map (\<lambda>n. CHR '' '' # n) ns) @ CHR '';'' # r)"
    by (cases ns) simp_all
  ultimately show ?case
    by (simp add: many.simps [of _ _ "CHR '' '' # _"] reading)
qed

lemma signal_group_reads:
  assumes "printable_signal_group sg"
  shows "reads signal_group_rule (print_signal_group sg) (signal_group_ast sg)"
proof (rule readsI)
  fix r
  have "(@) '' '' = (\<lambda>n. CHR '' '' # n)" by (rule ext) simp
  then show "yields signal_group_rule (dropWhile is_space (print_signal_group sg) @ r) (signal_group_ast sg) r"
    using assms
    by (simp add: yields_def signal_group_rule_def px_simps print_signal_group_def newline_Cons
        printable_signal_group_def signal_group_ast_def reading is_space_def group_names_read
        cong: on_ok_weak)
qed (auto simp: signal_group_rule_def print_signal_group_def is_space_def intro!: skips)

definition extended_value_type_asts :: "MessageImpl \<Rightarrow> SignalImpl \<Rightarrow> G_SignalExtendedValueType list" where
  "extended_value_type_asts m s =
     (case sig_extended_value_type s of
        EVT_Integer \<Rightarrow> []
      | EVT_Float \<Rightarrow> [\<lparr>g_sev_message_id = msg_id m, g_sev_signal_name = sig_name s, g_sev_value = 1\<rparr>]
      | EVT_Double \<Rightarrow> [\<lparr>g_sev_message_id = msg_id m, g_sev_signal_name = sig_name s, g_sev_value = 2\<rparr>])"

lemma extended_value_type_reads:
  assumes "is_identifier (sig_name s)" and "extended_value_type_asts m s = [a]"
  shows "reads signal_extended_value_type_rule (print_extended_value_type m s) a"
proof (rule readsI)
  fix r
  show "yields signal_extended_value_type_rule (dropWhile is_space (print_extended_value_type m s) @ r) a r"
    using assms
    by (cases "sig_extended_value_type s")
      (simp_all add: yields_def signal_extended_value_type_rule_def px_simps
        print_extended_value_type_def newline_Cons extended_value_type_asts_def reading is_space_def
        lexeme_def skipper_read cong: on_ok_weak)
next
  show "skipping signal_extended_value_type_rule"
    by (auto simp: signal_extended_value_type_rule_def intro!: skips)
  show "dropWhile is_space (print_extended_value_type m s) \<noteq> []"
    using assms by (cases "sig_extended_value_type s")
      (simp_all add: print_extended_value_type_def extended_value_type_asts_def is_space_def)
qed

text \<open>Multiplexer values without ranges cannot be read back.\<close>

definition multiplexer_value_ast ::
    "MessageImpl \<Rightarrow> SignalImpl \<Rightarrow> SignalMultiplexerValueImpl \<Rightarrow> G_SignalMultiplexerValue" where
  "multiplexer_value_ast m s smv =
     \<lparr>g_smv_message_id = msg_id m, g_smv_signal_name = sig_name s, g_smv_switch_name = smv_switch_name smv,
      g_smv_value_ranges =
        map (\<lambda>r. \<lparr>g_range_from = range_from r, g_range_to = range_to r\<rparr>) (smv_value_ranges smv)\<rparr>"

definition printable_multiplexer_value :: "SignalMultiplexerValueImpl \<Rightarrow> bool" where
  "printable_multiplexer_value smv \<longleftrightarrow> is_identifier (smv_switch_name smv) \<and> smv_value_ranges smv \<noteq> []"

abbreviation range_text :: "Range \<Rightarrow> string" where
  "range_text r \<equiv> CHR '' '' # show_u64 (range_from r) @ CHR ''-'' # show_u64 (range_to r)"

abbreviation range_ast :: "Range \<Rightarrow> G_Range" where
  "range_ast r \<equiv> \<lparr>g_range_from = range_from r, g_range_to = range_to r\<rparr>"

lemma ranges_text:
  "butlast (concat (map (\<lambda>r. '' '' @ show_u64 (range_from r) @ ''-'' @ show_u64 (range_to r) @ '','') (x # rs))) =
   range_text x @ concat (map (\<lambda>r. CHR '','' # range_text r) rs)"
  by (induction rs arbitrary: x) (simp_all add: butlast_append)

lemma range_read:
  "ends_digits r \<Longrightarrow> range_rule default_skipper (range_text x @ r) = Ok (range_ast x) r"
  by (simp add: range_rule_def px_simps reading is_space_def cong: on_ok_weak)

lemma ranges_more_read:
  "list_more range_rule (lit '','') default_skipper
     (concat (map (\<lambda>r. CHR '','' # range_text r) rs) @ CHR '';'' # r) = Ok (map range_ast rs) (CHR '';'' # r)"
proof (induction rs)
  case Nil
  then show ?case by (simp add: list_more.simps [of _ _ _ "CHR '';'' # r"] default_comma)
next
  case (Cons x rs)
  have "ends_digits (concat (map (\<lambda>r. CHR '','' # range_text r) rs) @ CHR '';'' # r)"
    by (cases rs) simp_all
  then show ?case
    using Cons range_read [of "concat (map (\<lambda>r. CHR '','' # range_text r) rs) @ CHR '';'' # r" x]
    by (simp add: list_more.simps [of _ _ _ "CHR '','' # _"] reading is_space_def)
qed

lemma ranges_read:
  assumes "rs \<noteq> []"
  shows "list_of range_rule (lit '','') default_skipper
     (butlast (concat (map (\<lambda>r. '' '' @ show_u64 (range_from r) @ ''-'' @ show_u64 (range_to r) @ '','') rs)) @
      CHR '';'' # r) = Ok (map range_ast rs) (CHR '';'' # r)"
proof -
  obtain x xs where rs: "rs = x # xs" using assms by (cases rs) auto
  have "ends_digits (concat (map (\<lambda>r. CHR '','' # range_text r) xs) @ CHR '';'' # r)"
    by (cases xs) simp_all
  then show ?thesis
    using range_read [of "concat (map (\<lambda>r. CHR '','' # range_text r) xs) @ CHR '';'' # r" x]
      ranges_more_read [of xs r]
    unfolding rs ranges_text by (simp add: list_of_def)
qed

lemma multiplexer_value_reads:
  assumes "is_identifier (sig_name s)" and "printable_multiplexer_value smv"
  shows "reads signal_multiplexer_value_rule (print_multiplexer_value m s smv) (multiplexer_value_ast m s smv)"
proof (rule readsI)
  fix r
  let ?ranges = "concat (map (\<lambda>r. '' '' @ show_u64 (range_from r) @ ''-'' @ show_u64 (range_to r) @ '','')
    (smv_value_ranges smv))"
  have "?ranges \<noteq> []"
    using assms(2) by (cases "smv_value_ranges smv") (simp_all add: printable_multiplexer_value_def)
  then have "print_multiplexer_value m s smv = ''SG_MUL_VAL_ '' @ show_u64 (msg_id m) @ '' '' @ sig_name s @ '' '' @
      smv_switch_name smv @ butlast ?ranges @ '';'' @ newline"
    by (simp add: print_multiplexer_value_def Let_def)
  moreover have "ends_word (butlast ?ranges @ CHR '';'' # CHR 0x0A # r)"
    using assms(2) ranges_text by (cases "smv_value_ranges smv") (simp_all add: printable_multiplexer_value_def)
  ultimately show "yields signal_multiplexer_value_rule
      (dropWhile is_space (print_multiplexer_value m s smv) @ r) (multiplexer_value_ast m s smv) r"
    using assms ranges_read [of "smv_value_ranges smv" "CHR 0x0A # r"]
    by (simp add: yields_def signal_multiplexer_value_rule_def px_simps newline_Cons
        printable_multiplexer_value_def multiplexer_value_ast_def reading is_space_def cong: on_ok_weak)
qed (auto simp: signal_multiplexer_value_rule_def print_multiplexer_value_def is_space_def intro!: skips)

end
