(* ===== verification/FileHead.thy ===== *)
theory FileHead
  imports Lines
begin

text \<open>
  The head of a file is read back, and each section ends where the keyword of a later one follows.
\<close>

section \<open>The keywords of sections\<close>

text \<open>The text begins with one of the keywords, or ends.\<close>

definition begins :: "string list \<Rightarrow> string \<Rightarrow> bool" where
  "begins ws r \<longleftrightarrow> no_slash r \<and> (first_word r = [] \<or> first_word r \<in> set ws)"

definition heads :: "string \<Rightarrow> string \<Rightarrow> bool" where
  "heads w t \<longleftrightarrow> (\<forall>ws r. begins ws r \<longrightarrow> begins (w # ws) (t @ r))"

lemma begins_Nil: "begins [] []"
  by (simp add: begins_def no_slash_def first_word_def)

lemma begins_weaken: "begins ws r \<Longrightarrow> begins (w # ws) r"
  by (auto simp: begins_def)

lemma heads_Nil: "heads w []"
  by (simp add: heads_def begins_weaken)

lemma headsD: "heads w t \<Longrightarrow> begins ws r \<Longrightarrow> begins (w # ws) (t @ r)"
  by (simp add: heads_def)

lemma heads_append: "heads w t \<Longrightarrow> heads w t' \<Longrightarrow> heads w (t @ t')"
proof -
  have "begins (w # w # ws) r = begins (w # ws) r" for ws r by (simp add: begins_def)
  then show "heads w t \<Longrightarrow> heads w t' \<Longrightarrow> heads w (t @ t')"
    unfolding heads_def append_assoc by metis
qed

lemma heads_concat: "(\<And>x. x \<in> set xs \<Longrightarrow> heads w (t x)) \<Longrightarrow> heads w (concat (map t xs))"
  by (induction xs) (auto intro: heads_Nil heads_append)

lemma headsI:
  assumes "take (Suc (length w)) (dropWhile is_space t) = w @ '' ''" and "list_all word_char w"
    and "w \<noteq> []"
  shows "heads w t"
  unfolding heads_def
proof (intro allI impI)
  fix ws r
  let ?t = "dropWhile is_space t"
  obtain u where t: "?t = w @ CHR '' '' # u"
    using assms(1) append_take_drop_id [of "Suc (length w)" ?t] by (metis append.assoc append_Cons append_Nil)
  have "\<exists>c\<in>set t. \<not> is_space c"
    using t assms(3) dropWhile_eq_Nil_conv [of is_space t] by auto
  then have tr: "dropWhile is_space (t @ r) = w @ CHR '' '' # u @ r"
    using t by (auto simp: dropWhile_append)
  have "takeWhile word_char (w @ CHR '' '' # u @ r) = w"
    using assms(2) by (auto simp: takeWhile_append list_all_iff)
  moreover have "solid (w @ CHR '' '' # u @ r)"
    using assms(2,3) word_char_solid [of "hd w"] by (cases w) auto
  ultimately show "begins (w # ws) (t @ r)"
    by (simp add: begins_def first_word_def no_slash_def tr)
qed

section \<open>The head of a file\<close>

definition bit_timing_ast :: "BitTimingImpl \<Rightarrow> G_BitTiming" where
  "bit_timing_ast bt =
     (if bt_baudrate bt \<noteq> 0 \<and> bt_BTR1 bt \<noteq> 0 \<and> bt_BTR2 bt \<noteq> 0
      then \<lparr>g_baudrate = bt_baudrate bt, g_BTR1 = bt_BTR1 bt, g_BTR2 = bt_BTR2 bt\<rparr>
      else \<lparr>g_baudrate = 0, g_BTR1 = 0, g_BTR2 = 0\<rparr>)"

lemma version_reads:
  assumes "plain v"
  shows "reads version_rule (''VERSION '' @ quoted v @ newline) \<lparr>g_version = v\<rparr>"
proof (rule readsI)
  fix r
  show "yields version_rule (dropWhile is_space (''VERSION '' @ quoted v @ newline) @ r) \<lparr>g_version = v\<rparr> r"
    using assms
    by (simp add: yields_def version_rule_def px_simps newline_Cons reading is_space_def cong: on_ok_weak)
qed (auto simp: version_rule_def is_space_def intro!: skips)

lemma strings_symbols:
  assumes "n \<in> set new_symbol_names"
  shows "strings new_symbol_names no_skip (n @ CHR 0x0A # r) = Ok n (CHR 0x0A # r)"
  using assms unfolding new_symbol_names_def
  by (elim set_ConsD [elim_format] disjE) (simp_all add: px_simps reading cong: on_ok_weak)

lemma strings_no_symbol:
  "strings new_symbol_names no_skip (CHR ''B'' # CHR ''S'' # r) = Fail (CHR ''B'' # CHR ''S'' # r)"
  by (simp add: new_symbol_names_def px_simps reading cong: on_ok_weak)

lemma symbol_reads:
  assumes "n \<in> set new_symbol_names"
  shows "reads new_symbol_rule (tab @ n @ newline) n"
proof (rule readsI)
  fix r
  have n: "solid (n @ r) \<and> n \<noteq> [] \<and> \<not> is_space (hd n)" for r
    using assms by (auto simp: new_symbol_names_def is_space_def)
  then have d: "dropWhile is_space (tab @ n @ newline) = n @ newline"
    by (cases n) (simp_all add: tab_Cons)
  then show "dropWhile is_space (tab @ n @ newline) \<noteq> []" by (metis append_is_Nil_conv n)
  show "yields new_symbol_rule (dropWhile is_space (tab @ n @ newline) @ r) n r"
    unfolding d using n strings_symbols [OF assms, of r] by (simp add: yields_def new_symbol_rule_def lexeme_def newline_Cons)
qed (auto simp: new_symbol_rule_def intro!: skips)

lemma takes_new_symbol: "takes 1 new_symbol_rule"
  unfolding new_symbol_rule_def by (intro taking) (simp_all add: new_symbol_names_def)

definition symbols_text :: "string list \<Rightarrow> string" where
  "symbols_text ns = ''NS_:'' @ newline @ concat (map (\<lambda>n. tab @ n @ newline) ns)"

definition behind_symbols :: "string \<Rightarrow> bool" where
  "behind_symbols r \<longleftrightarrow> take 4 r = ''BS_:''"

lemma behind_symbolsD: "behind_symbols r \<Longrightarrow> \<exists>r'. r = ''BS_:'' @ r'"
  using append_take_drop_id [of 4 r] by (metis behind_symbols_def)

lemma symbols_stop: "behind_symbols r \<Longrightarrow> stops new_symbol_rule r"
  unfolding fails_def
proof (intro allI impI)
  fix s assume "behind_symbols r" and s: "same s r"
  then obtain r' where r: "r = ''BS_:'' @ r'" using behind_symbolsD by blast
  have "no_slash s" "dropWhile is_space s = r"
    using s by (simp_all add: same_def r no_slash_def is_space_def)
  then have "new_symbol_rule default_skipper s = Fail r"
    using skip_all [of s] strings_no_symbol by (simp add: new_symbol_rule_def lexeme_def r)
  then show "\<exists>q. new_symbol_rule default_skipper s = Fail q \<and> same q r" by simp
qed

lemma symbols_read:
  assumes "set ns \<subseteq> set new_symbol_names" and "behind_symbols r"
  shows "yields (many new_symbol_rule) (newline @ concat (map (\<lambda>n. tab @ n @ newline) ns) @ r) ns r"
proof -
  have "items (\<lambda>_. True) new_symbol_rule (concat (map (\<lambda>n. tab @ n @ newline) ns)) (map (\<lambda>n. n) ns)"
    by (rule items_map) (use assms(1) in \<open>auto intro: symbol_reads\<close>)
  then show ?thesis
    using many_yields [OF _ takes_new_symbol symbols_stop [OF assms(2)]] by (simp add: newline_Cons)
qed

lemma new_symbols_reads:
  assumes "set ns \<subseteq> set new_symbol_names"
  shows "reads_before behind_symbols new_symbols_rule (symbols_text ns) ns"
proof (rule readsI)
  fix r assume "behind_symbols r"
  then obtain r' where "many new_symbol_rule default_skipper (newline @ concat (map (\<lambda>n. tab @ n @ newline) ns) @ r) =
      Ok ns r'" and "same r' r"
    using symbols_read [OF assms] by (auto simp: yields_def)
  then show "yields new_symbols_rule (dropWhile is_space (symbols_text ns) @ r) ns r"
    by (simp add: yields_def new_symbols_rule_def px_simps symbols_text_def reading is_space_def cong: on_ok_weak)
qed (auto simp: new_symbols_rule_def symbols_text_def is_space_def intro!: skips)

lemma opt_reads: "reads_before Q p t a \<Longrightarrow> reads_before Q (opt p) t (Some a)"
  by (fastforce simp: reads_before_def yields_def opt_def)

definition behind_bit_timing :: "string \<Rightarrow> bool" where
  "behind_bit_timing r \<longleftrightarrow> take 4 r = ''BU_:''"

lemma bit_timing_reads:
  "reads_before behind_bit_timing bit_timing_rule (print_bit_timing bt) (bit_timing_ast bt)"
proof (rule readsI)
  fix r assume "behind_bit_timing r"
  then obtain r' where r: "r = ''BU_:'' @ r'"
    using append_take_drop_id [of 4 r] by (metis behind_bit_timing_def)
  show "yields bit_timing_rule (dropWhile is_space (print_bit_timing bt) @ r) (bit_timing_ast bt) r"
  proof (cases "bt_baudrate bt \<noteq> 0 \<and> bt_BTR1 bt \<noteq> 0 \<and> bt_BTR2 bt \<noteq> 0")
    case True
    then show ?thesis
      by (simp add: yields_def bit_timing_rule_def px_simps print_bit_timing_def newline_Cons
          bit_timing_ast_def reading is_space_def cong: on_ok_weak)
  next
    case False
    then show ?thesis
      by (auto simp add: yields_def bit_timing_rule_def px_simps print_bit_timing_def newline_Cons
          bit_timing_ast_def reading is_space_def is_digit_def r cong: on_ok_weak)
  qed
qed (auto simp: bit_timing_rule_def print_bit_timing_def is_space_def intro!: skips)

lemma nodes_read:
  assumes "list_all is_identifier ns"
  shows "many node_rule blank_skipper (concat (map (\<lambda>n. CHR '' '' # n) ns) @ CHR 0x0A # r) =
     Ok (map (\<lambda>n. \<lparr>g_node_name = n\<rparr>) ns) (CHR 0x0A # r)"
  using assms
proof (induction ns)
  case Nil
  then show ?case
    by (simp add: many.simps [of _ _ "CHR 0x0A # r"] node_rule_def map_px_def reading)
next
  case (Cons n ns)
  moreover have "ends_word (concat (map (\<lambda>n. CHR '' '' # n) ns) @ CHR 0x0A # r)"
    by (cases ns) simp_all
  ultimately show ?case
    by (simp add: many.simps [of _ _ "CHR '' '' # _"] node_rule_def map_px_def reading)
qed

lemma nodes_reads:
  assumes "list_all is_identifier ns"
  shows "reads nodes_rule (''BU_:'' @ concat (map (\<lambda>n. '' '' @ n) ns) @ newline) (map (\<lambda>n. \<lparr>g_node_name = n\<rparr>) ns)"
proof (rule readsI)
  fix r
  have "(@) '' '' = (\<lambda>n. CHR '' '' # n)" by (rule ext) simp
  then show "yields nodes_rule (dropWhile is_space (''BU_:'' @ concat (map (\<lambda>n. '' '' @ n) ns) @ newline) @ r)
      (map (\<lambda>n. \<lparr>g_node_name = n\<rparr>) ns) r"
    using nodes_read [OF assms, of r]
    by (simp add: yields_def nodes_rule_def px_simps newline_Cons reading is_space_def cong: on_ok_weak)
qed (auto simp: nodes_rule_def is_space_def intro!: skips)

section \<open>Where sections end\<close>

lemma keyword_chars [simp]:
  "word_char (CHR ''A'')" "word_char (CHR ''B'')" "word_char (CHR ''C'')" "word_char (CHR ''D'')" "word_char (CHR ''E'')"
  "word_char (CHR ''F'')" "word_char (CHR ''G'')" "word_char (CHR ''H'')" "word_char (CHR ''I'')" "word_char (CHR ''J'')"
  "word_char (CHR ''K'')" "word_char (CHR ''L'')" "word_char (CHR ''M'')" "word_char (CHR ''N'')" "word_char (CHR ''O'')"
  "word_char (CHR ''P'')" "word_char (CHR ''Q'')" "word_char (CHR ''R'')" "word_char (CHR ''S'')" "word_char (CHR ''T'')"
  "word_char (CHR ''U'')" "word_char (CHR ''V'')" "word_char (CHR ''W'')" "word_char (CHR ''X'')" "word_char (CHR ''Y'')"
  "word_char (CHR ''Z'')" "word_char (CHR ''_'')"
  by (simp_all add: word_char_def is_letter_def is_digit_def)

text \<open>A keyword is not read where no word begins with it.\<close>

lemma lit_other:
  assumes "take (length t) (first_word s) \<noteq> t" and "list_all word_char t"
  shows "lit t no_skip (dropWhile is_space s) = Fail (dropWhile is_space s)"
proof -
  let ?s = "dropWhile is_space s"
  have "take (length t) (takeWhile word_char ?s) = t" if "take (length t) ?s = t"
  proof -
    have s: "?s = t @ drop (length t) ?s" using that by (metis append_take_drop_id)
    have "takeWhile word_char (t @ u) = t @ takeWhile word_char u" for u
      using assms(2) by (auto simp: takeWhile_append list_all_iff)
    then show ?thesis using s by (metis append_eq_conv_conj)
  qed
  then have "take (length t) ?s \<noteq> t" using assms(1) by (auto simp: first_word_def)
  then show ?thesis by (rule lit_read)
qed

lemma begins_first: "begins ws r \<Longrightarrow> same s r \<Longrightarrow> no_slash s \<and> first_word s \<in> insert [] (set ws)"
  using same_words [of s r] by (auto simp: begins_def)

lemma stops_statement:
  assumes "begins ws r" and "w \<notin> set ws" and "w \<noteq> []" and "list_all word_char w"
  shows "stops (seq (keyword w space) f) r" and "stops (seq (keyword w skipper) f) r"
  using begins_first [OF assms(1) same_refl] assms(2-4) by (auto intro!: stops_keyword)

lemma stops_rules:
  assumes "begins ws r"
  shows "''VAL_TABLE_'' \<notin> set ws \<Longrightarrow> stops value_table_rule r"
    and "''BO_'' \<notin> set ws \<Longrightarrow> stops (message_rule dbl) r"
    and "''BO_TX_BU_'' \<notin> set ws \<Longrightarrow> stops message_transmitter_rule r"
    and "''EV_'' \<notin> set ws \<Longrightarrow> stops (environment_variable_rule dbl) r"
    and "''ENVVAR_DATA_'' \<notin> set ws \<Longrightarrow> stops environment_variable_data_rule r"
    and "''SGTYPE_'' \<notin> set ws \<Longrightarrow> stops (signal_type_rule dbl) r"
    and "''CM_'' \<notin> set ws \<Longrightarrow> stops comment_rule r"
    and "''BA_DEF_'' \<notin> set ws \<Longrightarrow> stops (attribute_definition_rule dbl) r"
    and "''BA_'' \<notin> set ws \<Longrightarrow> stops (attribute_value_ent_rule dbl) r"
    and "''SIG_GROUP_'' \<notin> set ws \<Longrightarrow> stops signal_group_rule r"
    and "''SG_MUL_VAL_'' \<notin> set ws \<Longrightarrow> stops signal_multiplexer_value_rule r"
  unfolding value_table_rule_def message_rule_def message_transmitter_rule_def
    environment_variable_rule_def environment_variable_data_rule_def signal_type_rule_def
    comment_rule_def attribute_definition_rule_def attribute_value_ent_rule_def
    signal_group_rule_def signal_multiplexer_value_rule_def
  using assms by (auto intro!: stops_rule stops_statement)

lemma stops_default:
  assumes "begins ws r" and "''BA_DEF_DEF_'' \<notin> set ws" and "''BA_DEF_DEF_REL_'' \<notin> set ws"
  shows "stops (attribute_default_rule dbl) r"
proof -
  have "attribute_default_rule dbl default_skipper s = Fail s" if "same s r" for s
  proof -
    have w: "first_word s \<noteq> ''BA_DEF_DEF_''" "first_word s \<noteq> ''BA_DEF_DEF_REL_''" "no_slash s"
      using begins_first [OF assms(1) that] assms(2,3) by auto
    show ?thesis
      using lit_other_word [OF w(1)] lit_other_word [OF w(2)] skip_all [OF w(3)] space_word
      by (auto simp: attribute_default_rule_def lexeme_def seq_def alt_def)
  qed
  then show ?thesis by (auto simp: fails_def)
qed

lemma stops_description:
  assumes "begins ws r" and "''VAL_'' \<notin> set ws"
  shows "stops value_description_sig_env_var_rule r"
proof -
  have "value_description_sig_env_var_rule default_skipper s = Fail s" if "same s r" for s
  proof -
    have "first_word s \<noteq> ''VAL_''" "no_slash s"
      using begins_first [OF assms(1) that] assms(2) by auto
    then show ?thesis by (simp add: description_rules alt_def seq_def keyword_other)
  qed
  then show ?thesis by (auto simp: fails_def)
qed

lemma stops_extended:
  assumes "begins ws r" and "\<forall>w\<in>set ws. take (length ''SIG_VALTYPE_'') w \<noteq> ''SIG_VALTYPE_''"
  shows "stops signal_extended_value_type_rule r"
proof -
  have "signal_extended_value_type_rule default_skipper s = Fail s" if "same s r" for s
  proof -
    have "take (length ''SIG_VALTYPE_'') (first_word s) \<noteq> ''SIG_VALTYPE_''" and n: "no_slash s"
      using begins_first [OF assms(1) that] assms(2) by auto
    then have "lit ''SIG_VALTYPE_'' no_skip (dropWhile is_space s) = Fail (dropWhile is_space s)"
      by (intro lit_other) simp_all
    then show ?thesis
      using skip_all [OF n] by (simp add: signal_extended_value_type_rule_def lexeme_def seq_def)
  qed
  then show ?thesis by (auto simp: fails_def)
qed

end
