(* ===== verification/RoundTrip.thy ===== *)
theory RoundTrip
  imports FileHead
begin

text \<open>
  A file the DBC writer has written is read back: the syntax tree the parser delivers for it.
\<close>

section \<open>What can be read back\<close>

definition attributes_ok ::
    "(string \<Rightarrow> (double \<times> string) option) \<Rightarrow> EObjectType \<Rightarrow> AttributeImpl list \<Rightarrow> bool" where
  "attributes_ok dbl ot attrs \<longleftrightarrow> list_all (\<lambda>a. attr_object_type a = ot \<and> printable_attribute dbl a) attrs"

definition printable_node :: "(string \<Rightarrow> (double \<times> string) option) \<Rightarrow> NodeImpl \<Rightarrow> bool" where
  "printable_node dbl n \<longleftrightarrow>
     is_identifier (node_name n) \<and> plain (node_comment n) \<and> attributes_ok dbl OT_Node (node_attribute_values n)"

definition printable_message_lines :: "(string \<Rightarrow> (double \<times> string) option) \<Rightarrow> MessageImpl \<Rightarrow> bool" where
  "printable_message_lines dbl m \<longleftrightarrow>
     list_all is_identifier (msg_message_transmitters m) \<and> plain (msg_comment m) \<and>
     attributes_ok dbl OT_Message (msg_attribute_values m) \<and>
     list_all printable_signal_group (msg_signal_groups m) \<and>
     list_all (\<lambda>s. attributes_ok dbl OT_Signal (sig_attribute_values s) \<and>
       list_all printable_multiplexer_value (sig_signal_multiplexer_values s)) (msg_signals m)"

text \<open>
  Names are identifiers, strings hold no quotes and backslashes, numbers are read back, attributes
  belong to the objects that hold them, and no value table has a signal type.
\<close>

definition printable_network :: "(string \<Rightarrow> (double \<times> string) option) \<Rightarrow> NetworkImpl \<Rightarrow> bool" where
  "printable_network dbl net \<longleftrightarrow>
     plain (net_version net) \<and> plain (net_comment net) \<and>
     set (net_new_symbols net) \<subseteq> set new_symbol_names \<and>
     list_all (printable_node dbl) (net_nodes net) \<and>
     list_all (\<lambda>vt. printable_value_table vt \<and> vt_signal_type vt = None) (net_value_tables net) \<and>
     list_all (\<lambda>m. printable_message dbl m \<and> printable_message_lines dbl m) (net_messages net) \<and>
     list_all (\<lambda>ev. printable_environment_variable dbl ev \<and>
       attributes_ok dbl OT_EnvironmentVariable (ev_attribute_values ev)) (net_environment_variables net) \<and>
     list_all (printable_attribute_definition dbl) (net_attribute_definitions net) \<and>
     attributes_ok dbl OT_Network (net_attribute_defaults net) \<and>
     attributes_ok dbl OT_Network (net_attribute_values net)"

section \<open>The syntax tree of a file\<close>

definition value_table_asts :: "ValueTableImpl \<Rightarrow> G_ValueTable list" where
  "value_table_asts vt = (if vt_value_encoding_descriptions vt = [] then [] else [value_table_ast vt])"

text \<open>An empty comment is not written, nor is an empty list of value descriptions.\<close>

abbreviation unless_empty :: "'a list \<Rightarrow> 'b \<Rightarrow> 'b list" where
  "unless_empty xs a \<equiv> (if xs = [] then [] else [a])"

definition comment_asts :: "NetworkImpl \<Rightarrow> variant_comment_t list" where
  "comment_asts net =
     unless_empty (net_comment net) (G_CommentNetwork (net_comment net)) @
     concat (map (\<lambda>n. unless_empty (node_comment n) (G_CommentNode (node_name n) (node_comment n)))
       (net_nodes net)) @
     concat (map (\<lambda>m. unless_empty (msg_comment m) (G_CommentMessage (msg_id m) (msg_comment m)))
       (net_messages net)) @
     concat (map (\<lambda>m. concat (map (\<lambda>s. unless_empty (sig_comment s)
         (G_CommentSignal (msg_id m) (sig_name s) (sig_comment s))) (msg_signals m))) (net_messages net)) @
     concat (map (\<lambda>ev. unless_empty (ev_comment ev) (G_CommentEnvVar (ev_name ev) (ev_comment ev)))
       (net_environment_variables net))"

definition attribute_asts ::
    "(string \<Rightarrow> (double \<times> string) option) \<Rightarrow> NetworkImpl \<Rightarrow> variant_attribute_t list" where
  "attribute_asts dbl net =
     (let value = (\<lambda>a. value_ast dbl (attr_value a))
      in map (\<lambda>a. G_AttributeNetwork (attr_name a) (value a)) (net_attribute_values net) @
         concat (map (\<lambda>n. map (\<lambda>a. G_AttributeNode (attr_name a) (node_name n) (value a))
           (node_attribute_values n)) (net_nodes net)) @
         concat (map (\<lambda>m. map (\<lambda>a. G_AttributeMessage (attr_name a) (msg_id m) (value a))
           (msg_attribute_values m)) (net_messages net)) @
         concat (map (\<lambda>m. concat (map (\<lambda>s. map (\<lambda>a.
             G_AttributeSignal (attr_name a) (msg_id m) (sig_name s) (value a))
           (sig_attribute_values s)) (msg_signals m))) (net_messages net)) @
         concat (map (\<lambda>ev. map (\<lambda>a. G_AttributeEnvVar (attr_name a) (ev_name ev) (value a))
           (ev_attribute_values ev)) (net_environment_variables net)))"

definition description_asts :: "NetworkImpl \<Rightarrow> Description list" where
  "description_asts net =
     concat (map (\<lambda>m. concat (map (\<lambda>s. unless_empty (sig_value_encoding_descriptions s)
         (G_ValueDescriptionSignal (msg_id m) (sig_name s)
           (g_descriptions (veds_ast (sig_value_encoding_descriptions s))))) (msg_signals m)))
       (net_messages net)) @
     concat (map (\<lambda>ev. unless_empty (ev_value_encoding_descriptions ev)
         (G_ValueDescriptionEnvVar (ev_name ev)
           (g_descriptions (veds_ast (ev_value_encoding_descriptions ev))))) (net_environment_variables net))"

definition network_ast :: "(string \<Rightarrow> (double \<times> string) option) \<Rightarrow> NetworkImpl \<Rightarrow> G_Network" where
  "network_ast dbl net =
     \<lparr>g_net_version = \<lparr>g_version = net_version net\<rparr>, g_net_new_symbols = net_new_symbols net,
      g_net_bit_timing = Some (bit_timing_ast (net_bit_timing net)),
      g_net_nodes = map (\<lambda>n. \<lparr>g_node_name = node_name n\<rparr>) (net_nodes net),
      g_net_value_tables = concat (map value_table_asts (net_value_tables net)),
      g_net_messages = map (message_ast dbl) (net_messages net),
      g_net_message_transmitters = concat (map message_transmitter_asts (net_messages net)),
      g_net_environment_variables = map (environment_variable_ast dbl) (net_environment_variables net),
      g_net_environment_variable_datas =
        concat (map environment_variable_data_asts (net_environment_variables net)),
      g_net_signal_types = [], g_net_comments = comment_asts net,
      g_net_attribute_definitions = map (attribute_definition_ast dbl) (net_attribute_definitions net),
      g_net_attribute_defaults = map (attribute_default_ast dbl) (net_attribute_defaults net),
      g_net_attribute_values = attribute_asts dbl net,
      g_net_value_descriptions_sig_env_var = description_asts net,
      g_net_signal_groups = concat (map (\<lambda>m. map signal_group_ast (msg_signal_groups m)) (net_messages net)),
      g_net_signal_extended_value_types =
        concat (map (\<lambda>m. concat (map (extended_value_type_asts m) (msg_signals m))) (net_messages net)),
      g_net_signal_multiplexer_values =
        concat (map (\<lambda>m. concat (map (\<lambda>s. map (multiplexer_value_ast m s) (sig_signal_multiplexer_values s))
          (msg_signals m))) (net_messages net))\<rparr>"

section \<open>The text of the attributes\<close>

lemma those_Some: "those (map (\<lambda>x. Some (f x)) xs) = Some (map f xs)"
  by (induction xs) simp_all

lemma print_all_text:
  assumes "\<And>k. k < length xs \<Longrightarrow> f k (xs ! k) = Some (g (xs ! k))"
  shows "print_all f xs = Some (concat (map g xs))"
proof -
  have "map (\<lambda>(k, x). f k x) (enumerate 0 xs) = map (\<lambda>x. Some (g x)) xs"
    by (rule nth_equalityI) (simp_all add: nth_enumerate_eq assms)
  then show ?thesis by (simp add: print_all_def those_Some)
qed

lemma attribute_list_text:
  assumes "attributes_ok dbl ot attrs" and "\<And>i. i < length attrs \<Longrightarrow> stored_attr net (addr i) = Some (attrs ! i)"
    and "\<And>i. owner_type (addr i) = ot" and "\<And>i. attr_subject net (addr i) = subject"
    and "\<And>i. (case addr i of DefaultAttr _ \<Rightarrow> ''BA_DEF_DEF_'' | _ \<Rightarrow> ''BA_'') = cmd"
  shows "print_attribute_list net addr attrs = Some (concat (map (attribute_line cmd subject) attrs))"
proof -
  have "print_attribute_list net addr attrs =
      print_all (\<lambda>i a. do { t \<leftarrow> print_attribute net (addr i) a; Some (newline @ t) }) attrs"
    by (simp add: print_attribute_list_def print_all_def)
  also have "\<dots> = Some (concat (map (attribute_line cmd subject) attrs))"
  proof (rule print_all_text)
    fix i assume i: "i < length attrs"
    then have "attr_object_type (attrs ! i) = owner_type (addr i)"
      using assms(1,3) by (simp add: attributes_ok_def list_all_length)
    with print_attribute_line [OF assms(2) [OF i]]
    show "(do { t \<leftarrow> print_attribute net (addr i) (attrs ! i); Some (newline @ t) }) =
        Some (attribute_line cmd subject (attrs ! i))"
      by (simp add: attribute_line_def assms(4,5))
  qed
  finally show ?thesis .
qed

definition values_text :: "NetworkImpl \<Rightarrow> string" where
  "values_text net =
     concat (map (attribute_line ''BA_'' []) (net_attribute_values net)) @
     concat (map (\<lambda>n. concat (map (attribute_line ''BA_'' ('' BU_ '' @ node_name n))
       (node_attribute_values n))) (net_nodes net)) @
     concat (map (\<lambda>m. concat (map (attribute_line ''BA_'' ('' BO_ '' @ show_u64 (msg_id m)))
       (msg_attribute_values m))) (net_messages net)) @
     concat (map (\<lambda>m. concat (map (\<lambda>s. concat (map
         (attribute_line ''BA_'' ('' SG_ '' @ show_u64 (msg_id m) @ '' '' @ sig_name s))
         (sig_attribute_values s))) (msg_signals m))) (net_messages net)) @
     concat (map (\<lambda>ev. concat (map (attribute_line ''BA_'' ('' EV_ '' @ ev_name ev))
       (ev_attribute_values ev))) (net_environment_variables net))"

definition attributes_text :: "NetworkImpl \<Rightarrow> string" where
  "attributes_text net =
     concat (map (\<lambda>ad. newline @ print_attribute_definition ad) (net_attribute_definitions net)) @
     concat (map (attribute_line ''BA_DEF_DEF_'' []) (net_attribute_defaults net)) @ values_text net"

lemma printableD:
  assumes "printable_network dbl net"
  shows "attributes_ok dbl OT_Network (net_attribute_defaults net)"
    and "attributes_ok dbl OT_Network (net_attribute_values net)"
    and "n \<in> set (net_nodes net) \<Longrightarrow> printable_node dbl n"
    and "m \<in> set (net_messages net) \<Longrightarrow> printable_message dbl m \<and> printable_message_lines dbl m"
    and "m \<in> set (net_messages net) \<Longrightarrow> s \<in> set (msg_signals m) \<Longrightarrow>
      printable_signal dbl s \<and> attributes_ok dbl OT_Signal (sig_attribute_values s) \<and>
      list_all printable_multiplexer_value (sig_signal_multiplexer_values s)"
    and "ev \<in> set (net_environment_variables net) \<Longrightarrow> printable_environment_variable dbl ev \<and>
      attributes_ok dbl OT_EnvironmentVariable (ev_attribute_values ev)"
  using assms by (auto simp: printable_network_def printable_message_def printable_message_lines_def list_all_iff)

lemma attribute_section_text:
  assumes "printable_network dbl net"
  shows "print_attribute_section net = Some (attributes_text net)"
proof -
  note p = printableD [OF assms]
  have "print_attribute_list net DefaultAttr (net_attribute_defaults net) =
      Some (concat (map (attribute_line ''BA_DEF_DEF_'' []) (net_attribute_defaults net)))"
    by (rule attribute_list_text [OF p(1)]) (simp_all add: at_def)
  moreover have "print_attribute_list net NetworkAttr (net_attribute_values net) =
      Some (concat (map (attribute_line ''BA_'' []) (net_attribute_values net)))"
    by (rule attribute_list_text [OF p(2)]) (simp_all add: at_def)
  moreover have "print_all (\<lambda>k n. print_attribute_list net (NodeAttr k) (node_attribute_values n)) (net_nodes net) =
      Some (concat (map (\<lambda>n. concat (map (attribute_line ''BA_'' ('' BU_ '' @ node_name n))
        (node_attribute_values n))) (net_nodes net)))"
    by (rule print_all_text, rule attribute_list_text [where dbl = dbl and ot = OT_Node])
      (use p(3) in \<open>auto simp: at_def printable_node_def\<close>)
  moreover have "print_all (\<lambda>k m. print_attribute_list net (MessageAttr k) (msg_attribute_values m))
        (net_messages net) =
      Some (concat (map (\<lambda>m. concat (map (attribute_line ''BA_'' ('' BO_ '' @ show_u64 (msg_id m)))
        (msg_attribute_values m))) (net_messages net)))"
    by (rule print_all_text, rule attribute_list_text [where dbl = dbl and ot = OT_Message])
      (use p(4) in \<open>auto simp: at_def printable_message_lines_def\<close>)
  moreover have "print_all (\<lambda>k m. print_all (\<lambda>l s. print_attribute_list net (SignalAttr k l)
        (sig_attribute_values s)) (msg_signals m)) (net_messages net) =
      Some (concat (map (\<lambda>m. concat (map (\<lambda>s. concat (map
        (attribute_line ''BA_'' ('' SG_ '' @ show_u64 (msg_id m) @ '' '' @ sig_name s))
        (sig_attribute_values s))) (msg_signals m))) (net_messages net)))"
    by (rule print_all_text, rule print_all_text, rule attribute_list_text [where dbl = dbl and ot = OT_Signal])
      (use p(5) [OF nth_mem nth_mem] in \<open>auto simp: at_def\<close>)
  moreover have "print_all (\<lambda>k ev. print_attribute_list net (EnvVarAttr k) (ev_attribute_values ev))
        (net_environment_variables net) =
      Some (concat (map (\<lambda>ev. concat (map (attribute_line ''BA_'' ('' EV_ '' @ ev_name ev))
        (ev_attribute_values ev))) (net_environment_variables net)))"
    by (rule print_all_text, rule attribute_list_text [where dbl = dbl and ot = OT_EnvironmentVariable])
      (use p(6) in \<open>auto simp: at_def\<close>)
  ultimately show ?thesis
    by (simp add: print_attribute_section_def attributes_text_def values_text_def)
qed

section \<open>The sections of a file\<close>

abbreviation any :: "string \<Rightarrow> bool" where
  "any \<equiv> \<lambda>_. True"

lemma items_any: "reads p t a \<Longrightarrow> items any p t [a]"
  by (simp add: items_one)

lemma items_unless: "(\<not> b \<Longrightarrow> reads p t a) \<Longrightarrow> (b \<Longrightarrow> t = []) \<Longrightarrow> items any p t (if b then [] else [a])"
  by (simp add: items_any items_Nil)

lemmas list_allD = list_all_iff [THEN iffD1, THEN bspec]

lemma value_tables_items:
  assumes "list_all printable_value_table vts"
  shows "items any value_table_rule (concat (map print_value_table vts)) (concat (map value_table_asts vts))"
proof (rule items_concat)
  fix vt assume "vt \<in> set vts"
  then have "printable_value_table vt" using assms by (simp add: list_all_iff)
  then show "items any value_table_rule (print_value_table vt) (value_table_asts vt)"
    unfolding value_table_asts_def
    by (intro items_unless value_table_reads) (simp_all add: print_value_table_def)
qed

lemma message_behind:
  "no_statement ''SG_'' (print_message m @ r)"
  by (simp add: no_statement_def first_word_def no_slash_def print_message_def is_space_def)

lemma messages_items:
  assumes "list_all (printable_message dbl) ms" and "forward dbl"
  shows "items (no_statement ''SG_'') (message_rule dbl) (concat (map print_message ms))
     (concat (map (\<lambda>m. [message_ast dbl m]) ms))"
  by (intro items_concat items_one message_reads assms(2) message_behind)
    (use assms(1) in \<open>auto simp: list_all_iff\<close>)

lemma transmitters_items:
  assumes printable: "printable_network dbl net"
  shows "items any message_transmitter_rule (concat (map print_message_transmitters (net_messages net)))
     (concat (map message_transmitter_asts (net_messages net)))"
  unfolding message_transmitter_asts_def
  by (intro items_concat items_unless message_transmitter_reads)
    (use printableD(4) [OF printable] in \<open>auto simp: printable_message_lines_def print_message_transmitters_def\<close>)

lemma environment_variables_items:
  assumes printable: "printable_network dbl net"
  shows "items any (environment_variable_rule dbl)
     (concat (map print_environment_variable (net_environment_variables net)))
     (map (environment_variable_ast dbl) (net_environment_variables net))"
  by (intro items_map environment_variable_reads) (use printableD(6) [OF printable] in blast)

lemma environment_variable_datas_items:
  assumes printable: "printable_network dbl net"
  shows "items any environment_variable_data_rule
     (concat (map print_environment_variable_data (net_environment_variables net)))
     (concat (map environment_variable_data_asts (net_environment_variables net)))"
proof (rule items_concat)
  fix ev assume "ev \<in> set (net_environment_variables net)"
  then have "is_identifier (ev_name ev)"
    using printableD(6) [OF printable] by (auto simp: printable_environment_variable_def)
  then show "items any environment_variable_data_rule (print_environment_variable_data ev)
      (environment_variable_data_asts ev)"
    using environment_variable_data_reads [of ev]
    by (cases "ev_var_type ev = VT_Data")
      (auto simp: environment_variable_data_asts_def print_environment_variable_data_def
        intro: items_Nil items_any)
qed

lemma comment_items:
  assumes "\<And>r. yields comment_rule (''CM_ '' @ subject @ quoted c @ '';'' @ newline @ r) a r"
  shows "items any comment_rule (print_comment subject c) (unless_empty c a)"
  using comment_reads [OF assms] by (auto simp: print_comment_def intro: items_Nil items_any)

lemma comments_items:
  assumes printable: "printable_network dbl net"
  shows "items any comment_rule (print_comments net) (comment_asts net)"
  unfolding print_comments_def comment_asts_def
proof (intro items_append items_concat comment_items)
  note p = printableD(3-6) [OF printable]
  have net: "plain (net_comment net)" using printable by (simp add: printable_network_def)
  fix r
  show "yields comment_rule (''CM_ '' @ [] @ quoted (net_comment net) @ '';'' @ newline @ r)
      (G_CommentNetwork (net_comment net)) r"
    using comment_evaluates(1) [OF net, of r] by simp
  show "yields comment_rule (''CM_ '' @ (''BU_ '' @ node_name n @ '' '') @ quoted (node_comment n) @ '';'' @ newline @ r)
      (G_CommentNode (node_name n) (node_comment n)) r" if "n \<in> set (net_nodes net)" for n
    using comment_evaluates(2) [of "node_comment n" "node_name n" r] p(1) [OF that]
    by (simp add: printable_node_def)
  show "yields comment_rule (''CM_ '' @ (''BO_ '' @ show_u64 (msg_id m) @ '' '') @ quoted (msg_comment m) @ '';'' @ newline @ r)
      (G_CommentMessage (msg_id m) (msg_comment m)) r" if "m \<in> set (net_messages net)" for m
    using comment_evaluates(3) [of "msg_comment m" "msg_id m" r] p(2) [OF that]
    by (simp add: printable_message_lines_def)
  show "yields comment_rule (''CM_ '' @ (''SG_ '' @ show_u64 (msg_id m) @ '' '' @ sig_name s @ '' '') @
        quoted (sig_comment s) @ '';'' @ newline @ r)
      (G_CommentSignal (msg_id m) (sig_name s) (sig_comment s)) r"
    if "m \<in> set (net_messages net)" "s \<in> set (msg_signals m)" for m s
    using comment_evaluates(4) [of "sig_comment s" "sig_name s" "msg_id m" r] p(3) [OF that]
    by (simp add: printable_signal_def)
  show "yields comment_rule (''CM_ '' @ (''EV_ '' @ ev_name ev @ '' '') @ quoted (ev_comment ev) @ '';'' @ newline @ r)
      (G_CommentEnvVar (ev_name ev) (ev_comment ev)) r" if "ev \<in> set (net_environment_variables net)" for ev
    using comment_evaluates(5) [of "ev_comment ev" "ev_name ev" r] p(4) [OF that]
    by (simp add: printable_environment_variable_def)
qed

lemma definitions_items:
  assumes printable: "printable_network dbl net"
  shows "items any (attribute_definition_rule dbl)
     (concat (map (\<lambda>ad. newline @ print_attribute_definition ad) (net_attribute_definitions net)))
     (map (attribute_definition_ast dbl) (net_attribute_definitions net))"
  by (intro items_map attribute_definition_reads)
    (use printable in \<open>auto simp: printable_network_def list_all_iff\<close>)

lemma defaults_items:
  assumes printable: "printable_network dbl net" and no_number: "no_number dbl"
  shows "items any (attribute_default_rule dbl)
     (concat (map (attribute_line ''BA_DEF_DEF_'' []) (net_attribute_defaults net)))
     (map (attribute_default_ast dbl) (net_attribute_defaults net))"
  by (intro items_map attribute_default_reads no_number)
    (use printableD(1) [OF printable] in \<open>auto simp: attributes_ok_def list_all_iff\<close>)

lemma line_items:
  assumes "attributes_ok dbl ot attrs"
    and "\<And>a r. printable_attribute dbl a \<Longrightarrow>
      yields (attribute_value_ent_rule dbl) (dropWhile is_space (attribute_line ''BA_'' subject a) @ r) (f a) r"
  shows "items any (attribute_value_ent_rule dbl) (concat (map (attribute_line ''BA_'' subject) attrs)) (map f attrs)"
  by (intro items_map attribute_reads assms(2)) (use assms(1) in \<open>auto simp: attributes_ok_def list_all_iff\<close>)

lemma values_items:
  assumes printable: "printable_network dbl net" and no_number: "no_number dbl"
  shows "items any (attribute_value_ent_rule dbl) (values_text net) (attribute_asts dbl net)"
  unfolding values_text_def attribute_asts_def Let_def
proof (intro items_append items_concat)
  note p = printableD [OF printable]
  show "items any (attribute_value_ent_rule dbl) (concat (map (attribute_line ''BA_'' []) (net_attribute_values net)))
      (map (\<lambda>a. G_AttributeNetwork (attr_name a) (value_ast dbl (attr_value a))) (net_attribute_values net))"
    by (rule line_items [OF p(2)]) (rule attribute_evaluates(1) [OF _ no_number])
  show "items any (attribute_value_ent_rule dbl)
      (concat (map (attribute_line ''BA_'' ('' BU_ '' @ node_name n)) (node_attribute_values n)))
      (map (\<lambda>a. G_AttributeNode (attr_name a) (node_name n) (value_ast dbl (attr_value a)))
        (node_attribute_values n))" if "n \<in> set (net_nodes net)" for n
    using p(3) [OF that] attribute_evaluates(2) [OF _ no_number] unfolding printable_node_def
    by (intro line_items) auto
  show "items any (attribute_value_ent_rule dbl)
      (concat (map (attribute_line ''BA_'' ('' BO_ '' @ show_u64 (msg_id m))) (msg_attribute_values m)))
      (map (\<lambda>a. G_AttributeMessage (attr_name a) (msg_id m) (value_ast dbl (attr_value a)))
        (msg_attribute_values m))" if "m \<in> set (net_messages net)" for m
    using p(4) [OF that] attribute_evaluates(3) [OF _ no_number] unfolding printable_message_lines_def
    by (intro line_items) auto
  show "items any (attribute_value_ent_rule dbl)
      (concat (map (attribute_line ''BA_'' ('' SG_ '' @ show_u64 (msg_id m) @ '' '' @ sig_name s))
        (sig_attribute_values s)))
      (map (\<lambda>a. G_AttributeSignal (attr_name a) (msg_id m) (sig_name s) (value_ast dbl (attr_value a)))
        (sig_attribute_values s))" if "m \<in> set (net_messages net)" "s \<in> set (msg_signals m)" for m s
    using p(5) [OF that] attribute_evaluates(4) [OF _ no_number] unfolding printable_signal_def
    by (intro line_items) auto
  show "items any (attribute_value_ent_rule dbl)
      (concat (map (attribute_line ''BA_'' ('' EV_ '' @ ev_name ev)) (ev_attribute_values ev)))
      (map (\<lambda>a. G_AttributeEnvVar (attr_name a) (ev_name ev) (value_ast dbl (attr_value a)))
        (ev_attribute_values ev))" if "ev \<in> set (net_environment_variables net)" for ev
    using p(6) [OF that] attribute_evaluates(5) [OF _ no_number] unfolding printable_environment_variable_def
    by (intro line_items) auto
qed

lemma descriptions_items:
  assumes printable: "printable_network dbl net"
  shows "items any value_description_sig_env_var_rule (print_descriptions net) (description_asts net)"
  unfolding print_descriptions_def description_asts_def
proof (intro items_append items_concat items_unless)
  note p = printableD [OF printable]
  show "reads value_description_sig_env_var_rule
      (print_value_descriptions (show_u64 (msg_id m) @ '' '' @ sig_name s) (sig_value_encoding_descriptions s))
      (G_ValueDescriptionSignal (msg_id m) (sig_name s)
        (g_descriptions (veds_ast (sig_value_encoding_descriptions s))))"
    if "m \<in> set (net_messages net)" "s \<in> set (msg_signals m)" "sig_value_encoding_descriptions s \<noteq> []" for m s
    using p(5) [OF that(1,2)] that(3) by (intro signal_description_reads) (auto simp: printable_signal_def)
  show "reads value_description_sig_env_var_rule
      (print_value_descriptions (ev_name ev) (ev_value_encoding_descriptions ev))
      (G_ValueDescriptionEnvVar (ev_name ev) (g_descriptions (veds_ast (ev_value_encoding_descriptions ev))))"
    if "ev \<in> set (net_environment_variables net)" "ev_value_encoding_descriptions ev \<noteq> []" for ev
    using p(6) [OF that(1)] that(2) by (intro env_var_description_reads) (auto simp: printable_environment_variable_def)
qed (simp_all add: print_value_descriptions_def)

lemma groups_items:
  assumes printable: "printable_network dbl net"
  shows "items any signal_group_rule (concat (map (\<lambda>m. concat (map print_signal_group (msg_signal_groups m))) (net_messages net)))
     (concat (map (\<lambda>m. map signal_group_ast (msg_signal_groups m)) (net_messages net)))"
  by (intro items_concat items_map signal_group_reads)
    (use printableD(4) [OF printable] in \<open>auto simp: printable_message_lines_def list_all_iff\<close>)

lemma extended_items:
  assumes printable: "printable_network dbl net"
  shows "items any signal_extended_value_type_rule (print_signals print_extended_value_type net)
     (concat (map (\<lambda>m. concat (map (extended_value_type_asts m) (msg_signals m))) (net_messages net)))"
  unfolding print_signals_def
proof (intro items_concat)
  fix m s assume "m \<in> set (net_messages net)" "s \<in> set (msg_signals m)"
  then have "is_identifier (sig_name s)"
    using printableD(5) [OF printable] by (auto simp: printable_signal_def)
  then show "items any signal_extended_value_type_rule (print_extended_value_type m s) (extended_value_type_asts m s)"
    using extended_value_type_reads [of s m]
    by (cases "sig_extended_value_type s")
      (auto simp: extended_value_type_asts_def print_extended_value_type_def intro: items_Nil items_any)
qed

lemma multiplexer_values_items:
  assumes printable: "printable_network dbl net"
  shows "items any signal_multiplexer_value_rule
     (print_signals (\<lambda>m s. concat (map (print_multiplexer_value m s) (sig_signal_multiplexer_values s))) net)
     (concat (map (\<lambda>m. concat (map (\<lambda>s. map (multiplexer_value_ast m s) (sig_signal_multiplexer_values s))
       (msg_signals m))) (net_messages net)))"
  unfolding print_signals_def
  by (intro items_concat items_map multiplexer_value_reads)
    (use printableD(5) [OF printable] in \<open>auto simp: printable_signal_def list_all_iff\<close>)

section \<open>The keywords of the sections\<close>

lemma heads_sections:
  "heads ''VAL_TABLE_'' (concat (map print_value_table (net_value_tables net)))"
  "heads ''BO_'' (concat (map print_message (net_messages net)))"
  "heads ''BO_TX_BU_'' (concat (map print_message_transmitters (net_messages net)))"
  "heads ''EV_'' (concat (map print_environment_variable (net_environment_variables net)))"
  "heads ''ENVVAR_DATA_'' (concat (map print_environment_variable_data (net_environment_variables net)))"
  "heads ''BA_DEF_'' (concat (map (\<lambda>ad. newline @ print_attribute_definition ad) (net_attribute_definitions net)))"
  "heads ''BA_DEF_DEF_'' (concat (map (attribute_line ''BA_DEF_DEF_'' []) (net_attribute_defaults net)))"
  "heads ''SIG_GROUP_'' (concat (map (\<lambda>m. concat (map print_signal_group (msg_signal_groups m))) (net_messages net)))"
  "heads ''SIG_VALTYPE_'' (print_signals print_extended_value_type net)"
  "heads ''SG_MUL_VAL_''
     (print_signals (\<lambda>m s. concat (map (print_multiplexer_value m s) (sig_signal_multiplexer_values s))) net)"
proof -
  have "heads ''VAL_TABLE_'' (print_value_table vt)" for vt
    by (cases "vt_value_encoding_descriptions vt = []")
      (auto simp: print_value_table_def is_space_def intro: heads_Nil headsI)
  then show "heads ''VAL_TABLE_'' (concat (map print_value_table (net_value_tables net)))"
    by (rule heads_concat)
  show "heads ''BO_'' (concat (map print_message (net_messages net)))"
    by (intro heads_concat headsI) (simp_all add: print_message_def is_space_def)
  have "heads ''BO_TX_BU_'' (print_message_transmitters m)" for m
    by (cases "msg_message_transmitters m")
      (auto simp: print_message_transmitters_def is_space_def intro: heads_Nil headsI)
  then show "heads ''BO_TX_BU_'' (concat (map print_message_transmitters (net_messages net)))"
    by (rule heads_concat)
  show "heads ''EV_'' (concat (map print_environment_variable (net_environment_variables net)))"
    by (intro heads_concat headsI) (simp_all add: print_environment_variable_def is_space_def)
  have "heads ''ENVVAR_DATA_'' (print_environment_variable_data ev)" for ev
    by (cases "ev_var_type ev = VT_Data")
      (auto simp: print_environment_variable_data_def is_space_def intro: heads_Nil headsI)
  then show "heads ''ENVVAR_DATA_'' (concat (map print_environment_variable_data (net_environment_variables net)))"
    by (rule heads_concat)
  show "heads ''BA_DEF_'' (concat (map (\<lambda>ad. newline @ print_attribute_definition ad) (net_attribute_definitions net)))"
    by (intro heads_concat headsI) (simp_all add: print_attribute_definition_def newline_Cons is_space_def Let_def)
  show "heads ''BA_DEF_DEF_'' (concat (map (attribute_line ''BA_DEF_DEF_'' []) (net_attribute_defaults net)))"
    by (intro heads_concat headsI) (simp_all add: attribute_line_def newline_Cons is_space_def)
  show "heads ''SIG_GROUP_'' (concat (map (\<lambda>m. concat (map print_signal_group (msg_signal_groups m))) (net_messages net)))"
    by (intro heads_concat headsI) (simp_all add: print_signal_group_def is_space_def)
  have "heads ''SIG_VALTYPE_'' (print_extended_value_type m s)" for m s
    by (cases "sig_extended_value_type s")
      (auto simp: print_extended_value_type_def is_space_def intro: heads_Nil headsI)
  then show "heads ''SIG_VALTYPE_'' (print_signals print_extended_value_type net)"
    unfolding print_signals_def by (intro heads_concat)
  show "heads ''SG_MUL_VAL_''
     (print_signals (\<lambda>m s. concat (map (print_multiplexer_value m s) (sig_signal_multiplexer_values s))) net)"
    unfolding print_signals_def
    by (intro heads_concat headsI) (simp_all add: print_multiplexer_value_def is_space_def)
qed

lemma heads_values: "heads ''BA_'' (values_text net)"
  unfolding values_text_def
  by (intro heads_append heads_concat headsI) (simp_all add: attribute_line_def newline_Cons is_space_def)

lemma heads_comments: "heads ''CM_'' (print_comments net)"
proof -
  have "heads ''CM_'' (print_comment subject c)" for subject c
    by (cases "c = []") (auto simp: print_comment_def is_space_def intro: heads_Nil headsI)
  then show ?thesis
    unfolding print_comments_def by (intro heads_append heads_concat)
qed

lemma heads_descriptions: "heads ''VAL_'' (print_descriptions net)"
proof -
  have "heads ''VAL_'' (print_value_descriptions subject veds)" for subject veds
    by (cases "veds = []") (auto simp: print_value_descriptions_def is_space_def intro: heads_Nil headsI)
  then show ?thesis
    unfolding print_descriptions_def by (intro heads_append heads_concat)
qed

end
