(* ===== verification/RereadProps.thy ===== *)
theory RereadProps
  imports RoundTrip
begin

text \<open>
  The files the writer writes are read back: the parser delivers the syntax tree of the network.
\<close>

lemma print_network_text:
  assumes "printable_network dbl net"
  shows "print_network net = Some (
     (''VERSION '' @ quoted (net_version net) @ newline) @ symbols_text (net_new_symbols net) @
     print_bit_timing (net_bit_timing net) @
     (''BU_:'' @ concat (map (\<lambda>n. '' '' @ n) (map node_name (net_nodes net))) @ newline) @
     concat (map print_value_table (net_value_tables net)) @
     concat (map print_message (net_messages net)) @
     concat (map print_message_transmitters (net_messages net)) @
     concat (map print_environment_variable (net_environment_variables net)) @
     concat (map print_environment_variable_data (net_environment_variables net)) @
     print_comments net @
     concat (map (\<lambda>ad. newline @ print_attribute_definition ad) (net_attribute_definitions net)) @
     concat (map (attribute_line ''BA_DEF_DEF_'' []) (net_attribute_defaults net)) @
     values_text net @
     print_descriptions net @
     concat (map (\<lambda>m. concat (map print_signal_group (msg_signal_groups m))) (net_messages net)) @
     print_signals print_extended_value_type net @
     print_signals (\<lambda>m s. concat (map (print_multiplexer_value m s) (sig_signal_multiplexer_values s))) net @
     [])"
proof -
  have "print_value_tables_with_type net = []"
    using assms by (auto simp: print_value_tables_with_type_def printable_network_def list_all_iff)
  then show ?thesis
    by (simp add: print_network_def attribute_section_text [OF assms] attributes_text_def
        print_head_def symbols_text_def comp_def)
qed

lemma eoi_yields: "same s [] \<Longrightarrow> yields eoi s () []"
proof -
  assume s: "same s []"
  then have "skip_over default_skipper s = Ok () []"
    using skip_all [of s] by (simp add: same_def no_slash_def del: dropWhile_eq_Nil_conv)
  then show ?thesis by (simp add: yields_def eoi_def prim_def)
qed

lemma reads_yields: "reads_before Q p t a \<Longrightarrow> Q r \<Longrightarrow> same s (t @ r) \<Longrightarrow> yields p s a r"
  by (simp add: reads_before_def)

text \<open>The head of a file.\<close>

lemma head_yields:
  "plain v \<Longrightarrow> same s ((''VERSION '' @ quoted v @ newline) @ r) \<Longrightarrow> yields version_rule s \<lparr>g_version = v\<rparr> r"
  "set ns \<subseteq> set new_symbol_names \<Longrightarrow> same s (symbols_text ns @ print_bit_timing bt @ r) \<Longrightarrow>
   yields (opt new_symbols_rule) s (Some ns) (print_bit_timing bt @ r)"
  "same s (print_bit_timing bt @ (''BU_:'' @ x) @ r) \<Longrightarrow>
   yields bit_timing_rule s (bit_timing_ast bt) ((''BU_:'' @ x) @ r)"
  "list_all is_identifier ids \<Longrightarrow> same s ((''BU_:'' @ concat (map (\<lambda>n. '' '' @ n) ids) @ newline) @ r) \<Longrightarrow>
   yields nodes_rule s (map (\<lambda>n. \<lparr>g_node_name = n\<rparr>) ids) r"
proof -
  have b: "behind_bit_timing ((''BU_:'' @ x) @ r)" "behind_symbols (print_bit_timing bt @ r)"
    by (simp_all add: behind_bit_timing_def behind_symbols_def print_bit_timing_def)
  show "plain v \<Longrightarrow> same s ((''VERSION '' @ quoted v @ newline) @ r) \<Longrightarrow> yields version_rule s \<lparr>g_version = v\<rparr> r"
    by (rule reads_yields [OF version_reads TrueI])
  show "set ns \<subseteq> set new_symbol_names \<Longrightarrow> same s (symbols_text ns @ print_bit_timing bt @ r) \<Longrightarrow>
      yields (opt new_symbols_rule) s (Some ns) (print_bit_timing bt @ r)"
    by (rule reads_yields [OF opt_reads [OF new_symbols_reads] b(2)])
  show "same s (print_bit_timing bt @ (''BU_:'' @ x) @ r) \<Longrightarrow>
      yields bit_timing_rule s (bit_timing_ast bt) ((''BU_:'' @ x) @ r)"
    by (rule reads_yields [OF bit_timing_reads b(1)])
  show "list_all is_identifier ids \<Longrightarrow> same s ((''BU_:'' @ concat (map (\<lambda>n. '' '' @ n) ids) @ newline) @ r) \<Longrightarrow>
      yields nodes_rule s (map (\<lambda>n. \<lparr>g_node_name = n\<rparr>) ids) r"
    by (rule reads_yields [OF nodes_reads TrueI])
qed

lemma begins_no_statement: "begins ws r \<Longrightarrow> ''SG_'' \<notin> set ws \<Longrightarrow> no_statement ''SG_'' r"
  by (auto simp: begins_def no_statement_def)

lemma same_Some: "Some s = Some t \<Longrightarrow> same s t"
  by simp

lemma network_yields:
  assumes printable: "printable_network dbl net" and forward: "forward dbl" and no_number: "no_number dbl"
    and t: "print_network net = Some t"
  shows "yields (network_rule dbl) t (network_ast dbl net) []"
proof -
  let ?mux = "print_signals (\<lambda>m s. concat (map (print_multiplexer_value m s) (sig_signal_multiplexer_values s))) net @ []"
  let ?ext = "print_signals print_extended_value_type net @ ?mux"
  note heads = heads_sections [where net = net]
  have mux: "begins [''SG_MUL_VAL_''] ?mux" by (rule headsD [OF heads(10) begins_Nil])
  have ext: "begins [''SIG_VALTYPE_'', ''SG_MUL_VAL_''] ?ext" by (rule headsD [OF heads(9) mux])
  note sgs = headsD [OF heads(8) ext]
  note vds = headsD [OF heads_descriptions [where net = net] sgs]
  note avs = headsD [OF heads_values [where net = net] vds]
  note dfs = headsD [OF heads(7) avs]
  note ads = headsD [OF heads(6) dfs]
  note cs = headsD [OF heads_comments [where net = net] ads]
  note evds = headsD [OF heads(5) cs]
  note evs = headsD [OF heads(4) evds]
  note mts = headsD [OF heads(3) evs]
  note msgs = headsD [OF heads(2) mts]
  note no_sg = begins_no_statement [OF mts]
  have head: "plain (net_version net)" "set (net_new_symbols net) \<subseteq> set new_symbol_names"
    "list_all is_identifier (map node_name (net_nodes net))"
    using printable by (auto simp: printable_network_def list_all_iff printable_node_def)
  have body: "list_all printable_value_table (net_value_tables net)"
    "list_all (printable_message dbl) (net_messages net)"
    using printable by (auto simp: printable_network_def list_all_iff)
  note s1 = many_yields [OF value_tables_items [OF body(1)] takes_value_table stops_rules(1) [OF msgs] TrueI]
  note s2 = many_yields [OF messages_items [OF body(2) forward] takes_message [OF forward] stops_rules(2) [OF mts] no_sg]
  note s3 = many_yields [OF transmitters_items [OF printable] takes_message_transmitter stops_rules(3) [OF evs] TrueI]
  note s4 = many_yields [OF environment_variables_items [OF printable] takes_environment_variable [OF forward] stops_rules(4) [OF evds] TrueI]
  note s5 = many_yields [OF environment_variable_datas_items [OF printable] takes_environment_variable_data stops_rules(5) [OF cs] TrueI]
  note s6 = many_yields [OF items_Nil takes_signal_type [OF forward] stops_rules(6) [OF cs] TrueI]
  note s7 = many_yields [OF comments_items [OF printable] takes_comment stops_rules(7) [OF ads] TrueI]
  note s8 = many_yields [OF definitions_items [OF printable] takes_attribute_definition [OF forward] stops_rules(8) [OF dfs] TrueI]
  note s9 = many_yields [OF defaults_items [OF printable no_number] takes_attribute_default [OF forward] stops_default [OF avs] TrueI]
  note s10 = many_yields [OF values_items [OF printable no_number] takes_attribute_value_ent [OF forward] stops_rules(9) [OF vds] TrueI]
  note s11 = many_yields [OF descriptions_items [OF printable] takes_value_description stops_description [OF sgs] TrueI]
  note s12 = many_yields [OF groups_items [OF printable] takes_signal_group stops_rules(10) [OF ext] TrueI]
  note s13 = many_yields [OF extended_items [OF printable] takes_signal_extended_value_type stops_extended [OF mux] TrueI]
  note s14 = many_yields [OF multiplexer_values_items [OF printable] takes_signal_multiplexer_value stops_rules(11) [OF begins_Nil] TrueI]
  show ?thesis
    unfolding network_rule_def
    apply (rule rule_yields)
    apply (rule seq_yields, rule head_yields(1) [OF head(1)])
    apply (rule same_Some [OF trans [OF t [symmetric] print_network_text [OF printable]]])
    apply (rule must_yields, erule head_yields(2) [OF head(2)])
    apply (rule must_yields, erule head_yields(3))
    apply (rule must_yields, erule head_yields(4) [OF head(3)])
    apply (rule must_yields, rule s1 s2 s3 s4 s5 s6 s7 s8 s9 s10 s11 s12 s13 s14, (simp; fail)+)+
    apply (rule must_yields, erule eoi_yields)
    apply (simp add: yields_def ret_def network_ast_def comp_def)
    done
qed

lemma network_parses:
  assumes "printable_network dbl net" and "forward dbl" and "no_number dbl"
  shows "\<exists>t. print_network net = Some t \<and> ParseFromMemory dbl t = Parsed (network_ast dbl net)"
proof -
  obtain t where t: "print_network net = Some t" using print_network_text [OF assms(1)] by blast
  obtain r where r: "network_rule dbl default_skipper t = Ok (network_ast dbl net) r" "same r []"
    using network_yields [OF assms t] by (auto simp: yields_def)
  have "dropWhile is_space r = []" using r(2) by (simp add: same_def del: dropWhile_eq_Nil_conv)
  then have "skip_over default_skipper r = Ok () []"
    using skip_all [of r] by (simp add: no_slash_def del: dropWhile_eq_Nil_conv)
  then show ?thesis using t r(1) by (simp add: ParseFromMemory_def)
qed

section \<open>A parser for floating-point numbers and a network\<close>

text \<open>It reads the characters up to a separator; integers are the only numbers it knows.\<close>

definition ex_dbl :: "string \<Rightarrow> (double \<times> string) option" where
  "ex_dbl s =
     (let t = takeWhile (\<lambda>c. c \<notin> set '' ,;|)]'') s
      in if t = [] \<or> hd t \<in> {CHR 0x22, CHR ''B'', CHR ''E'', CHR ''S''} then None
         else Some (double_of_int (if list_all is_digit t then int (digits_value t) else 0), drop (length t) s))"

lemma ex_dbl_forward: "forward ex_dbl"
  by (simp add: ex_dbl_def Let_def)

lemma ex_dbl_no_number: "no_number ex_dbl"
  by (auto simp: no_number_def ex_dbl_def Let_def)

lemma ex_dbl_reads:
  assumes "t \<noteq> []" and "hd t \<notin> {CHR 0x22, CHR ''B'', CHR ''E'', CHR ''S''}"
    and "list_all (\<lambda>c. c \<notin> set '' ,;|)]'') t"
  shows "readable ex_dbl t"
    and "read_back ex_dbl t = double_of_int (if list_all is_digit t then int (digits_value t) else 0)"
proof -
  have "ex_dbl (t @ r) = Some (double_of_int (if list_all is_digit t then int (digits_value t) else 0), r)"
    if "ends_number r" for r
  proof -
    have "takeWhile (\<lambda>c. c \<notin> set '' ,;|)]'') (t @ r) = t"
      using that assms(3) by (cases r) (auto simp: ends_number_def takeWhile_append list_all_iff)
    then show ?thesis using assms(1,2) by (simp add: ex_dbl_def Let_def)
  qed
  then show "readable ex_dbl t"
    "read_back ex_dbl t = double_of_int (if list_all is_digit t then int (digits_value t) else 0)"
    by (simp_all add: readable_def read_back_def)
qed

definition ex_file_data :: signal_data where
  "ex_file_data = ex_signal 0 8 LittleEndian Unsigned
     \<lparr>sig_name := ''Speed'', sig_receivers := [''ECU'', ''GW''], sig_comment := ''fast'',
      sig_multiplexer_indicator := MuxValue, sig_multiplexer_switch_value := 3,
      sig_attribute_values := [IAttribute_Create ''Gain'' OT_Signal (V_double double_one)],
      sig_value_encoding_descriptions := [IValueEncodingDescription_Create 255 ''invalid''],
      sig_signal_multiplexer_values := [ISignalMultiplexerValue_Create ''Mode'' [\<lparr>range_from = 1, range_to = 4\<rparr>]]\<rparr>"

definition ex_file_signal :: SignalImpl where
  "ex_file_signal = ex_impl 8 ex_file_data"

definition ex_file :: NetworkImpl where
  "ex_file = the (INetwork_Create ''1.0'' [''CM_''] (Some (IBitTiming_Create 500 1 2))
     [INode_Create ''ECU'' ''unit'' [IAttribute_Create ''Kind'' OT_Node (V_string ''main'')]]
     [IValueTable_Create ''Gear'' None [IValueEncodingDescription_Create 1 ''first'']]
     [IMessage_Create 100 ''Msg'' 8 ''ECU'' [''GW''] [ex_file_signal] [] ''cyclic''
        [ISignalGroup_Create 100 ''Group'' 1 [''Speed'']]]
     [IEnvironmentVariable_Create ''Light'' VT_Data 0 double_one [] 0 7 Unrestricted [''ECU''] [] 4 [] []]
     [IAttributeDefinition_Create ''Gain'' OT_Signal (ValueTypeFloat 0 double_one)]
     [IAttribute_Create ''Kind'' OT_Network (V_string ''none'')] [] ''network'')"

lemma show_ex: "show_double 0 = ''0''" "show_double double_one = ''1''"
proof -
  have "fp_of_double 0 = Fin False 0 (- 1074)" "fp_of_double double_one = Fin False 4503599627370496 (- 52)"
    by (simp_all add: double_eval double_one_def)
  moreover have "show_positive 4503599627370496 (2 ^ 52) = ''1''"
    by (simp add: show_eval)
  moreover have "\<not> bit (0 :: double) 63" "\<not> bit double_one 63"
    by (simp_all add: double_one_def)
  ultimately show "show_double 0 = ''0''" "show_double double_one = ''1''"
    unfolding show_double_def Let_def by simp_all
qed

lemma ex_dbl_zero_one:
  "readable ex_dbl ''0''" "readable ex_dbl ''1''"
  "read_back ex_dbl ''0'' = 0" "read_back ex_dbl ''1'' = double_one"
proof -
  have "double_of_int 0 = 0" "double_of_int 1 = double_one"
    by (simp_all add: double_eval double_one_def double_zero_def)
  then show "readable ex_dbl ''0''" "readable ex_dbl ''1''"
    "read_back ex_dbl ''0'' = 0" "read_back ex_dbl ''1'' = double_one"
    using ex_dbl_reads [of "''0''"] ex_dbl_reads [of "''1''"]
    by (simp_all add: is_digit_def digits_value_def)
qed

lemma ex_file_new: "SignalImpl_new ieee 8 ex_file_data = Some ex_file_signal"
  unfolding ex_file_signal_def by (rule ex_impl) (simp_all add: ex_file_data_def ex_signal_def)

lemma ex_file_fields: "signal_data.truncate ex_file_signal = ex_file_data"
  by (rule SignalImpl_new_SomeD [OF ex_file_new])

lemmas ex_file_sel = truncate_sel [OF ex_file_fields, unfolded ex_file_data_def ex_signal_def, simplified]

lemma ex_file_scan: "scan_mux [ex_file_signal] = (True, None)"
  by (simp add: scan_mux_def scan_mux_step_def ex_file_sel)

lemmas ex_file_defs = ex_file_def INetwork_Create_def INode_Create_def IValueTable_Create_def
  IValueEncodingDescription_Create_def IMessage_Create_def MessageImpl_new_def ex_file_scan
  ISignalGroup_Create_def IEnvironmentVariable_Create_def IAttributeDefinition_Create_def
  IAttribute_Create_def ISignalMultiplexerValue_Create_def IBitTiming_Create_def ex_file_sel

lemma ex_file_printable: "printable_network ex_dbl ex_file"
  by (simp add: printable_network_def printable_node_def printable_message_def printable_message_lines_def
      printable_environment_variable_def printable_attribute_definition_def printable_signal_def
      printable_attribute_def attributes_ok_def printable_value_table_def printable_signal_group_def
      printable_multiplexer_value_def printable_veds_def ex_file_defs show_ex ex_dbl_zero_one
      plain_def is_identifier_def word_char_def is_letter_def is_digit_def new_symbol_names_def)

text \<open>C9. The files the writer writes are read back: for a network whose names are identifiers, whose
  strings hold no quotes and whose numbers the parser of numbers reads, the grammar accepts the
  written text and delivers \<open>network_ast\<close>, the syntax tree with every object of the network in the
  order of the file; numbers are those of the printed digits, integer attributes become
  floating-point numbers, and empty value tables, comments and descriptions are gone.\<close>

theorem printed_network_parses:
  assumes "printable_network dbl net" and "forward dbl" and "no_number dbl"
  shows "\<exists>t. print_network net = Some t \<and> ParseFromMemory dbl t = Parsed (network_ast dbl net)"
  by (rule network_parses [OF assms])

theorem printed_network_parses_witness:
  "\<exists>t. print_network ex_file = Some t \<and> ParseFromMemory ex_dbl t = Parsed (network_ast ex_dbl ex_file)"
  by (rule printed_network_parses [OF ex_file_printable ex_dbl_forward ex_dbl_no_number])

end
