(* ===== verification/Reload.thy ===== *)
theory Reload
  imports RereadProps
begin

text \<open>
  What the converter makes of the syntax tree of a file that has been written: the network that was
  written, where its numbers are read back exactly and its objects can be told apart by their names.
\<close>

section \<open>Looking up entries by key\<close>

lemma concat_empty: "concat (map (\<lambda>x. []) xs) = []"
  by (induction xs) simp_all

lemma concat_key:
  assumes "distinct (map key xs)" and "x \<in> set xs"
  shows "concat (map (\<lambda>y. if key y = key x then g y else []) xs) = g x"
  using assms
proof (induction xs)
  case (Cons y ys)
  show ?case
  proof (cases "key y = key x")
    case True
    then have "y = x" using Cons.prems by (auto simp: image_iff)
    moreover have "map (\<lambda>z. if key z = key x then g z else []) ys = map (\<lambda>z. []) ys"
      using Cons.prems True by (force simp: image_iff)
    ultimately show ?thesis by (simp add: concat_empty)
  next
    case False
    then show ?thesis using Cons by auto
  qed
qed simp

lemma concat_key_conj:
  "concat (map (\<lambda>y. if c \<and> P y then g y else []) xs) = (if c then concat (map (\<lambda>y. if P y then g y else []) xs) else [])"
  by (cases c) (simp_all add: concat_empty)

lemma filter_const: "filter (\<lambda>_. c) xs = (if c then xs else [])"
  by simp

lemma filter_unless: "filter P (unless_empty xs a) = (if P a then unless_empty xs a else [])"
  by simp

lemma map_if: "map f (if c then xs else []) = (if c then map f xs else [])"
  by simp

lemmas by_key = filter_concat filter_map comp_def concat_empty filter_const filter_unless map_if concat_key_conj

lemma find_filter: "find P xs = (case filter P xs of [] \<Rightarrow> None | x # _ \<Rightarrow> Some x)"
  by (induction xs) simp_all

section \<open>Exact networks\<close>

definition exact :: "(string \<Rightarrow> (double \<times> string) option) \<Rightarrow> double \<Rightarrow> bool" where
  "exact dbl d \<longleftrightarrow> read_back dbl (show_double d) = d"

text \<open>Integers are read back as floating-point numbers.\<close>

fun exact_value :: "(string \<Rightarrow> (double \<times> string) option) \<Rightarrow> value_t \<Rightarrow> bool" where
  "exact_value dbl (V_int64 i) \<longleftrightarrow> False"
| "exact_value dbl (V_double d) \<longleftrightarrow> exact dbl d"
| "exact_value dbl (V_string s) \<longleftrightarrow> True"

fun exact_value_type :: "(string \<Rightarrow> (double \<times> string) option) \<Rightarrow> value_type_t \<Rightarrow> bool" where
  "exact_value_type dbl (ValueTypeFloat a b) \<longleftrightarrow> exact dbl a \<and> exact dbl b"
| "exact_value_type dbl _ \<longleftrightarrow> True"

abbreviation exact_attributes :: "(string \<Rightarrow> (double \<times> string) option) \<Rightarrow> AttributeImpl list \<Rightarrow> bool" where
  "exact_attributes dbl \<equiv> list_all (\<lambda>a. exact_value dbl (attr_value a))"

text \<open>The switch value is 0 unless the signal is multiplexed, and then fits into an \<open>int\<close>.\<close>

definition exact_signal :: "(string \<Rightarrow> (double \<times> string) option) \<Rightarrow> SignalImpl \<Rightarrow> bool" where
  "exact_signal dbl s \<longleftrightarrow>
     list_all (exact dbl) [sig_factor s, sig_offset s, sig_minimum s, sig_maximum s] \<and>
     exact_attributes dbl (sig_attribute_values s) \<and>
     (if sig_multiplexer_indicator s = MuxValue then unat (sig_multiplexer_switch_value s) < 2 ^ 31
      else sig_multiplexer_switch_value s = 0)"

text \<open>The message and its signals come from their constructors.\<close>

definition exact_message ::
    "platform \<Rightarrow> (string \<Rightarrow> (double \<times> string) option) \<Rightarrow> MessageImpl \<Rightarrow> bool" where
  "exact_message pf dbl m \<longleftrightarrow>
     message_wf m \<and> exact_attributes dbl (msg_attribute_values m) \<and>
     list_all (\<lambda>sg. sg_message_id sg = msg_id m) (msg_signal_groups m) \<and>
     distinct (map sig_name (msg_signals m)) \<and>
     list_all (\<lambda>s. exact_signal dbl s \<and>
       SignalImpl_new pf (msg_message_size m) (signal_data.truncate s) = Some s) (msg_signals m)"

definition exact_environment_variable ::
    "(string \<Rightarrow> (double \<times> string) option) \<Rightarrow> EnvironmentVariableImpl \<Rightarrow> bool" where
  "exact_environment_variable dbl ev \<longleftrightarrow>
     list_all (exact dbl) [ev_minimum ev, ev_maximum ev, ev_initial_value ev] \<and>
     exact_attributes dbl (ev_attribute_values ev) \<and> (ev_var_type ev = VT_Data \<or> ev_data_size ev = 0)"

definition exact_network ::
    "platform \<Rightarrow> (string \<Rightarrow> (double \<times> string) option) \<Rightarrow> NetworkImpl \<Rightarrow> bool" where
  "exact_network pf dbl net \<longleftrightarrow>
     (let bt = net_bit_timing net in
        bt_baudrate bt \<noteq> 0 \<and> bt_BTR1 bt \<noteq> 0 \<and> bt_BTR2 bt \<noteq> 0 \<or>
        bt_baudrate bt = 0 \<and> bt_BTR1 bt = 0 \<and> bt_BTR2 bt = 0) \<and>
     list_all (\<lambda>n. exact_attributes dbl (node_attribute_values n)) (net_nodes net) \<and>
     list_all (\<lambda>vt. vt_value_encoding_descriptions vt \<noteq> []) (net_value_tables net) \<and>
     list_all (exact_message pf dbl) (net_messages net) \<and>
     list_all (exact_environment_variable dbl) (net_environment_variables net) \<and>
     list_all (\<lambda>ad. exact_value_type dbl (ad_value_type ad)) (net_attribute_definitions net) \<and>
     exact_attributes dbl (net_attribute_defaults net) \<and> exact_attributes dbl (net_attribute_values net) \<and>
     distinct (map node_name (net_nodes net)) \<and> distinct (map msg_id (net_messages net)) \<and>
     distinct (map ev_name (net_environment_variables net))"

section \<open>Attributes\<close>

lemma attributes_back:
  assumes "attributes_ok dbl ot attrs" and "exact_attributes dbl attrs"
  shows "map (\<lambda>a. IAttribute_Create (attr_name a) ot (boost_variant_to_std_variant (value_ast dbl (attr_value a)))) attrs = attrs"
proof (rule map_idI)
  fix a assume "a \<in> set attrs"
  then have "attr_object_type a = ot" "exact_value dbl (attr_value a)"
    using assms by (auto simp: attributes_ok_def list_all_iff)
  moreover from this have "boost_variant_to_std_variant (value_ast dbl (attr_value a)) = attr_value a"
    by (cases "attr_value a") (simp_all add: exact_def)
  ultimately show "IAttribute_Create (attr_name a) ot
      (boost_variant_to_std_variant (value_ast dbl (attr_value a))) = a"
    by (simp add: IAttribute_Create_def)
qed

lemma attributes_reload:
  assumes printable: "printable_network dbl net" and exact: "exact_network pf dbl net"
  shows "attributes_for network_attr OT_Network (network_ast dbl net) = net_attribute_values net"
    and "n \<in> set (net_nodes net) \<Longrightarrow>
      attributes_for (node_attr (node_name n)) OT_Node (network_ast dbl net) = node_attribute_values n"
    and "m \<in> set (net_messages net) \<Longrightarrow>
      attributes_for (message_attr (msg_id m)) OT_Message (network_ast dbl net) = msg_attribute_values m"
    and "m \<in> set (net_messages net) \<Longrightarrow> s \<in> set (msg_signals m) \<Longrightarrow>
      attributes_for (signal_attr (msg_id m) (sig_name s)) OT_Signal (network_ast dbl net) = sig_attribute_values s"
    and "ev \<in> set (net_environment_variables net) \<Longrightarrow>
      attributes_for (env_var_attr (ev_name ev)) OT_EnvironmentVariable (network_ast dbl net) = ev_attribute_values ev"
proof -
  note p = printableD [OF printable]
  have d: "distinct (map node_name (net_nodes net))" "distinct (map msg_id (net_messages net))"
    "distinct (map ev_name (net_environment_variables net))"
    using exact by (simp_all add: exact_network_def)
  have e: "exact_attributes dbl (net_attribute_values net)"
    "\<And>n. n \<in> set (net_nodes net) \<Longrightarrow> exact_attributes dbl (node_attribute_values n)"
    "\<And>m. m \<in> set (net_messages net) \<Longrightarrow> exact_message pf dbl m"
    "\<And>ev. ev \<in> set (net_environment_variables net) \<Longrightarrow> exact_attributes dbl (ev_attribute_values ev)"
    using exact by (auto simp: exact_network_def list_all_iff exact_environment_variable_def)
  note defs = attributes_for_def network_ast_def attribute_asts_def Let_def
  show "attributes_for network_attr OT_Network (network_ast dbl net) = net_attribute_values net"
    using attributes_back [OF p(2) e(1)] by (simp add: defs by_key)
  show "attributes_for (node_attr (node_name n)) OT_Node (network_ast dbl net) = node_attribute_values n"
    if "n \<in> set (net_nodes net)"
    using attributes_back [OF _ e(2) [OF that]] p(3) [OF that]
    by (simp add: defs by_key concat_key [OF d(1) that] printable_node_def)
  show "attributes_for (message_attr (msg_id m)) OT_Message (network_ast dbl net) = msg_attribute_values m"
    if "m \<in> set (net_messages net)"
    using attributes_back [of dbl OT_Message "msg_attribute_values m"] p(4) [OF that] e(3) [OF that]
    by (simp add: defs by_key concat_key [OF d(2) that] printable_message_lines_def exact_message_def)
  show "attributes_for (signal_attr (msg_id m) (sig_name s)) OT_Signal (network_ast dbl net) = sig_attribute_values s"
    if "m \<in> set (net_messages net)" "s \<in> set (msg_signals m)"
  proof -
    have ds: "distinct (map sig_name (msg_signals m))" and "exact_signal dbl s"
      using e(3) [OF that(1)] that(2) by (auto simp: exact_message_def list_all_iff)
    then show ?thesis
      using attributes_back [of dbl OT_Signal "sig_attribute_values s"] p(5) [OF that]
      by (simp add: defs by_key concat_key [OF d(2) that(1)] concat_key [OF ds that(2)] exact_signal_def)
  qed
  show "attributes_for (env_var_attr (ev_name ev)) OT_EnvironmentVariable (network_ast dbl net) = ev_attribute_values ev"
    if "ev \<in> set (net_environment_variables net)"
    using attributes_back [OF _ e(4) [OF that]] p(6) [OF that]
    by (simp add: defs by_key concat_key [OF d(3) that])
qed

section \<open>Comments and value descriptions\<close>

lemma comments_reload:
  assumes exact: "exact_network pf dbl net"
  shows "comment_for network_comment (network_ast dbl net) = net_comment net"
    and "n \<in> set (net_nodes net) \<Longrightarrow>
      comment_for (node_comment_for (node_name n)) (network_ast dbl net) = node_comment n"
    and "m \<in> set (net_messages net) \<Longrightarrow>
      comment_for (message_comment_for (msg_id m)) (network_ast dbl net) = msg_comment m"
    and "m \<in> set (net_messages net) \<Longrightarrow> s \<in> set (msg_signals m) \<Longrightarrow>
      comment_for (signal_comment_for (msg_id m) (sig_name s)) (network_ast dbl net) = sig_comment s"
    and "ev \<in> set (net_environment_variables net) \<Longrightarrow>
      comment_for (env_var_comment_for (ev_name ev)) (network_ast dbl net) = ev_comment ev"
proof -
  have d: "distinct (map node_name (net_nodes net))" "distinct (map msg_id (net_messages net))"
    "distinct (map ev_name (net_environment_variables net))"
    "\<And>m. m \<in> set (net_messages net) \<Longrightarrow> distinct (map sig_name (msg_signals m))"
    using exact by (auto simp: exact_network_def exact_message_def list_all_iff)
  note defs = comment_for_def network_ast_def comment_asts_def last_match_def Let_def
  show "comment_for network_comment (network_ast dbl net) = net_comment net"
    by (simp add: defs by_key)
  show "comment_for (node_comment_for (node_name n)) (network_ast dbl net) = node_comment n"
    if "n \<in> set (net_nodes net)"
    by (simp add: defs by_key concat_key [OF d(1) that])
  show "comment_for (message_comment_for (msg_id m)) (network_ast dbl net) = msg_comment m"
    if "m \<in> set (net_messages net)"
    by (simp add: defs by_key concat_key [OF d(2) that])
  show "comment_for (signal_comment_for (msg_id m) (sig_name s)) (network_ast dbl net) = sig_comment s"
    if "m \<in> set (net_messages net)" "s \<in> set (msg_signals m)"
    by (simp add: defs by_key concat_key [OF d(2) that(1)] concat_key [OF d(4) [OF that(1)] that(2)])
  show "comment_for (env_var_comment_for (ev_name ev)) (network_ast dbl net) = ev_comment ev"
    if "ev \<in> set (net_environment_variables net)"
    by (simp add: defs by_key concat_key [OF d(3) that])
qed

lemma veds_back:
  "value_descriptions (g_descriptions (veds_ast veds)) = veds"
  "map (\<lambda>ved. IValueEncodingDescription_Create (g_ved_value ved) (g_ved_description ved)) (veds_ast veds) = veds"
proof -
  have "(\<lambda>v. \<lparr>ved_value = ved_value v, ved_description = ved_description v\<rparr>) = (\<lambda>v. v)"
    by (rule ext) simp
  then show "value_descriptions (g_descriptions (veds_ast veds)) = veds"
    "map (\<lambda>ved. IValueEncodingDescription_Create (g_ved_value ved) (g_ved_description ved)) (veds_ast veds) = veds"
    by (simp_all add: value_descriptions_def veds_ast_def IValueEncodingDescription_Create_def comp_def)
qed

lemma descriptions_reload:
  assumes exact: "exact_network pf dbl net"
  shows "m \<in> set (net_messages net) \<Longrightarrow> s \<in> set (msg_signals m) \<Longrightarrow>
      descriptions_for (signal_description (msg_id m) (sig_name s)) (network_ast dbl net) =
      sig_value_encoding_descriptions s"
    and "ev \<in> set (net_environment_variables net) \<Longrightarrow>
      descriptions_for (env_var_description (ev_name ev)) (network_ast dbl net) =
      ev_value_encoding_descriptions ev"
proof -
  have d: "distinct (map msg_id (net_messages net))" "distinct (map ev_name (net_environment_variables net))"
    "\<And>m. m \<in> set (net_messages net) \<Longrightarrow> distinct (map sig_name (msg_signals m))"
    using exact by (auto simp: exact_network_def exact_message_def list_all_iff)
  note defs = descriptions_for_def network_ast_def description_asts_def last_match_def Let_def
  show "descriptions_for (signal_description (msg_id m) (sig_name s)) (network_ast dbl net) =
      sig_value_encoding_descriptions s"
    if "m \<in> set (net_messages net)" "s \<in> set (msg_signals m)"
    by (simp add: defs by_key veds_back concat_key [OF d(1) that(1)] concat_key [OF d(3) [OF that(1)] that(2)])
  show "descriptions_for (env_var_description (ev_name ev)) (network_ast dbl net) =
      ev_value_encoding_descriptions ev"
    if "ev \<in> set (net_environment_variables net)"
    by (simp add: defs by_key veds_back concat_key [OF d(2) that])
qed

section \<open>Signals\<close>

lemma extended_reload:
  assumes exact: "exact_network pf dbl net" and m: "m \<in> set (net_messages net)" and s: "s \<in> set (msg_signals m)"
  shows "getSignalExtendedValueType (network_ast dbl net) (message_ast dbl m) (signal_ast dbl s) =
     sig_extended_value_type s"
proof -
  have d: "distinct (map msg_id (net_messages net))" "distinct (map sig_name (msg_signals m))"
    using exact m by (auto simp: exact_network_def exact_message_def list_all_iff)
  have "filter (\<lambda>sev. g_sev_message_id sev = i \<and> g_sev_signal_name sev = n) (extended_value_type_asts m' s') =
      (if msg_id m' = i \<and> sig_name s' = n then extended_value_type_asts m' s' else [])" for i n m' s'
    by (cases "sig_extended_value_type s'") (simp_all add: extended_value_type_asts_def)
  then have "filter (\<lambda>sev. g_sev_message_id sev = msg_id m \<and> g_sev_signal_name sev = sig_name s)
      (concat (map (\<lambda>m. concat (map (extended_value_type_asts m) (msg_signals m))) (net_messages net))) =
      extended_value_type_asts m s"
    by (simp add: by_key concat_key [OF d(1) m] concat_key [OF d(2) s])
  then show ?thesis
    by (cases "sig_extended_value_type s")
      (simp_all add: getSignalExtendedValueType_def find_filter network_ast_def message_ast_def
        signal_ast_def extended_value_type_asts_def)
qed

lemma multiplexer_values_reload:
  assumes exact: "exact_network pf dbl net" and m: "m \<in> set (net_messages net)" and s: "s \<in> set (msg_signals m)"
  shows "getSignalMultiplexerValues (network_ast dbl net) (sig_name s) (msg_id m) =
     sig_signal_multiplexer_values s"
proof -
  have d: "distinct (map msg_id (net_messages net))" "distinct (map sig_name (msg_signals m))"
    using exact m by (auto simp: exact_network_def exact_message_def list_all_iff)
  have "filter (\<lambda>g. g_smv_signal_name g = sig_name s \<and> g_smv_message_id g = msg_id m)
        (g_net_signal_multiplexer_values (network_ast dbl net)) =
      filter (\<lambda>g. g_smv_message_id g = msg_id m \<and> g_smv_signal_name g = sig_name s)
        (g_net_signal_multiplexer_values (network_ast dbl net))"
    by (rule filter_cong) auto
  also have "\<dots> = map (multiplexer_value_ast m s) (sig_signal_multiplexer_values s)"
    by (simp add: network_ast_def multiplexer_value_ast_def by_key concat_key [OF d(1) m] concat_key [OF d(2) s])
  finally show ?thesis
    by (simp add: getSignalMultiplexerValues_def multiplexer_value_ast_def
        ISignalMultiplexerValue_Create_def comp_def map_idI)
qed

lemma multiplexer_back:
  assumes "exact_signal dbl s"
  shows "multiplexer_of (multiplexer_ast s) = Some (sig_multiplexer_indicator s, sig_multiplexer_switch_value s)"
proof (cases "sig_multiplexer_indicator s")
  case MuxValue
  then show ?thesis
    using assms atoi_show_nat [of "unat (sig_multiplexer_switch_value s)"]
    by (simp add: exact_signal_def multiplexer_ast_def multiplexer_of_def show_u64_def)
qed (use assms in \<open>simp_all add: exact_signal_def multiplexer_ast_def multiplexer_of_def\<close>)

lemma signal_back:
  assumes printable: "printable_network dbl net" and exact: "exact_network pf dbl net"
    and m: "m \<in> set (net_messages net)" and s: "s \<in> set (msg_signals m)"
  shows "\<exists>ws. spec_signal pf (network_ast dbl net) (message_ast dbl m) (signal_ast dbl s) = Some (s, ws)"
proof -
  have e: "exact_signal dbl s" "SignalImpl_new pf (msg_message_size m) (signal_data.truncate s) = Some s"
    using exact m s by (auto simp: exact_network_def exact_message_def list_all_iff)
  have signs: "byte_order_of (hd (print_byte_order bo)) = bo" "value_type_of (hd (print_value_type_sign vt)) = vt"
    for bo vt
    by (cases bo; simp add: byte_order_of_def print_byte_order_def)
      (cases vt; simp add: value_type_of_def print_value_type_sign_def)
  show ?thesis
    using e(1) e(2) attributes_reload(4) [OF printable exact m s] comments_reload(4) [OF exact m s]
      descriptions_reload(1) [OF exact m s] extended_reload [OF exact m s]
      multiplexer_values_reload [OF exact m s] multiplexer_back [OF e(1)] signs
    by (simp add: spec_signal_def signal_ast_def message_ast_def exact_signal_def exact_def signal_data.truncate_def)
qed

section \<open>Messages\<close>

lemma transmitters_reload:
  assumes exact: "exact_network pf dbl net" and m: "m \<in> set (net_messages net)"
  shows "getMessageTransmitters (network_ast dbl net) (message_ast dbl m) = msg_message_transmitters m"
proof -
  have d: "distinct (map msg_id (net_messages net))" using exact by (simp add: exact_network_def)
  have "filter (\<lambda>mt. g_mt_id mt = msg_id m) (message_transmitter_asts m') =
      (if msg_id m' = msg_id m then message_transmitter_asts m' else [])" for m'
    by (simp add: message_transmitter_asts_def)
  then have "filter (\<lambda>mt. g_mt_id mt = msg_id m) (concat (map message_transmitter_asts (net_messages net))) =
      message_transmitter_asts m"
    by (simp add: by_key concat_key [OF d m])
  then show ?thesis
    by (simp add: getMessageTransmitters_def find_filter network_ast_def message_ast_def message_transmitter_asts_def)
qed

lemma groups_reload:
  assumes exact: "exact_network pf dbl net" and m: "m \<in> set (net_messages net)"
  shows "getSignalGroups (network_ast dbl net) (message_ast dbl m) = msg_signal_groups m"
proof -
  have d: "distinct (map msg_id (net_messages net))" using exact by (simp add: exact_network_def)
  have "filter (\<lambda>sg. g_sg_message_id sg = msg_id m) (map signal_group_ast (msg_signal_groups m')) =
      (if msg_id m' = msg_id m then map signal_group_ast (msg_signal_groups m') else [])"
    if "m' \<in> set (net_messages net)" for m'
  proof -
    have "list_all (\<lambda>sg. sg_message_id sg = msg_id m') (msg_signal_groups m')"
      using exact that by (auto simp: exact_network_def exact_message_def list_all_iff)
    then show ?thesis by (auto simp: signal_group_ast_def list_all_iff filter_empty_conv filter_map comp_def)
  qed
  then have "filter (\<lambda>sg. g_sg_message_id sg = msg_id m)
      (concat (map (\<lambda>m. map signal_group_ast (msg_signal_groups m)) (net_messages net))) =
      concat (map (\<lambda>m'. if msg_id m' = msg_id m then map signal_group_ast (msg_signal_groups m') else [])
        (net_messages net))"
    by (simp add: filter_concat comp_def cong: map_cong)
  then show ?thesis
    by (simp add: getSignalGroups_def network_ast_def message_ast_def concat_key [OF d m] signal_group_ast_def
        ISignalGroup_Create_def comp_def map_idI)
qed

lemma those_fst:
  "(\<And>x. x \<in> set xs \<Longrightarrow> \<exists>w. f (g x) = Some (x, w)) \<Longrightarrow> \<exists>r. those (map f (map g xs)) = Some r \<and> map fst r = xs"
  by (induction xs) fastforce+

lemma message_back:
  assumes printable: "printable_network dbl net" and exact: "exact_network pf dbl net"
    and m: "m \<in> set (net_messages net)"
  shows "\<exists>ws. spec_message pf (network_ast dbl net) (message_ast dbl m) = Some (m, ws)"
proof -
  have wf: "message_wf m" using exact m by (auto simp: exact_network_def exact_message_def list_all_iff)
  obtain r where r: "those (map (spec_signal pf (network_ast dbl net) (message_ast dbl m))
      (map (signal_ast dbl) (msg_signals m))) = Some r" "map fst r = msg_signals m"
    using those_fst [of "msg_signals m"] signal_back [OF printable exact m] by blast
  have "MessageImpl_new (msg_id m) (msg_name m) (msg_message_size m) (msg_transmitter m)
      (msg_message_transmitters m) (msg_signals m) (msg_attribute_values m) (msg_comment m)
      (msg_signal_groups m) = m"
    using wf by (cases "msg_error m")
      (auto simp: MessageImpl_new_def message_wf_def split: prod.split intro!: MessageImpl.equality)
  then show ?thesis
    using r attributes_reload(3) [OF printable exact m] comments_reload(3) [OF exact m]
      transmitters_reload [OF exact m] groups_reload [OF exact m]
    by (simp add: spec_message_def message_ast_def IMessage_Create_def Let_def)
qed

section \<open>Environment variables\<close>

lemma environment_variable_back:
  assumes printable: "printable_network dbl net" and exact: "exact_network pf dbl net"
    and ev: "ev \<in> set (net_environment_variables net)"
  shows "spec_env_var (network_ast dbl net) (environment_variable_ast dbl ev) = Some ev"
proof -
  have d: "distinct (map ev_name (net_environment_variables net))" using exact by (simp add: exact_network_def)
  have e: "exact_environment_variable dbl ev" using exact ev by (auto simp: exact_network_def list_all_iff)
  have "filter (\<lambda>evd. g_evd_name evd = ev_name ev) (environment_variable_data_asts ev') =
      (if ev_name ev' = ev_name ev then environment_variable_data_asts ev' else [])" for ev'
    by (simp add: environment_variable_data_asts_def)
  then have "find (\<lambda>evd. g_evd_name evd = ev_name ev) (g_net_environment_variable_datas (network_ast dbl net)) =
      (if ev_var_type ev = VT_Data then Some \<lparr>g_evd_name = ev_name ev, g_evd_size = ev_data_size ev\<rparr> else None)"
    by (simp add: network_ast_def find_filter by_key concat_key [OF d ev])
      (simp add: environment_variable_data_asts_def)
  moreover have "access_type_of (print_access_type acc) = acc" for acc
    by (cases acc) (simp_all add: access_type_of_def print_access_type_def)
  ultimately show ?thesis
    using e attributes_reload(5) [OF printable exact ev] comments_reload(5) [OF exact ev]
      descriptions_reload(2) [OF exact ev]
    by (cases "ev_var_type ev")
      (simp_all add: spec_env_var_def environment_variable_ast_def Let_def var_type_of_def
        IEnvironmentVariable_Create_def exact_environment_variable_def exact_def)
qed

lemma those_id: "(\<And>x. x \<in> set xs \<Longrightarrow> f (g x) = Some x) \<Longrightarrow> those (map f (map g xs)) = Some xs"
  by (induction xs) simp_all

section \<open>Networks\<close>

lemma value_tables_back:
  assumes "list_all (\<lambda>vt. printable_value_table vt \<and> vt_signal_type vt = None) vts"
    and "list_all (\<lambda>vt. vt_value_encoding_descriptions vt \<noteq> []) vts" and "g_net_signal_types gnet = []"
    and "g_net_value_tables gnet = concat (map value_table_asts vts)"
  shows "getValueTables gnet = vts"
proof -
  have "concat (map value_table_asts vts) = map value_table_ast vts"
    using assms(2) by (induction vts) (simp_all add: value_table_asts_def)
  moreover have "IValueTable_Create (vt_name vt) None (vt_value_encoding_descriptions vt) = vt"
    if "vt \<in> set vts" for vt
    using assms(1) that by (auto simp: list_all_iff IValueTable_Create_def intro!: ValueTableImpl.equality)
  ultimately show ?thesis
    using assms(3,4)
    by (simp add: getValueTables_def getSignalType_def value_table_ast_def veds_back comp_def Let_def map_idI)
qed

lemma definitions_back:
  assumes "list_all (\<lambda>ad. exact_value_type dbl (ad_value_type ad)) ads"
    and "g_net_attribute_definitions gnet = map (attribute_definition_ast dbl) ads"
  shows "getAttributeDefinitions gnet = ads"
proof -
  have "IAttributeDefinition_Create (g_ad_name (attribute_definition_ast dbl ad))
      (object_type_of (g_ad_object_type (attribute_definition_ast dbl ad)))
      (VisitorValueType (g_ad_value_type (attribute_definition_ast dbl ad))) = ad" if "ad \<in> set ads" for ad
  proof -
    have "object_type_of (if ad_object_type ad = OT_Network then None
        else Some (print_object_type (ad_object_type ad))) = ad_object_type ad"
      by (cases "ad_object_type ad") (simp_all add: object_type_of_def print_object_type_def)
    moreover have "VisitorValueType (value_type_ast dbl (ad_value_type ad)) = ad_value_type ad"
      using assms(1) that by (cases "ad_value_type ad") (auto simp: list_all_iff exact_def)
    ultimately show ?thesis
      by (simp add: attribute_definition_ast_def IAttributeDefinition_Create_def)
  qed
  then show ?thesis by (simp add: getAttributeDefinitions_def assms(2) comp_def map_idI)
qed

lemma network_back:
  assumes printable: "printable_network dbl net" and exact: "exact_network pf dbl net"
  shows "\<exists>ws. DBCAST2Network pf (network_ast dbl net) = Some (net, ws)"
proof -
  let ?g = "network_ast dbl net"
  obtain r where r: "those (map (spec_message pf ?g) (map (message_ast dbl) (net_messages net))) = Some r"
    "map fst r = net_messages net"
    using those_fst [of "net_messages net"] message_back [OF printable exact] by blast
  have evs: "those (map (spec_env_var ?g) (map (environment_variable_ast dbl) (net_environment_variables net))) =
      Some (net_environment_variables net)"
    by (rule those_id) (rule environment_variable_back [OF printable exact])
  have nodes: "map (spec_node ?g \<circ> (\<lambda>n. \<lparr>g_node_name = node_name n\<rparr>)) (net_nodes net) = net_nodes net"
    using attributes_reload(2) [OF printable exact] comments_reload(2) [OF exact]
    by (intro map_idI) (simp add: spec_node_def INode_Create_def)
  have defaults: "getAttributeDefaults ?g = net_attribute_defaults net"
    using attributes_back [of dbl OT_Network "net_attribute_defaults net"] printableD(1) [OF printable] exact
    by (simp add: getAttributeDefaults_def network_ast_def attribute_default_ast_def comp_def exact_network_def)
  have bt: "getBitTiming ?g = net_bit_timing net"
    using exact by (auto simp: exact_network_def getBitTiming_def network_ast_def bit_timing_ast_def
        IBitTiming_Create_def Let_def intro!: BitTimingImpl.equality)
  have vts: "getValueTables ?g = net_value_tables net"
    by (rule value_tables_back)
      (use printable exact in \<open>simp_all add: printable_network_def exact_network_def network_ast_def\<close>)
  have ads: "getAttributeDefinitions ?g = net_attribute_definitions net"
    by (rule definitions_back [where dbl = dbl]) (use exact in \<open>simp_all add: exact_network_def network_ast_def\<close>)
  have g: "g_net_messages ?g = map (message_ast dbl) (net_messages net)"
    "g_net_environment_variables ?g = map (environment_variable_ast dbl) (net_environment_variables net)"
    "g_net_nodes ?g = map (\<lambda>n. \<lparr>g_node_name = node_name n\<rparr>) (net_nodes net)"
    "getVersion ?g = net_version net" "getNewSymbols ?g = net_new_symbols net"
    by (simp_all add: network_ast_def getVersion_def getNewSymbols_def)
  show ?thesis
    unfolding DBCAST2Network_eq spec_network_def g
    using r evs nodes defaults bt vts ads attributes_reload(1) [OF printable exact] comments_reload(1) [OF exact]
    by (simp add: INetwork_Create_def)
qed

section \<open>The network of the example\<close>

lemma ex_file_exact: "exact_network ieee ex_dbl ex_file"
  using ex_file_new
  by (simp add: exact_network_def exact_message_def exact_signal_def exact_environment_variable_def
      exact_def message_wf_def ex_file_defs ex_file_fields show_ex ex_dbl_zero_one)

text \<open>C8. Reading back what was written: a network whose names are identifiers, whose strings hold no
  quotes, whose numbers survive six digits and whose objects can be told apart is written to a file
  from which parser and converter build the same network again, with all messages, signals,
  masks, attributes, comments, value descriptions and groups.\<close>

theorem printed_network_reloads:
  assumes "printable_network dbl net" and "exact_network pf dbl net" and "forward dbl" and "no_number dbl"
  shows "\<exists>t gnet ws. print_network net = Some t \<and> ParseFromMemory dbl t = Parsed gnet \<and>
     DBCAST2Network pf gnet = Some (net, ws)"
  using network_parses [OF assms(1,3,4)] network_back [OF assms(1,2)] by blast

theorem printed_network_reloads_witness:
  "\<exists>t gnet ws. print_network ex_file = Some t \<and> ParseFromMemory ex_dbl t = Parsed gnet \<and>
     DBCAST2Network ieee gnet = Some (ex_file, ws)"
  by (rule printed_network_reloads [OF ex_file_printable ex_file_exact ex_dbl_forward ex_dbl_no_number])

end
