(* ===== verification/CLoadProps.thy ===== *)
theory CLoadProps
  imports CApiProps Reload
begin

text \<open>
  A whole use of the C interface: load a file, walk to a signal through handles, and decode a frame.
\<close>

section \<open>Walking to a signal\<close>

lemma network_walk:
  assumes "deref m p = Some (NetworkObj net)" and "unat i < length (net_messages net)"
    and "unat j < length (msg_signals (net_messages net ! unat i))"
  shows "dbcppp_NetworkMessages_Get m p i = Some (Sub p (Message_of i))"
    and "look_up as_message m (Sub p (Message_of i)) = Some (net_messages net ! unat i)"
    and "dbcppp_MessageSignals_Get m (Sub p (Message_of i)) j =
      Some (Sub (Sub p (Message_of i)) (Signal_of j))"
    and "look_up as_signal m (Sub (Sub p (Message_of i)) (Signal_of j)) =
      Some (msg_signals (net_messages net ! unat i) ! unat j)"
proof -
  have "look_up as_network m p = Some net" using assms(1) by (simp add: look_up_obj)
  then show "dbcppp_NetworkMessages_Get m p i = Some (Sub p (Message_of i))"
    using assms(2) by (simp add: dbcppp_NetworkMessages_Get_def sub_handle_def)
  show msg: "look_up as_message m (Sub p (Message_of i)) = Some (net_messages net ! unat i)"
    using assms(1,2) by (simp add: look_up_obj member_def vec_at_def)
  then show "dbcppp_MessageSignals_Get m (Sub p (Message_of i)) j =
      Some (Sub (Sub p (Message_of i)) (Signal_of j))"
    using assms(3) by (simp add: dbcppp_MessageSignals_Get_def sub_handle_def)
  show "look_up as_signal m (Sub (Sub p (Message_of i)) (Signal_of j)) =
      Some (msg_signals (net_messages net ! unat i) ! unat j)"
    using msg assms(3) by (simp add: look_up_obj member_def vec_at_def)
qed

section \<open>The bits of a signal, as the file gives them\<close>

definition file_bit :: "G_Signal \<Rightarrow> nat \<Rightarrow> nat" where
  "file_bit s j =
     (if byte_order_of (g_sig_byte_order s) = LittleEndian then unat (g_sig_start_bit s) + j
      else mirror_bit (mirror_bit (unat (g_sig_start_bit s)) + (unat (g_sig_signal_size s) - 1 - j)))"

lemma file_bit_pos:
  assumes "sig_start_bit d = g_sig_start_bit s" and "sig_bit_size d = g_sig_signal_size s"
    and "sig_byte_order d = byte_order_of (g_sig_byte_order s)"
  shows "sig_pos d j = file_bit s j"
  by (cases "byte_order_of (g_sig_byte_order s)") (simp_all add: sig_pos_def file_bit_def assms Let_def)

lemma converted_signal:
  assumes "DBCAST2Network pf gnet = Some (net, ws)" and "i < length (g_net_messages gnet)"
    and "j < length (g_msg_signals (g_net_messages gnet ! i))"
  obtains d where "i < length (net_messages net)" and "j < length (msg_signals (net_messages net ! i))"
    and "msg_id (net_messages net ! i) = g_msg_id (g_net_messages gnet ! i)"
    and "msg_name (net_messages net ! i) = g_msg_name (g_net_messages gnet ! i)"
    and "SignalImpl_new pf (g_msg_size (g_net_messages gnet ! i)) d =
      Some (msg_signals (net_messages net ! i) ! j)"
    and "sig_name d = g_sig_name (g_msg_signals (g_net_messages gnet ! i) ! j)"
    and "sig_start_bit d = g_sig_start_bit (g_msg_signals (g_net_messages gnet ! i) ! j)"
    and "sig_bit_size d = g_sig_signal_size (g_msg_signals (g_net_messages gnet ! i) ! j)"
    and "sig_byte_order d =
      byte_order_of (g_sig_byte_order (g_msg_signals (g_net_messages gnet ! i) ! j))"
    and "sig_value_type d =
      value_type_of (g_sig_value_type (g_msg_signals (g_net_messages gnet ! i) ! j))"
    and "sig_extended_value_type d = getSignalExtendedValueType gnet (g_net_messages gnet ! i)
      (g_msg_signals (g_net_messages gnet ! i) ! j)"
proof -
  obtain msgs where m: "those (map (spec_message pf gnet) (g_net_messages gnet)) = Some msgs"
    and net: "net_messages net = map fst msgs"
    using assms(1) by (rule conversion_parts)
  note ms = those_map_SomeD [OF m]
  obtain msg w where msg: "msgs ! i = (msg, w)" by (cases "msgs ! i") auto
  then have sm: "spec_message pf gnet (g_net_messages gnet ! i) = Some (msg, w)"
    using ms assms(2) by simp
  obtain sigs where s: "those (map (spec_signal pf gnet (g_net_messages gnet ! i))
      (g_msg_signals (g_net_messages gnet ! i))) = Some sigs" "msg_signals msg = map fst sigs"
    and msg_fields: "msg_id msg = g_msg_id (g_net_messages gnet ! i)"
      "msg_name msg = g_msg_name (g_net_messages gnet ! i)"
    using sm by (rule spec_message_parts)
  note ss = those_map_SomeD [OF s(1)]
  obtain sg w' where sg: "sigs ! j = (sg, w')" by (cases "sigs ! j") auto
  have "net_messages net ! i = msg" "i < length (net_messages net)"
    using net msg ms assms(2) by simp_all
  moreover have "msg_signals msg ! j = sg" "j < length (msg_signals msg)"
    using s(2) sg ss assms(3) by simp_all
  moreover have "spec_signal pf gnet (g_net_messages gnet ! i)
      (g_msg_signals (g_net_messages gnet ! i) ! j) = Some (sg, w')"
    using ss sg assms(3) by simp
  then obtain d where "SignalImpl_new pf (g_msg_size (g_net_messages gnet ! i)) d = Some sg"
    "sig_name d = g_sig_name (g_msg_signals (g_net_messages gnet ! i) ! j)"
    "sig_start_bit d = g_sig_start_bit (g_msg_signals (g_net_messages gnet ! i) ! j)"
    "sig_bit_size d = g_sig_signal_size (g_msg_signals (g_net_messages gnet ! i) ! j)"
    "sig_byte_order d = byte_order_of (g_sig_byte_order (g_msg_signals (g_net_messages gnet ! i) ! j))"
    "sig_value_type d = value_type_of (g_sig_value_type (g_msg_signals (g_net_messages gnet ! i) ! j))"
    "sig_extended_value_type d = getSignalExtendedValueType gnet (g_net_messages gnet ! i)
      (g_msg_signals (g_net_messages gnet ! i) ! j)"
    by (rule spec_signal_parts)
  ultimately show ?thesis using msg_fields by (intro that [of d]) simp_all
qed

lemma loaded_network:
  assumes "ParseFromMemory dbl t = Parsed gnet" and "DBCAST2Network pf gnet = Some (net, ws)"
  shows "release_network (parse_or_throw dbl pf t) m = Some (alloc (NetworkObj net) m)"
  using assms by (simp add: release_network_def parse_or_throw_def LoadDBCFromIs_def)

text \<open>C32. From a file to a value: when the C program loads a file that parses and converts, it gets a
  network; the handle of its message \<open>i\<close> has the identifier and the name the file has there, the
  handle of that message's signal \<open>j\<close> the name of the signal; and when no warning was printed for the
  signal, decoding any buffer that is long enough for the message returns the bits at the position
  the file gives, with the sign the file gives. Loading the same text from memory gives the same.\<close>

theorem capi_load_decode:
  assumes "read_file (c_str name) = Some t" and "ParseFromMemory dbl t = Parsed gnet"
    and "DBCAST2Network pf gnet = Some (net, ws)"
    and "unat i < length (g_net_messages gnet)" and "gm = g_net_messages gnet ! unat i"
    and "unat j < length (g_msg_signals gm)" and "gs = g_msg_signals gm ! unat j"
    and "signal_warnings gm gs (msg_signals (net_messages net ! unat i) ! unat j) = []"
    and "unat (g_msg_size gm) < 2 ^ 60" and "unat (g_sig_start_bit gs) < 2 ^ 63"
    and "if unat (g_msg_size gm) \<le> 8 then 8 \<le> length fr else unat (g_msg_size gm) + 7 \<le> length fr"
  shows "\<exists>p m' msg sig raw.
    dbcppp_NetworkLoadDBCFromFile read_file dbl pf name m = Some (p, m') \<and>
    (c_str t = t \<longrightarrow> dbcppp_NetworkLoadDBCFromMemory dbl pf t m = Some (p, m')) \<and>
    dbcppp_NetworkMessages_Get m' p i = Some msg \<and>
    dbcppp_MessageId m' msg = Some (g_msg_id gm) \<and>
    dbcppp_MessageName m' msg = Some (c_str (g_msg_name gm)) \<and>
    dbcppp_MessageSignals_Get m' msg j = Some sig \<and>
    dbcppp_SignalName m' sig = Some (c_str (g_sig_name gs)) \<and>
    dbcppp_SignalDecode native m' sig fr = Some raw \<and>
    (\<forall>k < 64. bit raw k =
       (if k < unat (g_sig_signal_size gs) then frame_bit fr (file_bit gs k)
        else value_type_of (g_sig_value_type gs) = Signed \<and>
          getSignalExtendedValueType gnet gm gs = EVT_Integer \<and>
          frame_bit fr (file_bit gs (unat (g_sig_signal_size gs) - 1))))"
proof -
  let ?s = "msg_signals (net_messages net ! unat i) ! unat j"
  obtain d where n: "unat i < length (net_messages net)"
      "unat j < length (msg_signals (net_messages net ! unat i))"
      "msg_id (net_messages net ! unat i) = g_msg_id gm"
      "msg_name (net_messages net ! unat i) = g_msg_name gm"
    and new: "SignalImpl_new pf (g_msg_size gm) d = Some ?s"
    and d: "sig_name d = g_sig_name gs" "sig_start_bit d = g_sig_start_bit gs"
      "sig_bit_size d = g_sig_signal_size gs"
      "sig_byte_order d = byte_order_of (g_sig_byte_order gs)"
      "sig_value_type d = value_type_of (g_sig_value_type gs)"
      "sig_extended_value_type d = getSignalExtendedValueType gnet gm gs"
    using converted_signal [OF assms(3,4)] assms(6) unfolding assms(5,7) by metis
  have "signal_data.truncate ?s = d" using new by (rule SignalImpl_new_SomeD)
  from truncate_sel [OF this] have name: "sig_name ?s = g_sig_name gs" by (simp add: d)
  have ok: "well_sized d" "\<not> Error ?s SignalExceedsMessageSize"
    using silent_signal [OF new assms(8)] by simp_all
  obtain raw where raw: "Decode native ?s fr = Some raw"
    using decodes_without_error [OF new ok assms(9) _ assms(11)] assms(10) d(2) by metis
  then have "raw = spec_decode d fr"
    using decode_spec [OF new ok(1), of native fr] by (simp split: if_splits)
  then have bits: "bit raw k = (if k < unat (g_sig_signal_size gs) then frame_bit fr (file_bit gs k)
      else value_type_of (g_sig_value_type gs) = Signed \<and>
        getSignalExtendedValueType gnet gm gs = EVT_Integer \<and>
        frame_bit fr (file_bit gs (unat (g_sig_signal_size gs) - 1)))" if "k < 64" for k
    using that file_bit_pos [OF d(2-4)]
    by (simp add: bit_spec_decode value_bit_def sign_extended_def d Let_def)
  obtain p m' where pm: "alloc (NetworkObj net) m = (p, m')" by fastforce
  then have "deref m' p = Some (NetworkObj net)" by (auto simp: alloc_def)
  note walk = network_walk [OF this n(1,2)]
  have "dbcppp_NetworkLoadDBCFromFile read_file dbl pf name m = Some (p, m')"
    "c_str t = t \<Longrightarrow> dbcppp_NetworkLoadDBCFromMemory dbl pf t m = Some (p, m')"
    using loaded_network [OF assms(2,3)] pm
    by (simp_all add: dbcppp_NetworkLoadDBCFromFile_def dbcppp_NetworkLoadDBCFromMemory_def assms(1))
  then show ?thesis
    using walk n raw bits name
    by (intro exI [of _ p] exI [of _ m'] exI [of _ "Sub p (Message_of i)"]
        exI [of _ "Sub (Sub p (Message_of i)) (Signal_of j)"] exI [of _ raw])
      (simp add: dbcppp_MessageId_def dbcppp_MessageName_def dbcppp_SignalName_def
        dbcppp_SignalDecode_def)
qed

theorem capi_load_decode_witness:
  "\<exists>t p m' msg sig. print_network ex_file = Some t \<and>
     dbcppp_NetworkLoadDBCFromFile [''a.dbc'' \<mapsto> t] ex_dbl ieee ''a.dbc'' empty_mem = Some (p, m') \<and>
     dbcppp_NetworkMessages_Get m' p 0 = Some msg \<and> dbcppp_MessageId m' msg = Some 100 \<and>
     dbcppp_MessageSignals_Get m' msg 0 = Some sig \<and>
     dbcppp_SignalName m' sig = Some ''Speed'' \<and>
     dbcppp_SignalDecode Little m' sig [0x2A, 1, 2, 3, 4, 5, 6, 7] = Some 0x2A"
proof -
  let ?fr = "[0x2A, 1, 2, 3, 4, 5, 6, 7] :: u8 list" and ?g = "network_ast ex_dbl ex_file"
  obtain gm gs where g: "gm = g_net_messages ?g ! unat (0 :: u64)" "gs = g_msg_signals gm ! unat (0 :: u64)"
    by simp
  obtain t where t: "print_network ex_file = Some t" "ParseFromMemory ex_dbl t = Parsed ?g"
    using network_parses [OF ex_file_printable ex_dbl_forward ex_dbl_no_number] by blast
  obtain ws where ws: "DBCAST2Network ieee ?g = Some (ex_file, ws)"
    using network_back [OF ex_file_printable ex_file_exact] by blast
  have c: "c_str ''a.dbc'' = ''a.dbc''" "c_str ''Speed'' = ''Speed''" by code_simp+
  have e: "sig_error ex_file_signal = 0" by code_simp
  have ast: "unat (0 :: u64) < length (g_net_messages ?g)" "unat (0 :: u64) < length (g_msg_signals gm)"
    "g_msg_id gm = 100" "g_msg_size gm = 8" "g_sig_name gs = ''Speed''"
    "g_sig_start_bit gs = 0" "g_sig_signal_size gs = 8"
    "byte_order_of (g_sig_byte_order gs) = LittleEndian"
    "value_type_of (g_sig_value_type gs) = Unsigned"
    "msg_signals (net_messages ex_file ! unat (0 :: u64)) ! unat (0 :: u64) = ex_file_signal"
    by (simp_all add: g network_ast_def message_ast_def signal_ast_def ex_file_defs
        print_byte_order_def print_value_type_sign_def byte_order_of_def value_type_of_def)
  have "signal_warnings gm gs (msg_signals (net_messages ex_file ! unat (0 :: u64)) ! unat (0 :: u64)) = []"
    unfolding ast(10) by (simp add: signal_warnings_def Error_def e)
  note w = capi_load_decode [OF _ t(2) ws ast(1) g(1) ast(2) g(2) this,
      of "[''a.dbc'' \<mapsto> t]" "''a.dbc''" ?fr empty_mem Little]
  obtain p m' msg sig raw where r:
    "dbcppp_NetworkLoadDBCFromFile [''a.dbc'' \<mapsto> t] ex_dbl ieee ''a.dbc'' empty_mem = Some (p, m')"
    "dbcppp_NetworkMessages_Get m' p 0 = Some msg" "dbcppp_MessageId m' msg = Some 100"
    "dbcppp_MessageSignals_Get m' msg 0 = Some sig" "dbcppp_SignalName m' sig = Some ''Speed''"
    "dbcppp_SignalDecode Little m' sig ?fr = Some raw"
    and bits: "\<forall>k < 64. bit raw k = (k < 8 \<and> frame_bit ?fr (file_bit gs k))"
    using w by (auto simp: c ast)
  have "raw = 0x2A"
  proof (rule u64_eqI)
    fix k :: nat assume "k < 64"
    have "file_bit gs k = k" by (simp add: file_bit_def ast)
    moreover have "(k < 8 \<and> frame_bit ?fr k) = bit (0x2A :: u64) k"
    proof (cases "k < 8")
      case False
      have "take_bit 8 (0x2A :: u64) = 0x2A" by code_simp
      with False have "\<not> bit (0x2A :: u64) k" by (metis bit_take_bit_iff)
      with False show ?thesis by simp
    qed (simp add: frame_bit_def)
    ultimately show "bit raw k = bit (0x2A :: u64) k" using bits \<open>k < 64\<close> by simp
  qed
  with t(1) r show ?thesis by blast
qed

end
