(* ===== verification/Unreadable.thy ===== *)
theory Unreadable
  imports Reload
begin

text \<open>
  Files the writer writes and the grammar rejects.
\<close>

section \<open>Parsers that throw\<close>

definition throws :: "'a px \<Rightarrow> string \<Rightarrow> bool" where
  "throws p s \<longleftrightarrow> (\<exists>r. p default_skipper s = Throw r \<and> no_slash r)"

lemma must_throws:
  assumes "yields p s a r" and "\<And>s'. same s' r \<Longrightarrow> throws (f a) s'"
  shows "throws (seq (expect p) f) s"
  using assms by (fastforce simp: yields_def throws_def seq_def expect_def)

lemma seq_throws:
  assumes "yields p s a r" and "\<And>s'. same s' r \<Longrightarrow> throws (f a) s'"
  shows "throws (seq p f) s"
  using assms by (fastforce simp: yields_def throws_def seq_def)

lemma many_one:
  assumes "yields p s a e" and "takes 1 p" and "stops p e"
  shows "yields (many p) s [a] e"
proof -
  obtain q where q: "p default_skipper s = Ok a q" "same q e" using assms(1) by (auto simp: yields_def)
  then obtain q' where "many p default_skipper q = Ok [] q'" "same q' e"
    using many_none [OF assms(3) q(2)] by (auto simp: yields_def)
  then show ?thesis
    using q takesD [OF assms(2) moving_default, of s] by (simp add: yields_def many.simps [of p _ s])
qed

text \<open>Behind all sections nothing is left.\<close>

lemma eoi_throws:
  assumes "same s r" and "no_slash r" and "dropWhile is_space r \<noteq> []"
  shows "throws (must eoi f) s"
proof -
  have "skip_over default_skipper s = Ok () (dropWhile is_space r)"
    using skip_all [of s] assms(1,2) same_words [OF assms(1)] by (simp add: same_def)
  then show ?thesis
    using assms(2,3) by (simp add: throws_def seq_def expect_def eoi_def prim_def no_slash_def del: dropWhile_eq_Nil_conv)
qed

lemma throws_rejected:
  assumes "throws p t" and "network_rule dbl = rule p"
  shows "ParseFromMemory dbl t = Rejected"
proof -
  obtain r where r: "p default_skipper t = Throw r" "no_slash r" using assms(1) by (auto simp: throws_def)
  then show ?thesis
    using skip_all [OF r(2)] by (simp add: ParseFromMemory_def assms(2) rule_def)
qed

section \<open>Signals without receivers\<close>

lemma no_receivers_read:
  "plain u \<Longrightarrow> unit_receivers default_skipper (CHR '' '' # quoted u @ CHR 0x0A # r) =
     Fail (CHR '' '' # quoted u @ CHR 0x0A # r)"
  by (simp add: unit_receivers_def px_simps reading list_of_def cong: on_ok_weak)

lemma keyword_same:
  assumes "same s s'"
  shows "keyword t p default_skipper s = keyword t p default_skipper s'"
proof -
  have "keyword t p default_skipper s = keyword t p default_skipper (dropWhile is_space s)" for s
    by (induction s) (simp_all add: keyword_space)
  then show ?thesis using assms by (metis same_def)
qed

lemma rule_throws: "p sk s = Throw r \<Longrightarrow> rule p sk s = Fail r"
  by (simp add: rule_def)

text \<open>The rule \<open>signal\<close> fails at the unit, where the receivers are missing.\<close>

lemma no_receivers_fails:
  assumes "printable_signal dbl (s\<lparr>sig_receivers := rs\<rparr>)" and "sig_receivers s = []"
  shows "fails (signal_rule dbl) (print_signal s @ r) (quoted (sig_unit s) @ newline @ r)"
  unfolding fails_def
proof (intro allI impI)
  fix s' assume "same s' (print_signal s @ r)"
  note k = keyword_same [OF this]
  show "\<exists>q. signal_rule dbl default_skipper s' = Fail q \<and> same q (quoted (sig_unit s) @ newline @ r)"
    using assms
    by (simp add: signal_rule_def px_simps k print_signal_def tab_Cons newline_Cons printable_signal_def
        reading is_space_def multiplexer_read no_receivers_read rule_throws cong: on_ok_weak)
qed

lemma message_no_receivers:
  assumes "is_identifier (msg_name m)" and "is_identifier (msg_transmitter m)"
    and "msg_signals m = ss @ s # ss'" and "list_all (printable_signal dbl) ss"
    and "printable_signal dbl (s\<lparr>sig_receivers := rs\<rparr>)" and "sig_receivers s = []" and "forward dbl"
    and "same s' (print_message m @ r)"
  shows "yields (message_rule dbl) s' (message_ast dbl (m\<lparr>msg_signals := ss\<rparr>))
     (quoted (sig_unit s) @ newline @ concat (map print_signal ss') @ r)"
proof -
  let ?r = "concat (map print_signal ss') @ r"
  have "yields (many (signal_rule dbl)) (concat (map print_signal (msg_signals m)) @ r)
      (map (signal_ast dbl) ss) (quoted (sig_unit s) @ newline @ ?r)"
    using assms(3,4) no_receivers_fails [OF assms(5,6)]
    by (intro many_yields_until [OF items_map takes_signal [OF assms(7)]])
      (auto simp: list_all_iff intro: signal_reads simp del: same_drop)
  then obtain q where "many (signal_rule dbl) default_skipper (concat (map print_signal (msg_signals m)) @ r) =
      Ok (map (signal_ast dbl) ss) q" and "same q (quoted (sig_unit s) @ newline @ ?r)"
    by (auto simp: yields_def)
  then show ?thesis
    using assms(1,2)
    by (simp add: yields_def message_rule_def px_simps keyword_same [OF assms(8)] print_message_def newline_Cons
        message_ast_def reading is_space_def cong: on_ok_weak)
qed

lemma begins_quoted: "begins [] (quoted u @ r)" "dropWhile is_space (quoted u @ r) \<noteq> []"
  by (simp_all add: begins_def no_slash_def first_word_def quoted_def dquote_Cons is_space_def
      word_char_def is_letter_def is_digit_def)

lemma begins_message: "begins [''BO_''] (print_message m @ r)"
  by (simp add: begins_def first_word_def no_slash_def print_message_def is_space_def)

text \<open>C19. A signal without receivers makes a file unreadable: where a network has such a signal, all before
  it being readable, the grammar rejects the file that is written, whatever comes behind.\<close>

theorem no_receivers_rejected:
  assumes "print_network net = Some t" and "plain (net_version net)"
    and "set (net_new_symbols net) \<subseteq> set new_symbol_names"
    and "list_all is_identifier (map node_name (net_nodes net))"
    and "list_all printable_value_table (net_value_tables net)"
    and "net_messages net = ms @ m # ms'" and "list_all (printable_message dbl) ms"
    and "is_identifier (msg_name m)" and "is_identifier (msg_transmitter m)"
    and "msg_signals m = ss @ s # ss'" and "list_all (printable_signal dbl) ss"
    and "printable_signal dbl (s\<lparr>sig_receivers := rs\<rparr>)" and "sig_receivers s = []" and "forward dbl"
  shows "ParseFromMemory dbl t = Rejected"
proof -
  obtain rest where t: "Some t = Some (
     (''VERSION '' @ quoted (net_version net) @ newline) @ symbols_text (net_new_symbols net) @
     print_bit_timing (net_bit_timing net) @
     (''BU_:'' @ concat (map (\<lambda>n. '' '' @ n) (map node_name (net_nodes net))) @ newline) @
     concat (map print_value_table (net_value_tables net)) @
     concat (map print_message ms) @ print_message m @ rest)"
    using assms(1,6) by (auto simp: print_network_def print_head_def symbols_text_def comp_def bind_eq_Some_conv)
  have "heads ''BO_'' (concat (map print_message ms))"
    using heads_sections(2) [of "net\<lparr>net_messages := ms\<rparr>"] by simp
  note b = headsD [OF this begins_message [of m rest]]
  note s1 = many_yields [OF value_tables_items [OF assms(5)] takes_value_table stops_rules(1) [OF b] TrueI]
  let ?m = "message_ast dbl (m\<lparr>msg_signals := ss\<rparr>)"
  let ?e = "quoted (sig_unit s) @ newline @ concat (map print_signal ss') @ rest"
  note e = begins_quoted(1) [of "sig_unit s" "newline @ concat (map print_signal ss') @ rest"]
  note none = many_none [OF stops_rules(1) [OF e]] many_none [OF stops_rules(3) [OF e]]
    many_none [OF stops_rules(4) [OF e]] many_none [OF stops_rules(5) [OF e]]
    many_none [OF stops_rules(6) [OF e]] many_none [OF stops_rules(7) [OF e]]
    many_none [OF stops_rules(8) [OF e]] many_none [OF stops_default [OF e]]
    many_none [OF stops_rules(9) [OF e]] many_none [OF stops_description [OF e]]
    many_none [OF stops_rules(10) [OF e]] many_none [OF stops_extended [OF e]]
    many_none [OF stops_rules(11) [OF e]]
  have "yields (many (message_rule dbl)) s' [?m] ?e" if "same s' (print_message m @ rest)" for s'
    using message_no_receivers [OF assms(8-14) that] takes_message [OF assms(14)] stops_rules(2) [OF e]
    by (intro many_one) simp_all
  note s2 = many_then [OF messages_items [OF assms(7,14)] takes_message [OF assms(14)] this message_behind]
  have eoi: "throws (must eoi f) s'" if "same s' ?e" for f :: "unit \<Rightarrow> G_Network px" and s'
    by (rule eoi_throws [OF that _ begins_quoted(2)]) (use e in \<open>simp add: begins_def\<close>)
  show ?thesis
    apply (rule throws_rejected [OF _ network_rule_def])
    apply (rule seq_throws, rule head_yields(1) [OF assms(2)], rule same_Some [OF t])
    apply (rule must_throws, erule head_yields(2) [OF assms(3)])
    apply (rule must_throws, erule head_yields(3))
    apply (rule must_throws, erule head_yields(4) [OF assms(4)])
    apply (rule must_throws, rule s1, simp, assumption)
    apply (rule must_throws, rule s2, assumption, assumption)
    apply (rule must_throws, rule none, (simp; fail)+)+
    apply (erule eoi)
    done
qed

text \<open>A network with one signal, which no node receives.\<close>

definition ex_mute :: SignalImpl where
  "ex_mute = ex_impl 8 (ex_signal 0 8 LittleEndian Unsigned)"

lemma ex_mute_fields: "signal_data.truncate ex_mute = ex_signal 0 8 LittleEndian Unsigned"
  unfolding ex_mute_def by (rule SignalImpl_new_SomeD [OF ex_impl]) (simp_all add: ex_signal_def)

lemmas ex_mute_sel = truncate_sel [OF ex_mute_fields, unfolded ex_signal_def, simplified]

definition ex_unreceived :: NetworkImpl where
  "ex_unreceived = ex_network [] [IMessage_Create 1 ''M'' 8 ''ECU'' [] [ex_mute] [] [] []]"

theorem no_receivers_rejected_witness:
  "\<exists>t. print_network ex_unreceived = Some t \<and> ParseFromMemory ex_dbl t = Rejected"
proof -
  have scan: "scan_mux [ex_mute] = (False, None)"
    by (simp add: scan_mux_def scan_mux_step_def ex_mute_sel)
  define m where "m = IMessage_Create 1 ''M'' 8 ''ECU'' [] [ex_mute] [] [] []"
  have m: "msg_name m = ''M''" "msg_transmitter m = ''ECU''" "msg_signals m = [] @ ex_mute # []"
    "msg_attribute_values m = []"
    by (simp_all add: m_def IMessage_Create_def MessageImpl_new_def scan)
  have net: "net_messages ex_unreceived = [] @ m # []" "net_version ex_unreceived = ''1''"
    "net_new_symbols ex_unreceived = []" "net_nodes ex_unreceived = []" "net_value_tables ex_unreceived = []"
    "net_attribute_defaults ex_unreceived = []" "net_attribute_values ex_unreceived = []"
    "net_environment_variables ex_unreceived = []"
    by (simp_all add: ex_unreceived_def ex_network_def INetwork_Create_def m_def)
  obtain t where t: "print_network ex_unreceived = Some t"
    by (simp add: print_network_def print_attribute_section_def print_attribute_list_def print_all_def
        net m ex_mute_sel Let_def)
  have "ParseFromMemory ex_dbl t = Rejected"
    by (rule no_receivers_rejected [OF t _ _ _ _ net(1) _ _ _ m(3), where rs = "[''N'']"])
      (simp_all add: net m printable_signal_def ex_mute_sel show_ex ex_dbl_zero_one ex_dbl_forward
        plain_def printable_veds_def is_identifier_def word_char_def is_letter_def)
  then show ?thesis using t by blast
qed

end
