(* ===== verification/Collections.thy ===== *)
theory Collections
  imports Network Iterators
begin

text \<open>
  The collections of the classes: the pairs \<open>_Get\<close>, \<open>_Size\<close> of the implementations, and the
  \<open>Iterable\<close> each interface makes of them (\<open>DBCPPP_MAKE_ITERABLE\<close>). Every pair is a \<open>collection\<close>
  over the vector of the object, so a loop over the \<open>Iterable\<close> is a recursion over the list that
  models the vector: this is how the other theories write the loops of the code.
\<close>

section \<open>\<open>NodeImpl\<close>\<close>

definition NodeImpl_AttributeValues_Get :: "NodeImpl \<Rightarrow> u64 \<Rightarrow> AttributeImpl option" where
  "NodeImpl_AttributeValues_Get self i = vec_at (node_attribute_values self) i"

definition NodeImpl_AttributeValues_Size :: "NodeImpl \<Rightarrow> u64" where
  "NodeImpl_AttributeValues_Size self = vec_size (node_attribute_values self)"

definition INode_AttributeValues :: "NodeImpl \<Rightarrow> AttributeImpl Iterable" where
  "INode_AttributeValues self = make_iterable (NodeImpl_AttributeValues_Get self) (NodeImpl_AttributeValues_Size self)"

interpretation node_attributes: collection NodeImpl_AttributeValues_Get NodeImpl_AttributeValues_Size node_attribute_values
  by unfold_locales (simp_all add: NodeImpl_AttributeValues_Get_def NodeImpl_AttributeValues_Size_def)

lemmas INode_iterables = INode_AttributeValues_def

lemmas INode_visits = node_attributes.for_each_visits

section \<open>\<open>ValueTableImpl\<close>\<close>

definition ValueTableImpl_ValueEncodingDescriptions_Get :: "ValueTableImpl \<Rightarrow> u64 \<Rightarrow> ValueEncodingDescriptionImpl option" where
  "ValueTableImpl_ValueEncodingDescriptions_Get self i = vec_at (vt_value_encoding_descriptions self) i"

definition ValueTableImpl_ValueEncodingDescriptions_Size :: "ValueTableImpl \<Rightarrow> u64" where
  "ValueTableImpl_ValueEncodingDescriptions_Size self = vec_size (vt_value_encoding_descriptions self)"

definition IValueTable_ValueEncodingDescriptions :: "ValueTableImpl \<Rightarrow> ValueEncodingDescriptionImpl Iterable" where
  "IValueTable_ValueEncodingDescriptions self = make_iterable (ValueTableImpl_ValueEncodingDescriptions_Get self) (ValueTableImpl_ValueEncodingDescriptions_Size self)"

interpretation table_descriptions: collection ValueTableImpl_ValueEncodingDescriptions_Get ValueTableImpl_ValueEncodingDescriptions_Size vt_value_encoding_descriptions
  by unfold_locales (simp_all add: ValueTableImpl_ValueEncodingDescriptions_Get_def ValueTableImpl_ValueEncodingDescriptions_Size_def)

lemmas IValueTable_iterables = IValueTable_ValueEncodingDescriptions_def

lemmas IValueTable_visits = table_descriptions.for_each_visits

section \<open>\<open>SignalGroupImpl\<close>\<close>

definition SignalGroupImpl_SignalNames_Get :: "SignalGroupImpl \<Rightarrow> u64 \<Rightarrow> string option" where
  "SignalGroupImpl_SignalNames_Get self i = vec_at (sg_signal_names self) i"

definition SignalGroupImpl_SignalNames_Size :: "SignalGroupImpl \<Rightarrow> u64" where
  "SignalGroupImpl_SignalNames_Size self = vec_size (sg_signal_names self)"

definition ISignalGroup_SignalNames :: "SignalGroupImpl \<Rightarrow> string Iterable" where
  "ISignalGroup_SignalNames self = make_iterable (SignalGroupImpl_SignalNames_Get self) (SignalGroupImpl_SignalNames_Size self)"

interpretation group_signals: collection SignalGroupImpl_SignalNames_Get SignalGroupImpl_SignalNames_Size sg_signal_names
  by unfold_locales (simp_all add: SignalGroupImpl_SignalNames_Get_def SignalGroupImpl_SignalNames_Size_def)

lemmas ISignalGroup_iterables = ISignalGroup_SignalNames_def

lemmas ISignalGroup_visits = group_signals.for_each_visits

section \<open>\<open>SignalMultiplexerValueImpl\<close>\<close>

definition SignalMultiplexerValueImpl_ValueRanges_Get :: "SignalMultiplexerValueImpl \<Rightarrow> u64 \<Rightarrow> Range option" where
  "SignalMultiplexerValueImpl_ValueRanges_Get self i = vec_at (smv_value_ranges self) i"

definition SignalMultiplexerValueImpl_ValueRanges_Size :: "SignalMultiplexerValueImpl \<Rightarrow> u64" where
  "SignalMultiplexerValueImpl_ValueRanges_Size self = vec_size (smv_value_ranges self)"

definition ISignalMultiplexerValue_ValueRanges :: "SignalMultiplexerValueImpl \<Rightarrow> Range Iterable" where
  "ISignalMultiplexerValue_ValueRanges self = make_iterable (SignalMultiplexerValueImpl_ValueRanges_Get self) (SignalMultiplexerValueImpl_ValueRanges_Size self)"

interpretation switch_value_ranges: collection SignalMultiplexerValueImpl_ValueRanges_Get SignalMultiplexerValueImpl_ValueRanges_Size smv_value_ranges
  by unfold_locales (simp_all add: SignalMultiplexerValueImpl_ValueRanges_Get_def SignalMultiplexerValueImpl_ValueRanges_Size_def)

lemmas ISignalMultiplexerValue_iterables = ISignalMultiplexerValue_ValueRanges_def

lemmas ISignalMultiplexerValue_visits = switch_value_ranges.for_each_visits

section \<open>\<open>EnvironmentVariableImpl\<close>\<close>

definition EnvironmentVariableImpl_AccessNodes_Get :: "EnvironmentVariableImpl \<Rightarrow> u64 \<Rightarrow> string option" where
  "EnvironmentVariableImpl_AccessNodes_Get self i = vec_at (ev_access_nodes self) i"

definition EnvironmentVariableImpl_AccessNodes_Size :: "EnvironmentVariableImpl \<Rightarrow> u64" where
  "EnvironmentVariableImpl_AccessNodes_Size self = vec_size (ev_access_nodes self)"

definition IEnvironmentVariable_AccessNodes :: "EnvironmentVariableImpl \<Rightarrow> string Iterable" where
  "IEnvironmentVariable_AccessNodes self = make_iterable (EnvironmentVariableImpl_AccessNodes_Get self) (EnvironmentVariableImpl_AccessNodes_Size self)"

definition EnvironmentVariableImpl_ValueEncodingDescriptions_Get :: "EnvironmentVariableImpl \<Rightarrow> u64 \<Rightarrow> ValueEncodingDescriptionImpl option" where
  "EnvironmentVariableImpl_ValueEncodingDescriptions_Get self i = vec_at (ev_value_encoding_descriptions self) i"

definition EnvironmentVariableImpl_ValueEncodingDescriptions_Size :: "EnvironmentVariableImpl \<Rightarrow> u64" where
  "EnvironmentVariableImpl_ValueEncodingDescriptions_Size self = vec_size (ev_value_encoding_descriptions self)"

definition IEnvironmentVariable_ValueEncodingDescriptions :: "EnvironmentVariableImpl \<Rightarrow> ValueEncodingDescriptionImpl Iterable" where
  "IEnvironmentVariable_ValueEncodingDescriptions self = make_iterable (EnvironmentVariableImpl_ValueEncodingDescriptions_Get self) (EnvironmentVariableImpl_ValueEncodingDescriptions_Size self)"

definition EnvironmentVariableImpl_AttributeValues_Get :: "EnvironmentVariableImpl \<Rightarrow> u64 \<Rightarrow> AttributeImpl option" where
  "EnvironmentVariableImpl_AttributeValues_Get self i = vec_at (ev_attribute_values self) i"

definition EnvironmentVariableImpl_AttributeValues_Size :: "EnvironmentVariableImpl \<Rightarrow> u64" where
  "EnvironmentVariableImpl_AttributeValues_Size self = vec_size (ev_attribute_values self)"

definition IEnvironmentVariable_AttributeValues :: "EnvironmentVariableImpl \<Rightarrow> AttributeImpl Iterable" where
  "IEnvironmentVariable_AttributeValues self = make_iterable (EnvironmentVariableImpl_AttributeValues_Get self) (EnvironmentVariableImpl_AttributeValues_Size self)"

interpretation variable_nodes: collection EnvironmentVariableImpl_AccessNodes_Get EnvironmentVariableImpl_AccessNodes_Size ev_access_nodes
  by unfold_locales (simp_all add: EnvironmentVariableImpl_AccessNodes_Get_def EnvironmentVariableImpl_AccessNodes_Size_def)

interpretation variable_descriptions: collection EnvironmentVariableImpl_ValueEncodingDescriptions_Get EnvironmentVariableImpl_ValueEncodingDescriptions_Size ev_value_encoding_descriptions
  by unfold_locales (simp_all add: EnvironmentVariableImpl_ValueEncodingDescriptions_Get_def EnvironmentVariableImpl_ValueEncodingDescriptions_Size_def)

interpretation variable_attributes: collection EnvironmentVariableImpl_AttributeValues_Get EnvironmentVariableImpl_AttributeValues_Size ev_attribute_values
  by unfold_locales (simp_all add: EnvironmentVariableImpl_AttributeValues_Get_def EnvironmentVariableImpl_AttributeValues_Size_def)

lemmas IEnvironmentVariable_iterables = IEnvironmentVariable_AccessNodes_def
  IEnvironmentVariable_ValueEncodingDescriptions_def
  IEnvironmentVariable_AttributeValues_def

lemmas IEnvironmentVariable_visits = variable_nodes.for_each_visits
  variable_descriptions.for_each_visits
  variable_attributes.for_each_visits

section \<open>\<open>SignalImpl\<close>\<close>

definition SignalImpl_Receivers_Get :: "SignalImpl \<Rightarrow> u64 \<Rightarrow> string option" where
  "SignalImpl_Receivers_Get self i = vec_at (sig_receivers self) i"

definition SignalImpl_Receivers_Size :: "SignalImpl \<Rightarrow> u64" where
  "SignalImpl_Receivers_Size self = vec_size (sig_receivers self)"

definition ISignal_Receivers :: "SignalImpl \<Rightarrow> string Iterable" where
  "ISignal_Receivers self = make_iterable (SignalImpl_Receivers_Get self) (SignalImpl_Receivers_Size self)"

definition SignalImpl_ValueEncodingDescriptions_Get :: "SignalImpl \<Rightarrow> u64 \<Rightarrow> ValueEncodingDescriptionImpl option" where
  "SignalImpl_ValueEncodingDescriptions_Get self i = vec_at (sig_value_encoding_descriptions self) i"

definition SignalImpl_ValueEncodingDescriptions_Size :: "SignalImpl \<Rightarrow> u64" where
  "SignalImpl_ValueEncodingDescriptions_Size self = vec_size (sig_value_encoding_descriptions self)"

definition ISignal_ValueEncodingDescriptions :: "SignalImpl \<Rightarrow> ValueEncodingDescriptionImpl Iterable" where
  "ISignal_ValueEncodingDescriptions self = make_iterable (SignalImpl_ValueEncodingDescriptions_Get self) (SignalImpl_ValueEncodingDescriptions_Size self)"

definition SignalImpl_AttributeValues_Get :: "SignalImpl \<Rightarrow> u64 \<Rightarrow> AttributeImpl option" where
  "SignalImpl_AttributeValues_Get self i = vec_at (sig_attribute_values self) i"

definition SignalImpl_AttributeValues_Size :: "SignalImpl \<Rightarrow> u64" where
  "SignalImpl_AttributeValues_Size self = vec_size (sig_attribute_values self)"

definition ISignal_AttributeValues :: "SignalImpl \<Rightarrow> AttributeImpl Iterable" where
  "ISignal_AttributeValues self = make_iterable (SignalImpl_AttributeValues_Get self) (SignalImpl_AttributeValues_Size self)"

definition SignalImpl_SignalMultiplexerValues_Get :: "SignalImpl \<Rightarrow> u64 \<Rightarrow> SignalMultiplexerValueImpl option" where
  "SignalImpl_SignalMultiplexerValues_Get self i = vec_at (sig_signal_multiplexer_values self) i"

definition SignalImpl_SignalMultiplexerValues_Size :: "SignalImpl \<Rightarrow> u64" where
  "SignalImpl_SignalMultiplexerValues_Size self = vec_size (sig_signal_multiplexer_values self)"

definition ISignal_SignalMultiplexerValues :: "SignalImpl \<Rightarrow> SignalMultiplexerValueImpl Iterable" where
  "ISignal_SignalMultiplexerValues self = make_iterable (SignalImpl_SignalMultiplexerValues_Get self) (SignalImpl_SignalMultiplexerValues_Size self)"

interpretation signal_receivers: collection SignalImpl_Receivers_Get SignalImpl_Receivers_Size sig_receivers
  by unfold_locales (simp_all add: SignalImpl_Receivers_Get_def SignalImpl_Receivers_Size_def)

interpretation signal_descriptions: collection SignalImpl_ValueEncodingDescriptions_Get SignalImpl_ValueEncodingDescriptions_Size sig_value_encoding_descriptions
  by unfold_locales (simp_all add: SignalImpl_ValueEncodingDescriptions_Get_def SignalImpl_ValueEncodingDescriptions_Size_def)

interpretation signal_attributes: collection SignalImpl_AttributeValues_Get SignalImpl_AttributeValues_Size sig_attribute_values
  by unfold_locales (simp_all add: SignalImpl_AttributeValues_Get_def SignalImpl_AttributeValues_Size_def)

interpretation signal_switch_values: collection SignalImpl_SignalMultiplexerValues_Get SignalImpl_SignalMultiplexerValues_Size sig_signal_multiplexer_values
  by unfold_locales (simp_all add: SignalImpl_SignalMultiplexerValues_Get_def SignalImpl_SignalMultiplexerValues_Size_def)

lemmas ISignal_iterables = ISignal_Receivers_def
  ISignal_ValueEncodingDescriptions_def
  ISignal_AttributeValues_def
  ISignal_SignalMultiplexerValues_def

lemmas ISignal_visits = signal_receivers.for_each_visits
  signal_descriptions.for_each_visits
  signal_attributes.for_each_visits
  signal_switch_values.for_each_visits

section \<open>\<open>MessageImpl\<close>\<close>

definition MessageImpl_MessageTransmitters_Get :: "MessageImpl \<Rightarrow> u64 \<Rightarrow> string option" where
  "MessageImpl_MessageTransmitters_Get self i = vec_at (msg_message_transmitters self) i"

definition MessageImpl_MessageTransmitters_Size :: "MessageImpl \<Rightarrow> u64" where
  "MessageImpl_MessageTransmitters_Size self = vec_size (msg_message_transmitters self)"

definition IMessage_MessageTransmitters :: "MessageImpl \<Rightarrow> string Iterable" where
  "IMessage_MessageTransmitters self = make_iterable (MessageImpl_MessageTransmitters_Get self) (MessageImpl_MessageTransmitters_Size self)"

definition MessageImpl_Signals_Get :: "MessageImpl \<Rightarrow> u64 \<Rightarrow> SignalImpl option" where
  "MessageImpl_Signals_Get self i = vec_at (msg_signals self) i"

definition MessageImpl_Signals_Size :: "MessageImpl \<Rightarrow> u64" where
  "MessageImpl_Signals_Size self = vec_size (msg_signals self)"

definition IMessage_Signals :: "MessageImpl \<Rightarrow> SignalImpl Iterable" where
  "IMessage_Signals self = make_iterable (MessageImpl_Signals_Get self) (MessageImpl_Signals_Size self)"

definition MessageImpl_AttributeValues_Get :: "MessageImpl \<Rightarrow> u64 \<Rightarrow> AttributeImpl option" where
  "MessageImpl_AttributeValues_Get self i = vec_at (msg_attribute_values self) i"

definition MessageImpl_AttributeValues_Size :: "MessageImpl \<Rightarrow> u64" where
  "MessageImpl_AttributeValues_Size self = vec_size (msg_attribute_values self)"

definition IMessage_AttributeValues :: "MessageImpl \<Rightarrow> AttributeImpl Iterable" where
  "IMessage_AttributeValues self = make_iterable (MessageImpl_AttributeValues_Get self) (MessageImpl_AttributeValues_Size self)"

definition MessageImpl_SignalGroups_Get :: "MessageImpl \<Rightarrow> u64 \<Rightarrow> SignalGroupImpl option" where
  "MessageImpl_SignalGroups_Get self i = vec_at (msg_signal_groups self) i"

definition MessageImpl_SignalGroups_Size :: "MessageImpl \<Rightarrow> u64" where
  "MessageImpl_SignalGroups_Size self = vec_size (msg_signal_groups self)"

definition IMessage_SignalGroups :: "MessageImpl \<Rightarrow> SignalGroupImpl Iterable" where
  "IMessage_SignalGroups self = make_iterable (MessageImpl_SignalGroups_Get self) (MessageImpl_SignalGroups_Size self)"

interpretation message_transmitters: collection MessageImpl_MessageTransmitters_Get MessageImpl_MessageTransmitters_Size msg_message_transmitters
  by unfold_locales (simp_all add: MessageImpl_MessageTransmitters_Get_def MessageImpl_MessageTransmitters_Size_def)

interpretation message_signals: collection MessageImpl_Signals_Get MessageImpl_Signals_Size msg_signals
  by unfold_locales (simp_all add: MessageImpl_Signals_Get_def MessageImpl_Signals_Size_def)

interpretation message_attributes: collection MessageImpl_AttributeValues_Get MessageImpl_AttributeValues_Size msg_attribute_values
  by unfold_locales (simp_all add: MessageImpl_AttributeValues_Get_def MessageImpl_AttributeValues_Size_def)

interpretation message_groups: collection MessageImpl_SignalGroups_Get MessageImpl_SignalGroups_Size msg_signal_groups
  by unfold_locales (simp_all add: MessageImpl_SignalGroups_Get_def MessageImpl_SignalGroups_Size_def)

lemmas IMessage_iterables = IMessage_MessageTransmitters_def
  IMessage_Signals_def
  IMessage_AttributeValues_def
  IMessage_SignalGroups_def

lemmas IMessage_visits = message_transmitters.for_each_visits
  message_signals.for_each_visits
  message_attributes.for_each_visits
  message_groups.for_each_visits

section \<open>\<open>NetworkImpl\<close>\<close>

definition NetworkImpl_NewSymbols_Get :: "NetworkImpl \<Rightarrow> u64 \<Rightarrow> string option" where
  "NetworkImpl_NewSymbols_Get self i = vec_at (net_new_symbols self) i"

definition NetworkImpl_NewSymbols_Size :: "NetworkImpl \<Rightarrow> u64" where
  "NetworkImpl_NewSymbols_Size self = vec_size (net_new_symbols self)"

definition INetwork_NewSymbols :: "NetworkImpl \<Rightarrow> string Iterable" where
  "INetwork_NewSymbols self = make_iterable (NetworkImpl_NewSymbols_Get self) (NetworkImpl_NewSymbols_Size self)"

definition NetworkImpl_Nodes_Get :: "NetworkImpl \<Rightarrow> u64 \<Rightarrow> NodeImpl option" where
  "NetworkImpl_Nodes_Get self i = vec_at (net_nodes self) i"

definition NetworkImpl_Nodes_Size :: "NetworkImpl \<Rightarrow> u64" where
  "NetworkImpl_Nodes_Size self = vec_size (net_nodes self)"

definition INetwork_Nodes :: "NetworkImpl \<Rightarrow> NodeImpl Iterable" where
  "INetwork_Nodes self = make_iterable (NetworkImpl_Nodes_Get self) (NetworkImpl_Nodes_Size self)"

definition NetworkImpl_ValueTables_Get :: "NetworkImpl \<Rightarrow> u64 \<Rightarrow> ValueTableImpl option" where
  "NetworkImpl_ValueTables_Get self i = vec_at (net_value_tables self) i"

definition NetworkImpl_ValueTables_Size :: "NetworkImpl \<Rightarrow> u64" where
  "NetworkImpl_ValueTables_Size self = vec_size (net_value_tables self)"

definition INetwork_ValueTables :: "NetworkImpl \<Rightarrow> ValueTableImpl Iterable" where
  "INetwork_ValueTables self = make_iterable (NetworkImpl_ValueTables_Get self) (NetworkImpl_ValueTables_Size self)"

definition NetworkImpl_Messages_Get :: "NetworkImpl \<Rightarrow> u64 \<Rightarrow> MessageImpl option" where
  "NetworkImpl_Messages_Get self i = vec_at (net_messages self) i"

definition NetworkImpl_Messages_Size :: "NetworkImpl \<Rightarrow> u64" where
  "NetworkImpl_Messages_Size self = vec_size (net_messages self)"

definition INetwork_Messages :: "NetworkImpl \<Rightarrow> MessageImpl Iterable" where
  "INetwork_Messages self = make_iterable (NetworkImpl_Messages_Get self) (NetworkImpl_Messages_Size self)"

definition NetworkImpl_EnvironmentVariables_Get :: "NetworkImpl \<Rightarrow> u64 \<Rightarrow> EnvironmentVariableImpl option" where
  "NetworkImpl_EnvironmentVariables_Get self i = vec_at (net_environment_variables self) i"

definition NetworkImpl_EnvironmentVariables_Size :: "NetworkImpl \<Rightarrow> u64" where
  "NetworkImpl_EnvironmentVariables_Size self = vec_size (net_environment_variables self)"

definition INetwork_EnvironmentVariables :: "NetworkImpl \<Rightarrow> EnvironmentVariableImpl Iterable" where
  "INetwork_EnvironmentVariables self = make_iterable (NetworkImpl_EnvironmentVariables_Get self) (NetworkImpl_EnvironmentVariables_Size self)"

definition NetworkImpl_AttributeDefinitions_Get :: "NetworkImpl \<Rightarrow> u64 \<Rightarrow> AttributeDefinitionImpl option" where
  "NetworkImpl_AttributeDefinitions_Get self i = vec_at (net_attribute_definitions self) i"

definition NetworkImpl_AttributeDefinitions_Size :: "NetworkImpl \<Rightarrow> u64" where
  "NetworkImpl_AttributeDefinitions_Size self = vec_size (net_attribute_definitions self)"

definition INetwork_AttributeDefinitions :: "NetworkImpl \<Rightarrow> AttributeDefinitionImpl Iterable" where
  "INetwork_AttributeDefinitions self = make_iterable (NetworkImpl_AttributeDefinitions_Get self) (NetworkImpl_AttributeDefinitions_Size self)"

definition NetworkImpl_AttributeDefaults_Get :: "NetworkImpl \<Rightarrow> u64 \<Rightarrow> AttributeImpl option" where
  "NetworkImpl_AttributeDefaults_Get self i = vec_at (net_attribute_defaults self) i"

definition NetworkImpl_AttributeDefaults_Size :: "NetworkImpl \<Rightarrow> u64" where
  "NetworkImpl_AttributeDefaults_Size self = vec_size (net_attribute_defaults self)"

definition INetwork_AttributeDefaults :: "NetworkImpl \<Rightarrow> AttributeImpl Iterable" where
  "INetwork_AttributeDefaults self = make_iterable (NetworkImpl_AttributeDefaults_Get self) (NetworkImpl_AttributeDefaults_Size self)"

definition NetworkImpl_AttributeValues_Get :: "NetworkImpl \<Rightarrow> u64 \<Rightarrow> AttributeImpl option" where
  "NetworkImpl_AttributeValues_Get self i = vec_at (net_attribute_values self) i"

definition NetworkImpl_AttributeValues_Size :: "NetworkImpl \<Rightarrow> u64" where
  "NetworkImpl_AttributeValues_Size self = vec_size (net_attribute_values self)"

definition INetwork_AttributeValues :: "NetworkImpl \<Rightarrow> AttributeImpl Iterable" where
  "INetwork_AttributeValues self = make_iterable (NetworkImpl_AttributeValues_Get self) (NetworkImpl_AttributeValues_Size self)"

interpretation network_symbols: collection NetworkImpl_NewSymbols_Get NetworkImpl_NewSymbols_Size net_new_symbols
  by unfold_locales (simp_all add: NetworkImpl_NewSymbols_Get_def NetworkImpl_NewSymbols_Size_def)

interpretation network_nodes: collection NetworkImpl_Nodes_Get NetworkImpl_Nodes_Size net_nodes
  by unfold_locales (simp_all add: NetworkImpl_Nodes_Get_def NetworkImpl_Nodes_Size_def)

interpretation network_tables: collection NetworkImpl_ValueTables_Get NetworkImpl_ValueTables_Size net_value_tables
  by unfold_locales (simp_all add: NetworkImpl_ValueTables_Get_def NetworkImpl_ValueTables_Size_def)

interpretation network_messages: collection NetworkImpl_Messages_Get NetworkImpl_Messages_Size net_messages
  by unfold_locales (simp_all add: NetworkImpl_Messages_Get_def NetworkImpl_Messages_Size_def)

interpretation network_variables: collection NetworkImpl_EnvironmentVariables_Get NetworkImpl_EnvironmentVariables_Size net_environment_variables
  by unfold_locales (simp_all add: NetworkImpl_EnvironmentVariables_Get_def NetworkImpl_EnvironmentVariables_Size_def)

interpretation network_definitions: collection NetworkImpl_AttributeDefinitions_Get NetworkImpl_AttributeDefinitions_Size net_attribute_definitions
  by unfold_locales (simp_all add: NetworkImpl_AttributeDefinitions_Get_def NetworkImpl_AttributeDefinitions_Size_def)

interpretation network_defaults: collection NetworkImpl_AttributeDefaults_Get NetworkImpl_AttributeDefaults_Size net_attribute_defaults
  by unfold_locales (simp_all add: NetworkImpl_AttributeDefaults_Get_def NetworkImpl_AttributeDefaults_Size_def)

interpretation network_attributes: collection NetworkImpl_AttributeValues_Get NetworkImpl_AttributeValues_Size net_attribute_values
  by unfold_locales (simp_all add: NetworkImpl_AttributeValues_Get_def NetworkImpl_AttributeValues_Size_def)

lemmas INetwork_iterables = INetwork_NewSymbols_def
  INetwork_Nodes_def
  INetwork_ValueTables_def
  INetwork_Messages_def
  INetwork_EnvironmentVariables_def
  INetwork_AttributeDefinitions_def
  INetwork_AttributeDefaults_def
  INetwork_AttributeValues_def

lemmas INetwork_visits = network_symbols.for_each_visits
  network_nodes.for_each_visits
  network_tables.for_each_visits
  network_messages.for_each_visits
  network_variables.for_each_visits
  network_definitions.for_each_visits
  network_defaults.for_each_visits
  network_attributes.for_each_visits

section \<open>Loops over a network\<close>

text \<open>The vectors of a network, its messages and their signals have an addressable size.\<close>

definition signal_fits :: "SignalImpl \<Rightarrow> bool" where
  "signal_fits sig \<longleftrightarrow> fits (sig_receivers sig) \<and> fits (sig_value_encoding_descriptions sig) \<and>
     fits (sig_attribute_values sig) \<and> fits (sig_signal_multiplexer_values sig)"

definition message_fits :: "MessageImpl \<Rightarrow> bool" where
  "message_fits msg \<longleftrightarrow> fits (msg_message_transmitters msg) \<and> fits (msg_signals msg) \<and>
     fits (msg_attribute_values msg) \<and> fits (msg_signal_groups msg) \<and>
     list_all signal_fits (msg_signals msg)"

definition network_fits :: "NetworkImpl \<Rightarrow> bool" where
  "network_fits net \<longleftrightarrow> fits (net_new_symbols net) \<and> fits (net_nodes net) \<and>
     fits (net_value_tables net) \<and> fits (net_messages net) \<and>
     fits (net_environment_variables net) \<and> fits (net_attribute_definitions net) \<and>
     fits (net_attribute_defaults net) \<and> fits (net_attribute_values net) \<and>
     list_all message_fits (net_messages net)"

text \<open>A loop over the signals of all messages, as in
  \<open>for (const auto& msg : net.Messages()) for (const auto& sig : msg.Signals())\<close>.\<close>

definition for_each_signal ::
    "NetworkImpl \<Rightarrow> (MessageImpl \<Rightarrow> (SignalImpl, 's) loop_body) \<Rightarrow> 's \<Rightarrow> 's option" where
  "for_each_signal net body s =
     for_each (INetwork_Messages net)
       (\<lambda>msg s. do { s \<leftarrow> for_each (IMessage_Signals msg) (body msg) s; Some (s, False) }) s"

lemma visit_nested:
  assumes "list_all (\<lambda>m. fits (msg_signals m)) ms"
  shows "visit (\<lambda>m s. do { s \<leftarrow> for_each (IMessage_Signals m) (\<lambda>x s. Some (f m x s, False)) s;
      Some (s, False) }) ms s =
    Some (fold (\<lambda>(m, x). f m x) (concat (map (\<lambda>m. map (Pair m) (msg_signals m)) ms)) s)"
  using assms
  by (induction ms arbitrary: s)
     (simp_all add: IMessage_iterables message_signals.for_each_visits visit_fold fold_map comp_def)

text \<open>C34. Every loop over a collection of a network reaches its end: it runs its body once for each
  element of the vector, in the order of the vector, until the body leaves the loop, and never asks
  for an element the vector does not have. The same holds for the messages of the network and the
  signals of the messages, and nested loops reach every signal of every message.\<close>

theorem network_loops_end:
  assumes "network_fits net"
  shows "for_each (INetwork_NewSymbols net) f1 s = visit f1 (net_new_symbols net) s \<and>
    for_each (INetwork_Nodes net) f2 s = visit f2 (net_nodes net) s \<and>
    for_each (INetwork_ValueTables net) f3 s = visit f3 (net_value_tables net) s \<and>
    for_each (INetwork_Messages net) f4 s = visit f4 (net_messages net) s \<and>
    for_each (INetwork_EnvironmentVariables net) f5 s = visit f5 (net_environment_variables net) s \<and>
    for_each (INetwork_AttributeDefinitions net) f6 s = visit f6 (net_attribute_definitions net) s \<and>
    for_each (INetwork_AttributeDefaults net) f7 s = visit f7 (net_attribute_defaults net) s \<and>
    for_each (INetwork_AttributeValues net) f7 s = visit f7 (net_attribute_values net) s \<and>
    (\<forall>msg\<in>set (net_messages net).
       for_each (IMessage_MessageTransmitters msg) f1 s = visit f1 (msg_message_transmitters msg) s \<and>
       for_each (IMessage_Signals msg) f8 s = visit f8 (msg_signals msg) s \<and>
       for_each (IMessage_AttributeValues msg) f7 s = visit f7 (msg_attribute_values msg) s \<and>
       for_each (IMessage_SignalGroups msg) f9 s = visit f9 (msg_signal_groups msg) s \<and>
       (\<forall>sig\<in>set (msg_signals msg).
          for_each (ISignal_Receivers sig) f1 s = visit f1 (sig_receivers sig) s \<and>
          for_each (ISignal_ValueEncodingDescriptions sig) f10 s =
            visit f10 (sig_value_encoding_descriptions sig) s \<and>
          for_each (ISignal_AttributeValues sig) f7 s = visit f7 (sig_attribute_values sig) s \<and>
          for_each (ISignal_SignalMultiplexerValues sig) f11 s =
            visit f11 (sig_signal_multiplexer_values sig) s)) \<and>
    for_each_signal net (\<lambda>m x s. Some (g m x s, False)) s =
      Some (fold (\<lambda>(m, x). g m x)
        (concat (map (\<lambda>m. map (Pair m) (msg_signals m)) (net_messages net))) s)"
proof -
  have "list_all (\<lambda>m. fits (msg_signals m)) (net_messages net)"
    using assms by (auto simp: network_fits_def message_fits_def list_all_iff)
  then show ?thesis
    using assms
    by (simp add: network_fits_def message_fits_def signal_fits_def list_all_iff for_each_signal_def
        INetwork_iterables INetwork_visits IMessage_iterables IMessage_visits
        ISignal_iterables ISignal_visits visit_nested [unfolded IMessage_iterables])
qed

text \<open>Three messages; the loop counts them and stops at the one that is sought.\<close>

definition ex_messages :: "MessageImpl list" where
  "ex_messages = map (\<lambda>i. IMessage_Create i [] 8 [] [''T''] [] [] [] []) [5, 6, 7]"

definition ex_walk :: NetworkImpl where
  "ex_walk = the (INetwork_Create [] [] (Some (IBitTiming_Create 0 0 0)) [] [] ex_messages [] [] [] [] [])"

theorem network_loops_end_witness:
  "for_each (INetwork_Messages ex_walk) (\<lambda>m n. Some (n + 1, msg_id m = 6)) (0::nat) = Some 2"
proof -
  have fits: "network_fits ex_walk"
    by (simp add: network_fits_def fits_def ex_walk_def INetwork_Create_def ex_messages_def
        message_fits_def IMessage_Create_def MessageImpl_new_def Let_def split_def)
  have "for_each (INetwork_Messages ex_walk) (\<lambda>m n. Some (n + 1, msg_id m = 6)) (0::nat) =
      visit (\<lambda>m n. Some (n + 1, msg_id m = 6)) (net_messages ex_walk) 0"
    by (rule network_loops_end [OF fits, THEN conjunct2, THEN conjunct2, THEN conjunct2, THEN conjunct1])
  also have "\<dots> = Some 2" by code_simp
  finally show ?thesis .
qed

section \<open>Arithmetic on the iterators of a network\<close>

text \<open>\<open>begin() + n\<close> refers to element n of the vector, \<open>end() - begin()\<close> is its size, and
  \<open>-= n\<close> moves back from the end. The operator that should do the same without changing the
  iterator moves forward: \<open>*(end() - n)\<close> reads past the vector for every n, and
  \<open>(begin() + n) - n\<close> is not \<open>begin()\<close>.\<close>

lemma message_iterators:
  assumes "length (net_messages net) + unat n < 2 ^ 64" and "0 < n" and "n < 2 ^ 63"
  defines "b \<equiv> itb_begin (INetwork_Messages net)" and "e \<equiv> itb_end (INetwork_Messages net)"
  shows "iter_deref (iter_plus b n) = vec_at (net_messages net) n \<and>
    unat (iter_diff e b) = length (net_messages net) \<and>
    iter_deref (iter_minus_assign e n) =
      (if unat n \<le> length (net_messages net)
       then Some (net_messages net ! (length (net_messages net) - unat n)) else None) \<and>
    iter_deref (iter_minus e n) = None \<and>
    iter_eq (iter_minus_assign (iter_plus b n) n) b \<and>
    \<not> iter_eq (iter_minus (iter_plus b n) n) b"
proof -
  let ?ms = "net_messages net"
  have f: "fits ?ms" using assms(1) by (simp add: fits_def)
  have "vec_at ?ms (vec_size ?ms - n) =
      (if unat n \<le> length ?ms then Some (?ms ! (length ?ms - unat n)) else None)"
    using vec_at_back [OF f assms(1)] assms(2) by simp
  moreover have "n + n \<noteq> 0"
    using assms(2,3) by (rule double_not_zero)
  ultimately show ?thesis
    using f assms(1)
    by (simp add: b_def e_def INetwork_iterables network_messages.begin_plus
        network_messages.end_diff network_messages.end_minus_assign network_messages.end_minus
        unat_vec_size plus_minus plus_minus_eq)
qed

lemma message_iterators_witness:
  "iter_deref (iter_minus (itb_end (INetwork_Messages ex_walk)) 1) = None"
proof -
  have "net_messages ex_walk = ex_messages" by code_simp
  then show ?thesis using message_iterators [of ex_walk 1] by (simp add: ex_messages_def)
qed

end
