(* ===== verification/Shapes.thy ===== *)
theory Shapes
  imports Reload
begin

text \<open>
  What the grammar delivers. \<open>gives P p\<close>: on a text without backslashes every attribute of the
  parser \<open>p\<close> satisfies \<open>P\<close>, and the text that is left has no backslashes either. Every combinator
  keeps it. Names are identifiers, lists that need an element have one, and quoted strings hold no
  quotes.
\<close>

section \<open>Parsers on texts without backslashes\<close>

definition clean :: "string \<Rightarrow> bool" where
  "clean s \<longleftrightarrow> CHR 0x5C \<notin> set s"

definition delivers :: "('a \<Rightarrow> bool) \<Rightarrow> 'a outcome \<Rightarrow> bool" where
  "delivers P out \<longleftrightarrow>
     (case out of Ok a r \<Rightarrow> P a \<and> clean r | Fail r \<Rightarrow> clean r | Throw r \<Rightarrow> clean r | Hang \<Rightarrow> True)"

definition tidy :: "skipper \<Rightarrow> bool" where
  "tidy sk \<longleftrightarrow> (\<forall>s. clean s \<longrightarrow> delivers (\<lambda>_. True) (sk s))"

definition gives :: "('a \<Rightarrow> bool) \<Rightarrow> 'a px \<Rightarrow> bool" where
  "gives P p \<longleftrightarrow> (\<forall>sk s. tidy sk \<longrightarrow> clean s \<longrightarrow> delivers P (p sk s))"

named_theorems giving \<open>rules that show what a parser gives\<close>

abbreviation anything :: "'a \<Rightarrow> bool" where
  "anything \<equiv> \<lambda>_. True"

lemma delivers_simps [simp]:
  "delivers P (Ok a r) \<longleftrightarrow> P a \<and> clean r" "delivers P (Fail r) \<longleftrightarrow> clean r"
  "delivers P (Throw r) \<longleftrightarrow> clean r" "delivers P Hang"
  by (simp_all add: delivers_def)

lemma givesI: "(\<And>sk s. tidy sk \<Longrightarrow> clean s \<Longrightarrow> delivers P (p sk s)) \<Longrightarrow> gives P p"
  by (simp add: gives_def)

lemma givesD: "gives P p \<Longrightarrow> tidy sk \<Longrightarrow> clean s \<Longrightarrow> delivers P (p sk s)"
  by (simp add: gives_def)

lemma delivers_on_ok:
  assumes "delivers Q out" and "\<And>a r. Q a \<Longrightarrow> clean r \<Longrightarrow> delivers P (f a r)"
    and "\<And>r. clean r \<Longrightarrow> delivers P (g r)"
  shows "delivers P (on_ok out f g)"
  using assms by (cases out) (simp_all add: on_ok_def)

lemma delivers_mono: "delivers P out \<Longrightarrow> (\<And>a. P a \<Longrightarrow> Q a) \<Longrightarrow> delivers Q out"
  by (cases out) simp_all

lemma gives_mono: "gives P p \<Longrightarrow> (\<And>a. P a \<Longrightarrow> Q a) \<Longrightarrow> gives Q p"
  by (rule givesI) (blast intro: delivers_mono givesD)

lemma clean_drop [simp]: "clean s \<Longrightarrow> clean (drop n s)"
  by (auto simp: clean_def dest: in_set_dropD)

lemma clean_Cons [simp]: "clean (c # s) \<longleftrightarrow> c \<noteq> CHR 0x5C \<and> clean s"
  by (auto simp: clean_def)

lemma clean_Nil [simp]: "clean []"
  by (simp add: clean_def)

lemma skip_over_tidy:
  assumes "tidy sk" and "clean s"
  shows "delivers anything (skip_over sk s)"
  using assms(2)
proof (induction "length s" arbitrary: s rule: less_induct)
  case less
  have "delivers anything (sk s)" using assms(1) less.prems by (simp add: tidy_def)
  then show ?case
    unfolding skip_over.simps [of sk s] by (rule delivers_on_ok) (simp_all add: less.hyps)
qed

lemma tidy_no_skip: "tidy no_skip"
  by (simp add: tidy_def no_skip_def)

lemma tidy_px: "gives P p \<Longrightarrow> tidy (p no_skip)"
  unfolding tidy_def by (blast intro: delivers_mono givesD tidy_no_skip)

section \<open>The combinators\<close>

lemma gives_prim:
  assumes "\<And>s a r. clean s \<Longrightarrow> f s = Some (a, r) \<Longrightarrow> P a \<and> clean r"
  shows "gives P (prim f)"
proof (rule givesI)
  fix sk :: skipper and s assume sk: "tidy sk" and s: "clean s"
  from skip_over_tidy [OF sk s] show "delivers P (prim f sk s)"
    unfolding prim_def by (rule delivers_on_ok) (auto split: option.splits dest: assms)
qed

lemma gives_char_if [giving]: "gives (\<lambda>c. P c \<and> c \<noteq> CHR 0x5C) (char_if P)"
  unfolding char_if_def by (rule gives_prim) (auto split: list.splits if_splits)

lemma gives_lit [giving]: "gives (\<lambda>t'. t' = t) (lit t)"
  unfolding lit_def by (rule gives_prim) (auto split: if_splits)

lemma gives_eol [giving]: "gives anything eol"
  unfolding eol_def by (rule gives_prim) (auto split: list.splits if_splits)

lemma gives_eoi [giving]: "gives anything eoi"
  unfolding eoi_def by (rule gives_prim) (auto split: if_splits)

lemma gives_uint64 [giving]: "gives anything uint64"
  unfolding uint64_def by (rule gives_prim) (auto simp: Let_def split: if_splits)

lemma gives_int64 [giving]: "gives anything int64"
  unfolding int64_def by (rule gives_prim) (auto simp: Let_def split: if_splits)

lemma gives_ret [giving]: "P x \<Longrightarrow> gives P (ret x)"
  by (rule givesI) (simp add: ret_def)

lemma gives_map_px [giving]: "gives Q p \<Longrightarrow> (\<And>a. Q a \<Longrightarrow> P (f a)) \<Longrightarrow> gives P (map_px f p)"
  by (rule givesI) (auto simp: map_px_def intro!: delivers_on_ok [OF givesD])

lemma gives_seq [giving]:
  assumes p: "gives Q p" and f: "\<And>a. Q a \<Longrightarrow> gives P (f a)"
  shows "gives P (seq p f)"
proof (rule givesI)
  fix sk :: skipper and s assume sk: "tidy sk" and s: "clean s"
  from givesD [OF p sk s] show "delivers P (seq p f sk s)"
    unfolding seq_def
  proof (rule delivers_on_ok)
    fix a r assume "Q a" "clean r"
    from givesD [OF f [OF this(1)] sk this(2)]
    show "delivers P (on_ok (f a sk r) Ok (\<lambda>_. Fail s))" by (rule delivers_on_ok) (simp_all add: s)
  qed (simp add: s)
qed

lemma gives_expect [giving]: "gives P p \<Longrightarrow> gives P (expect p)"
  by (rule givesI) (auto simp: expect_def intro!: delivers_on_ok [OF givesD])

lemma gives_alt [giving]:
  assumes p: "gives P p" and q: "gives P q"
  shows "gives P (alt p q)"
proof (rule givesI)
  fix sk :: skipper and s assume sk: "tidy sk" and s: "clean s"
  from givesD [OF p sk s] show "delivers P (alt p q sk s)"
    unfolding alt_def by (rule delivers_on_ok) (simp_all add: givesD [OF q sk])
qed

lemma gives_opt [giving]: "gives P p \<Longrightarrow> gives (pred_option P) (opt p)"
  by (rule givesI) (auto simp: opt_def intro!: delivers_on_ok [OF givesD])

lemma gives_except [giving]:
  assumes p: "gives P p" and q: "gives Q q"
  shows "gives P (except p q)"
proof (rule givesI)
  fix sk :: skipper and s assume sk: "tidy sk" and s: "clean s"
  from givesD [OF q sk s] show "delivers P (except p q sk s)"
    unfolding except_def by (rule delivers_on_ok) (simp_all add: s givesD [OF p sk])
qed

lemma gives_many [giving]:
  assumes p: "gives P p"
  shows "gives (list_all P) (many p)"
proof (rule givesI)
  fix sk :: skipper and s assume sk: "tidy sk" and s: "clean s"
  from s show "delivers (list_all P) (many p sk s)"
  proof (induction "length s" arbitrary: s rule: less_induct)
    case less
    from givesD [OF p sk less.prems] show ?case
      unfolding many.simps [of p sk s]
    proof (rule delivers_on_ok)
      fix a r assume a: "P a" and r: "clean r"
      show "delivers (list_all P) (if length r < length s
          then on_ok (many p sk r) (\<lambda>as r. Ok (a # as) r) Fail else Hang)"
        using a by (auto intro!: delivers_on_ok [OF less.hyps] simp: r)
    qed simp
  qed
qed

lemma gives_list_more:
  assumes p: "gives P p" and sep: "gives Q sep"
  shows "gives (list_all P) (list_more p sep)"
proof (rule givesI)
  fix sk :: skipper and s assume sk: "tidy sk" and s: "clean s"
  from s show "delivers (list_all P) (list_more p sep sk s)"
  proof (induction "length s" arbitrary: s rule: less_induct)
    case less
    show ?case
    proof (cases "sep sk s")
      case (Ok b r)
      then have r: "clean r" using givesD [OF sep sk less.prems] by simp
      show ?thesis
      proof (cases "p sk r")
        case ok: (Ok a r')
        then have a: "P a" "clean r'" using givesD [OF p sk r] by simp_all
        show ?thesis
          using a by (subst list_more.simps)
            (auto simp: Ok ok less.prems intro!: delivers_on_ok [OF less.hyps])
      qed (use Ok less.prems in \<open>subst list_more.simps, simp\<close>)+
    qed (use less.prems in \<open>subst list_more.simps, simp\<close>)+
  qed
qed

lemma gives_list_of [giving]:
  assumes p: "gives P p" and sep: "gives Q sep"
  shows "gives (\<lambda>xs. xs \<noteq> [] \<and> list_all P xs) (list_of p sep)"
proof (rule givesI)
  fix sk :: skipper and s assume sk: "tidy sk" and s: "clean s"
  from givesD [OF p sk s] show "delivers (\<lambda>xs. xs \<noteq> [] \<and> list_all P xs) (list_of p sep sk s)"
    unfolding list_of_def
  proof (rule delivers_on_ok)
    fix a r assume a: "P a" "clean r"
    from givesD [OF gives_list_more [OF p sep] sk a(2)]
    show "delivers (\<lambda>xs. xs \<noteq> [] \<and> list_all P xs)
        (on_ok (list_more p sep sk r) (\<lambda>as r. Ok (a # as) r) Fail)"
      by (rule delivers_on_ok) (simp_all add: a)
  qed simp
qed

lemma gives_lexeme [giving]:
  assumes p: "gives P p"
  shows "gives P (lexeme p)"
proof (rule givesI)
  fix sk :: skipper and s assume sk: "tidy sk" and s: "clean s"
  from skip_over_tidy [OF sk s] show "delivers P (lexeme p sk s)"
    unfolding lexeme_def by (rule delivers_on_ok) (simp_all add: givesD [OF p tidy_no_skip])
qed

lemma gives_skip_with [giving]: "tidy sk' \<Longrightarrow> gives P p \<Longrightarrow> gives P (skip_with sk' p)"
  by (rule givesI) (simp add: skip_with_def givesD)

lemma gives_omit [giving]: "gives P p \<Longrightarrow> gives anything (omit p)"
  unfolding omit_def by (rule gives_map_px) simp_all

lemma gives_rule [giving]: "gives P p \<Longrightarrow> gives P (rule p)"
proof (rule givesI)
  fix sk :: skipper and s assume "gives P p" and "tidy sk" and "clean s"
  then show "delivers P (rule p sk s)"
    using givesD [of P p sk s] by (cases "p sk s") (simp_all add: rule_def)
qed

end
