(* ===== verification/Delivered.thy ===== *)
theory Delivered
  imports Shapes
begin

text \<open>
  What the DBC grammar delivers for a file without backslashes (\<open>tree_shape\<close>): names that are
  identifiers, strings without quotes, at least one receiver for a signal, one access node for an
  environment variable, one value for an enumeration, one range for a multiplexer value.
\<close>

section \<open>Tokens\<close>

text \<open>The parser of floating-point numbers leaves a part of the text.\<close>

definition leaves_part :: "(string \<Rightarrow> (double \<times> string) option) \<Rightarrow> bool" where
  "leaves_part dbl \<longleftrightarrow> (\<forall>s d r. dbl s = Some (d, r) \<longrightarrow> (\<exists>n. r = drop n s))"

lemma leaves_partD: "leaves_part dbl \<Longrightarrow> dbl s = Some (d, r) \<Longrightarrow> \<exists>n. r = drop n s"
  by (simp add: leaves_part_def)

lemma leaves_part_forward: "leaves_part dbl \<Longrightarrow> forward dbl"
  using leaves_partD [of dbl] by fastforce

lemma gives_dbl [giving]: "leaves_part dbl \<Longrightarrow> gives anything (prim dbl)"
  by (rule gives_prim) (use leaves_partD [of dbl] in fastforce)

lemma gives_double [giving]: "leaves_part dbl \<Longrightarrow> gives anything (double_rule dbl)"
  unfolding double_rule_def by (rule giving | assumption)+

lemma comment_body_tidy: "clean s \<Longrightarrow> delivers anything (comment_body d s)"
  by (induction d s rule: comment_body.induct) simp_all

lemma gives_block_comment [giving]: "gives anything block_comment"
proof (rule givesI)
  fix sk :: skipper and s assume sk: "tidy sk" and s: "clean s"
  from givesD [OF gives_lit sk s] show "delivers anything (block_comment sk s)"
    unfolding block_comment_def by (rule delivers_on_ok) (simp_all add: comment_body_tidy)
qed

lemma gives_space [giving]: "gives anything space"
  unfolding space_def by (rule giving | assumption)+

lemma gives_blank [giving]: "gives anything blank"
  unfolding blank_def by (rule giving | assumption)+

lemma gives_single_line_comment [giving]: "gives anything single_line_comment"
  unfolding single_line_comment_def by (rule giving | assumption)+

lemma gives_skipper [giving]: "gives anything skipper"
  unfolding skipper_def by (rule giving | assumption)+

lemma tidy_skippers [giving]: "tidy default_skipper" "tidy blank_skipper"
  unfolding default_skipper_def blank_skipper_def by (rule tidy_px giving)+

lemma gives_keyword [giving]: "gives P p \<Longrightarrow> gives anything (keyword t p)"
  unfolding keyword_def by (rule giving | assumption)+

lemma no_backslash: "gives (\<lambda>_. False) (lit [CHR 0x5C])"
  unfolding lit_def
proof (rule gives_prim)
  fix s a r
  assume "clean s" and "(if take (length [CHR 0x5C]) s = [CHR 0x5C]
    then Some ([CHR 0x5C], drop (length [CHR 0x5C]) s) else None) = Some (a, r)"
  then show "False \<and> clean r" by (cases s) (auto split: if_splits)
qed

lemma gives_quoted_string [giving]: "gives plain quoted_string_rule"
proof -
  have "gives (\<lambda>c. c \<noteq> CHR 0x22 \<and> c \<noteq> CHR 0x5C)
      (alt (seq (lit [CHR 0x5C]) (\<lambda>_. char_if (\<lambda>c. c = CHR 0x5C \<or> c = CHR 0x22)))
        (char_if (\<lambda>c. c \<noteq> CHR 0x22)))"
    by (rule gives_alt, rule gives_seq, rule no_backslash, simp, rule gives_char_if)
  note giving = this giving
  show ?thesis
    unfolding quoted_string_rule_def dquote_def by (rule giving | (simp add: plain_def; fail))+
qed

lemma gives_C_identifier [giving]: "gives is_identifier C_identifier_rule"
  unfolding C_identifier_rule_def
  by (rule giving | (auto simp: is_identifier_def word_char_def list_all_iff; fail))+

lemma gives_token [giving]:
  "gives anything number_rule" "gives is_identifier name_rule" "gives is_identifier node_name_rule"
  "gives is_identifier node_ref_rule" "gives plain text_rule" "gives anything end_of_line"
  unfolding token_defs by (rule giving | assumption)+

lemma gives_either: "gives P p \<Longrightarrow> gives Q q \<Longrightarrow> gives anything (alt p q)"
  by (rule gives_alt) (blast intro: gives_mono)+

lemma gives_signs [giving]: "gives anything byte_order_rule" "gives anything value_type_rule"
  unfolding token_defs by (rule gives_either giving | (simp; fail))+

lemma gives_strings [giving]: "gives (\<lambda>t. t \<in> set ts) (strings ts)"
proof (induction ts rule: strings.induct)
  case 1
  show ?case by (rule givesI) simp
next
  case (2 t)
  show ?case unfolding strings.simps by (rule gives_mono [OF gives_lit]) simp
next
  case (3 t u ts)
  show ?case
    unfolding strings.simps
    by (rule gives_alt gives_mono [OF gives_lit] gives_mono [OF 3] | (simp; fail))+
qed

section \<open>The shapes of statements\<close>

abbreviation identifiers :: "string list \<Rightarrow> bool" where
  "identifiers \<equiv> list_all is_identifier"

fun av_shape :: "variant_attr_value_t \<Rightarrow> bool" where
  "av_shape (AV_string s) \<longleftrightarrow> plain s"
| "av_shape _ \<longleftrightarrow> True"

fun avt_shape :: "variant_attribute_value_t \<Rightarrow> bool" where
  "avt_shape (G_AttributeValueTypeEnum vs) \<longleftrightarrow> vs \<noteq> [] \<and> list_all plain vs"
| "avt_shape _ \<longleftrightarrow> True"

definition ved_shape :: "G_ValueEncodingDescription \<Rightarrow> bool" where
  "ved_shape d \<longleftrightarrow> plain (g_ved_description d)"

definition value_table_shape :: "G_ValueTable \<Rightarrow> bool" where
  "value_table_shape vt \<longleftrightarrow>
     is_identifier (g_vt_name vt) \<and> list_all ved_shape (g_vt_value_encoding_descriptions vt)"

definition signal_shape :: "G_Signal \<Rightarrow> bool" where
  "signal_shape s \<longleftrightarrow>
     is_identifier (g_sig_name s) \<and> pred_option is_identifier (g_sig_multiplexer_indicator s) \<and>
     plain (g_sig_unit s) \<and> g_sig_receivers s \<noteq> [] \<and> identifiers (g_sig_receivers s)"

definition message_shape :: "G_Message \<Rightarrow> bool" where
  "message_shape m \<longleftrightarrow>
     is_identifier (g_msg_name m) \<and> is_identifier (g_msg_transmitter m) \<and>
     list_all signal_shape (g_msg_signals m)"

definition environment_variable_shape :: "G_EnvironmentVariable \<Rightarrow> bool" where
  "environment_variable_shape ev \<longleftrightarrow>
     is_identifier (g_ev_name ev) \<and> plain (g_ev_unit ev) \<and>
     g_ev_access_nodes ev \<noteq> [] \<and> identifiers (g_ev_access_nodes ev)"

definition attribute_definition_shape :: "G_AttributeDefinition \<Rightarrow> bool" where
  "attribute_definition_shape ad \<longleftrightarrow> plain (g_ad_name ad) \<and> avt_shape (g_ad_value_type ad)"

definition attribute_default_shape :: "G_Attribute \<Rightarrow> bool" where
  "attribute_default_shape a \<longleftrightarrow> plain (g_attr_name a) \<and> av_shape (g_attr_value a)"

definition attribute_shape :: "variant_attribute_t \<Rightarrow> bool" where
  "attribute_shape a \<longleftrightarrow> plain (g_attribute_name a) \<and> av_shape (g_attribute_value a)"

definition description_shape :: "Description \<Rightarrow> bool" where
  "description_shape d \<longleftrightarrow> list_all (\<lambda>v. plain (g_vd_description v)) (g_value_descriptions d)"

definition group_shape :: "G_SignalGroup \<Rightarrow> bool" where
  "group_shape g \<longleftrightarrow> is_identifier (g_sg_signal_group_name g) \<and> identifiers (g_sg_signal_names g)"

definition multiplexer_shape :: "G_SignalMultiplexerValue \<Rightarrow> bool" where
  "multiplexer_shape v \<longleftrightarrow> is_identifier (g_smv_switch_name v) \<and> g_smv_value_ranges v \<noteq> []"

definition tree_shape :: "G_Network \<Rightarrow> bool" where
  "tree_shape gnet \<longleftrightarrow>
     plain (g_version (g_net_version gnet)) \<and>
     list_all (\<lambda>t. t \<in> set new_symbol_names) (g_net_new_symbols gnet) \<and>
     list_all (\<lambda>n. is_identifier (g_node_name n)) (g_net_nodes gnet) \<and>
     list_all value_table_shape (g_net_value_tables gnet) \<and>
     list_all message_shape (g_net_messages gnet) \<and>
     list_all (\<lambda>mt. identifiers (g_mt_transmitters mt)) (g_net_message_transmitters gnet) \<and>
     list_all environment_variable_shape (g_net_environment_variables gnet) \<and>
     list_all (\<lambda>c. plain (g_comment c)) (g_net_comments gnet) \<and>
     list_all attribute_definition_shape (g_net_attribute_definitions gnet) \<and>
     list_all attribute_default_shape (g_net_attribute_defaults gnet) \<and>
     list_all attribute_shape (g_net_attribute_values gnet) \<and>
     list_all description_shape (g_net_value_descriptions_sig_env_var gnet) \<and>
     list_all group_shape (g_net_signal_groups gnet) \<and>
     list_all multiplexer_shape (g_net_signal_multiplexer_values gnet)"

lemmas shape_defs = ved_shape_def value_table_shape_def signal_shape_def message_shape_def
  environment_variable_shape_def attribute_definition_shape_def attribute_default_shape_def
  attribute_shape_def description_shape_def group_shape_def multiplexer_shape_def

section \<open>The rules of the grammar\<close>

lemma gives_version [giving]: "gives (\<lambda>v. plain (g_version v)) version_rule"
  unfolding version_rule_def by (rule giving | (simp; fail))+

lemma gives_new_symbols [giving]: "gives (list_all (\<lambda>t. t \<in> set new_symbol_names)) new_symbols_rule"
  unfolding new_symbols_rule_def new_symbol_rule_def by (rule giving | assumption)+

lemma gives_bit_timing [giving]: "gives anything bit_timing_rule"
  unfolding bit_timing_rule_def by (rule giving | (simp; fail))+

lemma gives_nodes [giving]: "gives (list_all (\<lambda>n. is_identifier (g_node_name n))) nodes_rule"
  unfolding nodes_rule_def node_rule_def by (rule giving | (simp; fail))+

lemma gives_ved [giving]: "gives ved_shape value_encoding_description_rule"
  unfolding value_encoding_description_rule_def by (rule giving | (simp add: shape_defs; fail))+

lemma gives_value_table [giving]: "gives value_table_shape value_table_rule"
  unfolding value_table_rule_def by (rule giving | (simp add: value_table_shape_def; fail))+

lemma gives_unit_receivers [giving]:
  "gives (\<lambda>(u, rs). plain u \<and> rs \<noteq> [] \<and> identifiers rs) unit_receivers"
  unfolding unit_receivers_def by (rule giving | (simp; fail))+

lemma gives_signal [giving]: "leaves_part dbl \<Longrightarrow> gives signal_shape (signal_rule dbl)"
  unfolding signal_rule_def by (rule giving | (auto simp: signal_shape_def; fail))+

lemma gives_transmitter:
  "gives is_identifier (skip_with blank_skipper (seq node_ref_rule (\<lambda>t. must end_of_line (\<lambda>_. ret t))))"
  by (rule giving | assumption)+

lemma gives_message [giving]: "leaves_part dbl \<Longrightarrow> gives message_shape (message_rule dbl)"
  unfolding message_rule_def
  by (rule gives_expect [OF gives_transmitter] giving | (auto simp: message_shape_def; fail))+

lemma gives_message_transmitter [giving]:
  "gives (\<lambda>mt. identifiers (g_mt_transmitters mt)) message_transmitter_rule"
  unfolding message_transmitter_rule_def by (rule giving | (simp; fail))+

lemma gives_environment_variable [giving]:
  "leaves_part dbl \<Longrightarrow> gives environment_variable_shape (environment_variable_rule dbl)"
  unfolding environment_variable_rule_def by (rule giving | (auto simp: environment_variable_shape_def; fail))+

lemma gives_environment_variable_data [giving]: "gives anything environment_variable_data_rule"
  unfolding environment_variable_data_rule_def by (rule giving | (simp; fail))+

lemma gives_signal_type [giving]: "leaves_part dbl \<Longrightarrow> gives anything (signal_type_rule dbl)"
  unfolding signal_type_rule_def by (rule giving | (simp; fail))+

lemma gives_comment [giving]: "gives (\<lambda>c. plain (g_comment c)) comment_rule"
  unfolding comment_rule_def comment_defs by (rule giving | (simp; fail))+

lemma gives_attribute_value_type [giving]:
  "leaves_part dbl \<Longrightarrow> gives avt_shape (attribute_value_type_rule dbl)"
  unfolding attribute_value_type_rule_def attribute_value_type_int_rule_def
    attribute_value_type_hex_rule_def attribute_value_type_float_rule_def
    attribute_value_type_string_rule_def attribute_value_type_enum_rule_def
  by (rule giving | (simp; fail))+

lemma gives_object_type [giving]: "gives anything object_type_rule"
  unfolding object_type_rule_def
  by (rule gives_mono [OF gives_rule [OF gives_opt [OF gives_strings]]]) simp

lemma gives_attribute_definition [giving]:
  "leaves_part dbl \<Longrightarrow> gives attribute_definition_shape (attribute_definition_rule dbl)"
  unfolding attribute_definition_rule_def by (rule giving | (simp add: shape_defs; fail))+

lemma gives_attribute_value [giving]: "leaves_part dbl \<Longrightarrow> gives av_shape (attribute_value_rule dbl)"
  unfolding attribute_value_rule_def by (rule giving | (simp; fail))+

lemma gives_attribute_default [giving]:
  "leaves_part dbl \<Longrightarrow> gives attribute_default_shape (attribute_default_rule dbl)"
  unfolding attribute_default_rule_def
  by (rule gives_either giving | (simp add: shape_defs; fail))+

lemma gives_attribute_value_ents [giving]:
  assumes "leaves_part dbl"
  shows "gives attribute_shape (attribute_value_ent_network_rule dbl)"
    and "gives attribute_shape (attribute_value_ent_node_rule dbl)"
    and "gives attribute_shape (attribute_value_ent_message_rule dbl)"
    and "gives attribute_shape (attribute_value_ent_signal_rule dbl)"
    and "gives attribute_shape (attribute_value_ent_env_var_rule dbl)"
  unfolding attribute_value_ent_defs by (rule giving assms | (simp add: shape_defs; fail))+

lemma gives_attribute_value_ent [giving]:
  "leaves_part dbl \<Longrightarrow> gives attribute_shape (attribute_value_ent_rule dbl)"
  unfolding attribute_value_ent_rule_def by (rule giving | (simp; fail))+

lemma gives_value_description [giving]: "gives description_shape value_description_sig_env_var_rule"
  unfolding value_description_sig_env_var_rule_def value_description_signal_rule_def
    value_description_env_var_rule_def
  by (rule giving | (simp add: description_shape_def ved_shape_def [abs_def] list.pred_map comp_def; fail))+

lemma gives_signal_group [giving]: "gives group_shape signal_group_rule"
  unfolding signal_group_rule_def by (rule giving | (simp add: shape_defs; fail))+

lemma gives_signal_extended_value_type [giving]: "gives anything signal_extended_value_type_rule"
  unfolding signal_extended_value_type_rule_def by (rule giving | (simp; fail))+

lemma gives_signal_multiplexer_value [giving]: "gives multiplexer_shape signal_multiplexer_value_rule"
  unfolding signal_multiplexer_value_rule_def range_rule_def
  by (rule giving | (auto simp: shape_defs; fail))+

lemma gives_network: "leaves_part dbl \<Longrightarrow> gives tree_shape (network_rule dbl)"
  unfolding network_rule_def by (rule giving | (auto simp: tree_shape_def split: option.split; fail))+

lemma parsed_shape:
  assumes "ParseFromMemory dbl t = Parsed gnet" and "leaves_part dbl" and "CHR 0x5C \<notin> set t"
  shows "tree_shape gnet"
proof -
  have "delivers tree_shape (network_rule dbl default_skipper t)"
    using assms(2,3) by (simp add: givesD gives_network giving clean_def)
  then show ?thesis
    using assms(1) by (auto simp: ParseFromMemory_def split: outcome.splits if_splits)
qed

end
