(* ===== verification/LoadedFile.thy ===== *)
theory LoadedFile
  imports Delivered
begin

text \<open>
  A file that has been read can be written and read again. The shape of the syntax tree carries
  over to the network, and gives most of what \<open>printable_network\<close> and \<open>exact_network\<close> ask for;
  what remains is a condition on its numbers and on names that occur twice.
\<close>

section \<open>What is left to ask\<close>

text \<open>A number that is read back from its six digits.\<close>

definition survives :: "(string \<Rightarrow> (double \<times> string) option) \<Rightarrow> double \<Rightarrow> bool" where
  "survives dbl d \<longleftrightarrow> readable dbl (show_double d) \<and> exact dbl d"

fun value_survives :: "(string \<Rightarrow> (double \<times> string) option) \<Rightarrow> value_t \<Rightarrow> bool" where
  "value_survives dbl (V_int64 i) \<longleftrightarrow> False"
| "value_survives dbl (V_double d) \<longleftrightarrow> survives dbl d"
| "value_survives dbl (V_string s) \<longleftrightarrow> True"

fun type_survives :: "(string \<Rightarrow> (double \<times> string) option) \<Rightarrow> value_type_t \<Rightarrow> bool" where
  "type_survives dbl (ValueTypeFloat a b) \<longleftrightarrow> survives dbl a \<and> survives dbl b"
| "type_survives dbl _ \<longleftrightarrow> True"

definition attributes_survive :: "(string \<Rightarrow> (double \<times> string) option) \<Rightarrow> AttributeImpl list \<Rightarrow> bool" where
  "attributes_survive dbl = list_all (\<lambda>a. value_survives dbl (attr_value a))"

definition message_survives :: "(string \<Rightarrow> (double \<times> string) option) \<Rightarrow> MessageImpl \<Rightarrow> bool" where
  "message_survives dbl m \<longleftrightarrow>
     attributes_survive dbl (msg_attribute_values m) \<and> distinct (map sig_name (msg_signals m)) \<and>
     list_all (\<lambda>s. attributes_survive dbl (sig_attribute_values s) \<and>
       list_all (survives dbl) [sig_factor s, sig_offset s, sig_minimum s, sig_maximum s]) (msg_signals m)"

text \<open>The writer leaves out value tables without values, bit timings with a 0 and signal types.\<close>

definition network_survives :: "(string \<Rightarrow> (double \<times> string) option) \<Rightarrow> NetworkImpl \<Rightarrow> bool" where
  "network_survives dbl net \<longleftrightarrow>
     (let bt = net_bit_timing net in
        bt_baudrate bt \<noteq> 0 \<and> bt_BTR1 bt \<noteq> 0 \<and> bt_BTR2 bt \<noteq> 0 \<or>
        bt_baudrate bt = 0 \<and> bt_BTR1 bt = 0 \<and> bt_BTR2 bt = 0) \<and>
     list_all (\<lambda>vt. vt_value_encoding_descriptions vt \<noteq> [] \<and> vt_signal_type vt = None) (net_value_tables net) \<and>
     list_all (\<lambda>n. attributes_survive dbl (node_attribute_values n)) (net_nodes net) \<and>
     list_all (message_survives dbl) (net_messages net) \<and>
     list_all (\<lambda>ev. attributes_survive dbl (ev_attribute_values ev) \<and>
       list_all (survives dbl) [ev_minimum ev, ev_maximum ev, ev_initial_value ev]) (net_environment_variables net) \<and>
     list_all (\<lambda>ad. type_survives dbl (ad_value_type ad)) (net_attribute_definitions net) \<and>
     attributes_survive dbl (net_attribute_defaults net) \<and>
     attributes_survive dbl (net_attribute_values net) \<and>
     distinct (map node_name (net_nodes net)) \<and> distinct (map msg_id (net_messages net)) \<and>
     distinct (map ev_name (net_environment_variables net))"

section \<open>Attributes, comments and descriptions\<close>

lemma value_printable:
  "av_shape v \<Longrightarrow> value_survives dbl (boost_variant_to_std_variant v) \<Longrightarrow>
     printable_value dbl (boost_variant_to_std_variant v) \<and> exact_value dbl (boost_variant_to_std_variant v)"
  by (cases v) (simp_all add: survives_def)

lemma attributes_for_printable:
  assumes "tree_shape gnet" and "attributes_survive dbl (attributes_for P ot gnet)"
  shows "attributes_ok dbl ot (attributes_for P ot gnet)" and "exact_attributes dbl (attributes_for P ot gnet)"
  using assms value_printable
  by (auto simp: attributes_ok_def attributes_for_def tree_shape_def attribute_shape_def attributes_survive_def
      printable_attribute_def IAttribute_Create_def list_all_iff)

lemma defaults_printable:
  assumes "tree_shape gnet" and "attributes_survive dbl (getAttributeDefaults gnet)"
  shows "attributes_ok dbl OT_Network (getAttributeDefaults gnet)" and "exact_attributes dbl (getAttributeDefaults gnet)"
  using assms value_printable
  by (auto simp: attributes_ok_def getAttributeDefaults_def tree_shape_def attribute_default_shape_def
      attributes_survive_def printable_attribute_def IAttribute_Create_def list_all_iff)

lemma definitions_printable:
  assumes "tree_shape gnet" and "list_all (\<lambda>ad. type_survives dbl (ad_value_type ad)) (getAttributeDefinitions gnet)"
  shows "list_all (printable_attribute_definition dbl) (getAttributeDefinitions gnet)"
    and "list_all (\<lambda>ad. exact_value_type dbl (ad_value_type ad)) (getAttributeDefinitions gnet)"
proof -
  have v: "printable_value_type dbl (VisitorValueType v) \<and> exact_value_type dbl (VisitorValueType v)"
    if "avt_shape v" "type_survives dbl (VisitorValueType v)" for v
    using that by (cases v) (simp_all add: survives_def)
  show "list_all (printable_attribute_definition dbl) (getAttributeDefinitions gnet)"
    "list_all (\<lambda>ad. exact_value_type dbl (ad_value_type ad)) (getAttributeDefinitions gnet)"
    using assms v
    by (auto simp: getAttributeDefinitions_def tree_shape_def attribute_definition_shape_def
        printable_attribute_definition_def IAttributeDefinition_Create_def list_all_iff)
qed

lemma last_match_member: "last_match P xs = Some x \<Longrightarrow> x \<in> set xs"
  by (induction xs) (auto split: option.splits if_splits)

lemma comment_for_plain:
  assumes "tree_shape gnet"
  shows "plain (comment_for P gnet)"
proof (cases "last_match P (g_net_comments gnet)")
  case None
  then show ?thesis by (simp add: comment_for_def plain_def)
next
  case (Some c)
  have "list_all (\<lambda>c. plain (g_comment c)) (g_net_comments gnet)" using assms by (simp add: tree_shape_def)
  then show ?thesis using last_match_member [OF Some] by (simp add: comment_for_def Some list_all_iff)
qed

lemma descriptions_for_plain:
  assumes "tree_shape gnet"
  shows "printable_veds (descriptions_for P gnet)"
proof (cases "last_match P (g_net_value_descriptions_sig_env_var gnet)")
  case None
  then show ?thesis by (simp add: descriptions_for_def printable_veds_def)
next
  case (Some d)
  have "list_all description_shape (g_net_value_descriptions_sig_env_var gnet)"
    using assms by (simp add: tree_shape_def)
  then show ?thesis
    using last_match_member [OF Some]
    by (simp add: descriptions_for_def Some list_all_iff description_shape_def printable_veds_def
        value_descriptions_def IValueEncodingDescription_Create_def)
qed

section \<open>Signals\<close>

text \<open>The number of a multiplexed signal comes from an identifier: it has no sign.\<close>

lemma atoi_word:
  assumes "list_all word_char t" and "atoi t = Some v"
  shows "0 \<le> v \<and> v < 2 ^ 31"
proof -
  have "hd u \<noteq> CHR ''-''" if "u \<noteq> []" "u = dropWhile is_space t" for u
  proof -
    have "hd u \<in> set t" using that set_dropWhileD [of "hd u" is_space t] hd_in_set [of u] by simp
    then have "word_char (hd u)" using assms(1) by (simp add: list_all_iff)
    then show ?thesis by (auto simp: word_char_def is_letter_def is_digit_def)
  qed
  then show ?thesis
    using assms(2) by (auto simp: atoi_def Let_def split: if_splits)
qed

lemma multiplexer_exact:
  assumes "pred_option is_identifier ind" and "multiplexer_of ind = Some (mi, v)"
  shows "if mi = MuxValue then unat v < 2 ^ 31 else v = 0"
proof (cases ind)
  case None
  then show ?thesis using assms(2) by (auto simp: multiplexer_of_def)
next
  case (Some n)
  have "list_all word_char (drop 1 n)"
    using assms(1) Some by (auto simp: is_identifier_def list_all_iff dest: in_set_dropD)
  then have "0 \<le> i \<and> i < 2 ^ 31" if "atoi (drop 1 n) = Some i" for i
    using atoi_word that by blast
  moreover have "unat (word_of_int i :: u64) < 2 ^ 31" if "0 \<le> i" "i < 2 ^ 31" for i
  proof -
    have "uint (word_of_int i :: u64) = i" using that by (simp add: uint_word_of_int)
    then show ?thesis using that(2) by (simp add: unat_eq_nat_uint nat_less_iff)
  qed
  ultimately show ?thesis
    using assms(2) Some by (auto simp: multiplexer_of_def bind_eq_Some_conv split: if_splits)
qed

lemma ranges_kept:
  assumes "tree_shape gnet"
  shows "list_all printable_multiplexer_value (getSignalMultiplexerValues gnet s m)"
  using assms
  by (auto simp: getSignalMultiplexerValues_def tree_shape_def multiplexer_shape_def list_all_iff
      printable_multiplexer_value_def ISignalMultiplexerValue_Create_def)

lemma signal_loaded:
  assumes shape: "tree_shape gnet" "signal_shape s" and new: "spec_signal pf gnet m s = Some (x, w)"
    and attrs: "attributes_survive dbl (sig_attribute_values x)"
    and numbers: "list_all (survives dbl) [sig_factor x, sig_offset x, sig_minimum x, sig_maximum x]"
  shows "printable_signal dbl x \<and> attributes_ok dbl OT_Signal (sig_attribute_values x) \<and>
     list_all printable_multiplexer_value (sig_signal_multiplexer_values x) \<and> exact_signal dbl x \<and>
     SignalImpl_new pf (g_msg_size m) (signal_data.truncate x) = Some x"
proof -
  obtain mi v where mux: "multiplexer_of (g_sig_multiplexer_indicator s) = Some (mi, v)"
    using new by (cases "multiplexer_of (g_sig_multiplexer_indicator s)") (auto simp: spec_signal_def)
  obtain d where d: "SignalImpl_new pf (g_msg_size m) d = Some x" "sig_name d = g_sig_name s"
    "sig_unit d = g_sig_unit s" "sig_receivers d = g_sig_receivers s"
    "sig_multiplexer_indicator d = mi" "sig_multiplexer_switch_value d = v"
    "sig_attribute_values d = attributes_for (signal_attr (g_msg_id m) (g_sig_name s)) OT_Signal gnet"
    "sig_value_encoding_descriptions d = descriptions_for (signal_description (g_msg_id m) (g_sig_name s)) gnet"
    "sig_comment d = comment_for (signal_comment_for (g_msg_id m) (g_sig_name s)) gnet"
    "sig_signal_multiplexer_values d = getSignalMultiplexerValues gnet (g_sig_name s) (g_msg_id m)"
    using new by (auto simp: spec_signal_def mux bind_eq_Some_conv)
  have tr: "signal_data.truncate x = d" using d(1) by (rule SignalImpl_new_SomeD)
  note sel = truncate_sel [OF tr] d(2-)
  have "attributes_ok dbl OT_Signal (sig_attribute_values x)" "exact_attributes dbl (sig_attribute_values x)"
    using attributes_for_printable [OF shape(1)] attrs by (simp_all add: sel)
  moreover have "mi = MuxValue \<longrightarrow> unat v < 2147483648" "mi \<noteq> MuxValue \<longrightarrow> v = 0"
    using multiplexer_exact [OF _ mux] shape(2) by (simp_all add: signal_shape_def split: if_splits)
  ultimately show ?thesis
    using shape numbers d(1) comment_for_plain descriptions_for_plain ranges_kept
    by (simp add: printable_signal_def exact_signal_def survives_def signal_shape_def tr sel)
qed

section \<open>Messages and environment variables\<close>

lemma transmitters_identifiers:
  assumes "tree_shape gnet"
  shows "identifiers (getMessageTransmitters gnet m)"
proof (cases "find (\<lambda>mt. g_mt_id mt = g_msg_id m) (g_net_message_transmitters gnet)")
  case (Some mt)
  then have "mt \<in> set (g_net_message_transmitters gnet)" by (auto simp: find_Some_iff)
  moreover have "list_all (\<lambda>mt. identifiers (g_mt_transmitters mt)) (g_net_message_transmitters gnet)"
    using assms by (simp add: tree_shape_def)
  ultimately show ?thesis by (simp add: getMessageTransmitters_def Some list_all_iff)
qed (simp add: getMessageTransmitters_def)

lemma message_loaded:
  assumes shape: "tree_shape gnet" "message_shape m" and new: "spec_message pf gnet m = Some (x, w)"
    and survives: "message_survives dbl x"
  shows "printable_message dbl x \<and> printable_message_lines dbl x \<and> exact_message pf dbl x"
proof -
  obtain ss where ss: "those (map (spec_signal pf gnet m) (g_msg_signals m)) = Some ss"
    using new by (cases "those (map (spec_signal pf gnet m) (g_msg_signals m))") (auto simp: spec_message_def)
  have x: "x = IMessage_Create (g_msg_id m) (g_msg_name m) (g_msg_size m) (g_msg_transmitter m)
       (getMessageTransmitters gnet m) (map fst ss)
       (attributes_for (message_attr (g_msg_id m)) OT_Message gnet)
       (comment_for (message_comment_for (g_msg_id m)) gnet) (getSignalGroups gnet m)"
    using new by (simp add: spec_message_def ss Let_def)
  have wf: "message_wf x" by (simp add: x IMessage_Create_def MessageImpl_new_wf)
  have sel: "msg_id x = g_msg_id m" "msg_name x = g_msg_name m" "msg_message_size x = g_msg_size m"
    "msg_transmitter x = g_msg_transmitter m" "msg_signals x = map fst ss"
    "msg_message_transmitters x = getMessageTransmitters gnet m"
    "msg_attribute_values x = attributes_for (message_attr (g_msg_id m)) OT_Message gnet"
    "msg_comment x = comment_for (message_comment_for (g_msg_id m)) gnet"
    "msg_signal_groups x = getSignalGroups gnet m"
    by (simp_all add: x IMessage_Create_def MessageImpl_new_def split: prod.split)
  have "list_all (\<lambda>(s, w). attributes_survive dbl (sig_attribute_values s) \<and>
      list_all (survives dbl) [sig_factor s, sig_offset s, sig_minimum s, sig_maximum s] \<longrightarrow>
      printable_signal dbl s \<and> attributes_ok dbl OT_Signal (sig_attribute_values s) \<and>
      list_all printable_multiplexer_value (sig_signal_multiplexer_values s) \<and> exact_signal dbl s \<and>
      SignalImpl_new pf (g_msg_size m) (signal_data.truncate s) = Some s) ss"
  proof (rule those_map_all [OF ss])
    fix g y assume "g \<in> set (g_msg_signals m)" and y: "spec_signal pf gnet m g = Some y"
    then have g: "signal_shape g" using shape(2) by (simp add: message_shape_def list_all_iff)
    obtain s w where "y = (s, w)" by fastforce
    then show "case y of (s, w) \<Rightarrow> attributes_survive dbl (sig_attribute_values s) \<and>
        list_all (survives dbl) [sig_factor s, sig_offset s, sig_minimum s, sig_maximum s] \<longrightarrow>
        printable_signal dbl s \<and> attributes_ok dbl OT_Signal (sig_attribute_values s) \<and>
        list_all printable_multiplexer_value (sig_signal_multiplexer_values s) \<and> exact_signal dbl s \<and>
        SignalImpl_new pf (g_msg_size m) (signal_data.truncate s) = Some s"
      using signal_loaded [OF shape(1) g, of pf m s w dbl] y by simp
  qed
  then have sigs: "list_all (\<lambda>s. printable_signal dbl s \<and> attributes_ok dbl OT_Signal (sig_attribute_values s) \<and>
      list_all printable_multiplexer_value (sig_signal_multiplexer_values s) \<and> exact_signal dbl s \<and>
      SignalImpl_new pf (g_msg_size m) (signal_data.truncate s) = Some s) (msg_signals x)"
    using survives unfolding message_survives_def sel(5) list_all_iff by fastforce
  have attrs: "attributes_ok dbl OT_Message (msg_attribute_values x)" "exact_attributes dbl (msg_attribute_values x)"
    using attributes_for_printable [OF shape(1)] survives by (simp_all add: sel message_survives_def)
  note transmitters_identifiers [OF shape(1), of m]
  moreover have "list_all (\<lambda>g. printable_signal_group g \<and> sg_message_id g = g_msg_id m) (getSignalGroups gnet m)"
    using shape(1) by (auto simp: getSignalGroups_def tree_shape_def list_all_iff group_shape_def
        printable_signal_group_def ISignalGroup_Create_def)
  ultimately show ?thesis
    using sigs attrs shape wf survives comment_for_plain [OF shape(1)]
    by (simp add: printable_message_def printable_message_lines_def exact_message_def message_survives_def
        message_shape_def sel(1-4,6,8,9) list_all_iff)
qed

lemma environment_variable_loaded:
  assumes shape: "tree_shape gnet" "environment_variable_shape ev" and new: "spec_env_var gnet ev = Some x"
    and attrs: "attributes_survive dbl (ev_attribute_values x)"
    and numbers: "list_all (survives dbl) [ev_minimum x, ev_maximum x, ev_initial_value x]"
  shows "printable_environment_variable dbl x \<and>
     attributes_ok dbl OT_EnvironmentVariable (ev_attribute_values x) \<and> exact_environment_variable dbl x"
proof -
  have sel: "ev_name x = g_ev_name ev" "ev_unit x = g_ev_unit ev" "ev_access_nodes x = g_ev_access_nodes ev"
    "ev_attribute_values x = attributes_for (env_var_attr (g_ev_name ev)) OT_EnvironmentVariable gnet"
    "ev_value_encoding_descriptions x = descriptions_for (env_var_description (g_ev_name ev)) gnet"
    "ev_comment x = comment_for (env_var_comment_for (g_ev_name ev)) gnet"
    "ev_var_type x = VT_Data \<or> ev_data_size x = 0"
    using new by (auto simp: spec_env_var_def Let_def bind_eq_Some_conv IEnvironmentVariable_Create_def
        split: option.splits)
  have "attributes_ok dbl OT_EnvironmentVariable (ev_attribute_values x)"
    "exact_attributes dbl (ev_attribute_values x)"
    using attributes_for_printable [OF shape(1)] attrs by (simp_all add: sel)
  then show ?thesis
    using shape numbers sel(7) comment_for_plain descriptions_for_plain
    by (simp add: printable_environment_variable_def exact_environment_variable_def survives_def
        environment_variable_shape_def sel(1-6))
qed

section \<open>Networks\<close>

lemma network_loaded:
  assumes shape: "tree_shape gnet" and new: "DBCAST2Network pf gnet = Some (net, ws)"
    and survives: "network_survives dbl net"
  shows "printable_network dbl net" and "exact_network pf dbl net"
proof -
  obtain msgs where msgs: "those (map (spec_message pf gnet) (g_net_messages gnet)) = Some msgs"
    and net: "net_messages net = map fst msgs"
      "net_nodes net = map (spec_node gnet) (g_net_nodes gnet)"
    and evs: "those (map (spec_env_var gnet) (g_net_environment_variables gnet)) =
      Some (net_environment_variables net)"
    using new by (rule conversion_parts)
  have rest: "net_version net = g_version (g_net_version gnet)" "net_new_symbols net = g_net_new_symbols gnet"
    "net_value_tables net = getValueTables gnet" "net_attribute_definitions net = getAttributeDefinitions gnet"
    "net_attribute_defaults net = getAttributeDefaults gnet"
    "net_attribute_values net = attributes_for network_attr OT_Network gnet"
    "net_comment net = comment_for network_comment gnet"
    using new unfolding DBCAST2Network_eq spec_network_def
    by (auto simp: bind_eq_Some_conv INetwork_Create_def getVersion_def getNewSymbols_def)
  have "list_all (\<lambda>(m, w). message_survives dbl m \<longrightarrow>
      printable_message dbl m \<and> printable_message_lines dbl m \<and> exact_message pf dbl m) msgs"
    using shape message_loaded [OF shape]
    by (intro those_map_all [OF msgs]) (auto simp: tree_shape_def list_all_iff)
  then have messages: "list_all (\<lambda>m. printable_message dbl m \<and> printable_message_lines dbl m \<and>
      exact_message pf dbl m) (net_messages net)"
    using survives unfolding net network_survives_def list_all_iff by fastforce
  have "list_all (\<lambda>ev. attributes_survive dbl (ev_attribute_values ev) \<and>
      list_all (survives dbl) [ev_minimum ev, ev_maximum ev, ev_initial_value ev] \<longrightarrow>
      printable_environment_variable dbl ev \<and>
      attributes_ok dbl OT_EnvironmentVariable (ev_attribute_values ev) \<and> exact_environment_variable dbl ev)
      (net_environment_variables net)"
  proof (rule those_map_all [OF evs], rule impI)
    fix g ev assume "g \<in> set (g_net_environment_variables gnet)" and ev: "spec_env_var gnet g = Some ev"
    then have g: "environment_variable_shape g" using shape by (simp add: tree_shape_def list_all_iff)
    assume "attributes_survive dbl (ev_attribute_values ev) \<and>
      list_all (survives dbl) [ev_minimum ev, ev_maximum ev, ev_initial_value ev]"
    then show "printable_environment_variable dbl ev \<and>
      attributes_ok dbl OT_EnvironmentVariable (ev_attribute_values ev) \<and> exact_environment_variable dbl ev"
      using environment_variable_loaded [OF shape g ev, of dbl] by blast
  qed
  then have variables: "list_all (\<lambda>ev. printable_environment_variable dbl ev \<and>
      attributes_ok dbl OT_EnvironmentVariable (ev_attribute_values ev) \<and> exact_environment_variable dbl ev)
      (net_environment_variables net)"
    using survives by (simp add: network_survives_def list_all_iff)
  have "printable_node dbl (spec_node gnet g) \<and> exact_attributes dbl (node_attribute_values (spec_node gnet g))"
    if "g \<in> set (g_net_nodes gnet)" for g
  proof -
    have "attributes_survive dbl (attributes_for (node_attr (g_node_name g)) OT_Node gnet)"
      using survives that by (simp add: network_survives_def net(2) list_all_iff spec_node_def INode_Create_def)
    note attributes_for_printable [OF shape this]
    moreover have "is_identifier (g_node_name g)" using shape that by (simp add: tree_shape_def list_all_iff)
    ultimately show ?thesis
      using comment_for_plain [OF shape] by (simp add: spec_node_def INode_Create_def printable_node_def)
  qed
  then have nodes: "list_all (\<lambda>n. printable_node dbl n \<and> exact_attributes dbl (node_attribute_values n)) (net_nodes net)"
    by (simp add: net(2) list_all_iff)
  have tables: "list_all printable_value_table (net_value_tables net)"
    using shape
    by (simp add: rest getValueTables_def tree_shape_def list_all_iff value_table_shape_def ved_shape_def
        printable_value_table_def printable_veds_def IValueTable_Create_def IValueEncodingDescription_Create_def Let_def)
  have heads: "plain (net_version net)" "plain (net_comment net)"
    "set (net_new_symbols net) \<subseteq> set new_symbol_names"
    using shape comment_for_plain [OF shape] by (auto simp: rest tree_shape_def list_all_iff)
  have attrs: "attributes_survive dbl (net_attribute_values net)" "attributes_survive dbl (net_attribute_defaults net)"
    "list_all (\<lambda>ad. type_survives dbl (ad_value_type ad)) (net_attribute_definitions net)"
    using survives by (simp_all add: network_survives_def)
  note attributes = attributes_for_printable [OF shape attrs(1) [unfolded rest]]
    defaults_printable [OF shape attrs(2) [unfolded rest]] definitions_printable [OF shape attrs(3) [unfolded rest]]
  show "printable_network dbl net"
    unfolding printable_network_def
    using heads nodes tables messages variables attributes survives
    by (simp add: list_all_iff network_survives_def) (simp add: rest)
  show "exact_network pf dbl net"
    unfolding exact_network_def
    using nodes messages variables attributes survives
    by (simp add: list_all_iff network_survives_def Let_def) (simp add: rest)
qed

section \<open>The file of the example\<close>

lemma ex_file_survives: "network_survives ex_dbl ex_file"
  by (simp add: network_survives_def message_survives_def attributes_survive_def survives_def exact_def
      ex_file_defs ex_file_sel show_ex ex_dbl_zero_one)

lemma ex_dbl_part: "leaves_part ex_dbl"
  by (auto simp: leaves_part_def ex_dbl_def Let_def)

lemma clean_append [simp]: "clean (s @ t) \<longleftrightarrow> clean s \<and> clean t"
  by (auto simp: clean_def)

lemma clean_butlast: "clean s \<Longrightarrow> clean (butlast s)"
  by (auto simp: clean_def dest: in_set_butlastD)

lemma clean_nat: "clean (show_nat n)"
  using show_nat_digits by (force simp: clean_def is_digit_def)

lemma clean_numbers [simp]: "clean (show_u64 w)" "clean (show_int n)"
  by (simp_all add: clean_nat show_u64_def show_int_def)

lemma breaks_other [simp]:
  "char_of (34::nat) \<noteq> CHR 0x5C" "char_of (10::nat) \<noteq> CHR 0x5C" "char_of (9::nat) \<noteq> CHR 0x5C"
  by (simp_all add: char_of_def bit_0)

lemma ex_file_clean: "\<exists>t. print_network ex_file = Some t \<and> clean t"
  unfolding print_network_def attribute_section_text [OF ex_file_printable] bind.bind_lunit
  apply (intro exI conjI refl)
  apply (simp add: ex_file_defs ex_file_sel show_ex print_head_def print_value_table_def print_message_def
      print_message_transmitters_def print_environment_variable_def print_environment_variable_data_def
      print_value_tables_with_type_def print_comments_def print_comment_def attributes_text_def
      values_text_def attribute_line_def print_descriptions_def print_value_descriptions_def
      print_signal_group_def print_signals_def print_extended_value_type_def
      print_multiplexer_value_def print_veds_def print_signal_def print_bit_timing_def quoted_def
      dquote_def newline_def tab_def print_attribute_definition_def show_i64_def Let_def
      print_multiplexer_def print_byte_order_def print_value_type_sign_def print_object_type_def
      print_access_type_def)
  apply simp
  apply (rule clean_butlast, simp)
  done

text \<open>C7. Writing is the inverse of reading: a network that has been read from a file without backslashes
  is written to a file from which the same network is read again, if its numbers survive six digits,
  its names tell its objects apart, and it uses no value table without values and no signal type.\<close>

theorem loaded_file_reloads:
  assumes "ParseFromMemory dbl t = Parsed gnet" and "DBCAST2Network pf gnet = Some (net, ws)"
    and "CHR 0x5C \<notin> set t" and "network_survives dbl net"
    and "leaves_part dbl" and "no_number dbl"
  shows "\<exists>t' gnet' ws'. print_network net = Some t' \<and> ParseFromMemory dbl t' = Parsed gnet' \<and>
     DBCAST2Network pf gnet' = Some (net, ws')"
proof -
  have "tree_shape gnet" using assms(1,5,3) by (rule parsed_shape)
  from network_loaded [OF this assms(2,4)] show ?thesis
    using network_parses [OF _ leaves_part_forward [OF assms(5)] assms(6)] network_back by blast
qed

theorem loaded_file_reloads_witness:
  "\<exists>t gnet ws. ParseFromMemory ex_dbl t = Parsed gnet \<and> DBCAST2Network ieee gnet = Some (ex_file, ws) \<and>
     (\<exists>t' gnet' ws'. print_network ex_file = Some t' \<and> ParseFromMemory ex_dbl t' = Parsed gnet' \<and>
       DBCAST2Network ieee gnet' = Some (ex_file, ws'))"
proof -
  obtain t ws where t: "print_network ex_file = Some t"
    "ParseFromMemory ex_dbl t = Parsed (network_ast ex_dbl ex_file)"
    "DBCAST2Network ieee (network_ast ex_dbl ex_file) = Some (ex_file, ws)"
    using network_parses [OF ex_file_printable ex_dbl_forward ex_dbl_no_number]
      network_back [OF ex_file_printable ex_file_exact] by blast
  then have "CHR 0x5C \<notin> set t" using ex_file_clean by (auto simp: clean_def)
  from loaded_file_reloads [OF t(2,3) this ex_file_survives ex_dbl_part ex_dbl_no_number] t(2,3)
  show ?thesis by blast
qed

end
