(* ===== verification/Spec2Isabelle.thy ===== *)
theory Spec2Isabelle
  imports Tool SignalPhys CLoadProps Unreadable Collections LoadedFile
begin

text \<open>
  dbcppp reads the description of a CAN network from a DBC or KCD file into objects
  (\<open>INetwork\<close>, \<open>IMessage\<close>, \<open>ISignal\<close> and others), decodes and encodes signals with them, and
  writes networks out again as DBC text, as C code and as drawings. This is a model of that code
  with the theorems that make it correct. Paths below are relative to the repository.

  \<^bold>\<open>The parts and how they interact.\<close> A reader turns text into a syntax tree (\<open>src/DBCX3.h\<close>), which
  \<open>DBCAST2Network\<close> converts to a network with the help of hash maps; the KCD reader builds networks
  directly from an XML tree. The constructor of a signal computes masks, shifts and error flags
  from which \<open>Decode\<close>, a function pointer chosen by alignment, byte order and type, reads the signal
  out of a frame; \<open>Encode\<close> writes it bit by bit. The three writers walk over the finished network.
  The program \<open>tools/dbcppp/main.cpp\<close> merges and writes networks (\<open>dbc2\<close>) and decodes the lines of
  candump (\<open>decode\<close>).

  \<^bold>\<open>Theories, in the order of the code.\<close>
  \<^item> \<open>Prelude\<close>: shifts of C++ as partial functions, words, vectors as lists, the comparison of
    vectors all \<open>operator==\<close> share. \<open>Doubles\<close>: binary64 and binary32 as bit patterns with the
    arithmetic the code uses. \<open>Text\<close>: how the standard library prints numbers and reads integers.
  \<^item> \<open>Bytes\<close> (\<open>src/Helper.h\<close>): frames as lists of bytes, loads of 64-bit words on both kinds of
    machine.
  \<^item> \<open>Attributes\<close>, \<open>Components\<close>: the classes that only hold data, with the locale \<open>object_eq\<close> for what
    their \<open>operator==\<close> have in common.
  \<^item> \<open>Signal\<close> (\<open>src/SignalImpl.cpp\<close>): the constructor; \<open>Codec\<close>: \<open>template_decode\<close>, \<open>Encode\<close> and their
    specification \<open>spec_decode\<close> by bit positions (\<open>sig_pos\<close>); \<open>Layout\<close>, \<open>Decoding\<close>, \<open>Encoding\<close>,
    \<open>CodecLaws\<close>: the lemmas, with the locale of a codec and its interpretation; \<open>SignalProps\<close>,
    \<open>SignalErrors\<close>: the properties; \<open>DoubleProps\<close>, \<open>SignalPhys\<close>: conversion to physical values.
  \<^item> \<open>Message\<close>, \<open>Network\<close>, \<open>NetworkProps\<close> (\<open>src/MessageImpl.cpp\<close>, \<open>src/NetworkImpl.cpp\<close>): creation,
    copies, comparison, \<open>ParentMessage\<close>, \<open>Merge\<close>, \<open>LoadNetworkFromFile\<close>.
  \<^item> \<open>Iterators\<close> (\<open>include/dbcppp/Iterator.h\<close>), \<open>Collections\<close>: iterators, the range-based \<open>for\<close>, and the
    collections of the classes; the locale \<open>collection\<close> is what each \<open>_Get\<close>, \<open>_Size\<close> promises.
  \<^item> \<open>Ast\<close> (\<open>src/DBCX3.h\<close>), \<open>Ast2Network\<close> (\<open>src/DBCAST2Network.cpp\<close>): the syntax tree and its
    conversion; \<open>AstRefinement\<close>: a conversion without caches and the refinement; \<open>LoadProps\<close>: what a
    converted network is.
  \<^item> \<open>X3\<close>: the parser combinators of Boost.Spirit X3 the grammar uses; \<open>DBCX3\<close> (\<open>src/DBCX3.cpp\<close>): the
    grammar of DBC files and \<open>ParseFromMemory\<close>; \<open>X3Laws\<close>, \<open>DBCX3Props\<close>: what parsers consume, and that
    the grammar ends.
  \<^item> \<open>CMem\<close>, \<open>CApi\<close> (\<open>src/CApi.cpp\<close>): the memory a C program shares with the library, and the functions
    of the C interface; \<open>CLedger\<close>: the rules of ownership, stated without that memory; \<open>CReadings\<close>: all
    calls that only read; \<open>CApiProps\<close>: which calls are safe, and what handles lead to; \<open>CLoadProps\<close>: from
    a file to a decoded value.
  \<^item> \<open>KCD2Network\<close>, \<open>KCDProps\<close> (\<open>src/KCD2Network.cpp\<close>): the KCD reader.
  \<^item> \<open>Network2DBC\<close>, \<open>PrintProps\<close>; \<open>Network2C\<close>, \<open>Network2CProps\<close>; \<open>Network2Human\<close>, \<open>HumanProps\<close>: the
    writers of the source files with these names.
  \<^item> \<open>Tokens\<close>, \<open>Reread\<close>, \<open>Statements\<close>, \<open>Lines\<close>, \<open>FileHead\<close>, \<open>RoundTrip\<close>: the grammar on the text of the DBC
    writer, from tokens over statements to sections; \<open>RereadProps\<close>, \<open>Reload\<close>: written files are read back;
    \<open>Unreadable\<close>: files that are not. \<open>Shapes\<close>, \<open>Delivered\<close>: what the grammar delivers for any file;
    \<open>LoadedFile\<close>: a file that has been read can be written and read again.
  \<^item> \<open>DecodeTool\<close>, \<open>DecodeToolProps\<close>, \<open>Tool\<close> (\<open>tools/dbcppp/main.cpp\<close>): the program.

  \<^bold>\<open>How code is modelled.\<close> Classes are records of their private members, enumerations and variants
  are datatypes, integers are words of their width, so arithmetic wraps around as in C++.
  Undefined behaviour (a shift by the width, a read past a buffer, a null pointer) is \<open>None\<close>. Where
  exceptions matter, in the KCD reader, a call returns \<open>kcd_error + 'a\<close>. Objects that are found by
  their address (\<open>ParentMessage\<close>, the attributes in the DBC writer) are addressed by their position
  in the network. Output is the text that is written to the stream. A parser takes the skipper of
  its context and a text to an outcome: an attribute and the rest, a failure, an exception, each
  with the position it leaves behind, or a loop that does not end.

  \<^bold>\<open>What the lemmas show.\<close> Decoding and encoding are correct for every position, size, byte order and
  machine, stay in the buffer exactly under the stated conditions, and do not disturb other
  signals. The caches of the conversion change nothing. Converted and KCD networks are well formed:
  every signal comes from the constructor, so its generated C code computes \<open>Decode\<close>, and
  every network that is loaded and merged can be written as DBC and as C, and drawn unless a
  multiplexer switch is missing. The calls of the C interface
  that change memory are safe exactly when the rules of ownership allow them and leave what those
  rules say; only the objects given to a call disappear, and a call that reads returns the same as
  before through every other handle. Drawings give a signal its own bits if it is little-endian, and
  otherwise, with few exceptions, not (\<open>human_drawn_bits\<close> says which instead). The DBC grammar
  reads what the DBC writer writes, under conditions on names, strings and numbers the theorems state,
  and the network that is built from it is the one that was written. A network that was read from a
  file without backslashes meets the conditions on names and strings; if its numbers survive six
  digits and its names tell its objects apart, it is written and read again unchanged. Loops over
  the iterators visit every element once. Physical values are exact for small
  integers. Comparison is reflexive and transitive; copies lose the signal groups.

  \<^bold>\<open>Loops.\<close> Loops are structural recursion where they run over a list or a counted range.
  \<open>name_cells\<close> recurses on the bits that are left. Three loops are \<open>partial_function (option)\<close>: the
  range-based \<open>for\<close> over iterators, which ends (\<open>network_loops_end\<close>), the
  rows of a drawing, for which \<open>print_rows_returns\<close> shows that they end, and the recursion over the
  switches of a multiplexed signal, which ends when the switches can be ranked
  (\<open>decode_frame_returns\<close>) and does not end for a switch of itself (\<open>decode_frame_hangs\<close>). The loops
  of the parser recurse on the text that is left and are \<open>Hang\<close> where the code would repeat without
  moving; \<open>parser_ends\<close> shows that the grammar never does. The loop
  that fills the eight bytes of a frame is cut after nine, where it has already failed.

  \<^bold>\<open>Parameters.\<close> The parser \<open>double_\<close> for floating-point numbers, the XML library with its XPath
  queries, \<open>boost::format\<close> (type \<open>formatter\<close>), \<open>cxxopts\<close>, the file system, the platform's support of
  IEEE numbers.

  \<^bold>\<open>Not modelled.\<close> The getters are record access; the loops of the code are
  written as list recursion, which \<open>network_loops_end\<close> justifies. \<open>parseAttribute\<close> of the KCD reader is never called. The diagnostics the
  readers print are left out, except for the warnings of the conversion.
\<close>

end
